(* ===== verification/Prelude.thy ===== *)
theory Prelude
  imports Main "HOL-Library.State_Monad" "HOL-Library.Monad_Syntax"
begin

text \<open>
  Shared foundations of the development: names for the Go types the models use, generic
  facts on lists and options, and a small program logic for the state monad of
  HOL-Library in which every stateful function of the server is written.

  \<^item> \<open>wp m Q s\<close> holds when running \<open>m\<close> from state \<open>s\<close> yields a result and a final state
    related by \<open>Q\<close>. The collection \<open>wp_simps\<close> evaluates it through \<open>return\<close>, \<open>bind\<close>,
    conditionals and case distinctions, so that a handler is executed symbolically by the
    simplifier.
  \<^item> \<open>keeps f m\<close> says that \<open>m\<close> never changes the component \<open>f\<close> of the state (a frame
    property); the collection \<open>keeps_intros\<close> follows the structure of a program.
  \<^item> \<open>preserves P m\<close> says that \<open>m\<close> re-establishes the invariant \<open>P\<close>; the collection
    \<open>preserves_intros\<close> follows the structure of a program.
  \<^item> \<open>moves R m\<close> says that \<open>R\<close> relates the state before \<open>m\<close> to the state after; the locale
    \<open>step_order\<close> has the structural rules for a preorder \<open>R\<close>, in \<open>moves_intros\<close>.
\<close>

named_theorems wp_simps "evaluation of weakest preconditions"
named_theorems keeps_intros "structural rules for frame properties"
named_theorems preserves_intros "structural rules for invariants"
named_theorems moves_intros "structural rules for relations between the state before and after"

subsection \<open>Go types\<close>

text \<open>
  Go strings and byte slices are sequences of bytes, and a \<open>char\<close> of HOL is one byte, so
  both are \<open>string\<close>. Instants are nanoseconds since the Unix epoch and durations are
  nanoseconds. A \<open>uuid\<close> is its 128-bit value.
\<close>

type_synonym bytes = string
type_synonym uint = nat
type_synonym time = int
type_synonym duration = int
type_synonym uuid = nat

definition Second :: duration where "Second = 1000000000"
definition Minute :: duration where "Minute = 60 * Second"
definition Hour :: duration where "Hour = 60 * Minute"

subsection \<open>Weakest preconditions of stateful programs\<close>

definition wp :: "('s, 'a) state \<Rightarrow> ('a \<Rightarrow> 's \<Rightarrow> bool) \<Rightarrow> 's \<Rightarrow> bool" where
  "wp m Q s = (case run_state m s of (r, s') \<Rightarrow> Q r s')"

lemma wp_return [wp_simps]: "wp (State_Monad.return x) Q = Q x"
  by (simp add: wp_def fun_eq_iff)

lemma wp_bind [wp_simps]: "wp (State_Monad.bind m f) Q = wp m (\<lambda>x. wp (f x) Q)"
  by (simp add: wp_def fun_eq_iff split: prod.splits)

lemma wp_get [wp_simps]: "wp State_Monad.get Q s = Q s s"
  by (simp add: wp_def)

lemma wp_set [wp_simps]: "wp (State_Monad.set t) Q s = Q () t"
  by (simp add: wp_def)

lemma wp_if [wp_simps]: "wp (if b then m else n) Q = (if b then wp m Q else wp n Q)"
  by simp

lemma wp_case_option [wp_simps]:
  "wp (case x of None \<Rightarrow> m | Some y \<Rightarrow> f y) Q =
     (case x of None \<Rightarrow> wp m Q | Some y \<Rightarrow> wp (f y) Q)"
  by (cases x) auto

lemma wp_case_sum [wp_simps]:
  "wp (case x of Inl e \<Rightarrow> m e | Inr y \<Rightarrow> f y) Q =
     (case x of Inl e \<Rightarrow> wp (m e) Q | Inr y \<Rightarrow> wp (f y) Q)"
  by (cases x) auto

lemma wp_case_prod [wp_simps]:
  "wp (case x of (y, z) \<Rightarrow> f y z) Q = (case x of (y, z) \<Rightarrow> wp (f y z) Q)"
  by (cases x) auto

lemma wp_let [wp_simps]: "wp (let x = v in f x) Q = wp (f v) Q"
  by simp

lemma sum_case_app [wp_simps]:
  "(case x of Inl e \<Rightarrow> f e | Inr y \<Rightarrow> g y) s = (case x of Inl e \<Rightarrow> f e s | Inr y \<Rightarrow> g y s)"
  by (cases x) auto

lemma option_case_app [wp_simps]:
  "(case x of None \<Rightarrow> f | Some y \<Rightarrow> g y) s = (case x of None \<Rightarrow> f s | Some y \<Rightarrow> g y s)"
  by (cases x) auto

lemma if_app [wp_simps]: "(if b then f else g) s = (if b then f s else g s)"
  by simp

lemma wp_True [simp]: "wp m (\<lambda>_ _. True) s"
  by (simp add: wp_def split: prod.splits)

lemma wp_conj: "wp m (\<lambda>r s'. P r s' \<and> Q r s') s = (wp m P s \<and> wp m Q s)"
  by (simp add: wp_def split: prod.splits)

lemma wp_const_imp: "wp m (\<lambda>r s'. b \<longrightarrow> Q r s') s = (b \<longrightarrow> wp m Q s)"
  by (simp add: wp_def split: prod.splits)

lemma wp_mono: "wp m P s \<Longrightarrow> (\<And>r s'. P r s' \<Longrightarrow> Q r s') \<Longrightarrow> wp m Q s"
  by (auto simp: wp_def split: prod.splits)

lemma wpI: "(\<And>r s'. run_state m s = (r, s') \<Longrightarrow> Q r s') \<Longrightarrow> wp m Q s"
  by (auto simp: wp_def split: prod.splits)

lemma wpD: "wp m Q s \<Longrightarrow> run_state m s = (r, s') \<Longrightarrow> Q r s'"
  by (simp add: wp_def)

text \<open>
  A program that is only read for its result can be kept as it is: \<open>outcome m s\<close> is what it
  returns and \<open>poststate m s\<close> the state it leaves.
\<close>

definition outcome :: "('s, 'a) state \<Rightarrow> 's \<Rightarrow> 'a" where
  "outcome m s = fst (run_state m s)"

definition poststate :: "('s, 'a) state \<Rightarrow> 's \<Rightarrow> 's" where
  "poststate m s = snd (run_state m s)"

lemma wp_run: "wp m Q s = Q (outcome m s) (poststate m s)"
  by (simp add: wp_def outcome_def poststate_def split_beta)

lemma run_state_result_after: "run_state m s = (outcome m s, poststate m s)"
  by (simp add: outcome_def poststate_def)

subsection \<open>Frame properties\<close>

definition keeps :: "('s \<Rightarrow> 'v) \<Rightarrow> ('s, 'a) state \<Rightarrow> bool" where
  "keeps f m = (\<forall>s. f (snd (run_state m s)) = f s)"

lemma keepsD: "keeps f m \<Longrightarrow> run_state m s = (r, s') \<Longrightarrow> f s' = f s"
  by (metis keeps_def snd_conv)

lemma keeps_wp: "keeps f m \<Longrightarrow> wp m (\<lambda>_ s'. f s' = f s) s"
  by (auto intro: wpI dest: keepsD)

lemma keeps_iff_wp: "keeps f m \<longleftrightarrow> (\<forall>s. wp m (\<lambda>_ s'. f s' = f s) s)"
  by (simp add: keeps_def wp_def split_beta)

lemma keeps_after: "keeps f m \<Longrightarrow> f (poststate m s) = f s"
  by (simp add: keeps_def poststate_def)

lemma keeps_return [keeps_intros]: "keeps f (State_Monad.return x)"
  by (simp add: keeps_def)

lemma keeps_get [keeps_intros]: "keeps f State_Monad.get"
  by (simp add: keeps_def)

lemma keeps_bind [keeps_intros]:
  "keeps f m \<Longrightarrow> (\<And>x. keeps f (g x)) \<Longrightarrow> keeps f (State_Monad.bind m g)"
  by (auto simp: keeps_def split: prod.splits) (metis snd_conv)

lemma keeps_if [keeps_intros]:
  "(b \<Longrightarrow> keeps f m) \<Longrightarrow> (\<not> b \<Longrightarrow> keeps f n) \<Longrightarrow> keeps f (if b then m else n)"
  by simp

lemma keeps_case_option [keeps_intros]:
  "(x = None \<Longrightarrow> keeps f m) \<Longrightarrow> (\<And>y. x = Some y \<Longrightarrow> keeps f (g y)) \<Longrightarrow>
     keeps f (case x of None \<Rightarrow> m | Some y \<Rightarrow> g y)"
  by (cases x) auto

lemma keeps_case_sum [keeps_intros]:
  "(\<And>e. x = Inl e \<Longrightarrow> keeps f (m e)) \<Longrightarrow> (\<And>y. x = Inr y \<Longrightarrow> keeps f (g y)) \<Longrightarrow>
     keeps f (case x of Inl e \<Rightarrow> m e | Inr y \<Rightarrow> g y)"
  by (cases x) auto

lemma keeps_case_prod [keeps_intros]:
  "(\<And>y z. x = (y, z) \<Longrightarrow> keeps f (g y z)) \<Longrightarrow> keeps f (case x of (y, z) \<Rightarrow> g y z)"
  by (cases x) auto

lemma keeps_let [keeps_intros]: "keeps f (g v) \<Longrightarrow> keeps f (let x = v in g x)"
  by simp

lemma keeps_comp: "keeps f m \<Longrightarrow> keeps (\<lambda>s. g (f s)) m"
  by (simp add: keeps_def)

subsection \<open>Invariants of stateful programs\<close>

definition preserves :: "('s \<Rightarrow> bool) \<Rightarrow> ('s, 'a) state \<Rightarrow> bool" where
  "preserves P m = (\<forall>s. P s \<longrightarrow> P (snd (run_state m s)))"

lemma preservesI: "(\<And>s r s'. P s \<Longrightarrow> run_state m s = (r, s') \<Longrightarrow> P s') \<Longrightarrow> preserves P m"
  unfolding preserves_def by (metis prod.collapse)

lemma preservesD: "preserves P m \<Longrightarrow> P s \<Longrightarrow> run_state m s = (r, s') \<Longrightarrow> P s'"
  unfolding preserves_def by (metis snd_conv)

lemma preserves_return [preserves_intros]: "preserves P (State_Monad.return x)"
  by (simp add: preserves_def)

lemma preserves_get [preserves_intros]: "preserves P State_Monad.get"
  by (simp add: preserves_def)

lemma preserves_bind [preserves_intros]:
  "preserves P m \<Longrightarrow> (\<And>x. preserves P (g x)) \<Longrightarrow> preserves P (State_Monad.bind m g)"
  by (auto simp: preserves_def split: prod.splits)

lemma preserves_if [preserves_intros]:
  "(b \<Longrightarrow> preserves P m) \<Longrightarrow> (\<not> b \<Longrightarrow> preserves P n) \<Longrightarrow> preserves P (if b then m else n)"
  by simp

lemma preserves_case_option [preserves_intros]:
  "(x = None \<Longrightarrow> preserves P m) \<Longrightarrow> (\<And>y. x = Some y \<Longrightarrow> preserves P (g y)) \<Longrightarrow>
     preserves P (case x of None \<Rightarrow> m | Some y \<Rightarrow> g y)"
  by (cases x) auto

lemma preserves_case_sum [preserves_intros]:
  "(\<And>e. x = Inl e \<Longrightarrow> preserves P (m e)) \<Longrightarrow> (\<And>y. x = Inr y \<Longrightarrow> preserves P (g y)) \<Longrightarrow>
     preserves P (case x of Inl e \<Rightarrow> m e | Inr y \<Rightarrow> g y)"
  by (cases x) auto

lemma preserves_case_prod [preserves_intros]:
  "(\<And>y z. x = (y, z) \<Longrightarrow> preserves P (g y z)) \<Longrightarrow> preserves P (case x of (y, z) \<Rightarrow> g y z)"
  by (cases x) auto

lemma preserves_let [preserves_intros]: "preserves P (g v) \<Longrightarrow> preserves P (let x = v in g x)"
  by simp

lemma keeps_preserves: "keeps f m \<Longrightarrow> preserves (\<lambda>s. P (f s)) m"
  by (simp add: keeps_def preserves_def)

subsection \<open>Loops that stop at the first error\<close>

text \<open>
  \<open>for _, x := range xs \{ if err := f(x); err != nil \{ return err \} \}\<close>
\<close>

fun foreach :: "'a list \<Rightarrow> ('a \<Rightarrow> ('s, 'e + unit) state) \<Rightarrow> ('s, 'e + unit) state" where
  "foreach [] f = State_Monad.return (Inr ())"
| "foreach (x # xs) f = do {
     r \<leftarrow> f x;
     case r of Inl e \<Rightarrow> State_Monad.return (Inl e) | Inr _ \<Rightarrow> foreach xs f
   }"

lemma keeps_foreach [keeps_intros]:
  "(\<And>x. x \<in> set xs \<Longrightarrow> keeps f (g x)) \<Longrightarrow> keeps f (foreach xs g)"
  by (induction xs) (auto intro!: keeps_intros)

lemma preserves_foreach [preserves_intros]:
  "(\<And>x. x \<in> set xs \<Longrightarrow> preserves P (g x)) \<Longrightarrow> preserves P (foreach xs g)"
  by (induction xs) (auto intro!: preserves_intros)

text \<open>
  The loop rule: an assertion indexed by the elements still to be visited, kept by every
  round that succeeds, holds at the end of a loop that succeeds; a failing round
  establishes the postcondition directly.
\<close>

lemma wp_foreach:
  assumes "I xs s"
    and "\<And>x ys t. I (x # ys) t \<Longrightarrow>
           wp (f x) (\<lambda>r t'. case r of Inl e \<Rightarrow> Q (Inl e) t' | Inr _ \<Rightarrow> I ys t') t"
    and "\<And>t. I [] t \<Longrightarrow> Q (Inr ()) t"
  shows "wp (foreach xs f) Q s"
  using assms(1)
proof (induction xs arbitrary: s)
  case Nil
  then show ?case using assms(3) by (simp add: wp_simps)
next
  case (Cons x xs)
  have "wp (f x) (\<lambda>r t'. case r of Inl e \<Rightarrow> Q (Inl e) t' | Inr _ \<Rightarrow> I xs t') s"
    using assms(2) Cons.prems by blast
  then have "wp (f x) (\<lambda>r. case r of Inl e \<Rightarrow> Q (Inl e) | Inr _ \<Rightarrow> wp (foreach xs f) Q) s"
    by (rule wp_mono) (auto split: sum.splits dest: Cons.IH)
  then show ?case
    by (simp add: wp_simps cong: sum.case_cong)
qed

subsection \<open>Relations between the state before and after\<close>

definition moves :: "('s \<Rightarrow> 's \<Rightarrow> bool) \<Rightarrow> ('s, 'a) state \<Rightarrow> bool" where
  "moves R m \<longleftrightarrow> (\<forall>s. wp m (\<lambda>_. R s) s)"

lemma movesI: "(\<And>s. wp m (\<lambda>_. R s) s) \<Longrightarrow> moves R m"
  by (simp add: moves_def)

lemma moves_poststate: "moves R m \<Longrightarrow> R s (poststate m s)"
  by (simp add: moves_def wp_run)

text \<open>A preorder on states holds across a program when it holds across its parts.\<close>

locale step_order =
  fixes R :: "'s \<Rightarrow> 's \<Rightarrow> bool"
  assumes step_refl: "R s s"
    and step_trans: "R s s' \<Longrightarrow> R s' s'' \<Longrightarrow> R s s''"
begin

lemma moves_return [moves_intros]: "moves R (State_Monad.return x)"
  by (simp add: moves_def wp_simps step_refl)

lemma moves_get [moves_intros]: "moves R State_Monad.get"
  by (simp add: moves_def wp_simps step_refl)

lemma moves_bind [moves_intros]:
  assumes "moves R m" and "\<And>x. moves R (f x)"
  shows "moves R (State_Monad.bind m f)"
proof (rule movesI)
  fix s
  have "wp m (\<lambda>_. R s) s" using assms(1) by (simp add: moves_def)
  then show "wp (State_Monad.bind m f) (\<lambda>_. R s) s"
    unfolding wp_bind
    by (rule wp_mono) (use assms(2) in \<open>auto simp: moves_def wp_run intro: step_trans\<close>)
qed

lemma moves_if [moves_intros]:
  "(b \<Longrightarrow> moves R m) \<Longrightarrow> (\<not> b \<Longrightarrow> moves R n) \<Longrightarrow> moves R (if b then m else n)"
  by simp

lemma moves_case_option [moves_intros]:
  "(x = None \<Longrightarrow> moves R m) \<Longrightarrow> (\<And>y. x = Some y \<Longrightarrow> moves R (g y)) \<Longrightarrow>
     moves R (case x of None \<Rightarrow> m | Some y \<Rightarrow> g y)"
  by (cases x) auto

lemma moves_case_sum [moves_intros]:
  "(\<And>e. x = Inl e \<Longrightarrow> moves R (m e)) \<Longrightarrow> (\<And>y. x = Inr y \<Longrightarrow> moves R (g y)) \<Longrightarrow>
     moves R (case x of Inl e \<Rightarrow> m e | Inr y \<Rightarrow> g y)"
  by (cases x) auto

lemma moves_case_prod [moves_intros]:
  "(\<And>y z. x = (y, z) \<Longrightarrow> moves R (g y z)) \<Longrightarrow> moves R (case x of (y, z) \<Rightarrow> g y z)"
  by (cases x) auto

lemma moves_let [moves_intros]: "moves R (g v) \<Longrightarrow> moves R (let x = v in g x)"
  by simp

lemma moves_foreach [moves_intros]:
  "(\<And>x. x \<in> set xs \<Longrightarrow> moves R (g x)) \<Longrightarrow> moves R (foreach xs g)"
  by (induction xs) (auto intro!: moves_return moves_bind moves_case_sum)

end

subsection \<open>Rows with a least key\<close>

text \<open>
  \<open>first_by key P xs\<close> is the element of \<open>xs\<close> that satisfies \<open>P\<close> and has the least key:
  SQL's \<open>WHERE P ORDER BY key LIMIT 1\<close>.
\<close>

fun first_by :: "('r \<Rightarrow> 'k::linorder) \<Rightarrow> ('r \<Rightarrow> bool) \<Rightarrow> 'r list \<Rightarrow> 'r option" where
  "first_by k P [] = None"
| "first_by k P (x # xs) =
     (case first_by k P xs of
        None \<Rightarrow> (if P x then Some x else None)
      | Some y \<Rightarrow> (if P x \<and> k x \<le> k y then Some x else Some y))"

lemma first_by_None_iff: "first_by k P xs = None \<longleftrightarrow> (\<forall>x\<in>set xs. \<not> P x)"
  by (induction xs) (auto split: option.splits if_splits)

lemma first_by_Some_in: "first_by k P xs = Some x \<Longrightarrow> x \<in> set xs \<and> P x"
  by (induction xs arbitrary: x) (auto split: option.splits if_splits)

lemma first_by_Some_least:
  "first_by k P xs = Some x \<Longrightarrow> y \<in> set xs \<Longrightarrow> P y \<Longrightarrow> k x \<le> k y"
proof (induction xs arbitrary: x)
  case Nil
  then show ?case by simp
next
  case (Cons z zs)
  show ?case
  proof (cases "first_by k P zs")
    case None
    then have "\<forall>u\<in>set zs. \<not> P u" by (simp add: first_by_None_iff)
    with None Cons.prems show ?thesis by (auto split: if_splits)
  next
    case (Some u)
    have "P y \<Longrightarrow> y \<in> set zs \<Longrightarrow> k u \<le> k y" using Cons.IH Some by blast
    with Some Cons.prems show ?thesis by (force split: if_splits)
  qed
qed

lemma first_by_unique:
  assumes "x \<in> set xs" and "P x" and "\<And>y. y \<in> set xs \<Longrightarrow> P y \<Longrightarrow> y = x"
  shows "first_by k P xs = Some x"
proof (cases "first_by k P xs")
  case None
  with assms(1,2) show ?thesis by (simp add: first_by_None_iff)
next
  case (Some y)
  with first_by_Some_in [OF Some] assms(3) show ?thesis by auto
qed

lemma first_by_cong:
  "(\<And>x. x \<in> set xs \<Longrightarrow> P x = Q x) \<Longrightarrow> first_by k P xs = first_by k Q xs"
  by (induction xs) (auto split: option.splits)

lemma first_by_append_None:
  "first_by k P xs = None \<Longrightarrow> first_by k P (xs @ ys) = first_by k P ys"
  by (induction xs) (auto split: option.splits if_splits)

lemma first_by_append_less:
  assumes "P y" and "\<And>x. x \<in> set xs \<Longrightarrow> P x \<Longrightarrow> k y < k x"
  shows "first_by k P (xs @ [y]) = Some y"
  using assms(2)
proof (induction xs)
  case Nil
  with assms(1) show ?case by simp
next
  case (Cons x xs)
  then have "P x \<Longrightarrow> \<not> k x \<le> k y" by (simp add: not_le)
  with Cons show ?case by auto
qed

lemma fold_max_ge: "x \<in> set xs \<Longrightarrow> x \<le> fold max xs (a :: nat)"
  unfolding Max.set_eq_fold [symmetric] by (rule Max_ge) auto

lemma first_by_map:
  "(\<And>x. x \<in> set xs \<Longrightarrow> k (f x) = k x \<and> P (f x) = P x) \<Longrightarrow>
     first_by k P (map f xs) = map_option f (first_by k P xs)"
proof (induction xs)
  case Nil
  then show ?case by simp
next
  case (Cons x xs)
  then have "first_by k P (map f xs) = map_option f (first_by k P xs)"
    and "k (f x) = k x" "P (f x) = P x" by auto
  moreover have "first_by k P xs = Some y \<Longrightarrow> k (f y) = k y" for y
    using first_by_Some_in [of k P xs y] Cons.prems by auto
  ultimately show ?case by (auto split: option.splits)
qed

subsection \<open>Lists\<close>

lemma filter_append_new: "\<not> P x \<Longrightarrow> filter P (xs @ [x]) = filter P xs"
  by simp

lemma map_upd_unaffected: "(\<And>x. x \<in> set xs \<Longrightarrow> P x \<Longrightarrow> f x = x) \<Longrightarrow>
    map (\<lambda>x. if P x then f x else x) xs = xs"
  by (induction xs) auto

end
