(* ===== verification/Go_Strings.thy ===== *)
theory Go_Strings
  imports Prelude
begin

text \<open>
  The parts of Go's standard library on strings that the program calls: \<open>strings\<close>
  (\<open>Split\<close>, \<open>SplitN\<close>, \<open>TrimSpace\<close>, \<open>HasPrefix\<close>, \<open>TrimPrefix\<close>, \<open>TrimRight\<close>, \<open>Count\<close>,
  \<open>ContainsAny\<close>), \<open>strconv\<close> (\<open>ParseUint\<close>, \<open>Atoi\<close>), decimal printing, \<open>unicode/utf8\<close>
  decoding, \<open>encoding/hex\<close> and \<open>encoding/base64\<close>. Strings are byte strings, as in Go.
\<close>

subsection \<open>Splitting\<close>

definition before_sep :: "char \<Rightarrow> string \<Rightarrow> string" where
  "before_sep c s = takeWhile (\<lambda>x. x \<noteq> c) s"

definition after_sep :: "char \<Rightarrow> string \<Rightarrow> string" where
  "after_sep c s = drop (Suc (length (before_sep c s))) s"

text \<open>\<open>strings.Split(s, c)\<close>: at every occurrence of the separator.\<close>

fun Split :: "char \<Rightarrow> string \<Rightarrow> string list" where
  "Split c [] = [[]]"
| "Split c (x # xs) =
     (if x = c then [] # Split c xs
      else (case Split c xs of [] \<Rightarrow> [[x]] | y # ys \<Rightarrow> (x # y) # ys))"

text \<open>\<open>strings.SplitN(s, c, n)\<close>: at most \<open>n\<close> substrings, the last one unsplit.\<close>

fun SplitN :: "char \<Rightarrow> nat \<Rightarrow> string \<Rightarrow> string list" where
  "SplitN c 0 s = []"
| "SplitN c (Suc 0) s = [s]"
| "SplitN c (Suc (Suc n)) s =
     (if c \<in> set s then before_sep c s # SplitN c (Suc n) (after_sep c s) else [s])"

lemma before_sep_no_sep [simp]: "c \<notin> set (before_sep c s)"
  by (auto simp: before_sep_def dest: set_takeWhileD)

lemma before_after_sep: "c \<in> set s \<Longrightarrow> before_sep c s @ c # after_sep c s = s"
  unfolding before_sep_def after_sep_def
  by (induction s) auto

lemma before_sep_append [simp]: "c \<notin> set a \<Longrightarrow> before_sep c (a @ c # b) = a"
  unfolding before_sep_def by (induction a) auto

lemma after_sep_append [simp]: "c \<notin> set a \<Longrightarrow> after_sep c (a @ c # b) = b"
  by (simp add: after_sep_def)

lemma before_sep_id: "c \<notin> set s \<Longrightarrow> before_sep c s = s"
  unfolding before_sep_def by (induction s) auto

lemma SplitN_2: "SplitN c 2 s = (if c \<in> set s then [before_sep c s, after_sep c s] else [s])"
  by (simp add: numeral_eq_Suc)

lemma SplitN_2_append: "c \<notin> set a \<Longrightarrow> SplitN c 2 (a @ c # b) = [a, b]"
  by (simp add: SplitN_2)

lemma SplitN_3: "SplitN c 3 s =
    (if c \<in> set s then before_sep c s # SplitN c 2 (after_sep c s) else [s])"
  by (simp add: numeral_eq_Suc)

lemma SplitN_4: "SplitN c 4 s =
    (if c \<in> set s then before_sep c s # SplitN c 3 (after_sep c s) else [s])"
  by (simp add: numeral_eq_Suc)

lemma SplitN_3_pair:
  "SplitN c 3 s = [a, b] \<longleftrightarrow> s = a @ c # b \<and> c \<notin> set a \<and> c \<notin> set b"
proof
  assume h: "SplitN c 3 s = [a, b]"
  then have "c \<in> set s" "before_sep c s = a" "SplitN c 2 (after_sep c s) = [b]"
    by (auto simp: SplitN_3 split: if_splits)
  then show "s = a @ c # b \<and> c \<notin> set a \<and> c \<notin> set b"
    using before_after_sep [of c s] before_sep_no_sep [of c s]
    by (auto simp: SplitN_2 split: if_splits)
qed (simp add: SplitN_3 SplitN_2)

lemma SplitN_3_triple:
  "SplitN c 3 s = [a, b, d] \<longleftrightarrow> s = a @ c # b @ c # d \<and> c \<notin> set a \<and> c \<notin> set b"
proof
  assume h: "SplitN c 3 s = [a, b, d]"
  then have *: "c \<in> set s" "before_sep c s = a" "c \<in> set (after_sep c s)"
      "before_sep c (after_sep c s) = b" "after_sep c (after_sep c s) = d"
    by (auto simp: SplitN_3 SplitN_2 split: if_splits)
  then show "s = a @ c # b @ c # d \<and> c \<notin> set a \<and> c \<notin> set b"
    using before_after_sep [OF *(1)] before_after_sep [OF *(3)] before_sep_no_sep by metis
qed (simp add: SplitN_3 SplitN_2)

lemmas SplitN_unfolds = SplitN_2 SplitN_3 SplitN_4

lemma Split_not_Nil [simp]: "Split c s \<noteq> []"
  by (induction s) (auto split: list.splits)

lemma Split_no_sep: "p \<in> set (Split c s) \<Longrightarrow> c \<notin> set p"
  by (induction s arbitrary: p) (auto split: list.splits if_splits)

lemma Split_single: "c \<notin> set s \<Longrightarrow> Split c s = [s]"
  by (induction s) auto

lemma Split_append: "c \<notin> set a \<Longrightarrow> Split c (a @ c # b) = a # Split c b"
  by (induction a) auto

lemma Split_pair_iff: "Split c s = [a, b] \<longleftrightarrow> c \<notin> set a \<and> c \<notin> set b \<and> s = a @ c # b"
proof
  assume sp: "Split c s = [a, b]"
  then have no: "c \<notin> set a" "c \<notin> set b"
    using Split_no_sep [of a c s] Split_no_sep [of b c s] by simp_all
  have "c \<in> set s" using sp Split_single [of c s] by fastforce
  then have s: "s = before_sep c s @ c # after_sep c s" by (simp add: before_after_sep)
  have "Split c s = before_sep c s # Split c (after_sep c s)"
    by (subst s, rule Split_append) simp
  with sp have a: "before_sep c s = a" and r: "Split c (after_sep c s) = [b]" by auto
  have "c \<notin> set (after_sep c s)"
  proof
    assume "c \<in> set (after_sep c s)"
    then have "Split c (after_sep c s) =
        before_sep c (after_sep c s) # Split c (after_sep c (after_sep c s))"
      by (metis Split_append before_after_sep before_sep_no_sep)
    with r show False by simp
  qed
  with r have "after_sep c s = b" by (simp add: Split_single)
  with s a no show "c \<notin> set a \<and> c \<notin> set b \<and> s = a @ c # b" by metis
next
  assume "c \<notin> set a \<and> c \<notin> set b \<and> s = a @ c # b"
  then show "Split c s = [a, b]" by (simp add: Split_append Split_single)
qed

subsection \<open>Prefixes, trimming, counting\<close>

fun HasPrefix :: "string \<Rightarrow> string \<Rightarrow> bool" where
  "HasPrefix s [] = True"
| "HasPrefix [] (p # ps) = False"
| "HasPrefix (c # cs) (p # ps) = (c = p \<and> HasPrefix cs ps)"

definition TrimPrefix :: "string \<Rightarrow> string \<Rightarrow> string" where
  "TrimPrefix s p = (if HasPrefix s p then drop (length p) s else s)"

lemma HasPrefix_append [simp]: "HasPrefix (p @ s) p"
  by (induction p) auto

lemma HasPrefix_iff: "HasPrefix s p \<longleftrightarrow> (\<exists>t. s = p @ t)"
  by (induction s p rule: HasPrefix.induct) auto

lemma TrimPrefix_append [simp]: "TrimPrefix (p @ s) p = s"
  by (simp add: TrimPrefix_def)

definition ContainsAny :: "string \<Rightarrow> string \<Rightarrow> bool" where
  "ContainsAny s cs = list_ex (\<lambda>c. c \<in> set cs) s"

definition CountChar :: "string \<Rightarrow> char \<Rightarrow> nat" where
  "CountChar s c = length (filter (\<lambda>x. x = c) s)"

text \<open>\<open>strings.TrimRight(s, "c")\<close> with a one-character cutset.\<close>

definition TrimRight :: "string \<Rightarrow> char \<Rightarrow> string" where
  "TrimRight s c = rev (dropWhile (\<lambda>x. x = c) (rev s))"

text \<open>
  The UTF-8 encodings of the code points that \<open>unicode.IsSpace\<close> accepts, which are what
  \<open>strings.TrimSpace\<close> removes at both ends.
\<close>

definition space_encodings :: "string list" where
  "space_encodings =
     map (map char_of)
       ([[9], [10], [11], [12], [13], [32], [194, 133], [194, 160], [225, 154, 128],
         [226, 128, 168], [226, 128, 169], [226, 128, 175], [226, 129, 159], [227, 128, 128]]
        @ map (\<lambda>b. [226, 128, b]) [128..<139 :: nat])"

function TrimLeftSeqs :: "string list \<Rightarrow> string \<Rightarrow> string" where
  "TrimLeftSeqs ws s =
     (case find (\<lambda>w. w \<noteq> [] \<and> HasPrefix s w) ws of
        None \<Rightarrow> s
      | Some w \<Rightarrow> TrimLeftSeqs ws (drop (length w) s))"
  by pat_completeness auto
termination
  by (relation "measure (\<lambda>(ws, s). length s)")
    (auto simp: find_Some_iff HasPrefix_iff)

declare TrimLeftSeqs.simps [simp del]

definition TrimSpace :: "string \<Rightarrow> string" where
  "TrimSpace s =
     rev (TrimLeftSeqs (map rev space_encodings) (rev (TrimLeftSeqs space_encodings s)))"

text \<open>An ASCII string without white space at its ends is left unchanged.\<close>

definition no_space_byte :: "char \<Rightarrow> bool" where
  "no_space_byte c = (33 \<le> (of_char c :: nat) \<and> (of_char c :: nat) < 128)"

lemma TrimLeftSeqs_id:
  "(\<And>w. w \<in> set ws \<Longrightarrow> w \<noteq> [] \<Longrightarrow> \<not> HasPrefix s w) \<Longrightarrow> TrimLeftSeqs ws s = s"
proof -
  assume a: "\<And>w. w \<in> set ws \<Longrightarrow> w \<noteq> [] \<Longrightarrow> \<not> HasPrefix s w"
  then have "find (\<lambda>w. w \<noteq> [] \<and> HasPrefix s w) ws = None"
    by (auto simp: find_None_iff)
  then show ?thesis by (subst TrimLeftSeqs.simps) simp
qed

lemma space_encodings_all:
  "list_all (\<lambda>w. w \<noteq> [] \<and> \<not> no_space_byte (hd w) \<and> \<not> no_space_byte (last w)) space_encodings"
  by code_simp

lemma space_encodings_ends:
  "w \<in> set space_encodings \<Longrightarrow>
     w \<noteq> [] \<and> \<not> no_space_byte (hd w) \<and> \<not> no_space_byte (last w)"
  using space_encodings_all by (simp add: list_all_iff)

lemma TrimLeftSeqs_no_space:
  assumes "s = [] \<or> no_space_byte (hd s)"
  shows "TrimLeftSeqs space_encodings s = s"
proof (rule TrimLeftSeqs_id)
  fix w assume "w \<in> set space_encodings" "w \<noteq> []"
  with assms show "\<not> HasPrefix s w"
    by (cases s; cases w) (auto dest: space_encodings_ends)
qed

lemma TrimRightSeqs_no_space:
  assumes "s = [] \<or> no_space_byte (last s)"
  shows "TrimLeftSeqs (map rev space_encodings) (rev s) = rev s"
proof (rule TrimLeftSeqs_id)
  fix w assume "w \<in> set (map rev space_encodings)" "w \<noteq> []"
  then obtain v where v: "v \<in> set space_encodings" "w = rev v" by auto
  with assms space_encodings_ends [OF v(1)] show "\<not> HasPrefix (rev s) w"
    by (cases s rule: rev_cases; cases v rule: rev_cases) auto
qed

lemma TrimSpace_id:
  "s = [] \<or> no_space_byte (hd s) \<and> no_space_byte (last s) \<Longrightarrow> TrimSpace s = s"
  using TrimLeftSeqs_no_space [of s] TrimRightSeqs_no_space [of s]
  by (auto simp: TrimSpace_def)

end
