(* ===== verification/Encoding.thy ===== *)
theory Encoding
  imports Go_Strings
begin

text \<open>
  Numbers and binary data as text: \<open>strconv.ParseUint\<close>, \<open>strconv.Atoi\<close>, decimal
  printing, UTF-8 decoding, \<open>encoding/hex\<close> and \<open>encoding/base64\<close> (standard alphabet with
  padding), with their round trips.
\<close>

subsection \<open>Decimal numbers\<close>

definition digit_val :: "char \<Rightarrow> nat option" where
  "digit_val c = (let n = of_char c in if 48 \<le> n \<and> n \<le> 57 then Some (n - 48) else None)"

fun parse_digits :: "nat \<Rightarrow> string \<Rightarrow> nat option" where
  "parse_digits acc [] = Some acc"
| "parse_digits acc (c # cs) =
     (case digit_val c of None \<Rightarrow> None | Some d \<Rightarrow> parse_digits (10 * acc + d) cs)"

text \<open>\<open>strconv.ParseUint(s, 10, 64)\<close>: a syntax or a range error is \<open>None\<close>.\<close>

definition ParseUint :: "string \<Rightarrow> nat option" where
  "ParseUint s =
     (if s = [] then None
      else case parse_digits 0 s of
        None \<Rightarrow> None
      | Some n \<Rightarrow> (if n < 2 ^ 64 then Some n else None))"

text \<open>\<open>strconv.Atoi\<close>: an optional sign, then digits, in the range of a 64-bit \<open>int\<close>.\<close>

definition Atoi :: "string \<Rightarrow> int option" where
  "Atoi s =
     (let neg = HasPrefix s ''-'';
          ds = (if neg \<or> HasPrefix s ''+'' then tl s else s)
      in if ds = [] then None
         else case parse_digits 0 ds of
           None \<Rightarrow> None
         | Some n \<Rightarrow>
             (let i = (if neg then - int n else int n)
              in if - (2 ^ 63) \<le> i \<and> i < 2 ^ 63 then Some i else None))"

text \<open>\<open>fmt.Sprintf("%d", n)\<close> for an unsigned \<open>n\<close>.\<close>

fun show_uint :: "nat \<Rightarrow> string" where
  "show_uint n = (if n < 10 then [char_of (48 + n)]
                  else show_uint (n div 10) @ [char_of (48 + n mod 10)])"

declare show_uint.simps [simp del]

lemma digit_val_char [simp]: "d < 10 \<Longrightarrow> digit_val (char_of (48 + d)) = Some d"
  by (simp add: digit_val_def Let_def)

lemma parse_digits_append:
  "parse_digits acc (xs @ ys) =
     (case parse_digits acc xs of None \<Rightarrow> None | Some n \<Rightarrow> parse_digits n ys)"
  by (induction xs arbitrary: acc) (auto split: option.splits)

lemma parse_show_uint: "parse_digits 0 (show_uint n) = Some n"
proof (induction n rule: show_uint.induct)
  case (1 n)
  show ?case
  proof (cases "n < 10")
    case True
    then show ?thesis by (simp add: show_uint.simps [of n])
  next
    case False
    with 1 show ?thesis
      by (simp add: show_uint.simps [of n] parse_digits_append)
  qed
qed

lemma show_uint_not_Nil [simp]: "show_uint n \<noteq> []"
  by (subst show_uint.simps) simp

lemma ParseUint_show: "n < 2 ^ 64 \<Longrightarrow> ParseUint (show_uint n) = Some n"
  by (simp add: ParseUint_def parse_show_uint)

lemma show_uint_inj: "show_uint m = show_uint n \<Longrightarrow> m = n"
  by (metis option.inject parse_show_uint)

lemma ParseUint_bound: "ParseUint s = Some n \<Longrightarrow> n < 2 ^ 64"
  by (auto simp: ParseUint_def split: if_splits option.splits)

subsection \<open>UTF-8\<close>

text \<open>
  \<open>utf8.DecodeRuneInString\<close>: the first code point and its width in bytes; an invalid
  encoding is the replacement character with width 1.
\<close>

definition cont_byte :: "nat \<Rightarrow> nat \<Rightarrow> nat \<Rightarrow> bool" where
  "cont_byte lo hi b = (lo \<le> b \<and> b \<le> hi)"

definition RuneError :: nat where "RuneError = 65533"

fun decode_rune :: "string \<Rightarrow> nat \<times> nat" where
  "decode_rune s =
     (case map of_char (take 4 s) of
        [] \<Rightarrow> (RuneError, 0)
      | b0 # bs \<Rightarrow>
         (if b0 < 128 then (b0, 1)
          else if 194 \<le> b0 \<and> b0 \<le> 223 then
            (case bs of
               b1 # _ \<Rightarrow> (if cont_byte 128 191 b1
                         then ((b0 mod 32) * 64 + b1 mod 64, 2) else (RuneError, 1))
             | _ \<Rightarrow> (RuneError, 1))
          else if 224 \<le> b0 \<and> b0 \<le> 239 then
            (case bs of
               b1 # b2 # _ \<Rightarrow>
                 (if cont_byte (if b0 = 224 then 160 else 128) (if b0 = 237 then 159 else 191) b1
                    \<and> cont_byte 128 191 b2
                  then ((b0 mod 16) * 4096 + (b1 mod 64) * 64 + b2 mod 64, 3)
                  else (RuneError, 1))
             | _ \<Rightarrow> (RuneError, 1))
          else if 240 \<le> b0 \<and> b0 \<le> 244 then
            (case bs of
               b1 # b2 # b3 # _ \<Rightarrow>
                 (if cont_byte (if b0 = 240 then 144 else 128) (if b0 = 244 then 143 else 191) b1
                    \<and> cont_byte 128 191 b2 \<and> cont_byte 128 191 b3
                  then ((b0 mod 8) * 262144 + (b1 mod 64) * 4096 + (b2 mod 64) * 64 + b3 mod 64, 4)
                  else (RuneError, 1))
             | _ \<Rightarrow> (RuneError, 1))
          else (RuneError, 1)))"

declare decode_rune.simps [simp del]

lemma decode_rune_ascii: "of_char c < (128 :: nat) \<Longrightarrow> decode_rune (c # s) = (of_char c, 1)"
  by (simp add: decode_rune.simps)

lemma decode_rune_width_pos: "s \<noteq> [] \<Longrightarrow> 0 < snd (decode_rune s)"
  by (cases s) (auto simp: decode_rune.simps split: list.splits)

subsection \<open>Hexadecimal\<close>

definition hex_digit :: "nat \<Rightarrow> char" where
  "hex_digit n = ''0123456789abcdef'' ! n"

definition hex_val :: "char \<Rightarrow> nat option" where
  "hex_val c =
     (let n = of_char c in
      if 48 \<le> n \<and> n \<le> 57 then Some (n - 48)
      else if 97 \<le> n \<and> n \<le> 102 then Some (n - 87)
      else if 65 \<le> n \<and> n \<le> 70 then Some (n - 55)
      else None)"

text \<open>\<open>hex.EncodeToString\<close> and \<open>hex.DecodeString\<close> (\<open>None\<close>: odd length or a bad digit).\<close>

fun hex_encode :: "bytes \<Rightarrow> string" where
  "hex_encode [] = []"
| "hex_encode (b # bs) =
     hex_digit (of_char b div 16) # hex_digit (of_char b mod 16) # hex_encode bs"

fun hex_decode :: "string \<Rightarrow> bytes option" where
  "hex_decode [] = Some []"
| "hex_decode [c] = None"
| "hex_decode (c # d # cs) =
     (case (hex_val c, hex_val d, hex_decode cs) of
        (Some h, Some l, Some bs) \<Rightarrow> Some (char_of (16 * h + l) # bs)
      | _ \<Rightarrow> None)"

lemma hex_val_digit [simp]:
  assumes "n < 16" shows "hex_val (hex_digit n) = Some n"
proof -
  have "list_all (\<lambda>n. hex_val (hex_digit n) = Some n) [0..<16]" by code_simp
  with assms show ?thesis by (simp add: list_all_iff)
qed

lemma hex_decode_encode: "hex_decode (hex_encode bs) = Some bs"
  by (induction bs) (simp_all add: div_less_iff_less_mult)

lemma hex_encode_length [simp]: "length (hex_encode bs) = 2 * length bs"
  by (induction bs) auto

lemma hex_decode_length: "hex_decode s = Some bs \<Longrightarrow> length s = 2 * length bs"
  by (induction s arbitrary: bs rule: hex_decode.induct) (auto split: option.splits)

lemma hex_encode_inj: "hex_encode a = hex_encode b \<Longrightarrow> a = b"
  by (metis hex_decode_encode option.inject)

subsection \<open>Base64\<close>

definition b64_digit :: "nat \<Rightarrow> char" where
  "b64_digit n =
     (if n < 26 then char_of (65 + n)
      else if n < 52 then char_of (71 + n)
      else if n < 62 then char_of (n - 4)
      else if n = 62 then CHR ''+''
      else CHR ''/'')"

definition b64_val :: "char \<Rightarrow> nat option" where
  "b64_val c =
     (let n = of_char c in
      if 65 \<le> n \<and> n \<le> 90 then Some (n - 65)
      else if 97 \<le> n \<and> n \<le> 122 then Some (n - 71)
      else if 48 \<le> n \<and> n \<le> 57 then Some (n + 4)
      else if n = 43 then Some 62
      else if n = 47 then Some 63
      else None)"

text \<open>\<open>base64.StdEncoding.EncodeToString\<close>\<close>

fun b64_encode :: "bytes \<Rightarrow> string" where
  "b64_encode [] = []"
| "b64_encode [a] =
     (let x = of_char a in [b64_digit (x div 4), b64_digit (x mod 4 * 16), CHR ''='', CHR ''=''])"
| "b64_encode [a, b] =
     (let x = of_char a; y = of_char b in
      [b64_digit (x div 4), b64_digit (x mod 4 * 16 + y div 16), b64_digit (y mod 16 * 4), CHR ''=''])"
| "b64_encode (a # b # c # cs) =
     (let x = of_char a; y = of_char b; z = of_char c in
      b64_digit (x div 4) # b64_digit (x mod 4 * 16 + y div 16) #
      b64_digit (y mod 16 * 4 + z div 64) # b64_digit (z mod 64) # b64_encode cs)"

text \<open>
  \<open>base64.StdEncoding.DecodeString\<close>: line breaks are skipped, the rest is decoded four
  characters at a time, padding may only end the last group, and the unused low bits of a
  padded group are ignored.
\<close>

fun b64_groups :: "string \<Rightarrow> bytes option" where
  "b64_groups [] = Some []"
| "b64_groups (p # q # r # s # cs) =
     (if s = CHR ''='' then
        (if cs \<noteq> [] then None
         else if r = CHR ''='' then
           (case (b64_val p, b64_val q) of
              (Some a, Some b) \<Rightarrow> Some [char_of (a * 4 + b div 16)]
            | _ \<Rightarrow> None)
         else
           (case (b64_val p, b64_val q, b64_val r) of
              (Some a, Some b, Some c) \<Rightarrow>
                Some [char_of (a * 4 + b div 16), char_of (b mod 16 * 16 + c div 4)]
            | _ \<Rightarrow> None))
      else
        (case (b64_val p, b64_val q, b64_val r, b64_val s) of
           (Some a, Some b, Some c, Some d) \<Rightarrow>
             map_option
               (\<lambda>bs. char_of (a * 4 + b div 16) # char_of (b mod 16 * 16 + c div 4) #
                      char_of (c mod 4 * 64 + d) # bs)
               (b64_groups cs)
         | _ \<Rightarrow> None))"
| "b64_groups _ = None"

definition b64_decode :: "string \<Rightarrow> bytes option" where
  "b64_decode s = b64_groups (filter (\<lambda>c. c \<noteq> CHR 0x0A \<and> c \<noteq> CHR 0x0D) s)"

lemma b64_digit_code:
  "n < 64 \<Longrightarrow> of_char (b64_digit n) =
     (if n < 26 then 65 + n else if n < 52 then 71 + n else if n < 62 then n - 4
      else if n = 62 then 43 else (47 :: nat))"
  by (simp add: b64_digit_def)

lemma b64_val_digit [simp]: "n < 64 \<Longrightarrow> b64_val (b64_digit n) = Some n"
  by (auto simp: b64_val_def b64_digit_code Let_def)

lemma b64_digit_plain:
  assumes "n < 64"
  shows "b64_digit n \<noteq> CHR ''=''" "b64_digit n \<noteq> CHR 0x0A" "b64_digit n \<noteq> CHR 0x0D"
proof -
  have "of_char (b64_digit n) \<noteq> (61 :: nat)" "of_char (b64_digit n) \<noteq> (10 :: nat)"
       "of_char (b64_digit n) \<noteq> (13 :: nat)"
    using assms by (auto simp: b64_digit_code)
  then show "b64_digit n \<noteq> CHR ''=''" "b64_digit n \<noteq> CHR 0x0A" "b64_digit n \<noteq> CHR 0x0D"
    by auto
qed

lemma byte_parts:
  fixes c :: char
  defines "x \<equiv> of_char c :: nat"
  shows "x div 16 div 16 = 0" "x div 64 div 4 = 0" "x div 16 mod 16 = x div 16"
    "x div 64 mod 4 = x div 64" "x div 4 < 64" "x div 16 < 16" "x div 64 < 4"
  using nat_of_char_less_256 [of c] unfolding x_def
  by (simp_all add: div_mult2_eq [symmetric] div_less_iff_less_mult)

lemma sextet_bounds:
  "x mod 4 * 16 < (64 :: nat)" "x mod 16 * 4 < (64 :: nat)"
  "y < 16 \<Longrightarrow> x mod 4 * 16 + y < (64 :: nat)"
  "y < 4 \<Longrightarrow> x mod 16 * 4 + y < (64 :: nat)"
proof -
  have "x mod 4 < 4" "x mod 16 < 16" by simp_all
  then show "x mod 4 * 16 < (64 :: nat)" "x mod 16 * 4 < (64 :: nat)"
    "y < 16 \<Longrightarrow> x mod 4 * 16 + y < (64 :: nat)" "y < 4 \<Longrightarrow> x mod 16 * 4 + y < (64 :: nat)"
    by linarith+
qed

lemmas b64_arith = byte_parts sextet_bounds b64_digit_plain

lemma b64_groups_encode: "b64_groups (b64_encode bs) = Some bs"
  by (induction bs rule: b64_encode.induct)
    (simp_all add: Let_def b64_arith)

lemma b64_encode_no_break:
  "c \<in> set (b64_encode bs) \<Longrightarrow> c \<noteq> CHR 0x0A \<and> c \<noteq> CHR 0x0D"
  by (induction bs rule: b64_encode.induct)
    (auto simp: Let_def b64_arith)

lemma b64_decode_encode: "b64_decode (b64_encode bs) = Some bs"
proof -
  have "filter (\<lambda>c. c \<noteq> CHR 0x0A \<and> c \<noteq> CHR 0x0D) (b64_encode bs) = b64_encode bs"
    using b64_encode_no_break by (simp add: filter_id_conv)
  then show ?thesis by (simp add: b64_decode_def b64_groups_encode)
qed

end
