(* ===== verification/Glob.thy ===== *)
theory Glob
  imports Encoding
begin

text \<open>
  Shell patterns as \<open>path.Match\<close> of Go's standard library documents them. A pattern is
  read into a list of terms (a malformed pattern is \<open>ErrBadPattern\<close>, here \<open>None\<close>) and the
  terms are matched against the whole name: \<open>*\<close> is any run of bytes other than \<open>/\<close>, \<open>?\<close>
  one code point other than \<open>/\<close>, a bracket expression one code point in (or outside) its
  ranges, anything else itself.

  The lemmas describe the patterns the access rules are made of: literals, a single star,
  and star-only patterns, for which matching a pattern text against another pattern text
  implies inclusion of everything they match (\<open>star_match_trans\<close>).
\<close>

datatype glob_term = Star | AnyChar | Lit char | CharClass bool "(nat \<times> nat) list"

definition esc_rune :: "string \<Rightarrow> (nat \<times> string) option" where
  "esc_rune s =
     (let (r, n) = decode_rune s; rest = drop n s in
      if (r = RuneError \<and> n = 1) \<or> rest = [] then None else Some (r, rest))"

fun getEsc :: "string \<Rightarrow> (nat \<times> string) option" where
  "getEsc [] = None"
| "getEsc (c # cs) =
     (if c = CHR ''-'' \<or> c = CHR '']'' then None
      else if c = CHR 0x5C then (if cs = [] then None else esc_rune cs)
      else esc_rune (c # cs))"

lemma esc_rune_shorter: "s \<noteq> [] \<Longrightarrow> esc_rune s = Some (r, rest) \<Longrightarrow> length rest < length s"
  using decode_rune_width_pos [of s]
  by (auto simp: esc_rune_def Let_def split: prod.splits if_splits)

lemma getEsc_shorter: "getEsc s = Some (r, rest) \<Longrightarrow> length rest < length s"
  using esc_rune_shorter [of s] esc_rune_shorter [of "tl s"]
  by (cases s) (fastforce split: if_splits)+

function parse_ranges :: "bool \<Rightarrow> string \<Rightarrow> ((nat \<times> nat) list \<times> string) option" where
  "parse_ranges nonempty s =
     (if nonempty \<and> HasPrefix s '']'' then Some ([], tl s)
      else case getEsc s of
        None \<Rightarrow> None
      | Some (lo, s1) \<Rightarrow>
          (if HasPrefix s1 ''-'' then
             (case getEsc (tl s1) of
                None \<Rightarrow> None
              | Some (hi, s2) \<Rightarrow>
                  map_option (\<lambda>(rs, rest). ((lo, hi) # rs, rest)) (parse_ranges True s2))
           else map_option (\<lambda>(rs, rest). ((lo, lo) # rs, rest)) (parse_ranges True s1)))"
  by pat_completeness auto
termination
  by (relation "measure (\<lambda>(b, s). length s)")
    (auto dest!: getEsc_shorter)

declare parse_ranges.simps [simp del]

lemma parse_ranges_shorter:
  "parse_ranges ne s = Some (rs, rest) \<Longrightarrow> length rest \<le> length s"
proof (induction ne s arbitrary: rs rest rule: parse_ranges.induct)
  case (1 ne s)
  show ?case
  proof (cases "ne \<and> HasPrefix s '']''")
    case True
    with "1.prems" show ?thesis by (auto simp: parse_ranges.simps [of True s])
  next
    case no_end: False
    with "1.prems" obtain lo s1 where lo: "getEsc s = Some (lo, s1)"
      by (auto simp: parse_ranges.simps [of ne s] split: option.splits if_splits)
    note s1 = getEsc_shorter [OF lo]
    show ?thesis
    proof (cases "HasPrefix s1 ''-''")
      case True
      with "1.prems" no_end lo obtain hi s2 rs' where hi: "getEsc (tl s1) = Some (hi, s2)"
        and rs': "parse_ranges True s2 = Some (rs', rest)"
        by (auto simp: parse_ranges.simps [of ne s] split: option.splits if_splits)
      have "length rest \<le> length s2" using "1.IH"(1) no_end lo True hi rs' by blast
      with s1 getEsc_shorter [OF hi] show ?thesis by simp
    next
      case False
      with "1.prems" no_end lo obtain rs' where rs': "parse_ranges True s1 = Some (rs', rest)"
        by (auto simp: parse_ranges.simps [of ne s] split: option.splits if_splits)
      have "length rest \<le> length s1" using "1.IH"(2) no_end lo False rs' by blast
      with s1 show ?thesis by simp
    qed
  qed
qed

definition class_body :: "string \<Rightarrow> bool \<times> string" where
  "class_body cs = (if HasPrefix cs ''^'' then (True, tl cs) else (False, cs))"

lemma class_body_le: "length (snd (class_body cs)) \<le> length cs"
  by (simp add: class_body_def)

function parse_pattern :: "string \<Rightarrow> glob_term list option" where
  "parse_pattern [] = Some []"
| "parse_pattern (c # cs) =
     (if c = CHR ''*'' then map_option (\<lambda>ts. Star # ts) (parse_pattern cs)
      else if c = CHR ''?'' then map_option (\<lambda>ts. AnyChar # ts) (parse_pattern cs)
      else if c = CHR 0x5C then
        (case cs of
           [] \<Rightarrow> None
         | d # ds \<Rightarrow> map_option (\<lambda>ts. Lit d # ts) (parse_pattern ds))
      else if c = CHR ''['' then
        (case parse_ranges False (snd (class_body cs)) of
           None \<Rightarrow> None
         | Some (rs, rest) \<Rightarrow>
             map_option (\<lambda>ts. CharClass (fst (class_body cs)) rs # ts) (parse_pattern rest))
      else map_option (\<lambda>ts. Lit c # ts) (parse_pattern cs))"
  by pat_completeness auto
termination
proof (relation "measure length", goal_cases)
  case (5 c cs a rs rest)
  then have "length rest \<le> length (snd (class_body cs))"
    using parse_ranges_shorter by blast
  then show ?case using class_body_le [of cs] by simp
qed auto

fun match_terms :: "glob_term list \<Rightarrow> string \<Rightarrow> bool" where
  "match_terms [] s = (s = [])"
| "match_terms (Star # ts) s =
     (match_terms ts s \<or>
      (case s of [] \<Rightarrow> False | c # cs \<Rightarrow> c \<noteq> CHR ''/'' \<and> match_terms (Star # ts) cs))"
| "match_terms (AnyChar # ts) s =
     (s \<noteq> [] \<and> \<not> HasPrefix s ''/'' \<and> match_terms ts (drop (snd (decode_rune s)) s))"
| "match_terms (Lit c # ts) s =
     (case s of [] \<Rightarrow> False | d # cs \<Rightarrow> c = d \<and> match_terms ts cs)"
| "match_terms (CharClass neg rs # ts) s =
     (s \<noteq> [] \<and>
      list_ex (\<lambda>(lo, hi). lo \<le> fst (decode_rune s) \<and> fst (decode_rune s) \<le> hi) rs \<noteq> neg \<and>
      match_terms ts (drop (snd (decode_rune s)) s))"

definition path_Match :: "string \<Rightarrow> string \<Rightarrow> bool option" where
  "path_Match pattern name = map_option (\<lambda>ts. match_terms ts name) (parse_pattern pattern)"

subsection \<open>Literal patterns\<close>

definition meta_chars :: string where
  "meta_chars = [CHR ''*'', CHR ''?'', CHR ''['', CHR 0x5C]"

definition literal :: "string \<Rightarrow> bool" where
  "literal p = (\<forall>c\<in>set p. c \<notin> set meta_chars)"

lemma parse_literal: "literal p \<Longrightarrow> parse_pattern p = Some (map Lit p)"
  by (induction p) (auto simp: literal_def meta_chars_def)

lemma match_map_Lit [simp]: "match_terms (map Lit p) s \<longleftrightarrow> s = p"
  by (induction p arbitrary: s) (auto split: list.splits)

lemma path_Match_literal: "literal p \<Longrightarrow> path_Match p s = Some (s = p)"
  by (simp add: path_Match_def parse_literal)

subsection \<open>Stars\<close>

lemma match_Star_iff:
  "match_terms (Star # ts) s \<longleftrightarrow>
     (\<exists>u v. s = u @ v \<and> CHR ''/'' \<notin> set u \<and> match_terms ts v)"
proof (induction s)
  case Nil
  then show ?case by simp
next
  case (Cons c s)
  have "match_terms (Star # ts) (c # s) \<longleftrightarrow>
      match_terms ts (c # s) \<or> c \<noteq> CHR ''/'' \<and> match_terms (Star # ts) s"
    by simp
  also have "\<dots> \<longleftrightarrow> (\<exists>u v. c # s = u @ v \<and> CHR ''/'' \<notin> set u \<and> match_terms ts v)"
    unfolding Cons.IH by (auto simp: Cons_eq_append_conv) (metis append_Cons append_Nil empty_iff
        empty_set set_ConsD)+
  finally show ?case .
qed

lemma match_Lit_iff: "match_terms (Lit c # ts) s \<longleftrightarrow> (\<exists>v. s = c # v \<and> match_terms ts v)"
  by (cases s) auto

lemma path_Match_star: "path_Match ''*'' s = Some (CHR ''/'' \<notin> set s)"
  by (simp add: path_Match_def match_Star_iff del: match_terms.simps(2))

subsection \<open>Star-only patterns\<close>

definition star_only :: "string \<Rightarrow> bool" where
  "star_only p = (\<forall>c\<in>set p. c \<notin> {CHR ''?'', CHR ''['', CHR 0x5C})"

definition star_terms :: "string \<Rightarrow> glob_term list" where
  "star_terms p = map (\<lambda>c. if c = CHR ''*'' then Star else Lit c) p"

lemma star_terms_simps [simp]:
  "star_terms [] = []"
  "star_terms (c # p) = (if c = CHR ''*'' then Star else Lit c) # star_terms p"
  "star_terms (p @ q) = star_terms p @ star_terms q"
  by (simp_all add: star_terms_def)

lemma parse_star_only: "star_only p \<Longrightarrow> parse_pattern p = Some (star_terms p)"
  by (induction p) (auto simp: star_only_def)

lemma match_star_terms_append:
  "match_terms (star_terms p @ ts) s \<longleftrightarrow>
     (\<exists>a b. s = a @ b \<and> match_terms (star_terms p) a \<and> match_terms ts b)"
proof (induction p arbitrary: s)
  case Nil
  then show ?case by simp
next
  case (Cons c p)
  show ?case
  proof (cases "c = CHR ''*''")
    case True
    then show ?thesis
      by (simp add: match_Star_iff Cons.IH del: match_terms.simps(2))
        (metis append.assoc)
  next
    case False
    then show ?thesis
      by (simp add: match_Lit_iff Cons.IH del: match_terms.simps(4)) (metis append_Cons)
  qed
qed

lemma match_star_terms_no_slash:
  "match_terms (star_terms p) s \<Longrightarrow> CHR ''/'' \<notin> set p \<Longrightarrow> CHR ''/'' \<notin> set s"
proof (induction p arbitrary: s)
  case Nil
  then show ?case by simp
next
  case (Cons c p)
  then show ?case
    by (cases "c = CHR ''*''")
      (auto simp: match_Star_iff simp del: match_terms.simps(2) split: list.splits)
qed

lemma star_terms_trans:
  "match_terms (star_terms p) r \<Longrightarrow> match_terms (star_terms r) s \<Longrightarrow> match_terms (star_terms p) s"
proof (induction p arbitrary: r s)
  case Nil
  then show ?case by simp
next
  case (Cons c p)
  show ?case
  proof (cases "c = CHR ''*''")
    case True
    with Cons.prems(1) obtain u v where r: "r = u @ v" and u: "CHR ''/'' \<notin> set u"
      and v: "match_terms (star_terms p) v"
      by (auto simp: match_Star_iff simp del: match_terms.simps(2))
    from Cons.prems(2) obtain a b where s: "s = a @ b" and a: "match_terms (star_terms u) a"
      and b: "match_terms (star_terms v) b"
      by (auto simp: r match_star_terms_append)
    have "CHR ''/'' \<notin> set a" using match_star_terms_no_slash a u by blast
    moreover have "match_terms (star_terms p) b" using Cons.IH v b by blast
    ultimately show ?thesis
      using True s by (auto simp: match_Star_iff simp del: match_terms.simps(2))
  next
    case False
    with Cons.prems(1) obtain r' where r: "r = c # r'" and r': "match_terms (star_terms p) r'"
      by (auto split: list.splits)
    from False Cons.prems(2) obtain s' where s: "s = c # s'" and s': "match_terms (star_terms r') s'"
      by (auto simp: r split: list.splits)
    from Cons.IH [OF r' s'] False s show ?thesis by simp
  qed
qed

lemma star_match_trans:
  assumes "star_only p" "star_only r"
    and "path_Match p r = Some True" "path_Match r s = Some True"
  shows "path_Match p s = Some True"
  using assms star_terms_trans by (auto simp: path_Match_def parse_star_only)

lemma literal_star_only: "literal p \<Longrightarrow> star_only p"
  by (auto simp: literal_def star_only_def meta_chars_def)

end
