(* ===== verification/Json.thy ===== *)
theory Json
  imports Encoding
begin

text \<open>
  JSON values and the way \<open>encoding/json\<close> stores them into Go structs: members are visited
  in order, a member whose name equals no field (up to ASCII case) is skipped, a member of
  the wrong type is an error, \<open>null\<close> leaves a plain field as it is and clears a pointer,
  and fields that no member names keep their zero value. Reading the text of a JSON value
  is a parameter of the environment.
\<close>

datatype json =
    JNull
  | JBool bool
  | JInt int            \<comment> \<open>a number literal without fraction and exponent\<close>
  | JReal string        \<comment> \<open>any other number literal\<close>
  | JStr string
  | JArr "json list"
  | JObj "(string \<times> json) list"

definition to_lower :: "char \<Rightarrow> char" where
  "to_lower c = (let n = of_char c :: nat in if 65 \<le> n \<and> n \<le> 90 then char_of (n + 32) else c)"

definition fold_eq :: "string \<Rightarrow> string \<Rightarrow> bool" where
  "fold_eq a b = (map to_lower a = map to_lower b)"

lemma fold_eq_refl [simp]: "fold_eq a a"
  by (simp add: fold_eq_def)

type_synonym 's field = "string \<times> (json \<Rightarrow> 's \<Rightarrow> 's option)"

fun decode_members :: "'s field list \<Rightarrow> (string \<times> json) list \<Rightarrow> 's \<Rightarrow> 's option" where
  "decode_members fields [] s = Some s"
| "decode_members fields ((k, v) # ms) s =
     (case find (\<lambda>(n, _). fold_eq n k) fields of
        None \<Rightarrow> decode_members fields ms s
      | Some (_, store) \<Rightarrow>
          (case store v s of None \<Rightarrow> None | Some s' \<Rightarrow> decode_members fields ms s'))"

definition decode_struct :: "'s field list \<Rightarrow> 's \<Rightarrow> json \<Rightarrow> 's option" where
  "decode_struct fields zero j =
     (case j of
        JObj ms \<Rightarrow> decode_members fields ms zero
      | JNull \<Rightarrow> Some zero
      | _ \<Rightarrow> None)"

fun decode_all :: "(json \<Rightarrow> 'a option) \<Rightarrow> json list \<Rightarrow> 'a list option" where
  "decode_all f [] = Some []"
| "decode_all f (j # js) =
     (case f j of
        None \<Rightarrow> None
      | Some x \<Rightarrow> (case decode_all f js of None \<Rightarrow> None | Some xs \<Rightarrow> Some (x # xs)))"

definition decode_slice :: "(json \<Rightarrow> 'a option) \<Rightarrow> json \<Rightarrow> 'a list option" where
  "decode_slice f j =
     (case j of JArr js \<Rightarrow> decode_all f js | JNull \<Rightarrow> Some [] | _ \<Rightarrow> None)"

definition decode_string :: "json \<Rightarrow> string \<Rightarrow> string option" where
  "decode_string j cur = (case j of JStr s \<Rightarrow> Some s | JNull \<Rightarrow> Some cur | _ \<Rightarrow> None)"

definition decode_uint_ptr :: "json \<Rightarrow> uint option option" where
  "decode_uint_ptr j =
     (case j of
        JInt n \<Rightarrow> (if 0 \<le> n \<and> n < 2 ^ 64 then Some (Some (nat n)) else None)
      | JNull \<Rightarrow> Some None
      | _ \<Rightarrow> None)"

definition decode_time_ptr :: "(string \<Rightarrow> time option) \<Rightarrow> json \<Rightarrow> time option option" where
  "decode_time_ptr parse j =
     (case j of
        JStr s \<Rightarrow> map_option Some (parse s)
      | JNull \<Rightarrow> Some None
      | _ \<Rightarrow> None)"

text \<open>Fields of a struct by the type of the Go field.\<close>

definition str_field ::
  "string \<Rightarrow> ('s \<Rightarrow> string) \<Rightarrow> ((string \<Rightarrow> string) \<Rightarrow> 's \<Rightarrow> 's) \<Rightarrow> 's field" where
  "str_field n get upd = (n, \<lambda>j x. map_option (\<lambda>v. upd (\<lambda>_. v) x) (decode_string j (get x)))"

definition val_field ::
  "string \<Rightarrow> (json \<Rightarrow> 'v option) \<Rightarrow> (('v \<Rightarrow> 'v) \<Rightarrow> 's \<Rightarrow> 's) \<Rightarrow> 's field" where
  "val_field n dec upd = (n, \<lambda>j x. map_option (\<lambda>v. upd (\<lambda>_. v) x) (dec j))"

text \<open>
  The string that \<open>json.Unmarshal(b, &s)\<close> leaves in a fresh \<open>var s string\<close>, as the
  \<open>UnmarshalJSON\<close> methods of the enumerations use it.
\<close>

definition unmarshal_string :: "json \<Rightarrow> string option" where
  "unmarshal_string j = decode_string j []"

lemma decode_all_length: "decode_all f js = Some xs \<Longrightarrow> length xs = length js"
  by (induction js arbitrary: xs) (auto split: option.splits)

lemma decode_all_in: "decode_all f js = Some xs \<Longrightarrow> x \<in> set xs \<Longrightarrow> \<exists>j\<in>set js. f j = Some x"
  by (induction js arbitrary: xs) (auto split: option.splits)

end
