(* ===== verification/Orm.thy ===== *)
theory Orm
  imports Json
begin

text \<open>
  The data model of \<open>internal/orm\<close>: one record per table, the enumerations with their JSON
  forms, the permission helpers and the audit vocabulary. Association fields that no query
  of the program loads (\<open>User.Permissions\<close>, \<open>User.Sessions\<close>, \<open>User.Pats\<close>, \<open>User.Tokens\<close>,
  \<open>SA.Permissions\<close>, \<open>Session.User\<close>, \<open>PAT.User\<close>, \<open>CapabilityToken.Issuer\<close>) are not fields
  of the records; the link tables they describe are part of the database state.
\<close>

subsection \<open>Verbs\<close>

type_synonym verb = int

abbreviation VerbTypeList :: verb where "VerbTypeList \<equiv> 0"
abbreviation VerbTypeRead :: verb where "VerbTypeRead \<equiv> 1"
abbreviation VerbTypeWrite :: verb where "VerbTypeWrite \<equiv> 2"
abbreviation VerbTypeDelete :: verb where "VerbTypeDelete \<equiv> 3"

definition verbTypeNames :: "verb \<rightharpoonup> string" where
  "verbTypeNames = [VerbTypeList \<mapsto> ''list'', VerbTypeRead \<mapsto> ''read'',
                    VerbTypeWrite \<mapsto> ''write'', VerbTypeDelete \<mapsto> ''delete'']"

definition verbTypeValues :: "string \<rightharpoonup> verb" where
  "verbTypeValues = [''list'' \<mapsto> VerbTypeList, ''read'' \<mapsto> VerbTypeRead,
                     ''write'' \<mapsto> VerbTypeWrite, ''delete'' \<mapsto> VerbTypeDelete]"

definition Verb_MarshalJSON :: "verb \<Rightarrow> json option" where
  "Verb_MarshalJSON v = (case verbTypeNames v of None \<Rightarrow> None | Some s \<Rightarrow> Some (JStr s))"

definition Verb_UnmarshalJSON :: "json \<Rightarrow> verb option" where
  "Verb_UnmarshalJSON j =
     (case unmarshal_string j of None \<Rightarrow> None | Some s \<Rightarrow> verbTypeValues s)"

definition ParseVerb :: "string \<Rightarrow> verb option" where
  "ParseVerb s = verbTypeValues s"

subsection \<open>Permissions\<close>

record permission =
  p_id :: uint
  p_resource_pattern :: string
  p_verb :: verb
  p_created_at :: time
  p_expires_at :: "time option"

text \<open>9999-12-31 23:59:59 UTC, in nanoseconds since the epoch.\<close>

definition NoExpiry :: time where
  "NoExpiry = 253402300799 * Second"

definition NewPermission :: "string \<Rightarrow> verb \<Rightarrow> time option \<Rightarrow> permission" where
  "NewPermission pattern v expiry =
     (let e = (case expiry of None \<Rightarrow> NoExpiry | Some t \<Rightarrow> t)
      in \<lparr>p_id = 0, p_resource_pattern = pattern, p_verb = v, p_created_at = 0,
          p_expires_at = Some e\<rparr>)"

definition ValidateResourcePattern :: "string \<Rightarrow> bool" where
  "ValidateResourcePattern pattern =
     (let parts = SplitN (CHR ''/'') 2 pattern in
      if length parts \<noteq> 2 \<or> parts ! 0 = [] \<or> parts ! 1 = [] then False
      else if parts ! 0 = ''*'' then False
      else if parts ! 0 = ''_'' then False
      else True)"

record anon_permission =
  ap_id :: uint
  ap_resource_pattern :: string
  ap_verb :: verb
  ap_expires_at :: "time option"
  ap_created_at :: time

subsection \<open>Principals and credentials\<close>

record user =
  u_id :: uint
  u_name :: string
  u_email :: string
  u_pass :: string
  u_created_at :: time

record sa =
  sa_id :: uint
  sa_namespace :: string
  sa_name :: string
  sa_synced_at :: time

record session =
  s_id :: uint
  s_user_id :: uint
  s_token_hash :: string
  s_refresh_token_hash :: string
  s_expires_at :: time
  s_created_at :: time

record pat =
  pat_id :: uint
  pat_user_id :: uint
  pat_hash :: string
  pat_expiry :: "time option"
  pat_created_at :: time
  pat_last_used_at :: "time option"

record capability_token =
  ct_id :: uint
  ct_issued_by :: "uint option"
  ct_token_hash :: string
  ct_expires_at :: "time option"
  ct_created_at :: time
  ct_permissions :: "permission list"

subsection \<open>Resources\<close>

type_synonym resource_type = int

abbreviation ResourceTypeUndefined :: resource_type where "ResourceTypeUndefined \<equiv> 0"
abbreviation ResourceTypeCleartext :: resource_type where "ResourceTypeCleartext \<equiv> 1"
abbreviation ResourceTypeEncrypted :: resource_type where "ResourceTypeEncrypted \<equiv> 2"

definition resourceTypeNames :: "resource_type \<rightharpoonup> string" where
  "resourceTypeNames = [ResourceTypeUndefined \<mapsto> ''undefined'',
     ResourceTypeCleartext \<mapsto> ''cleartext'', ResourceTypeEncrypted \<mapsto> ''encrypted'']"

definition resourceTypeValues :: "string \<rightharpoonup> resource_type" where
  "resourceTypeValues = [''undefined'' \<mapsto> ResourceTypeUndefined,
     ''cleartext'' \<mapsto> ResourceTypeCleartext, ''encrypted'' \<mapsto> ResourceTypeEncrypted]"

definition ResourceType_MarshalJSON :: "resource_type \<Rightarrow> json option" where
  "ResourceType_MarshalJSON t =
     (case resourceTypeNames t of None \<Rightarrow> None | Some s \<Rightarrow> Some (JStr s))"

definition ResourceType_UnmarshalJSON :: "json \<Rightarrow> resource_type option" where
  "ResourceType_UnmarshalJSON j =
     (case unmarshal_string j of None \<Rightarrow> None | Some s \<Rightarrow> resourceTypeValues s)"

type_synonym encryption_algorithm = int

abbreviation EncryptionAlgorithmUndefined :: encryption_algorithm where
  "EncryptionAlgorithmUndefined \<equiv> 0"
abbreviation EncryptionAlgorithmAES256GCM :: encryption_algorithm where
  "EncryptionAlgorithmAES256GCM \<equiv> 1"

definition EncryptionAlgorithmNames :: "encryption_algorithm \<rightharpoonup> string" where
  "EncryptionAlgorithmNames = [EncryptionAlgorithmUndefined \<mapsto> ''undefined'',
     EncryptionAlgorithmAES256GCM \<mapsto> ''aes-256-gcm'']"

definition EncryptionAlgorithmValues :: "string \<rightharpoonup> encryption_algorithm" where
  "EncryptionAlgorithmValues = [''undefined'' \<mapsto> EncryptionAlgorithmUndefined,
     ''aes-256-gcm'' \<mapsto> EncryptionAlgorithmAES256GCM]"

definition EncryptionAlgorithm_MarshalJSON :: "encryption_algorithm \<Rightarrow> json option" where
  "EncryptionAlgorithm_MarshalJSON t =
     (case EncryptionAlgorithmNames t of None \<Rightarrow> None | Some s \<Rightarrow> Some (JStr s))"

definition EncryptionAlgorithm_UnmarshalJSON :: "json \<Rightarrow> encryption_algorithm option" where
  "EncryptionAlgorithm_UnmarshalJSON j =
     (case unmarshal_string j of None \<Rightarrow> None | Some s \<Rightarrow> EncryptionAlgorithmValues s)"

record encryption_key =
  ek_id :: uint
  ek_encrypted_dek :: string
  ek_kek_version :: uint
  ek_created_at :: time

record namespace =
  ns_id :: uint
  ns_name :: string
  ns_created_at :: time

text \<open>
  \<open>rv_encryption_key\<close>, \<open>r_ns\<close> and \<open>r_value\<close> are filled by \<open>Preload\<close>; in the tables they
  are empty.
\<close>

record resource_value =
  rv_uuid :: uuid
  rv_resource_id :: uint
  rv_version :: uint
  rv_data :: string
  rv_encryption_algorithm :: encryption_algorithm
  rv_encryption_key_id :: "uint option"
  rv_encryption_key :: "encryption_key option"
  rv_created_by :: string
  rv_created_at :: time
  rv_retired_at :: "time option"

record resource =
  r_id :: uint
  r_namespace_id :: uint
  r_ns :: "namespace option"
  r_name :: string
  r_type :: resource_type
  r_created_at :: time
  r_created_by :: string
  r_retired_at :: "time option"
  r_value :: "resource_value option"

subsection \<open>The audit log\<close>

record audit_log =
  al_id :: uint
  al_created_at :: time
  al_actor :: string
  al_action :: string
  al_resource :: string
  al_status :: string
  al_remote_addr :: string

abbreviation ActionResourceRead :: string where "ActionResourceRead \<equiv> ''resource.read''"
abbreviation ActionResourceWrite :: string where "ActionResourceWrite \<equiv> ''resource.write''"
abbreviation ActionResourceDelete :: string where "ActionResourceDelete \<equiv> ''resource.delete''"
abbreviation ActionResourceList :: string where "ActionResourceList \<equiv> ''resource.list''"
abbreviation ActionUserCreate :: string where "ActionUserCreate \<equiv> ''user.create''"
abbreviation ActionUserDelete :: string where "ActionUserDelete \<equiv> ''user.delete''"
abbreviation ActionPermGrant :: string where "ActionPermGrant \<equiv> ''permission.grant''"
abbreviation ActionPermRevoke :: string where "ActionPermRevoke \<equiv> ''permission.revoke''"
abbreviation ActionAuthLogin :: string where "ActionAuthLogin \<equiv> ''auth.login''"
abbreviation ActionAuthLogout :: string where "ActionAuthLogout \<equiv> ''auth.logout''"
abbreviation ActionAuthRefresh :: string where "ActionAuthRefresh \<equiv> ''auth.refresh''"
abbreviation ActionAuthAnon :: string where "ActionAuthAnon \<equiv> ''auth.anon''"
abbreviation ActionTokenPATIssue :: string where "ActionTokenPATIssue \<equiv> ''token.pat.issue''"
abbreviation ActionTokenPATRevoke :: string where "ActionTokenPATRevoke \<equiv> ''token.pat.revoke''"
abbreviation ActionTokenCapIssue :: string where
  "ActionTokenCapIssue \<equiv> ''token.capability.issue''"
abbreviation ActionTokenCapRevoke :: string where
  "ActionTokenCapRevoke \<equiv> ''token.capability.revoke''"
abbreviation AuditStatusOK :: string where "AuditStatusOK \<equiv> ''ok''"
abbreviation AuditStatusDenied :: string where "AuditStatusDenied \<equiv> ''denied''"
abbreviation AuditStatusError :: string where "AuditStatusError \<equiv> ''error''"

end
