(* ===== verification/World.thy ===== *)
theory World
  imports Orm
begin

text \<open>
  The state the server works on and the environment it runs in.

  \<^item> \<open>tables\<close> is the content of the database, one list per table of
    \<open>internal/migrate\<close> and one list of pairs per many-to-many link table; \<open>st\<close> adds the
    sequences that number new rows, the counters of database calls and of reads from the
    random source, and the two in-memory lists of \<open>internal/k8s\<close>.
  \<^item> \<open>env\<close> collects what the program calls but does not contain: the clock, the random
    source, failures of the database, digests and ciphers, bcrypt, UUIDs, the JSON and time
    readers, environment variables, the Kubernetes API, and the order in which Go visits a
    map. Each is an arbitrary function; properties that rely on one of them name what they
    rely on as a hypothesis.

  A database call may fail at any point (\<open>db_fault\<close> is asked once per call, by the number
  of the call); a failed call changes nothing. A transaction restores the tables when its
  body or its commit fails.
\<close>

record env =
  now :: time
  db_fault :: "nat \<Rightarrow> bool"
  rand_read :: "nat \<Rightarrow> nat \<Rightarrow> bytes option"
  gen_uuid :: "nat \<Rightarrow> uuid"
  uuid_Parse :: "string \<Rightarrow> bool"
  pg_uuid :: "string \<Rightarrow> uuid option"
  json_Decode :: "string \<Rightarrow> json option"
  json_Unmarshal :: "string \<Rightarrow> json option"
  parse_RFC3339 :: "string \<Rightarrow> time option"
  unmarshal_time :: "string \<Rightarrow> time option"
  sha256 :: "bytes \<Rightarrow> bytes"
  gcm_seal :: "bytes \<Rightarrow> bytes \<Rightarrow> bytes \<Rightarrow> bytes"
  gcm_open :: "bytes \<Rightarrow> bytes \<Rightarrow> bytes \<Rightarrow> bytes option"
  bcrypt_hash :: "nat \<Rightarrow> string \<Rightarrow> string option"
  bcrypt_compare :: "string \<Rightarrow> string \<Rightarrow> bool"
  getenv :: "string \<Rightarrow> string"
  k8s_client :: bool
  token_review :: "string \<Rightarrow> string \<Rightarrow> (bool \<times> string) option"
  map_range :: "(string \<times> verb list) list \<Rightarrow> (string \<times> verb list) list"

record tables =
  t_permissions :: "permission list"
  t_users :: "user list"
  t_sas :: "sa list"
  t_sessions :: "session list"
  t_pats :: "pat list"
  t_capability_tokens :: "capability_token list"
  t_anon_permissions :: "anon_permission list"
  t_namespaces :: "namespace list"
  t_encryption_keys :: "encryption_key list"
  t_resources :: "resource list"
  t_resource_values :: "resource_value list"
  t_audit_logs :: "audit_log list"
  t_user_permissions :: "(uint \<times> uint) list"
  t_sa_permissions :: "(uint \<times> uint) list"
  t_capability_token_permissions :: "(uint \<times> uint) list"

datatype tname =
    TPermissions | TUsers | TSAs | TSessions | TPATs | TCapabilityTokens | TAnonPermissions
  | TNamespaces | TEncryptionKeys | TResources | TAuditLogs

record st =
  tabs :: tables
  seqs :: "tname \<Rightarrow> nat"
  ncalls :: nat
  nrand :: nat
  admin_tokens :: "string list"
  allowed_origins :: "string list"

text \<open>A freshly migrated database.\<close>

definition empty_tables :: tables where
  "empty_tables =
     \<lparr>t_permissions = [], t_users = [], t_sas = [], t_sessions = [], t_pats = [],
      t_capability_tokens = [], t_anon_permissions = [], t_namespaces = [],
      t_encryption_keys = [], t_resources = [], t_resource_values = [], t_audit_logs = [],
      t_user_permissions = [], t_sa_permissions = [], t_capability_token_permissions = []\<rparr>"

definition init_st :: st where
  "init_st = \<lparr>tabs = empty_tables, seqs = (\<lambda>_. 0), ncalls = 0, nrand = 0,
              admin_tokens = [], allowed_origins = []\<rparr>"

type_synonym 'a prog = "(st, 'a) state"

datatype dberr = ErrRecordNotFound | ErrDB

subsection \<open>Database calls\<close>

definition tick :: "st \<Rightarrow> st" where
  "tick s = s\<lparr>ncalls := Suc (ncalls s)\<rparr>"

definition db_op :: "env \<Rightarrow> (st \<Rightarrow> (dberr + 'a) \<times> st) \<Rightarrow> (dberr + 'a) prog" where
  "db_op E f = State (\<lambda>s. if db_fault E (ncalls s) then (Inl ErrDB, tick s) else f (tick s))"

definition db_query :: "env \<Rightarrow> (tables \<Rightarrow> dberr + 'a) \<Rightarrow> (dberr + 'a) prog" where
  "db_query E q = db_op E (\<lambda>s. (q (tabs s), s))"

definition db_exec :: "env \<Rightarrow> (tables \<Rightarrow> dberr + tables) \<Rightarrow> (dberr + unit) prog" where
  "db_exec E f = db_op E (\<lambda>s. case f (tabs s) of
     Inl e \<Rightarrow> (Inl e, s) | Inr t \<Rightarrow> (Inr (), s\<lparr>tabs := t\<rparr>))"

text \<open>
  Inserting one row: the next number of the table's sequence becomes its key; when a
  constraint rejects the row the number is lost.
\<close>

definition db_insert ::
  "env \<Rightarrow> tname \<Rightarrow> (tables \<Rightarrow> bool) \<Rightarrow> (uint \<Rightarrow> tables \<Rightarrow> tables) \<Rightarrow> (dberr + uint) prog" where
  "db_insert E tn ok ins = db_op E (\<lambda>s.
     let i = Suc (seqs s tn); s1 = s\<lparr>seqs := (seqs s)(tn := i)\<rparr> in
     if ok (tabs s) then (Inr i, s1\<lparr>tabs := ins i (tabs s)\<rparr>) else (Inl ErrDB, s1))"

definition rollback :: "tables \<Rightarrow> unit prog" where
  "rollback t = State (\<lambda>s. ((), s\<lparr>tabs := t\<rparr>))"

definition transaction :: "env \<Rightarrow> (dberr + 'a) prog \<Rightarrow> (dberr + 'a) prog" where
  "transaction E body = do {
     b \<leftarrow> db_query E (\<lambda>t. Inr t);
     case b of
       Inl e \<Rightarrow> State_Monad.return (Inl e)
     | Inr t0 \<Rightarrow> do {
         r \<leftarrow> body;
         case r of
           Inl e \<Rightarrow> do { _ \<leftarrow> rollback t0; State_Monad.return (Inl e) }
         | Inr x \<Rightarrow> do {
             c \<leftarrow> db_query E (\<lambda>_. Inr ());
             case c of
               Inl e \<Rightarrow> do { _ \<leftarrow> rollback t0; State_Monad.return (Inl e) }
             | Inr _ \<Rightarrow> State_Monad.return (Inr x)
           }
       }
   }"

subsection \<open>Random bytes\<close>

text \<open>\<open>io.ReadFull(rand.Reader, make([]byte, n))\<close>\<close>

definition read_random :: "env \<Rightarrow> nat \<Rightarrow> bytes option prog" where
  "read_random E n = State (\<lambda>s. (rand_read E (nrand s) n, s\<lparr>nrand := Suc (nrand s)\<rparr>))"

text \<open>What the random source is relied on for: full reads, and that it does not fail.\<close>

definition full_reads :: "env \<Rightarrow> bool" where
  "full_reads E = (\<forall>i n b. rand_read E i n = Some b \<longrightarrow> length b = n)"

definition rand_available :: "env \<Rightarrow> bool" where
  "rand_available E = (\<forall>i n. rand_read E i n \<noteq> None)"

subsection \<open>Rules\<close>

lemma tick_simps [simp]:
  "tabs (tick s) = tabs s" "seqs (tick s) = seqs s" "nrand (tick s) = nrand s"
  "ncalls (tick s) = Suc (ncalls s)"
  "admin_tokens (tick s) = admin_tokens s" "allowed_origins (tick s) = allowed_origins s"
  by (simp_all add: tick_def)

lemma wp_db_query [wp_simps]:
  "wp (db_query E q) Q s =
     (if db_fault E (ncalls s) then Q (Inl ErrDB) (tick s) else Q (q (tabs s)) (tick s))"
  by (simp add: wp_def db_query_def db_op_def)

lemma wp_db_exec [wp_simps]:
  "wp (db_exec E f) Q s =
     (if db_fault E (ncalls s) then Q (Inl ErrDB) (tick s)
      else case f (tabs s) of
        Inl e \<Rightarrow> Q (Inl e) (tick s) | Inr t \<Rightarrow> Q (Inr ()) ((tick s)\<lparr>tabs := t\<rparr>))"
  by (simp add: wp_def db_exec_def db_op_def split: sum.splits)

lemma wp_db_insert [wp_simps]:
  "wp (db_insert E tn ok ins) Q s =
     (let i = Suc (seqs s tn); s1 = (tick s)\<lparr>seqs := (seqs s)(tn := i)\<rparr> in
      if db_fault E (ncalls s) then Q (Inl ErrDB) (tick s)
      else if ok (tabs s) then Q (Inr i) (s1\<lparr>tabs := ins i (tabs s)\<rparr>)
      else Q (Inl ErrDB) s1)"
  by (simp add: wp_def db_insert_def db_op_def Let_def)

lemma wp_rollback [wp_simps]: "wp (rollback t) Q s = Q () (s\<lparr>tabs := t\<rparr>)"
  by (simp add: wp_def rollback_def)

lemma wp_read_random [wp_simps]:
  "wp (read_random E n) Q s = Q (rand_read E (nrand s) n) (s\<lparr>nrand := Suc (nrand s)\<rparr>)"
  by (simp add: wp_def read_random_def)

lemma keeps_db_query [keeps_intros]: "keeps tabs (db_query E q)"
  by (simp add: keeps_def db_query_def db_op_def)

lemma keeps_read_random [keeps_intros]: "keeps tabs (read_random E n)"
  by (simp add: keeps_def read_random_def)

text \<open>Everything but the number of database calls made: what a read leaves alone.\<close>

definition core :: "st \<Rightarrow> st" where
  "core s = s\<lparr>ncalls := 0\<rparr>"

lemma core_eqD:
  assumes "core s' = core s"
  shows "tabs s' = tabs s" "seqs s' = seqs s" "nrand s' = nrand s"
    "admin_tokens s' = admin_tokens s" "allowed_origins s' = allowed_origins s"
  using assms by (auto simp: core_def dest: arg_cong [where f = tabs] arg_cong [where f = seqs]
      arg_cong [where f = nrand] arg_cong [where f = admin_tokens] arg_cong [where f = allowed_origins])

lemma core_tick [simp]: "core (tick s) = core s"
  by (simp add: core_def tick_def)

lemma tabs_core [simp]: "tabs (core s) = tabs s"
  by (simp add: core_def)

lemma keeps_core_db_query [keeps_intros]: "keeps core (db_query E q)"
  by (simp add: keeps_def db_query_def db_op_def)

lemma keeps_core_tabs: "keeps core m \<Longrightarrow> keeps (\<lambda>s. g (tabs s)) m"
  using keeps_comp [of core m "\<lambda>s. g (tabs s)"] by simp

lemma keeps_core_after:
  assumes "keeps core m"
  shows "tabs (poststate m s) = tabs s" "seqs (poststate m s) = seqs s" "nrand (poststate m s) = nrand s"
    "admin_tokens (poststate m s) = admin_tokens s" "allowed_origins (poststate m s) = allowed_origins s"
    "core (poststate m s) = core s"
  using core_eqD [OF keeps_after [OF assms, of s]] keeps_after [OF assms, of s] by simp_all

lemma keeps_db_exec_part:
  "(\<And>t t'. f t = Inr t' \<Longrightarrow> g t' = g t) \<Longrightarrow> keeps (\<lambda>s. g (tabs s)) (db_exec E f)"
  by (auto simp: keeps_def db_exec_def db_op_def split: sum.splits)

lemma keeps_db_insert_part:
  "(\<And>i t. g (ins i t) = g t) \<Longrightarrow> keeps (\<lambda>s. g (tabs s)) (db_insert E tn ok ins)"
  by (auto simp: keeps_def db_insert_def db_op_def Let_def)

lemma keeps_db_query_part: "keeps (\<lambda>s. g (tabs s)) (db_query E q)"
  by (rule keeps_comp [OF keeps_db_query])

lemma keeps_read_random_part: "keeps (\<lambda>s. g (tabs s)) (read_random E n)"
  by (rule keeps_comp [OF keeps_read_random])

lemmas keeps_parts [keeps_intros] = keeps_db_query_part keeps_read_random_part

text \<open>
  An invariant on the tables is preserved by a transaction whose body preserves it: a
  rollback returns to tables that satisfied it.
\<close>

lemma wp_transaction:
  "wp (transaction E body) Q s =
     (if db_fault E (ncalls s) then Q (Inl ErrDB) (tick s)
      else wp body (\<lambda>r s'. case r of
             Inl e \<Rightarrow> Q (Inl e) (s'\<lparr>tabs := tabs s\<rparr>)
           | Inr x \<Rightarrow> (if db_fault E (ncalls s') then Q (Inl ErrDB) ((tick s')\<lparr>tabs := tabs s\<rparr>)
                      else Q (Inr x) (tick s'))) (tick s))"
  unfolding transaction_def
  by (simp add: wp_simps)
    (auto intro!: arg_cong [where f = "\<lambda>Q. wp body Q (tick s)"] ext split: sum.splits simp: wp_simps)

lemma preserves_db_query [preserves_intros]: "preserves (\<lambda>s. P (tabs s)) (db_query E q)"
  by (rule keeps_preserves [OF keeps_db_query])

lemma preserves_read_random [preserves_intros]: "preserves (\<lambda>s. P (tabs s)) (read_random E n)"
  by (rule keeps_preserves [OF keeps_read_random])

lemma preserves_iff_wp: "preserves P m \<longleftrightarrow> (\<forall>s. P s \<longrightarrow> wp m (\<lambda>_ s'. P s') s)"
  by (simp add: preserves_def wp_def split_beta)

lemma preserves_transaction [preserves_intros]:
  fixes body :: "(dberr + 'a) prog"
  assumes "preserves (\<lambda>s. P (tabs s)) body"
  shows "preserves (\<lambda>s. P (tabs s)) (transaction E body)"
  unfolding preserves_iff_wp wp_transaction
proof (intro allI impI)
  fix s :: st assume "P (tabs s)"
  moreover from this assms have "wp body (\<lambda>_ s'. P (tabs s')) (tick s)"
    by (simp add: preserves_iff_wp)
  ultimately show "if db_fault E (ncalls s) then P (tabs (tick s))
      else wp body (\<lambda>r s'. case r of Inl e \<Rightarrow> P (tabs (s'\<lparr>tabs := tabs s\<rparr>))
             | Inr x \<Rightarrow> if db_fault E (ncalls s') then P (tabs ((tick s')\<lparr>tabs := tabs s\<rparr>))
                        else P (tabs (tick s'))) (tick s)"
    by (auto elim!: wp_mono split: sum.splits)
qed

lemma keeps_transaction [keeps_intros]:
  "keeps (\<lambda>s. g (tabs s)) body \<Longrightarrow> keeps (\<lambda>s. g (tabs s)) (transaction E body)"
  unfolding transaction_def
  by (auto simp: keeps_def db_query_def db_op_def rollback_def split: sum.splits prod.splits)
    (metis snd_conv tick_simps(1))+

text \<open>
  A relation on states that reads do not notice and that survives a rollback holds across
  reads, draws from the random source and transactions.
\<close>

locale db_step = step_order R for R :: "st \<Rightarrow> st \<Rightarrow> bool" +
  assumes step_core: "core s' = core s \<Longrightarrow> R s s'"
    and step_rollback: "R s s' \<Longrightarrow> R s (s'\<lparr>tabs := tabs s\<rparr>)"
    and step_rand: "R s (s\<lparr>nrand := n\<rparr>)"
    and step_tokens: "R s (s\<lparr>admin_tokens := xs\<rparr>)"
    and step_origins: "R s (s\<lparr>allowed_origins := xs\<rparr>)"
begin

lemma moves_core: "keeps core m \<Longrightarrow> moves R m"
  by (auto simp: moves_def wp_run dest: keeps_after intro: step_core)

lemma moves_db_query [moves_intros]: "moves R (db_query E q)"
  by (rule moves_core [OF keeps_core_db_query])

lemma moves_read_random [moves_intros]: "moves R (read_random E n)"
  by (simp add: moves_def wp_simps step_rand)

lemma tick_step: "R s (tick s)"
  by (simp add: step_core)

lemma moves_transaction [moves_intros]:
  assumes "moves R m" shows "moves R (transaction E m)"
proof (rule movesI)
  fix s :: st
  have "wp m (\<lambda>_. R (tick s)) (tick s)" using assms by (simp add: moves_def)
  then have "wp m (\<lambda>_. R s) (tick s)"
    by (rule wp_mono) (blast intro: step_trans tick_step)
  then show "wp (transaction E m) (\<lambda>_. R s) s"
    unfolding wp_transaction
    by (auto simp: tick_step elim!: wp_mono split: sum.splits
        intro: step_rollback step_trans [OF _ tick_step])
qed

end

end
