(* ===== verification/Store.thy ===== *)
theory Store
  imports World
begin

text \<open>
  The data access layer, \<open>internal/store\<close>: one definition per function, in the order of
  the files. A query keeps the SQL that the GORM call describes: \<open>First\<close> is the matching
  row with the least primary key (\<open>ErrRecordNotFound\<close> when there is none), \<open>Find\<close> all
  matching rows, \<open>Create\<close> a new row with the next key and \<open>created_at\<close> set, \<open>Delete\<close> and
  \<open>Update\<close> act on all matching rows and succeed when there are none. The foreign keys that
  \<open>AutoMigrate\<close> derives from the models are checked on insertion and followed on deletion.
\<close>

subsection \<open>anon.go\<close>

definition ListAnonPermissions :: "env \<Rightarrow> (dberr + anon_permission list) prog" where
  "ListAnonPermissions E = db_query E (\<lambda>t. Inr (filter
     (\<lambda>p. case ap_expires_at p of None \<Rightarrow> True | Some e \<Rightarrow> now E < e) (t_anon_permissions t)))"

definition CreateAnonPermission :: "env \<Rightarrow> anon_permission \<Rightarrow> (dberr + uint) prog" where
  "CreateAnonPermission E p = db_insert E TAnonPermissions (\<lambda>_. True)
     (\<lambda>i t. t\<lparr>t_anon_permissions := t_anon_permissions t @ [p\<lparr>ap_id := i, ap_created_at := now E\<rparr>]\<rparr>)"

definition DeleteAnonPermission :: "env \<Rightarrow> uint \<Rightarrow> (dberr + unit) prog" where
  "DeleteAnonPermission E i = db_exec E
     (\<lambda>t. Inr (t\<lparr>t_anon_permissions := filter (\<lambda>p. ap_id p \<noteq> i) (t_anon_permissions t)\<rparr>))"

subsection \<open>audit\_log.go\<close>

definition CreateAuditLog :: "env \<Rightarrow> audit_log \<Rightarrow> (dberr + uint) prog" where
  "CreateAuditLog E l = db_insert E TAuditLogs (\<lambda>_. True)
     (\<lambda>i t. t\<lparr>t_audit_logs := t_audit_logs t @ [l\<lparr>al_id := i, al_created_at := now E\<rparr>]\<rparr>)"

record audit_query =
  aq_actor :: string
  aq_action :: string
  aq_resource :: string
  aq_since :: "time option"
  aq_until :: "time option"
  aq_status :: string
  aq_limit :: int

definition QueryAuditLogs :: "env \<Rightarrow> audit_query \<Rightarrow> (dberr + audit_log list) prog" where
  "QueryAuditLogs E q =
     (let limit = (if aq_limit q = 0 then 100 else aq_limit q);
          sel = (\<lambda>l. (aq_actor q \<noteq> [] \<longrightarrow> al_actor l = aq_actor q)
             \<and> (aq_action q \<noteq> [] \<longrightarrow> al_action l = aq_action q)
             \<and> (aq_resource q \<noteq> [] \<longrightarrow> al_resource l = aq_resource q)
             \<and> (aq_status q \<noteq> [] \<longrightarrow> al_status l = aq_status q)
             \<and> (case aq_since q of None \<Rightarrow> True | Some t \<Rightarrow> t \<le> al_created_at l)
             \<and> (case aq_until q of None \<Rightarrow> True | Some t \<Rightarrow> al_created_at l \<le> t))
      in db_query E (\<lambda>t. Inr (take (nat limit)
           (sort_key (\<lambda>l. - al_created_at l) (filter sel (t_audit_logs t))))))"

subsection \<open>capability\_token.go\<close>

definition user_exists :: "uint \<Rightarrow> tables \<Rightarrow> bool" where
  "user_exists i t = list_ex (\<lambda>u. u_id u = i) (t_users t)"

definition linked :: "(uint \<times> uint) list \<Rightarrow> uint \<Rightarrow> tables \<Rightarrow> permission list" where
  "linked links i t = filter (\<lambda>p. (i, p_id p) \<in> set links) (t_permissions t)"

definition CreateCapabilityToken :: "env \<Rightarrow> capability_token \<Rightarrow> (dberr + uint) prog" where
  "CreateCapabilityToken E ct = db_insert E TCapabilityTokens
     (\<lambda>t. case ct_issued_by ct of None \<Rightarrow> True | Some u \<Rightarrow> user_exists u t)
     (\<lambda>i t. t\<lparr>t_capability_tokens := t_capability_tokens t @
               [ct\<lparr>ct_id := i, ct_created_at := now E\<rparr>]\<rparr>)"

definition GetCapabilityTokenByHash :: "env \<Rightarrow> string \<Rightarrow> (dberr + capability_token) prog" where
  "GetCapabilityTokenByHash E h = db_query E (\<lambda>t.
     case first_by ct_id (\<lambda>c. ct_token_hash c = h) (t_capability_tokens t) of
       None \<Rightarrow> Inl ErrRecordNotFound
     | Some c \<Rightarrow> Inr (c\<lparr>ct_permissions :=
         linked (t_capability_token_permissions t) (ct_id c) t\<rparr>))"

definition GetCapabilityTokenByID :: "env \<Rightarrow> uint \<Rightarrow> (dberr + capability_token) prog" where
  "GetCapabilityTokenByID E i = db_query E (\<lambda>t.
     case first_by ct_id (\<lambda>c. ct_id c = i) (t_capability_tokens t) of
       None \<Rightarrow> Inl ErrRecordNotFound | Some c \<Rightarrow> Inr c)"

definition DeleteCapabilityToken :: "env \<Rightarrow> uint \<Rightarrow> (dberr + unit) prog" where
  "DeleteCapabilityToken E i = db_exec E (\<lambda>t. Inr (t\<lparr>
     t_capability_tokens := filter (\<lambda>c. ct_id c \<noteq> i) (t_capability_tokens t),
     t_capability_token_permissions :=
       filter (\<lambda>(c, _). c \<noteq> i) (t_capability_token_permissions t)\<rparr>))"

subsection \<open>encryption\_key.go\<close>

definition CreateEncryptionKey :: "env \<Rightarrow> string \<Rightarrow> uint \<Rightarrow> (dberr + uint) prog" where
  "CreateEncryptionKey E encryptedDEK kekVersion = db_insert E TEncryptionKeys (\<lambda>_. True)
     (\<lambda>i t. t\<lparr>t_encryption_keys := t_encryption_keys t @
        [\<lparr>ek_id = i, ek_encrypted_dek = encryptedDEK, ek_kek_version = kekVersion,
          ek_created_at = now E\<rparr>]\<rparr>)"

definition GetEncryptionKey :: "env \<Rightarrow> uint \<Rightarrow> (dberr + encryption_key) prog" where
  "GetEncryptionKey E i = db_query E (\<lambda>t.
     case first_by ek_id (\<lambda>k. ek_id k = i) (t_encryption_keys t) of
       None \<Rightarrow> Inl ErrRecordNotFound | Some k \<Rightarrow> Inr k)"

definition ListEncryptionKeysByKEKVersion :: "env \<Rightarrow> uint \<Rightarrow> (dberr + encryption_key list) prog" where
  "ListEncryptionKeysByKEKVersion E v = db_query E (\<lambda>t.
     Inr (filter (\<lambda>k. ek_kek_version k = v) (t_encryption_keys t)))"

subsection \<open>namespace.go\<close>

definition GetNamespace :: "env \<Rightarrow> string \<Rightarrow> (dberr + namespace) prog" where
  "GetNamespace E name = db_query E (\<lambda>t.
     case first_by ns_id (\<lambda>n. ns_name n = name) (t_namespaces t) of
       None \<Rightarrow> Inl ErrRecordNotFound | Some n \<Rightarrow> Inr n)"

definition CreateNamespace :: "env \<Rightarrow> string \<Rightarrow> (dberr + uint) prog" where
  "CreateNamespace E name = db_insert E TNamespaces (\<lambda>_. True)
     (\<lambda>i t. t\<lparr>t_namespaces := t_namespaces t @
        [\<lparr>ns_id = i, ns_name = name, ns_created_at = now E\<rparr>]\<rparr>)"

definition ListNamespaces :: "env \<Rightarrow> (dberr + namespace list) prog" where
  "ListNamespaces E = db_query E (\<lambda>t. Inr (t_namespaces t))"

text \<open>Deleting a namespace that a resource refers to violates the foreign key.\<close>

definition DeleteNamespace :: "env \<Rightarrow> string \<Rightarrow> (dberr + unit) prog" where
  "DeleteNamespace E name = db_exec E (\<lambda>t.
     if list_ex (\<lambda>n. ns_name n = name \<and> list_ex (\<lambda>r. r_namespace_id r = ns_id n) (t_resources t))
          (t_namespaces t)
     then Inl ErrDB
     else Inr (t\<lparr>t_namespaces := filter (\<lambda>n. ns_name n \<noteq> name) (t_namespaces t)\<rparr>))"

subsection \<open>pat.go\<close>

definition CreatePAT :: "env \<Rightarrow> pat \<Rightarrow> (dberr + uint) prog" where
  "CreatePAT E p = db_insert E TPATs (user_exists (pat_user_id p))
     (\<lambda>i t. t\<lparr>t_pats := t_pats t @ [p\<lparr>pat_id := i, pat_created_at := now E\<rparr>]\<rparr>)"

definition GetPATByHash :: "env \<Rightarrow> string \<Rightarrow> (dberr + pat) prog" where
  "GetPATByHash E h = db_query E (\<lambda>t.
     case first_by pat_id (\<lambda>p. pat_hash p = h) (t_pats t) of
       None \<Rightarrow> Inl ErrRecordNotFound | Some p \<Rightarrow> Inr p)"

definition GetPATByID :: "env \<Rightarrow> uint \<Rightarrow> (dberr + pat) prog" where
  "GetPATByID E i = db_query E (\<lambda>t.
     case first_by pat_id (\<lambda>p. pat_id p = i) (t_pats t) of
       None \<Rightarrow> Inl ErrRecordNotFound | Some p \<Rightarrow> Inr p)"

definition DeletePAT :: "env \<Rightarrow> uint \<Rightarrow> (dberr + unit) prog" where
  "DeletePAT E i = db_exec E (\<lambda>t. Inr (t\<lparr>t_pats := filter (\<lambda>p. pat_id p \<noteq> i) (t_pats t)\<rparr>))"

subsection \<open>permission.go\<close>

definition CreatePermission :: "env \<Rightarrow> permission \<Rightarrow> (dberr + uint) prog" where
  "CreatePermission E p = db_insert E TPermissions (\<lambda>_. True)
     (\<lambda>i t. t\<lparr>t_permissions := t_permissions t @ [p\<lparr>p_id := i, p_created_at := now E\<rparr>]\<rparr>)"

definition GetPermission :: "env \<Rightarrow> uint \<Rightarrow> (dberr + permission) prog" where
  "GetPermission E i = db_query E (\<lambda>t.
     case first_by p_id (\<lambda>p. p_id p = i) (t_permissions t) of
       None \<Rightarrow> Inl ErrRecordNotFound | Some p \<Rightarrow> Inr p)"

definition DeletePermission :: "env \<Rightarrow> uint \<Rightarrow> (dberr + unit) prog" where
  "DeletePermission E i = db_exec E (\<lambda>t. Inr (t\<lparr>
     t_permissions := filter (\<lambda>p. p_id p \<noteq> i) (t_permissions t),
     t_user_permissions := filter (\<lambda>(_, p). p \<noteq> i) (t_user_permissions t),
     t_sa_permissions := filter (\<lambda>(_, p). p \<noteq> i) (t_sa_permissions t),
     t_capability_token_permissions :=
       filter (\<lambda>(_, p). p \<noteq> i) (t_capability_token_permissions t)\<rparr>))"

text \<open>
  \<open>Association("Permissions").Append(&Permission\{Id: i\})\<close> inserts the permission row unless
  its key is already present and then the link unless it is already present.
\<close>

definition ensure_permission :: "env \<Rightarrow> uint \<Rightarrow> tables \<Rightarrow> tables" where
  "ensure_permission E i t =
     (if list_ex (\<lambda>p. p_id p = i) (t_permissions t) then t
      else t\<lparr>t_permissions := t_permissions t @
             [\<lparr>p_id = i, p_resource_pattern = [], p_verb = 0, p_created_at = now E,
               p_expires_at = None\<rparr>]\<rparr>)"

definition insert_link :: "uint \<times> uint \<Rightarrow> (uint \<times> uint) list \<Rightarrow> (uint \<times> uint) list" where
  "insert_link l ls = (if l \<in> set ls then ls else ls @ [l])"

definition GetPermissionsForUser :: "env \<Rightarrow> uint \<Rightarrow> (dberr + permission list) prog" where
  "GetPermissionsForUser E i = db_query E (\<lambda>t. Inr (linked (t_user_permissions t) i t))"

definition AddPermissionToUser :: "env \<Rightarrow> uint \<Rightarrow> uint \<Rightarrow> (dberr + unit) prog" where
  "AddPermissionToUser E i p = db_exec E (\<lambda>t.
     if user_exists i t
     then Inr ((ensure_permission E p t)\<lparr>t_user_permissions := insert_link (i, p) (t_user_permissions t)\<rparr>)
     else Inl ErrDB)"

definition RevokePermissionFromUser :: "env \<Rightarrow> uint \<Rightarrow> uint \<Rightarrow> (dberr + unit) prog" where
  "RevokePermissionFromUser E i p = db_exec E (\<lambda>t.
     Inr (t\<lparr>t_user_permissions := filter (\<lambda>l. l \<noteq> (i, p)) (t_user_permissions t)\<rparr>))"

definition sa_exists :: "uint \<Rightarrow> tables \<Rightarrow> bool" where
  "sa_exists i t = list_ex (\<lambda>a. sa_id a = i) (t_sas t)"

definition GetPermissionsForSA :: "env \<Rightarrow> uint \<Rightarrow> (dberr + permission list) prog" where
  "GetPermissionsForSA E i = db_query E (\<lambda>t. Inr (linked (t_sa_permissions t) i t))"

definition AddPermissionToSA :: "env \<Rightarrow> uint \<Rightarrow> uint \<Rightarrow> (dberr + unit) prog" where
  "AddPermissionToSA E i p = db_exec E (\<lambda>t.
     if sa_exists i t
     then Inr ((ensure_permission E p t)\<lparr>t_sa_permissions := insert_link (i, p) (t_sa_permissions t)\<rparr>)
     else Inl ErrDB)"

definition RevokePermissionFromSA :: "env \<Rightarrow> uint \<Rightarrow> uint \<Rightarrow> (dberr + unit) prog" where
  "RevokePermissionFromSA E i p = db_exec E (\<lambda>t.
     Inr (t\<lparr>t_sa_permissions := filter (\<lambda>l. l \<noteq> (i, p)) (t_sa_permissions t)\<rparr>))"

definition splitPattern :: "string \<Rightarrow> string \<times> string" where
  "splitPattern pattern = (before_sep (CHR ''/'') pattern, after_sep (CHR ''/'') pattern)"

definition matchesDeletePattern :: "string \<Rightarrow> string \<Rightarrow> bool" where
  "matchesDeletePattern existing deletePattern =
     (if deletePattern = ''*/*'' then True
      else
        (let eParts = splitPattern existing;
             dParts = splitPattern deletePattern;
             nsMatch = (fst dParts = ''*'' \<or> fst dParts = fst eParts);
             resMatch = (snd dParts = ''*'' \<or> snd dParts = snd eParts)
         in nsMatch \<and> resMatch))"

definition RevokeMatchingPermissionsFromUser ::
  "env \<Rightarrow> uint \<Rightarrow> verb \<Rightarrow> string \<Rightarrow> (dberr + unit) prog" where
  "RevokeMatchingPermissionsFromUser E i v pattern = do {
     r \<leftarrow> GetPermissionsForUser E i;
     case r of
       Inl e \<Rightarrow> State_Monad.return (Inl e)
     | Inr perms \<Rightarrow> foreach perms (\<lambda>p.
         if p_verb p = v \<and> matchesDeletePattern (p_resource_pattern p) pattern
         then RevokePermissionFromUser E i (p_id p)
         else State_Monad.return (Inr ()))
   }"

definition RevokeMatchingPermissionsFromSA ::
  "env \<Rightarrow> uint \<Rightarrow> verb \<Rightarrow> string \<Rightarrow> (dberr + unit) prog" where
  "RevokeMatchingPermissionsFromSA E i v pattern = do {
     r \<leftarrow> GetPermissionsForSA E i;
     case r of
       Inl e \<Rightarrow> State_Monad.return (Inl e)
     | Inr perms \<Rightarrow> foreach perms (\<lambda>p.
         if p_verb p = v \<and> matchesDeletePattern (p_resource_pattern p) pattern
         then RevokePermissionFromSA E i (p_id p)
         else State_Monad.return (Inr ()))
   }"

definition token_exists :: "uint \<Rightarrow> tables \<Rightarrow> bool" where
  "token_exists i t = list_ex (\<lambda>c. ct_id c = i) (t_capability_tokens t)"

definition GetPermissionsForCapabilityToken :: "env \<Rightarrow> uint \<Rightarrow> (dberr + permission list) prog" where
  "GetPermissionsForCapabilityToken E i =
     db_query E (\<lambda>t. Inr (linked (t_capability_token_permissions t) i t))"

definition AddPermissionToCapabilityToken :: "env \<Rightarrow> uint \<Rightarrow> uint \<Rightarrow> (dberr + unit) prog" where
  "AddPermissionToCapabilityToken E i p = db_exec E (\<lambda>t.
     if token_exists i t
     then Inr ((ensure_permission E p t)\<lparr>t_capability_token_permissions :=
                 insert_link (i, p) (t_capability_token_permissions t)\<rparr>)
     else Inl ErrDB)"

subsection \<open>resource.go\<close>

definition in_namespace :: "tables \<Rightarrow> string \<Rightarrow> resource \<Rightarrow> bool" where
  "in_namespace t namespace r =
     list_ex (\<lambda>n. ns_id n = r_namespace_id r \<and> ns_name n = namespace) (t_namespaces t)"

definition load_key :: "tables \<Rightarrow> resource_value \<Rightarrow> resource_value" where
  "load_key t rv = rv\<lparr>rv_encryption_key :=
     (case rv_encryption_key_id rv of
        None \<Rightarrow> None
      | Some k \<Rightarrow> first_by ek_id (\<lambda>x. ek_id x = k) (t_encryption_keys t))\<rparr>"

definition load_ns :: "tables \<Rightarrow> resource \<Rightarrow> resource" where
  "load_ns t r = r\<lparr>r_ns := first_by ns_id (\<lambda>n. ns_id n = r_namespace_id r) (t_namespaces t)\<rparr>"

definition latest_value :: "tables \<Rightarrow> uint \<Rightarrow> resource_value option" where
  "latest_value t i =
     first_by (\<lambda>v. - int (rv_version v)) (\<lambda>v. rv_resource_id v = i) (t_resource_values t)"

definition GetResource :: "env \<Rightarrow> string \<Rightarrow> string \<Rightarrow> (dberr + resource) prog" where
  "GetResource E namespace name = db_query E (\<lambda>t.
     case first_by r_id (\<lambda>r. in_namespace t namespace r \<and> r_name r = name) (t_resources t) of
       None \<Rightarrow> Inl ErrRecordNotFound
     | Some r \<Rightarrow> Inr ((load_ns t r)\<lparr>r_value := map_option (load_key t) (latest_value t (r_id r))\<rparr>))"

definition ListResources :: "env \<Rightarrow> string \<Rightarrow> (dberr + resource list) prog" where
  "ListResources E namespace = db_query E (\<lambda>t. Inr (filter (in_namespace t namespace) (t_resources t)))"

definition GetResourceByID :: "env \<Rightarrow> uint \<Rightarrow> (dberr + resource) prog" where
  "GetResourceByID E i = db_query E (\<lambda>t.
     case first_by r_id (\<lambda>r. r_id r = i) (t_resources t) of
       None \<Rightarrow> Inl ErrRecordNotFound | Some r \<Rightarrow> Inr (load_ns t r))"

definition CreateResource :: "env \<Rightarrow> resource \<Rightarrow> (dberr + uint) prog" where
  "CreateResource E r = db_insert E TResources
     (\<lambda>t. list_ex (\<lambda>n. ns_id n = r_namespace_id r) (t_namespaces t))
     (\<lambda>i t. t\<lparr>t_resources := t_resources t @ [r\<lparr>r_id := i, r_created_at := now E\<rparr>]\<rparr>)"

definition UpdateResourceType :: "env \<Rightarrow> uint \<Rightarrow> resource_type \<Rightarrow> (dberr + unit) prog" where
  "UpdateResourceType E i ty = db_exec E (\<lambda>t. Inr (t\<lparr>t_resources :=
     map (\<lambda>r. if r_id r = i then r\<lparr>r_type := ty\<rparr> else r) (t_resources t)\<rparr>))"

definition DeleteResource :: "env \<Rightarrow> string \<Rightarrow> string \<Rightarrow> (dberr + unit) prog" where
  "DeleteResource E namespace name = transaction E (do {
     q \<leftarrow> db_query E (\<lambda>t.
       case first_by r_id (\<lambda>r. in_namespace t namespace r \<and> r_name r = name) (t_resources t) of
         None \<Rightarrow> Inl ErrRecordNotFound | Some r \<Rightarrow> Inr r);
     case q of
       Inl e \<Rightarrow> State_Monad.return (Inl e)
     | Inr r \<Rightarrow> db_exec E (\<lambda>t. Inr (t\<lparr>
         t_resource_values := filter (\<lambda>v. rv_resource_id v \<noteq> r_id r) (t_resource_values t),
         t_resources := filter (\<lambda>x. r_id x \<noteq> r_id r) (t_resources t)\<rparr>))
   })"

subsection \<open>resource\_value.go\<close>

text \<open>A text that the database does not read as a UUID is a database error.\<close>

definition GetResourceValueByUUID :: "env \<Rightarrow> string \<Rightarrow> (dberr + resource_value) prog" where
  "GetResourceValueByUUID E u = db_query E (\<lambda>t.
     case pg_uuid E u of
       None \<Rightarrow> Inl ErrDB
     | Some x \<Rightarrow>
        (case first_by rv_uuid (\<lambda>v. rv_uuid v = x) (t_resource_values t) of
           None \<Rightarrow> Inl ErrRecordNotFound | Some v \<Rightarrow> Inr (load_key t v)))"

definition GetLatestResourceValue :: "env \<Rightarrow> uint \<Rightarrow> (dberr + resource_value) prog" where
  "GetLatestResourceValue E i = db_query E (\<lambda>t.
     case latest_value t i of
       None \<Rightarrow> Inl ErrRecordNotFound | Some v \<Rightarrow> Inr (load_key t v))"

definition GetResourceVersion :: "env \<Rightarrow> uint \<Rightarrow> uint \<Rightarrow> (dberr + resource_value) prog" where
  "GetResourceVersion E i n = db_query E (\<lambda>t.
     case first_by rv_uuid (\<lambda>v. rv_resource_id v = i \<and> rv_version v = n) (t_resource_values t) of
       None \<Rightarrow> Inl ErrRecordNotFound | Some v \<Rightarrow> Inr (load_key t v))"

definition ListResourceVersions :: "env \<Rightarrow> uint \<Rightarrow> (dberr + resource_value list) prog" where
  "ListResourceVersions E i = db_query E (\<lambda>t. Inr (sort_key rv_version
     (filter (\<lambda>v. rv_resource_id v = i) (t_resource_values t))))"

definition CountResourceVersions :: "env \<Rightarrow> uint \<Rightarrow> (dberr + nat) prog" where
  "CountResourceVersions E i = db_query E (\<lambda>t. Inr (length
     (filter (\<lambda>v. rv_resource_id v = i) (t_resource_values t))))"

definition max_version :: "tables \<Rightarrow> uint \<Rightarrow> uint" where
  "max_version t i =
     fold max (map rv_version (filter (\<lambda>v. rv_resource_id v = i) (t_resource_values t))) 0"

definition value_ok :: "resource_value \<Rightarrow> tables \<Rightarrow> bool" where
  "value_ok rv t =
     (list_all (\<lambda>v. rv_uuid v \<noteq> rv_uuid rv) (t_resource_values t)
      \<and> list_ex (\<lambda>r. r_id r = rv_resource_id rv) (t_resources t)
      \<and> (case rv_encryption_key_id rv of
           None \<Rightarrow> True | Some k \<Rightarrow> list_ex (\<lambda>x. ek_id x = k) (t_encryption_keys t)))"

definition insert_value :: "env \<Rightarrow> resource_value \<Rightarrow> (dberr + unit) prog" where
  "insert_value E rv = db_op E (\<lambda>s.
     let row = rv\<lparr>rv_uuid := (if rv_uuid rv = 0 then gen_uuid E (ncalls s) else rv_uuid rv),
                  rv_created_at := now E\<rparr>
     in if value_ok row (tabs s)
        then (Inr (), s\<lparr>tabs := (tabs s)\<lparr>t_resource_values := t_resource_values (tabs s) @ [row]\<rparr>\<rparr>)
        else (Inl ErrDB, s))"

definition CreateResourceValue :: "env \<Rightarrow> resource_value \<Rightarrow> (dberr + unit) prog" where
  "CreateResourceValue E rv = transaction E (do {
     m \<leftarrow> db_query E (\<lambda>t. Inr (max_version t (rv_resource_id rv)));
     case m of
       Inl e \<Rightarrow> State_Monad.return (Inl e)
     | Inr mx \<Rightarrow> insert_value E (rv\<lparr>rv_version := mx + 1\<rparr>)
   })"

subsection \<open>sa.go\<close>

definition UpdateSASyncedAt :: "env \<Rightarrow> uint \<Rightarrow> (dberr + unit) prog" where
  "UpdateSASyncedAt E i = db_exec E (\<lambda>t. Inr (t\<lparr>t_sas :=
     map (\<lambda>a. if sa_id a = i then a\<lparr>sa_synced_at := now E\<rparr> else a) (t_sas t)\<rparr>))"

text \<open>
  \<open>Create(&permissions)\<close> inserts all rows with consecutive keys in one statement;
  \<open>Append(permissions)\<close> then links them.
\<close>

definition create_permissions :: "env \<Rightarrow> permission list \<Rightarrow> (dberr + permission list) prog" where
  "create_permissions E ps = db_op E (\<lambda>s.
     let n = seqs s TPermissions;
         rows = map (\<lambda>(k, p). p\<lparr>p_id := n + Suc k, p_created_at := now E\<rparr>) (enumerate 0 ps)
     in (Inr rows, s\<lparr>seqs := (seqs s)(TPermissions := n + length ps),
                     tabs := (tabs s)\<lparr>t_permissions := t_permissions (tabs s) @ rows\<rparr>\<rparr>))"

definition link_sa_permissions :: "env \<Rightarrow> uint \<Rightarrow> permission list \<Rightarrow> (dberr + unit) prog" where
  "link_sa_permissions E i ps = db_exec E (\<lambda>t.
     if sa_exists i t
     then Inr (t\<lparr>t_sa_permissions := fold (\<lambda>p. insert_link (i, p_id p)) ps (t_sa_permissions t)\<rparr>)
     else Inl ErrDB)"

definition ReplaceSAPermissions :: "env \<Rightarrow> uint \<Rightarrow> permission list \<Rightarrow> (dberr + unit) prog" where
  "ReplaceSAPermissions E i ps = transaction E (do {
     c \<leftarrow> db_exec E (\<lambda>t. Inr (t\<lparr>t_sa_permissions := filter (\<lambda>(a, _). a \<noteq> i) (t_sa_permissions t)\<rparr>));
     case c of
       Inl e \<Rightarrow> State_Monad.return (Inl e)
     | Inr _ \<Rightarrow>
        (if ps = [] then State_Monad.return (Inr ())
         else do {
           r \<leftarrow> create_permissions E ps;
           case r of
             Inl e \<Rightarrow> State_Monad.return (Inl e)
           | Inr rows \<Rightarrow> link_sa_permissions E i rows
         })
   })"

definition GetSA :: "env \<Rightarrow> string \<Rightarrow> string \<Rightarrow> (dberr + sa) prog" where
  "GetSA E namespace name = db_query E (\<lambda>t.
     case first_by sa_id (\<lambda>a. sa_namespace a = namespace \<and> sa_name a = name) (t_sas t) of
       None \<Rightarrow> Inl ErrRecordNotFound | Some a \<Rightarrow> Inr a)"

definition CreateSA :: "env \<Rightarrow> sa \<Rightarrow> (dberr + uint) prog" where
  "CreateSA E a = db_insert E TSAs (\<lambda>_. True)
     (\<lambda>i t. t\<lparr>t_sas := t_sas t @ [a\<lparr>sa_id := i\<rparr>]\<rparr>)"

definition ListSA :: "env \<Rightarrow> (dberr + sa list) prog" where
  "ListSA E = db_query E (\<lambda>t. Inr (t_sas t))"

definition GetOrCreateSA :: "env \<Rightarrow> string \<Rightarrow> string \<Rightarrow> (dberr + sa) prog" where
  "GetOrCreateSA E namespace name = do {
     r \<leftarrow> GetSA E namespace name;
     (if r = Inl ErrRecordNotFound then do {
        let a = \<lparr>sa_id = 0, sa_namespace = namespace, sa_name = name, sa_synced_at = now E\<rparr>;
        c \<leftarrow> CreateSA E a;
        case c of
          Inl e \<Rightarrow> State_Monad.return (Inl e)
        | Inr i \<Rightarrow> State_Monad.return (Inr (a\<lparr>sa_id := i\<rparr>))
      }
      else State_Monad.return r)
   }"

subsection \<open>session.go\<close>

definition CreateSession :: "env \<Rightarrow> session \<Rightarrow> (dberr + uint) prog" where
  "CreateSession E x = db_insert E TSessions (user_exists (s_user_id x))
     (\<lambda>i t. t\<lparr>t_sessions := t_sessions t @ [x\<lparr>s_id := i, s_created_at := now E\<rparr>]\<rparr>)"

definition GetSessionByTokenHash :: "env \<Rightarrow> string \<Rightarrow> (dberr + session) prog" where
  "GetSessionByTokenHash E h = db_query E (\<lambda>t.
     case first_by s_id (\<lambda>x. s_token_hash x = h) (t_sessions t) of
       None \<Rightarrow> Inl ErrRecordNotFound | Some x \<Rightarrow> Inr x)"

definition GetSessionByRefreshTokenHash :: "env \<Rightarrow> string \<Rightarrow> (dberr + session) prog" where
  "GetSessionByRefreshTokenHash E h = db_query E (\<lambda>t.
     case first_by s_id (\<lambda>x. s_refresh_token_hash x = h) (t_sessions t) of
       None \<Rightarrow> Inl ErrRecordNotFound | Some x \<Rightarrow> Inr x)"

definition UpdateSessionTokens :: "env \<Rightarrow> uint \<Rightarrow> string \<Rightarrow> string \<Rightarrow> (dberr + unit) prog" where
  "UpdateSessionTokens E i tokenHash refreshTokenHash = db_exec E (\<lambda>t. Inr (t\<lparr>t_sessions :=
     map (\<lambda>x. if s_id x = i
              then x\<lparr>s_token_hash := tokenHash, s_refresh_token_hash := refreshTokenHash\<rparr> else x)
       (t_sessions t)\<rparr>))"

definition InvalidateSession :: "env \<Rightarrow> uint \<Rightarrow> (dberr + unit) prog" where
  "InvalidateSession E i = db_exec E (\<lambda>t. Inr (t\<lparr>t_sessions :=
     map (\<lambda>x. if s_id x = i
              then x\<lparr>s_expires_at := now E - Second, s_refresh_token_hash := []\<rparr> else x)
       (t_sessions t)\<rparr>))"

definition DeleteSession :: "env \<Rightarrow> uint \<Rightarrow> (dberr + unit) prog" where
  "DeleteSession E i = db_exec E
     (\<lambda>t. Inr (t\<lparr>t_sessions := filter (\<lambda>x. s_id x \<noteq> i) (t_sessions t)\<rparr>))"

subsection \<open>user.go\<close>

definition GetUser :: "env \<Rightarrow> string \<Rightarrow> (dberr + user) prog" where
  "GetUser E name = db_query E (\<lambda>t.
     case first_by u_id (\<lambda>u. u_name u = name) (t_users t) of
       None \<Rightarrow> Inl ErrRecordNotFound | Some u \<Rightarrow> Inr u)"

definition GetUserById :: "env \<Rightarrow> uint \<Rightarrow> (dberr + user) prog" where
  "GetUserById E i = db_query E (\<lambda>t.
     case first_by u_id (\<lambda>u. u_id u = i) (t_users t) of
       None \<Rightarrow> Inl ErrRecordNotFound | Some u \<Rightarrow> Inr u)"

definition CreateUser :: "env \<Rightarrow> user \<Rightarrow> (dberr + uint) prog" where
  "CreateUser E u = db_insert E TUsers (\<lambda>_. True)
     (\<lambda>i t. t\<lparr>t_users := t_users t @ [u\<lparr>u_id := i, u_created_at := now E\<rparr>]\<rparr>)"

definition ListUsers :: "env \<Rightarrow> (dberr + user list) prog" where
  "ListUsers E = db_query E (\<lambda>t. Inr (t_users t))"

text \<open>
  \<open>Select(clause.Associations).Delete(&u)\<close> removes the user's permission links, sessions,
  personal access tokens and capability tokens (whose own links follow by the cascade) and
  then the user.
\<close>

definition delete_user_rows :: "uint \<Rightarrow> tables \<Rightarrow> tables" where
  "delete_user_rows i t =
     (let gone = map ct_id (filter (\<lambda>c. ct_issued_by c = Some i) (t_capability_tokens t)) in
      t\<lparr>t_user_permissions := filter (\<lambda>(u, _). u \<noteq> i) (t_user_permissions t),
        t_sessions := filter (\<lambda>x. s_user_id x \<noteq> i) (t_sessions t),
        t_pats := filter (\<lambda>p. pat_user_id p \<noteq> i) (t_pats t),
        t_capability_tokens := filter (\<lambda>c. ct_issued_by c \<noteq> Some i) (t_capability_tokens t),
        t_capability_token_permissions :=
          filter (\<lambda>(c, _). c \<notin> set gone) (t_capability_token_permissions t),
        t_users := filter (\<lambda>u. u_id u \<noteq> i) (t_users t)\<rparr>)"

definition DeleteUser :: "env \<Rightarrow> string \<Rightarrow> (dberr + unit) prog" where
  "DeleteUser E name = transaction E (do {
     q \<leftarrow> db_query E (\<lambda>t.
       case first_by u_id (\<lambda>u. u_name u = name) (t_users t) of
         None \<Rightarrow> Inl ErrRecordNotFound | Some u \<Rightarrow> Inr u);
     case q of
       Inl e \<Rightarrow> State_Monad.return (Inl e)
     | Inr u \<Rightarrow> db_exec E (\<lambda>t. Inr (delete_user_rows (u_id u) t))
   })"

end
