(* ===== verification/Store_Laws.thy ===== *)
theory Store_Laws
  imports Store
begin

text \<open>
  The contracts that the rest of the server relies on when it calls \<open>internal/store\<close>,
  stated as locales and discharged for the functions of \<open>Store\<close>:

  \<^item> \<open>finder\<close>: a function that looks one row up, reports a missing row as
    \<open>ErrRecordNotFound\<close> and changes nothing; \<open>table_finder\<close> adds that the row is the
    least-keyed row of a table with a given property.
  \<^item> \<open>inserter\<close>: a function that appends one row under a fresh key.
  \<^item> \<open>permission_links\<close>: the permissions attached to a kind of principal (user, service
    account, capability token) through a link table.
\<close>

subsection \<open>Looking rows up\<close>

locale finder =
  fixes find_row :: "env \<Rightarrow> 'q \<Rightarrow> (dberr + 'r) prog"
    and select :: "env \<Rightarrow> 'q \<Rightarrow> tables \<Rightarrow> 'r option"
  assumes find_row_eq: "find_row E q = db_query E (\<lambda>t.
      case select E q t of None \<Rightarrow> Inl ErrRecordNotFound | Some r \<Rightarrow> Inr r)"
begin

lemma wp_find:
  "wp (find_row E q) Q s =
     (if db_fault E (ncalls s) then Q (Inl ErrDB) (tick s)
      else case select E q (tabs s) of
        None \<Rightarrow> Q (Inl ErrRecordNotFound) (tick s) | Some r \<Rightarrow> Q (Inr r) (tick s))"
  by (simp add: find_row_eq wp_simps split: option.splits)

lemma keeps_find: "keeps tabs (find_row E q)"
  by (simp add: find_row_eq keeps_db_query)

lemma keeps_core_find: "keeps core (find_row E q)"
  by (simp add: find_row_eq keeps_core_db_query)

lemma keeps_find_part: "keeps (\<lambda>s. g (tabs s)) (find_row E q)"
  by (rule keeps_comp [OF keeps_find])

lemma found: "run_state (find_row E q) s = (Inr r, s') \<Longrightarrow> select E q (tabs s) = Some r \<and> tabs s' = tabs s"
  by (auto simp: find_row_eq db_query_def db_op_def split: if_splits option.splits)

lemma missing:
  "run_state (find_row E q) s = (Inl ErrRecordNotFound, s') \<Longrightarrow> select E q (tabs s) = None"
  by (auto simp: find_row_eq db_query_def db_op_def split: if_splits option.splits)

end

locale table_finder = finder find_row select
  for find_row :: "env \<Rightarrow> 'q \<Rightarrow> (dberr + 'r) prog"
    and select :: "env \<Rightarrow> 'q \<Rightarrow> tables \<Rightarrow> 'r option" +
  fixes rows :: "tables \<Rightarrow> 'r list"
    and key :: "'r \<Rightarrow> uint"
    and sel :: "'q \<Rightarrow> 'r \<Rightarrow> bool"
  assumes select_eq: "select E q t = first_by key (sel q) (rows t)"
begin

lemma found_in:
  "run_state (find_row E q) s = (Inr r, s') \<Longrightarrow> r \<in> set (rows (tabs s)) \<and> sel q r"
  using found select_eq first_by_Some_in by fastforce

lemma missing_all:
  "run_state (find_row E q) s = (Inl ErrRecordNotFound, s') \<Longrightarrow> r \<in> set (rows (tabs s)) \<Longrightarrow> \<not> sel q r"
  using missing select_eq first_by_None_iff by metis

lemma finds_unique:
  assumes "\<not> db_fault E (ncalls s)" and "r \<in> set (rows (tabs s))" and "sel q r"
    and "\<And>x. x \<in> set (rows (tabs s)) \<Longrightarrow> sel q x \<Longrightarrow> x = r"
  shows "run_state (find_row E q) s = (Inr r, tick s)"
proof -
  have "select E q (tabs s) = Some r"
    unfolding select_eq using assms(2-4) by (rule first_by_unique)
  with assms(1) show ?thesis by (simp add: find_row_eq db_query_def db_op_def)
qed

end

interpretation user_by_name: table_finder GetUser
  "\<lambda>E n t. first_by u_id (\<lambda>u. u_name u = n) (t_users t)" t_users u_id "\<lambda>n u. u_name u = n"
  by unfold_locales (simp_all add: GetUser_def)

interpretation user_by_id: table_finder GetUserById
  "\<lambda>E i t. first_by u_id (\<lambda>u. u_id u = i) (t_users t)" t_users u_id "\<lambda>i u. u_id u = i"
  by unfold_locales (simp_all add: GetUserById_def)

interpretation sa_by_name: table_finder "\<lambda>E (ns, n). GetSA E ns n"
  "\<lambda>E (ns, n) t. first_by sa_id (\<lambda>a. sa_namespace a = ns \<and> sa_name a = n) (t_sas t)"
  t_sas sa_id "\<lambda>(ns, n) a. sa_namespace a = ns \<and> sa_name a = n"
  by unfold_locales (auto simp: GetSA_def)

interpretation session_by_hash: table_finder GetSessionByTokenHash
  "\<lambda>E h t. first_by s_id (\<lambda>x. s_token_hash x = h) (t_sessions t)"
  t_sessions s_id "\<lambda>h x. s_token_hash x = h"
  by unfold_locales (simp_all add: GetSessionByTokenHash_def)

interpretation session_by_refresh: table_finder GetSessionByRefreshTokenHash
  "\<lambda>E h t. first_by s_id (\<lambda>x. s_refresh_token_hash x = h) (t_sessions t)"
  t_sessions s_id "\<lambda>h x. s_refresh_token_hash x = h"
  by unfold_locales (simp_all add: GetSessionByRefreshTokenHash_def)

interpretation pat_by_hash: table_finder GetPATByHash
  "\<lambda>E h t. first_by pat_id (\<lambda>p. pat_hash p = h) (t_pats t)" t_pats pat_id "\<lambda>h p. pat_hash p = h"
  by unfold_locales (simp_all add: GetPATByHash_def)

interpretation pat_by_id: table_finder GetPATByID
  "\<lambda>E i t. first_by pat_id (\<lambda>p. pat_id p = i) (t_pats t)" t_pats pat_id "\<lambda>i p. pat_id p = i"
  by unfold_locales (simp_all add: GetPATByID_def)

interpretation token_by_id: table_finder GetCapabilityTokenByID
  "\<lambda>E i t. first_by ct_id (\<lambda>c. ct_id c = i) (t_capability_tokens t)"
  t_capability_tokens ct_id "\<lambda>i c. ct_id c = i"
  by unfold_locales (simp_all add: GetCapabilityTokenByID_def)

definition select_token :: "string \<Rightarrow> tables \<Rightarrow> capability_token option" where
  "select_token h t =
     map_option (\<lambda>c. c\<lparr>ct_permissions := linked (t_capability_token_permissions t) (ct_id c) t\<rparr>)
       (first_by ct_id (\<lambda>c. ct_token_hash c = h) (t_capability_tokens t))"

interpretation token_by_hash: finder GetCapabilityTokenByHash "\<lambda>_. select_token"
  by unfold_locales
    (auto simp: GetCapabilityTokenByHash_def select_token_def intro!: arg_cong [where f = "db_query _"]
      split: option.splits)

interpretation namespace_by_name: table_finder GetNamespace
  "\<lambda>E n t. first_by ns_id (\<lambda>x. ns_name x = n) (t_namespaces t)"
  t_namespaces ns_id "\<lambda>n x. ns_name x = n"
  by unfold_locales (simp_all add: GetNamespace_def)

lemma load_key_simps [simp]:
  "rv_uuid (load_key t v) = rv_uuid v" "rv_resource_id (load_key t v) = rv_resource_id v"
  "rv_version (load_key t v) = rv_version v" "rv_data (load_key t v) = rv_data v"
  "rv_encryption_algorithm (load_key t v) = rv_encryption_algorithm v"
  by (simp_all add: load_key_def)

lemma load_ns_simps [simp]:
  "r_id (load_ns t r) = r_id r" "r_name (load_ns t r) = r_name r" "r_type (load_ns t r) = r_type r"
  by (simp_all add: load_ns_def)

definition select_resource :: "string \<Rightarrow> string \<Rightarrow> tables \<Rightarrow> resource option" where
  "select_resource ns n t =
     first_by r_id (\<lambda>r. in_namespace t ns r \<and> r_name r = n) (t_resources t)"

definition loaded_resource :: "string \<Rightarrow> string \<Rightarrow> tables \<Rightarrow> resource option" where
  "loaded_resource ns n t =
     map_option (\<lambda>r. (load_ns t r)\<lparr>r_value := map_option (load_key t) (latest_value t (r_id r))\<rparr>)
       (select_resource ns n t)"

interpretation resource_by_name: finder "\<lambda>E (ns, n). GetResource E ns n" "\<lambda>E (ns, n). loaded_resource ns n"
  by unfold_locales
    (auto simp: GetResource_def loaded_resource_def select_resource_def
      intro!: arg_cong [where f = "db_query _"] split: option.splits)

interpretation resource_by_id: finder GetResourceByID
  "\<lambda>E i t. map_option (load_ns t) (first_by r_id (\<lambda>r. r_id r = i) (t_resources t))"
  by unfold_locales
    (auto simp: GetResourceByID_def intro!: arg_cong [where f = "db_query _"] split: option.splits)

interpretation version_by_number: finder "\<lambda>E (i, n). GetResourceVersion E i n"
  "\<lambda>E (i, n) t. map_option (load_key t)
     (first_by rv_uuid (\<lambda>v. rv_resource_id v = i \<and> rv_version v = n) (t_resource_values t))"
  by unfold_locales
    (auto simp: GetResourceVersion_def intro!: arg_cong [where f = "db_query _"] split: option.splits)

lemmas find_wps [wp_simps] =
  user_by_name.wp_find user_by_id.wp_find session_by_hash.wp_find session_by_refresh.wp_find
  pat_by_hash.wp_find pat_by_id.wp_find token_by_id.wp_find token_by_hash.wp_find
  namespace_by_name.wp_find resource_by_id.wp_find
  sa_by_name.wp_find [of _ "(ns, n)" for ns n, unfolded prod.case]
  resource_by_name.wp_find [of _ "(ns, n)" for ns n, unfolded prod.case]
  version_by_number.wp_find [of _ "(i, n)" for i n, unfolded prod.case]

lemmas find_keeps [keeps_intros] =
  user_by_name.keeps_find_part user_by_id.keeps_find_part session_by_hash.keeps_find_part
  session_by_refresh.keeps_find_part pat_by_hash.keeps_find_part pat_by_id.keeps_find_part
  token_by_id.keeps_find_part token_by_hash.keeps_find_part namespace_by_name.keeps_find_part
  resource_by_id.keeps_find_part
  sa_by_name.keeps_find_part [of _ _ "(ns, n)" for ns n, unfolded prod.case]
  resource_by_name.keeps_find_part [of _ _ "(ns, n)" for ns n, unfolded prod.case]
  version_by_number.keeps_find_part [of _ _ "(i, n)" for i n, unfolded prod.case]

lemmas find_keeps_core [keeps_intros] =
  user_by_name.keeps_core_find user_by_id.keeps_core_find session_by_hash.keeps_core_find
  session_by_refresh.keeps_core_find pat_by_hash.keeps_core_find pat_by_id.keeps_core_find
  token_by_id.keeps_core_find token_by_hash.keeps_core_find namespace_by_name.keeps_core_find
  resource_by_id.keeps_core_find
  sa_by_name.keeps_core_find [of _ "(ns, n)" for ns n, unfolded prod.case]
  resource_by_name.keeps_core_find [of _ "(ns, n)" for ns n, unfolded prod.case]
  version_by_number.keeps_core_find [of _ "(i, n)" for i n, unfolded prod.case]

text \<open>The remaining queries only read.\<close>

lemma list_keeps [keeps_intros]:
  "keeps (\<lambda>s. g (tabs s)) (ListAnonPermissions E)"
  "keeps (\<lambda>s. g (tabs s)) (QueryAuditLogs E q)"
  "keeps (\<lambda>s. g (tabs s)) (GetEncryptionKey E i)"
  "keeps (\<lambda>s. g (tabs s)) (ListEncryptionKeysByKEKVersion E i)"
  "keeps (\<lambda>s. g (tabs s)) (ListNamespaces E)"
  "keeps (\<lambda>s. g (tabs s)) (GetPermission E i)"
  "keeps (\<lambda>s. g (tabs s)) (GetPermissionsForUser E i)"
  "keeps (\<lambda>s. g (tabs s)) (GetPermissionsForSA E i)"
  "keeps (\<lambda>s. g (tabs s)) (GetPermissionsForCapabilityToken E i)"
  "keeps (\<lambda>s. g (tabs s)) (ListResources E n)"
  "keeps (\<lambda>s. g (tabs s)) (GetResourceValueByUUID E u)"
  "keeps (\<lambda>s. g (tabs s)) (GetLatestResourceValue E i)"
  "keeps (\<lambda>s. g (tabs s)) (ListResourceVersions E i)"
  "keeps (\<lambda>s. g (tabs s)) (CountResourceVersions E i)"
  "keeps (\<lambda>s. g (tabs s)) (ListSA E)"
  "keeps (\<lambda>s. g (tabs s)) (ListUsers E)"
  unfolding ListAnonPermissions_def QueryAuditLogs_def GetEncryptionKey_def
    ListEncryptionKeysByKEKVersion_def ListNamespaces_def GetPermission_def
    GetPermissionsForUser_def GetPermissionsForSA_def GetPermissionsForCapabilityToken_def
    ListResources_def GetResourceValueByUUID_def GetLatestResourceValue_def
    ListResourceVersions_def CountResourceVersions_def ListSA_def ListUsers_def Let_def
  by (rule keeps_db_query_part)+

lemma list_keeps_core [keeps_intros]:
  "keeps core (ListAnonPermissions E)"
  "keeps core (QueryAuditLogs E q)"
  "keeps core (GetEncryptionKey E i)"
  "keeps core (ListEncryptionKeysByKEKVersion E i)"
  "keeps core (ListNamespaces E)"
  "keeps core (GetPermission E i)"
  "keeps core (GetPermissionsForUser E i)"
  "keeps core (GetPermissionsForSA E i)"
  "keeps core (GetPermissionsForCapabilityToken E i)"
  "keeps core (ListResources E n)"
  "keeps core (GetResourceValueByUUID E u)"
  "keeps core (GetLatestResourceValue E i)"
  "keeps core (ListResourceVersions E i)"
  "keeps core (CountResourceVersions E i)"
  "keeps core (ListSA E)"
  "keeps core (ListUsers E)"
  unfolding ListAnonPermissions_def QueryAuditLogs_def GetEncryptionKey_def
    ListEncryptionKeysByKEKVersion_def ListNamespaces_def GetPermission_def
    GetPermissionsForUser_def GetPermissionsForSA_def GetPermissionsForCapabilityToken_def
    ListResources_def GetResourceValueByUUID_def GetLatestResourceValue_def
    ListResourceVersions_def CountResourceVersions_def ListSA_def ListUsers_def Let_def
  by (rule keeps_core_db_query)+

lemmas query_defs =
  ListAnonPermissions_def GetPermissionsForUser_def GetPermissionsForSA_def
  GetPermissionsForCapabilityToken_def ListNamespaces_def ListResources_def
  ListResourceVersions_def ListSA_def ListUsers_def GetResourceValueByUUID_def

subsection \<open>Inserting rows\<close>

locale inserter =
  fixes insert_row :: "env \<Rightarrow> 'r \<Rightarrow> (dberr + uint) prog"
    and tn :: tname
    and rows :: "tables \<Rightarrow> 'r list"
    and upd :: "('r list \<Rightarrow> 'r list) \<Rightarrow> tables \<Rightarrow> tables"
    and stamp :: "env \<Rightarrow> uint \<Rightarrow> 'r \<Rightarrow> 'r"
    and ok :: "'r \<Rightarrow> tables \<Rightarrow> bool"
  assumes insert_row_eq:
      "insert_row E r = db_insert E tn (ok r) (\<lambda>i t. upd (\<lambda>_. rows t @ [stamp E i r]) t)"
    and rows_upd: "rows (upd f t) = f (rows t)"
begin

lemma wp_insert:
  "wp (insert_row E r) Q s =
     (let i = Suc (seqs s tn); s1 = (tick s)\<lparr>seqs := (seqs s)(tn := i)\<rparr> in
      if db_fault E (ncalls s) then Q (Inl ErrDB) (tick s)
      else if ok r (tabs s)
        then Q (Inr i) (s1\<lparr>tabs := upd (\<lambda>_. rows (tabs s) @ [stamp E i r]) (tabs s)\<rparr>)
      else Q (Inl ErrDB) s1)"
  by (simp add: insert_row_eq wp_db_insert)

lemma inserted:
  assumes "run_state (insert_row E r) s = (Inr i, s')"
  shows "tabs s' = upd (\<lambda>_. rows (tabs s) @ [stamp E i r]) (tabs s) \<and> ok r (tabs s)
     \<and> rows (tabs s') = rows (tabs s) @ [stamp E i r] \<and> i = Suc (seqs s tn)"
  using assms
  by (auto simp: insert_row_eq db_insert_def db_op_def Let_def rows_upd split: if_splits)

lemma rejected: "run_state (insert_row E r) s = (Inl e, s') \<Longrightarrow> tabs s' = tabs s"
  by (auto simp: insert_row_eq db_insert_def db_op_def Let_def split: if_splits)

lemma keeps_insert_part:
  "(\<And>f t. g (upd f t) = g t) \<Longrightarrow> keeps (\<lambda>s. g (tabs s)) (insert_row E r)"
  unfolding insert_row_eq by (rule keeps_db_insert_part) simp

end

interpretation ins_permission: inserter CreatePermission TPermissions t_permissions
  t_permissions_update "\<lambda>E i p. p\<lparr>p_id := i, p_created_at := now E\<rparr>" "\<lambda>_ _. True"
  by unfold_locales (simp_all add: CreatePermission_def)

interpretation ins_anon: inserter CreateAnonPermission TAnonPermissions t_anon_permissions
  t_anon_permissions_update "\<lambda>E i p. p\<lparr>ap_id := i, ap_created_at := now E\<rparr>" "\<lambda>_ _. True"
  by unfold_locales (simp_all add: CreateAnonPermission_def)

interpretation ins_audit: inserter CreateAuditLog TAuditLogs t_audit_logs
  t_audit_logs_update "\<lambda>E i l. l\<lparr>al_id := i, al_created_at := now E\<rparr>" "\<lambda>_ _. True"
  by unfold_locales (simp_all add: CreateAuditLog_def)

interpretation ins_token: inserter CreateCapabilityToken TCapabilityTokens t_capability_tokens
  t_capability_tokens_update "\<lambda>E i c. c\<lparr>ct_id := i, ct_created_at := now E\<rparr>"
  "\<lambda>c t. case ct_issued_by c of None \<Rightarrow> True | Some u \<Rightarrow> user_exists u t"
  by unfold_locales (simp_all add: CreateCapabilityToken_def)

interpretation ins_pat: inserter CreatePAT TPATs t_pats
  t_pats_update "\<lambda>E i p. p\<lparr>pat_id := i, pat_created_at := now E\<rparr>" "\<lambda>p. user_exists (pat_user_id p)"
  by unfold_locales (simp_all add: CreatePAT_def)

interpretation ins_session: inserter CreateSession TSessions t_sessions
  t_sessions_update "\<lambda>E i x. x\<lparr>s_id := i, s_created_at := now E\<rparr>" "\<lambda>x. user_exists (s_user_id x)"
  by unfold_locales (simp_all add: CreateSession_def)

interpretation ins_user: inserter CreateUser TUsers t_users
  t_users_update "\<lambda>E i u. u\<lparr>u_id := i, u_created_at := now E\<rparr>" "\<lambda>_ _. True"
  by unfold_locales (simp_all add: CreateUser_def)

interpretation ins_sa: inserter CreateSA TSAs t_sas
  t_sas_update "\<lambda>E i a. a\<lparr>sa_id := i\<rparr>" "\<lambda>_ _. True"
  by unfold_locales (simp_all add: CreateSA_def)

interpretation ins_resource: inserter CreateResource TResources t_resources
  t_resources_update "\<lambda>E i r. r\<lparr>r_id := i, r_created_at := now E\<rparr>"
  "\<lambda>r t. list_ex (\<lambda>n. ns_id n = r_namespace_id r) (t_namespaces t)"
  by unfold_locales (simp_all add: CreateResource_def)

interpretation ins_namespace: inserter "\<lambda>E n. CreateNamespace E (ns_name n)" TNamespaces t_namespaces
  t_namespaces_update "\<lambda>E i n. \<lparr>ns_id = i, ns_name = ns_name n, ns_created_at = now E\<rparr>" "\<lambda>_ _. True"
  by unfold_locales (simp_all add: CreateNamespace_def)

interpretation ins_key: inserter "\<lambda>E k. CreateEncryptionKey E (ek_encrypted_dek k) (ek_kek_version k)"
  TEncryptionKeys t_encryption_keys t_encryption_keys_update
  "\<lambda>E i k. \<lparr>ek_id = i, ek_encrypted_dek = ek_encrypted_dek k, ek_kek_version = ek_kek_version k,
            ek_created_at = now E\<rparr>" "\<lambda>_ _. True"
  by unfold_locales (simp_all add: CreateEncryptionKey_def)

lemmas insert_wps =
  ins_permission.wp_insert ins_anon.wp_insert ins_audit.wp_insert ins_token.wp_insert
  ins_pat.wp_insert ins_session.wp_insert ins_user.wp_insert ins_sa.wp_insert ins_resource.wp_insert

lemmas insert_keeps =
  ins_permission.keeps_insert_part ins_anon.keeps_insert_part ins_audit.keeps_insert_part
  ins_token.keeps_insert_part ins_pat.keeps_insert_part ins_session.keeps_insert_part
  ins_user.keeps_insert_part ins_sa.keeps_insert_part ins_resource.keeps_insert_part

text \<open>A version of a resource, in its own transaction.\<close>

definition version_row :: "env \<Rightarrow> nat \<Rightarrow> resource_value \<Rightarrow> resource_value" where
  "version_row E k rv = rv\<lparr>rv_uuid := (if rv_uuid rv = 0 then gen_uuid E k else rv_uuid rv),
                          rv_created_at := now E\<rparr>"

lemma wp_insert_value [wp_simps]:
  "wp (insert_value E rv) Q s =
     (if db_fault E (ncalls s) then Q (Inl ErrDB) (tick s)
      else
        (let row = version_row E (Suc (ncalls s)) rv in
         if value_ok row (tabs s)
         then Q (Inr ()) ((tick s)\<lparr>tabs := (tabs s)\<lparr>t_resource_values := t_resource_values (tabs s) @ [row]\<rparr>\<rparr>)
         else Q (Inl ErrDB) (tick s)))"
  by (simp add: wp_def insert_value_def db_op_def Let_def version_row_def)

subsection \<open>Permissions attached to a principal\<close>

lemma ensure_permission_present [simp]:
  "list_ex (\<lambda>p. p_id p = i) (t_permissions t) \<Longrightarrow> ensure_permission E i t = t"
  by (simp add: ensure_permission_def)

lemma linked_iff:
  "p \<in> set (linked ls i t) \<longleftrightarrow> p \<in> set (t_permissions t) \<and> (i, p_id p) \<in> set ls"
  by (auto simp: linked_def)

lemma set_insert_link [simp]: "set (insert_link l ls) = insert l (set ls)"
  by (auto simp: insert_link_def)

locale permission_links =
  fixes get_perms :: "env \<Rightarrow> uint \<Rightarrow> (dberr + permission list) prog"
    and add_perm :: "env \<Rightarrow> uint \<Rightarrow> uint \<Rightarrow> (dberr + unit) prog"
    and links :: "tables \<Rightarrow> (uint \<times> uint) list"
    and upd_links :: "((uint \<times> uint) list \<Rightarrow> (uint \<times> uint) list) \<Rightarrow> tables \<Rightarrow> tables"
    and owner_exists :: "uint \<Rightarrow> tables \<Rightarrow> bool"
  assumes get_perms_eq: "get_perms E i = db_query E (\<lambda>t. Inr (linked (links t) i t))"
    and add_perm_eq: "add_perm E i p = db_exec E (\<lambda>t.
          if owner_exists i t
          then Inr (upd_links (\<lambda>_. insert_link (i, p) (links t)) (ensure_permission E p t))
          else Inl ErrDB)"
    and links_upd: "links (upd_links f t) = f (links t)"
    and permissions_upd: "t_permissions (upd_links f t) = t_permissions t"
begin

lemma wp_get_perms:
  "wp (get_perms E i) Q s =
     (if db_fault E (ncalls s) then Q (Inl ErrDB) (tick s)
      else Q (Inr (linked (links (tabs s)) i (tabs s))) (tick s))"
  by (simp add: get_perms_eq wp_simps)

text \<open>Attaching an existing permission adds exactly it, for exactly that principal.\<close>

lemma attach:
  assumes "run_state (add_perm E i (p_id p)) s = (Inr (), s')"
    and "p \<in> set (t_permissions (tabs s))"
    and "\<And>q. q \<in> set (t_permissions (tabs s)) \<Longrightarrow> p_id q = p_id p \<Longrightarrow> q = p"
  shows "set (linked (links (tabs s')) j (tabs s')) =
           (if j = i then insert p (set (linked (links (tabs s)) j (tabs s)))
            else set (linked (links (tabs s)) j (tabs s)))"
proof -
  have "list_ex (\<lambda>q. p_id q = p_id p) (t_permissions (tabs s))"
    using assms(2) by (auto simp: list_ex_iff)
  with assms(1) have "tabs s' = upd_links (\<lambda>_. insert_link (i, p_id p) (links (tabs s))) (tabs s)"
    by (auto simp: add_perm_eq db_exec_def db_op_def split: if_splits)
  with assms(2,3) show ?thesis
    by (auto simp: linked_iff links_upd permissions_upd)
qed

lemma attach_other:
  assumes "run_state (add_perm E i q) s = (r, s')" and "j \<noteq> i"
    and "list_ex (\<lambda>p. p_id p = q) (t_permissions (tabs s))"
  shows "set (linked (links (tabs s')) j (tabs s')) = set (linked (links (tabs s)) j (tabs s))"
  using assms
  by (auto simp: add_perm_eq db_exec_def db_op_def linked_iff links_upd permissions_upd
      split: if_splits sum.splits)

end

interpretation user_links: permission_links GetPermissionsForUser AddPermissionToUser
  t_user_permissions t_user_permissions_update user_exists
  by unfold_locales
    (auto simp: GetPermissionsForUser_def AddPermissionToUser_def ensure_permission_def
      intro!: arg_cong [where f = "db_exec _"])

interpretation sa_links: permission_links GetPermissionsForSA AddPermissionToSA
  t_sa_permissions t_sa_permissions_update sa_exists
  by unfold_locales
    (auto simp: GetPermissionsForSA_def AddPermissionToSA_def ensure_permission_def
      intro!: arg_cong [where f = "db_exec _"])

interpretation token_links: permission_links GetPermissionsForCapabilityToken
  AddPermissionToCapabilityToken t_capability_token_permissions
  t_capability_token_permissions_update token_exists
  by unfold_locales
    (auto simp: GetPermissionsForCapabilityToken_def AddPermissionToCapabilityToken_def
      ensure_permission_def intro!: arg_cong [where f = "db_exec _"])

lemmas links_wps [wp_simps] =
  user_links.wp_get_perms sa_links.wp_get_perms token_links.wp_get_perms

end
