(* ===== verification/Authz.thy ===== *)
theory Authz
  imports Glob Store_Laws
begin

text \<open>
  Access control, \<open>internal/authz\<close>: principals and their textual form
  (\<open>principal.go\<close>), the permission check with its anonymous fallback
  (\<open>permissions.go\<close>) and the normalisation of subjects and resources
  (\<open>normalize.go\<close>).
\<close>

subsection \<open>principal.go\<close>

abbreviation PrincipalUser :: string where "PrincipalUser \<equiv> ''user''"
abbreviation PrincipalSA :: string where "PrincipalSA \<equiv> ''sa''"
abbreviation PrincipalToken :: string where "PrincipalToken \<equiv> ''token''"

record principal =
  pr_kind :: string
  pr_name :: string
  pr_sa_namespace :: string
  pr_sa_name :: string
  pr_token_id :: uint

definition NewPrincipalFromUser :: "user \<Rightarrow> principal" where
  "NewPrincipalFromUser u =
     \<lparr>pr_kind = PrincipalUser, pr_name = u_name u, pr_sa_namespace = [], pr_sa_name = [],
      pr_token_id = 0\<rparr>"

definition NewPrincipalFromSA :: "string \<Rightarrow> string \<Rightarrow> principal" where
  "NewPrincipalFromSA namespace name =
     \<lparr>pr_kind = PrincipalSA, pr_name = [], pr_sa_namespace = namespace, pr_sa_name = name,
      pr_token_id = 0\<rparr>"

definition NewPrincipalFromToken :: "capability_token \<Rightarrow> principal" where
  "NewPrincipalFromToken c =
     \<lparr>pr_kind = PrincipalToken, pr_name = [], pr_sa_namespace = [], pr_sa_name = [],
      pr_token_id = ct_id c\<rparr>"

definition ParsePrincipal :: "string \<Rightarrow> principal option" where
  "ParsePrincipal s =
     (let parts = SplitN (CHR ''/'') 3 s in
      if parts ! 0 = ''user'' then
        (if length parts \<noteq> 2 \<or> parts ! 1 = [] then None
         else Some \<lparr>pr_kind = PrincipalUser, pr_name = parts ! 1, pr_sa_namespace = [],
                    pr_sa_name = [], pr_token_id = 0\<rparr>)
      else if parts ! 0 = ''sa'' then
        (if length parts \<noteq> 3 \<or> parts ! 1 = [] \<or> parts ! 2 = [] then None
         else Some \<lparr>pr_kind = PrincipalSA, pr_name = [], pr_sa_namespace = parts ! 1,
                    pr_sa_name = parts ! 2, pr_token_id = 0\<rparr>)
      else None)"

datatype pattern_error = BadForm | WildcardNamespace | ReservedNamespace | EmptyPart

definition ValidateAddPattern :: "string \<Rightarrow> pattern_error option" where
  "ValidateAddPattern pattern =
     (let parts = SplitN (CHR ''/'') 2 pattern in
      if length parts \<noteq> 2 then Some BadForm
      else if parts ! 0 = ''*'' then Some WildcardNamespace
      else if parts ! 0 = ''_'' then Some ReservedNamespace
      else if parts ! 0 = [] \<or> parts ! 1 = [] then Some EmptyPart
      else None)"

definition ValidateDeletePattern :: "string \<Rightarrow> pattern_error option" where
  "ValidateDeletePattern pattern =
     (let parts = SplitN (CHR ''/'') 2 pattern in
      if length parts \<noteq> 2 then Some BadForm
      else if parts ! 0 = ''_'' then Some ReservedNamespace
      else if parts ! 0 = [] \<or> parts ! 1 = [] then Some EmptyPart
      else None)"

subsection \<open>permissions.go\<close>

datatype autherr = StoreErr dberr | ErrBadPattern | UnknownKind

definition splitSlash :: "string \<Rightarrow> string \<times> string" where
  "splitSlash s = (before_sep (CHR ''/'') s, after_sep (CHR ''/'') s)"

definition matchesPattern :: "string \<Rightarrow> string \<Rightarrow> bool option" where
  "matchesPattern resource pattern =
     (if pattern = ''*/*'' then Some True
      else
        (let pParts = splitSlash pattern; rParts = splitSlash resource in
         case path_Match (fst pParts) (fst rParts) of
           None \<Rightarrow> None
         | Some nsMatch \<Rightarrow>
            (case path_Match (snd pParts) (snd rParts) of
               None \<Rightarrow> None
             | Some resMatch \<Rightarrow> Some (nsMatch \<and> resMatch))))"

definition permissionsForPrincipal :: "env \<Rightarrow> principal \<Rightarrow> (autherr + permission list) prog" where
  "permissionsForPrincipal E pr =
     (if pr_kind pr = PrincipalUser then do {
        r \<leftarrow> GetUser E (pr_name pr);
        case r of
          Inl e \<Rightarrow> State_Monad.return (Inl (StoreErr e))
        | Inr u \<Rightarrow> do {
            q \<leftarrow> GetPermissionsForUser E (u_id u);
            case q of
              Inl e \<Rightarrow> State_Monad.return (Inl (StoreErr e))
            | Inr ps \<Rightarrow> State_Monad.return (Inr ps)
          }
      }
      else if pr_kind pr = PrincipalSA then do {
        r \<leftarrow> GetSA E (pr_sa_namespace pr) (pr_sa_name pr);
        case r of
          Inl e \<Rightarrow> State_Monad.return (Inl (StoreErr e))
        | Inr a \<Rightarrow> do {
            q \<leftarrow> GetPermissionsForSA E (sa_id a);
            case q of
              Inl e \<Rightarrow> State_Monad.return (Inl (StoreErr e))
            | Inr ps \<Rightarrow> State_Monad.return (Inr ps)
          }
      }
      else if pr_kind pr = PrincipalToken then do {
        q \<leftarrow> GetPermissionsForCapabilityToken E (pr_token_id pr);
        case q of
          Inl e \<Rightarrow> State_Monad.return (Inl (StoreErr e))
        | Inr ps \<Rightarrow> State_Monad.return (Inr ps)
      }
      else State_Monad.return (Inl UnknownKind))"

definition expired :: "time \<Rightarrow> permission \<Rightarrow> bool" where
  "expired n p = (case p_expires_at p of None \<Rightarrow> False | Some e \<Rightarrow> e < n)"

fun check_loop :: "time \<Rightarrow> verb \<Rightarrow> string \<Rightarrow> permission list \<Rightarrow> bool option" where
  "check_loop n v resource [] = Some False"
| "check_loop n v resource (p # ps) =
     (if expired n p then check_loop n v resource ps
      else if p_verb p \<noteq> v then check_loop n v resource ps
      else case matchesPattern resource (p_resource_pattern p) of
        None \<Rightarrow> None
      | Some matched \<Rightarrow> (if matched then Some True else check_loop n v resource ps))"

definition Check :: "env \<Rightarrow> principal \<Rightarrow> verb \<Rightarrow> string \<Rightarrow> string \<Rightarrow> (autherr + bool) prog" where
  "Check E pr v namespace name = do {
     r \<leftarrow> permissionsForPrincipal E pr;
     case r of
       Inl e \<Rightarrow> State_Monad.return (Inl e)
     | Inr perms \<Rightarrow>
        (case check_loop (now E) v (namespace @ ''/'' @ name) perms of
           None \<Rightarrow> State_Monad.return (Inl ErrBadPattern)
         | Some b \<Rightarrow> State_Monad.return (Inr b))
   }"

text \<open>
  A \<open>map[string][]Verb\<close> is an association list in the order the keys were first stored;
  the order in which Go ranges over it is a parameter of the environment.
\<close>

type_synonym ns_verbs = "(string \<times> verb list) list"

fun add_ns_verb :: "string \<Rightarrow> verb \<Rightarrow> ns_verbs \<Rightarrow> ns_verbs" where
  "add_ns_verb ns v [] = [(ns, [v])]"
| "add_ns_verb ns v ((k, vs) # m) =
     (if k = ns then (k, if v \<in> set vs then vs else vs @ [v]) # m
      else (k, vs) # add_ns_verb ns v m)"

definition listed_ns :: "string \<Rightarrow> bool" where
  "listed_ns ns = (\<not> (ns = ''*'' \<or> ns = ''_'' \<or> ContainsAny ns ''*?[''))"

definition collect_ns :: "string \<Rightarrow> verb \<Rightarrow> ns_verbs \<Rightarrow> ns_verbs" where
  "collect_ns pattern v m =
     (let ns = fst (splitSlash pattern) in if listed_ns ns then add_ns_verb ns v m else m)"

definition NamespacesForPrincipal :: "env \<Rightarrow> principal \<Rightarrow> (autherr + ns_verbs) prog" where
  "NamespacesForPrincipal E pr = do {
     r \<leftarrow> permissionsForPrincipal E pr;
     case r of
       Inl e \<Rightarrow> State_Monad.return (Inl e)
     | Inr perms \<Rightarrow> State_Monad.return (Inr
         (fold (\<lambda>p m. if expired (now E) p then m
                      else collect_ns (p_resource_pattern p) (p_verb p) m) perms []))
   }"

fun anon_loop :: "verb \<Rightarrow> string \<Rightarrow> anon_permission list \<Rightarrow> bool option" where
  "anon_loop v resource [] = Some False"
| "anon_loop v resource (p # ps) =
     (if ap_verb p \<noteq> v then anon_loop v resource ps
      else case matchesPattern resource (ap_resource_pattern p) of
        None \<Rightarrow> None
      | Some matched \<Rightarrow> (if matched then Some True else anon_loop v resource ps))"

definition checkAnon :: "env \<Rightarrow> verb \<Rightarrow> string \<Rightarrow> string \<Rightarrow> (autherr + bool) prog" where
  "checkAnon E v namespace name = do {
     r \<leftarrow> ListAnonPermissions E;
     case r of
       Inl e \<Rightarrow> State_Monad.return (Inl (StoreErr e))
     | Inr perms \<Rightarrow>
        (case anon_loop v (namespace @ ''/'' @ name) perms of
           None \<Rightarrow> State_Monad.return (Inl ErrBadPattern)
         | Some b \<Rightarrow> State_Monad.return (Inr b))
   }"

definition CheckWithAnon ::
  "env \<Rightarrow> principal option \<Rightarrow> verb \<Rightarrow> string \<Rightarrow> string \<Rightarrow> (autherr + bool) prog" where
  "CheckWithAnon E pr v namespace name =
     (case pr of
        None \<Rightarrow> checkAnon E v namespace name
      | Some p \<Rightarrow> do {
          r \<leftarrow> Check E p v namespace name;
          case r of
            Inl e \<Rightarrow> State_Monad.return (Inl e)
          | Inr ok \<Rightarrow> (if ok then State_Monad.return (Inr ok) else checkAnon E v namespace name)
        })"

definition NamespacesForPrincipalWithAnon ::
  "env \<Rightarrow> principal option \<Rightarrow> (autherr + ns_verbs) prog" where
  "NamespacesForPrincipalWithAnon E pr = do {
     own \<leftarrow> (case pr of
       None \<Rightarrow> State_Monad.return (Inr [])
     | Some p \<Rightarrow> NamespacesForPrincipal E p);
     case own of
       Inl e \<Rightarrow> State_Monad.return (Inl e)
     | Inr result \<Rightarrow> do {
         r \<leftarrow> ListAnonPermissions E;
         case r of
           Inl e \<Rightarrow> State_Monad.return (Inl (StoreErr e))
         | Inr perms \<Rightarrow> State_Monad.return (Inr
             (fold (\<lambda>p. collect_ns (ap_resource_pattern p) (ap_verb p)) perms result))
       }
   }"

subsection \<open>normalize.go\<close>

definition NormalizeSubject :: "string \<Rightarrow> string option" where
  "NormalizeSubject raw =
     (let s = TrimSpace raw in
      if s = [] then None
      else if HasPrefix s ''system:serviceaccount:'' then
        (let parts = SplitN (CHR '':'') 4 s in
         if length parts \<noteq> 4 \<or> parts ! 2 = [] \<or> parts ! 3 = [] then None
         else Some (parts ! 2 @ ''/'' @ parts ! 3))
      else
        (let parts = Split (CHR ''/'') s in
         if length parts \<noteq> 2 \<or> parts ! 0 = [] \<or> parts ! 1 = [] then None
         else Some (parts ! 0 @ ''/'' @ parts ! 1)))"

definition splitPathParts :: "string \<Rightarrow> string list" where
  "splitPathParts s = filter (\<lambda>seg. seg \<noteq> []) (map TrimSpace (Split (CHR ''/'') s))"

definition NormalizeResource :: "string \<Rightarrow> string option" where
  "NormalizeResource raw =
     (let s = TrimSpace raw in
      if s = [] then None
      else
        (let parts0 = splitPathParts s;
             parts = (if 2 \<le> length parts0 \<and> parts0 ! 0 = ''api'' \<and> parts0 ! 1 = ''v1''
                      then drop 2 parts0 else parts0)
         in if length parts \<noteq> 2 \<or> parts ! 0 = [] \<or> parts ! 1 = [] then None
            else Some (parts ! 0 @ ''/'' @ parts ! 1)))"

end
