(* ===== verification/Authz_Laws.thy ===== *)
theory Authz_Laws
  imports Authz
begin

text \<open>
  What the access checks of \<open>Authz\<close> promise. \<open>policy\<close> is the specification: a request is
  allowed when some permission attached to the principal, not expired, has the verb and a
  pattern that matches the resource, or when some live anonymous permission does. The
  checks never allow what the policy forbids, whatever fails (\<open>access_check\<close>), and they
  decide it exactly when no database call fails and no pattern they read is malformed.
\<close>

subsection \<open>The policy\<close>

definition grants :: "time \<Rightarrow> verb \<Rightarrow> string \<Rightarrow> permission \<Rightarrow> bool" where
  "grants n v resource p \<longleftrightarrow>
     \<not> expired n p \<and> p_verb p = v \<and> matchesPattern resource (p_resource_pattern p) = Some True"

definition anon_live :: "time \<Rightarrow> anon_permission \<Rightarrow> bool" where
  "anon_live n p = (case ap_expires_at p of None \<Rightarrow> True | Some e \<Rightarrow> n < e)"

definition anon_grants :: "time \<Rightarrow> verb \<Rightarrow> string \<Rightarrow> anon_permission \<Rightarrow> bool" where
  "anon_grants n v resource p \<longleftrightarrow>
     anon_live n p \<and> ap_verb p = v \<and> matchesPattern resource (ap_resource_pattern p) = Some True"

definition own_perms :: "principal \<Rightarrow> tables \<Rightarrow> permission list option" where
  "own_perms pr t =
     (if pr_kind pr = PrincipalUser then
        map_option (\<lambda>u. linked (t_user_permissions t) (u_id u) t)
          (first_by u_id (\<lambda>u. u_name u = pr_name pr) (t_users t))
      else if pr_kind pr = PrincipalSA then
        map_option (\<lambda>a. linked (t_sa_permissions t) (sa_id a) t)
          (first_by sa_id (\<lambda>a. sa_namespace a = pr_sa_namespace pr \<and> sa_name a = pr_sa_name pr)
             (t_sas t))
      else if pr_kind pr = PrincipalToken then
        Some (linked (t_capability_token_permissions t) (pr_token_id pr) t)
      else None)"

definition own_policy :: "time \<Rightarrow> tables \<Rightarrow> principal \<Rightarrow> verb \<Rightarrow> string \<Rightarrow> string \<Rightarrow> bool" where
  "own_policy n t pr v ns name \<longleftrightarrow>
     (\<exists>ps. own_perms pr t = Some ps \<and> (\<exists>p\<in>set ps. grants n v (ns @ ''/'' @ name) p))"

lemma own_policy_code [code]:
  "own_policy n t pr v ns name =
     (case own_perms pr t of None \<Rightarrow> False | Some ps \<Rightarrow> \<exists>p\<in>set ps. grants n v (ns @ ''/'' @ name) p)"
  by (auto simp: own_policy_def split: option.splits)

definition anon_policy :: "time \<Rightarrow> tables \<Rightarrow> verb \<Rightarrow> string \<Rightarrow> string \<Rightarrow> bool" where
  "anon_policy n t v ns name \<longleftrightarrow>
     (\<exists>p\<in>set (t_anon_permissions t). anon_grants n v (ns @ ''/'' @ name) p)"

definition policy :: "time \<Rightarrow> tables \<Rightarrow> principal option \<Rightarrow> verb \<Rightarrow> string \<Rightarrow> string \<Rightarrow> bool" where
  "policy n t pr v ns name \<longleftrightarrow>
     (case pr of None \<Rightarrow> False | Some p \<Rightarrow> own_policy n t p v ns name) \<or> anon_policy n t v ns name"

subsection \<open>The loops over permissions\<close>

lemma check_loop_True:
  "check_loop n v r ps = Some True \<Longrightarrow> \<exists>p\<in>set ps. grants n v r p"
  by (induction ps) (auto simp: grants_def split: if_splits option.splits)

lemma check_loop_exact:
  assumes "\<forall>p\<in>set ps. \<not> expired n p \<longrightarrow> p_verb p = v \<longrightarrow>
             matchesPattern r (p_resource_pattern p) \<noteq> None"
  shows "check_loop n v r ps = Some (\<exists>p\<in>set ps. grants n v r p)"
  using assms by (induction ps) (auto simp: grants_def split: option.splits)

lemma anon_loop_True:
  "anon_loop v r ps = Some True \<Longrightarrow>
     \<exists>p\<in>set ps. ap_verb p = v \<and> matchesPattern r (ap_resource_pattern p) = Some True"
  by (induction ps) (auto split: if_splits option.splits)

lemma anon_loop_exact:
  assumes "\<forall>p\<in>set ps. ap_verb p = v \<longrightarrow> matchesPattern r (ap_resource_pattern p) \<noteq> None"
  shows "anon_loop v r ps =
    Some (\<exists>p\<in>set ps. ap_verb p = v \<and> matchesPattern r (ap_resource_pattern p) = Some True)"
  using assms by (induction ps) (auto split: option.splits)

lemma anon_loop_malformed:
  assumes "p \<in> set ps" "ap_verb p = v" "matchesPattern r (ap_resource_pattern p) = None"
    and "\<forall>q\<in>set ps. matchesPattern r (ap_resource_pattern q) \<noteq> Some True \<or> ap_verb q \<noteq> v"
  shows "anon_loop v r ps = None"
  using assms by (induction ps) (auto split: option.splits)

subsection \<open>Reading the permissions of a principal\<close>

lemma permissionsForPrincipal_keeps [keeps_intros]:
  "keeps (\<lambda>s. g (tabs s)) (permissionsForPrincipal E pr)"
  unfolding permissionsForPrincipal_def by (intro keeps_intros)

lemma permissionsForPrincipal_keeps_core [keeps_intros]: "keeps core (permissionsForPrincipal E pr)"
  unfolding permissionsForPrincipal_def by (intro keeps_intros)

lemma Check_keeps_core [keeps_intros]: "keeps core (Check E pr v ns name)"
  unfolding Check_def by (intro keeps_intros)

lemma checkAnon_keeps_core [keeps_intros]: "keeps core (checkAnon E v ns name)"
  unfolding checkAnon_def by (intro keeps_intros)

lemma CheckWithAnon_keeps_core [keeps_intros]: "keeps core (CheckWithAnon E pr v ns name)"
  unfolding CheckWithAnon_def by (intro keeps_intros)

lemma wp_permissionsForPrincipal:
  "wp (permissionsForPrincipal E pr)
     (\<lambda>r s'. tabs s' = tabs s \<and> (\<forall>ps. r = Inr ps \<longrightarrow> own_perms pr (tabs s) = Some ps)) s"
  unfolding permissionsForPrincipal_def own_perms_def
  by (simp add: wp_simps split: option.splits sum.splits)

definition no_faults :: "env \<Rightarrow> bool" where
  "no_faults E = (\<forall>k. \<not> db_fault E k)"

lemma no_faultsD [simp]: "no_faults E \<Longrightarrow> \<not> db_fault E k"
  by (simp add: no_faults_def)

lemma wp_permissionsForPrincipal_total:
  "no_faults E \<Longrightarrow> own_perms pr (tabs s) = Some ps \<Longrightarrow>
     wp (permissionsForPrincipal E pr) (\<lambda>r s'. tabs s' = tabs s \<and> r = Inr ps) s"
  unfolding permissionsForPrincipal_def own_perms_def
  by (auto simp: wp_simps split: option.splits sum.splits if_splits)

subsection \<open>The contract of an access check\<close>

locale access_check =
  fixes check :: "env \<Rightarrow> 'p \<Rightarrow> verb \<Rightarrow> string \<Rightarrow> string \<Rightarrow> (autherr + bool) prog"
    and allowed :: "time \<Rightarrow> tables \<Rightarrow> 'p \<Rightarrow> verb \<Rightarrow> string \<Rightarrow> string \<Rightarrow> bool"
  assumes check_reads: "keeps core (check E p v ns name)"
    and check_sound: "run_state (check E p v ns name) s = (Inr True, s') \<Longrightarrow>
          allowed (now E) (tabs s) p v ns name"
begin

lemma keeps_check: "keeps (\<lambda>s. g (tabs s)) (check E p v ns name)"
  by (rule keeps_core_tabs [OF check_reads])

lemmas after_check = keeps_core_after [OF check_reads]

lemma result_check: "outcome (check E p v ns name) s = Inr True \<Longrightarrow> allowed (now E) (tabs s) p v ns name"
  by (metis check_sound run_state_result_after)

lemma wp_check:
  "wp (check E p v ns name)
     (\<lambda>r s'. core s' = core s \<and> (r = Inr True \<longrightarrow> allowed (now E) (tabs s) p v ns name)) s"
  using check_sound keepsD [OF check_reads] by (auto intro: wpI)

end

lemma Check_sound:
  "wp (Check E pr v ns name)
     (\<lambda>r s'. tabs s' = tabs s \<and> (r = Inr True \<longrightarrow> own_policy (now E) (tabs s) pr v ns name)) s"
  unfolding Check_def wp_bind
  by (rule wp_mono [OF wp_permissionsForPrincipal])
    (auto simp: wp_simps own_policy_def dest: check_loop_True split: sum.splits option.splits)

lemma ListAnonPermissions_live:
  "ListAnonPermissions E = db_query E (\<lambda>t. Inr (filter (anon_live (now E)) (t_anon_permissions t)))"
  by (simp add: ListAnonPermissions_def anon_live_def [abs_def])

lemma checkAnon_sound:
  "wp (checkAnon E v ns name)
     (\<lambda>r s'. tabs s' = tabs s \<and> (r = Inr True \<longrightarrow> anon_policy (now E) (tabs s) v ns name)) s"
  unfolding checkAnon_def ListAnonPermissions_live anon_policy_def
  by (auto 0 3 simp: wp_simps anon_grants_def dest!: anon_loop_True split: option.splits intro: bexI [rotated])

lemma CheckWithAnon_sound:
  "wp (CheckWithAnon E pr v ns name)
     (\<lambda>r s'. tabs s' = tabs s \<and> (r = Inr True \<longrightarrow> policy (now E) (tabs s) pr v ns name)) s"
proof (cases pr)
  case None
  then show ?thesis
    unfolding CheckWithAnon_def policy_def
    by (auto intro: wp_mono [OF checkAnon_sound])
next
  case (Some p)
  show ?thesis
    unfolding CheckWithAnon_def policy_def Some option.case wp_bind
    by (rule wp_mono [OF Check_sound])
      (auto simp: wp_simps intro!: wp_mono [OF checkAnon_sound] split: sum.splits)
qed

interpretation own_check: access_check Check own_policy
proof
  show "keeps core (Check E p v ns name)" for E p v ns name
    by (rule Check_keeps_core)
  show "run_state (Check E p v ns name) s = (Inr True, s') \<Longrightarrow> own_policy (now E) (tabs s) p v ns name"
    for E p v ns name s s'
    using wpD [OF Check_sound] by blast
qed

interpretation anon_check: access_check CheckWithAnon policy
proof
  show "keeps core (CheckWithAnon E p v ns name)" for E p v ns name
    by (rule CheckWithAnon_keeps_core)
  show "run_state (CheckWithAnon E p v ns name) s = (Inr True, s') \<Longrightarrow> policy (now E) (tabs s) p v ns name"
    for E p v ns name s s'
    using wpD [OF CheckWithAnon_sound] by blast
qed

lemmas check_wps [wp_simps] =
  wp_run [of "Check E p v ns name" for E p v ns name]
  wp_run [of "CheckWithAnon E p v ns name" for E p v ns name]

lemmas after_checks [simp] = own_check.after_check anon_check.after_check

lemmas check_keeps [keeps_intros] = own_check.keeps_check anon_check.keeps_check

subsection \<open>Exactness\<close>

text \<open>No live pattern that the check reads is malformed.\<close>

definition wf_own :: "time \<Rightarrow> tables \<Rightarrow> principal \<Rightarrow> bool" where
  "wf_own n t pr = (case own_perms pr t of
     None \<Rightarrow> False
   | Some ps \<Rightarrow> (\<forall>p\<in>set ps. \<not> expired n p \<longrightarrow> (\<forall>r. matchesPattern r (p_resource_pattern p) \<noteq> None)))"

definition wf_anon :: "time \<Rightarrow> tables \<Rightarrow> bool" where
  "wf_anon n t = (\<forall>p\<in>set (t_anon_permissions t). anon_live n p \<longrightarrow>
     (\<forall>r. matchesPattern r (ap_resource_pattern p) \<noteq> None))"

lemma Check_exact:
  assumes "no_faults E" "wf_own (now E) (tabs s) pr"
  shows "wp (Check E pr v ns name)
    (\<lambda>r s'. tabs s' = tabs s \<and> r = Inr (own_policy (now E) (tabs s) pr v ns name)) s"
proof -
  from assms(2) obtain ps where ps: "own_perms pr (tabs s) = Some ps"
    and wf: "\<forall>p\<in>set ps. \<not> expired (now E) p \<longrightarrow> (\<forall>r. matchesPattern r (p_resource_pattern p) \<noteq> None)"
    by (auto simp: wf_own_def split: option.splits)
  have "check_loop (now E) v (ns @ ''/'' @ name) ps =
      Some (own_policy (now E) (tabs s) pr v ns name)"
    using check_loop_exact [of ps "now E" v "ns @ ''/'' @ name"] wf ps
    by (auto simp: own_policy_def)
  then show ?thesis
    unfolding Check_def wp_bind
    by (intro wp_mono [OF wp_permissionsForPrincipal_total [OF assms(1) ps]]) (simp add: wp_simps)
qed

lemma checkAnon_exact:
  assumes "no_faults E" "wf_anon (now E) (tabs s)"
  shows "wp (checkAnon E v ns name)
    (\<lambda>r s'. tabs s' = tabs s \<and> r = Inr (anon_policy (now E) (tabs s) v ns name)) s"
proof -
  let ?live = "filter (anon_live (now E)) (t_anon_permissions (tabs s))"
  have "anon_loop v (ns @ ''/'' @ name) ?live = Some (anon_policy (now E) (tabs s) v ns name)"
    using assms(2) anon_loop_exact [of ?live v "ns @ ''/'' @ name"]
    by (auto simp: wf_anon_def anon_policy_def anon_grants_def)
  then show ?thesis
    unfolding checkAnon_def ListAnonPermissions_live
    using assms(1) by (simp add: wp_simps)
qed

lemma CheckWithAnon_exact:
  assumes "no_faults E" "wf_anon (now E) (tabs s)"
    and "\<And>p. pr = Some p \<Longrightarrow> wf_own (now E) (tabs s) p"
  shows "wp (CheckWithAnon E pr v ns name)
    (\<lambda>r s'. tabs s' = tabs s \<and> r = Inr (policy (now E) (tabs s) pr v ns name)) s"
proof (cases pr)
  case None
  then show ?thesis
    unfolding CheckWithAnon_def policy_def using checkAnon_exact [OF assms(1,2)] by simp
next
  case (Some p)
  show ?thesis
    unfolding CheckWithAnon_def policy_def Some option.case wp_bind
    by (rule wp_mono [OF Check_exact [OF assms(1) assms(3) [OF Some]]])
      (auto simp: wp_simps intro!: wp_mono [OF checkAnon_exact] assms(1,2))
qed

end
