(* ===== verification/Example.thy ===== *)
theory Example
  imports Store_Laws
begin

text \<open>
  A concrete environment and a small database on which the properties of the development
  are evaluated. Nothing fails, the random source yields blocks of one repeated byte, the
  digest is the identity and the cipher only copies; the key encryption key is 32 zero
  bytes.
\<close>

definition example_env :: env where
  "example_env =
     \<lparr>now = 1000,
      db_fault = (\<lambda>_. False),
      rand_read = (\<lambda>i n. Some (replicate n (char_of (97 + i)))),
      gen_uuid = (\<lambda>k. k + 1),
      uuid_Parse = (\<lambda>s. HasPrefix s ''uuid-''),
      pg_uuid = (\<lambda>s. if HasPrefix s ''uuid-'' then ParseUint (drop 5 s) else None),
      json_Decode = (\<lambda>_. None),
      json_Unmarshal = (\<lambda>_. None),
      parse_RFC3339 = (\<lambda>_. None),
      unmarshal_time = (\<lambda>_. None),
      sha256 = (\<lambda>b. b),
      gcm_seal = (\<lambda>k n p. p),
      gcm_open = (\<lambda>k n c. Some c),
      bcrypt_hash = (\<lambda>_ p. Some p),
      bcrypt_compare = (\<lambda>h p. h = p),
      getenv = (\<lambda>v. if v = ''BRINECRYPT_KEK'' then replicate 64 (CHR ''0'') else []),
      k8s_client = True,
      token_review = (\<lambda>aud tok. Some (True, ''system:serviceaccount:prod:app'')),
      map_range = (\<lambda>m. m)\<rparr>"

lemma example_env_simps [simp]:
  "now example_env = 1000" "db_fault example_env k = False"
  "rand_read example_env i n = Some (replicate n (char_of (97 + i)))"
  "gen_uuid example_env k = k + 1" "sha256 example_env b = b"
  "gcm_seal example_env k' n' p = p" "gcm_open example_env k' n' c = Some c"
  "bcrypt_hash example_env i p = Some p" "bcrypt_compare example_env h p = (h = p)"
  "uuid_Parse example_env t = HasPrefix t ''uuid-''"
  "pg_uuid example_env t = (if HasPrefix t ''uuid-'' then ParseUint (drop 5 t) else None)"
  by (simp_all add: example_env_def)

text \<open>
  One user, \<open>alice\<close>, with read and write access to \<open>prod/*\<close>, one anonymous permission on
  \<open>public/*\<close> and two empty namespaces.
\<close>

definition example_perm :: "uint \<Rightarrow> verb \<Rightarrow> string \<Rightarrow> permission" where
  "example_perm i v pat =
     \<lparr>p_id = i, p_resource_pattern = pat, p_verb = v, p_created_at = 0, p_expires_at = Some NoExpiry\<rparr>"

definition example_user :: user where
  "example_user = \<lparr>u_id = 1, u_name = ''alice'', u_email = [], u_pass = ''secret'', u_created_at = 0\<rparr>"

definition example_tables :: tables where
  "example_tables = empty_tables\<lparr>
     t_users := [example_user],
     t_permissions := [example_perm 1 VerbTypeRead ''prod/*'', example_perm 2 VerbTypeWrite ''prod/*''],
     t_user_permissions := [(1, 1), (1, 2)],
     t_anon_permissions := [\<lparr>ap_id = 1, ap_resource_pattern = ''public/*'', ap_verb = VerbTypeRead,
                             ap_expires_at = None, ap_created_at = 0\<rparr>],
     t_namespaces := [\<lparr>ns_id = 1, ns_name = ''prod'', ns_created_at = 0\<rparr>,
                      \<lparr>ns_id = 2, ns_name = ''public'', ns_created_at = 0\<rparr>]\<rparr>"

definition example_st :: st where
  "example_st = init_st\<lparr>tabs := example_tables, seqs := (\<lambda>_. 10)\<rparr>"

lemma example_st_simps [simp]:
  "tabs example_st = example_tables" "seqs example_st n = 10" "nrand example_st = 0"
  "ncalls example_st = 0" "admin_tokens example_st = []" "allowed_origins example_st = []"
  by (simp_all add: example_st_def init_st_def)

lemma example_tables_simps [simp]:
  "t_users example_tables = [example_user]" "t_sessions example_tables = []" "t_sas example_tables = []"
  "t_pats example_tables = []" "t_capability_tokens example_tables = []"
  "t_resources example_tables = []" "t_resource_values example_tables = []"
  "t_encryption_keys example_tables = []" "t_audit_logs example_tables = []"
  "t_namespaces example_tables = [\<lparr>ns_id = 1, ns_name = ''prod'', ns_created_at = 0\<rparr>,
                                  \<lparr>ns_id = 2, ns_name = ''public'', ns_created_at = 0\<rparr>]"
  by (simp_all add: example_tables_def empty_tables_def)

end
