(* ===== verification/Authz_Props.thy ===== *)
theory Authz_Props
  imports Authz_Laws Example
begin

text \<open>
  Properties of access control: what the checks decide, how decisions behave over time,
  the reach of patterns (delegation, the reserved namespace, slashes in names), the listing
  of namespaces and the textual forms of principals, subjects and resources.
\<close>

subsection \<open>Decisions over time\<close>

lemma expired_mono: "expired n p \<Longrightarrow> n \<le> m \<Longrightarrow> expired m p"
  by (auto simp: expired_def split: option.splits)

lemma grants_antimono: "grants m v r p \<Longrightarrow> n \<le> m \<Longrightarrow> grants n v r p"
  using expired_mono by (auto simp: grants_def)

lemma anon_grants_antimono: "anon_grants m v r p \<Longrightarrow> n \<le> m \<Longrightarrow> anon_grants n v r p"
  by (auto simp: anon_grants_def anon_live_def split: option.splits)

lemma policy_antimono: "policy m t pr v ns name \<Longrightarrow> n \<le> m \<Longrightarrow> policy n t pr v ns name"
  unfolding policy_def own_policy_def anon_policy_def
  by (auto split: option.splits dest: grants_antimono anon_grants_antimono)

subsection \<open>Patterns\<close>

definition pat_ns :: "string \<Rightarrow> string" where "pat_ns p = fst (splitSlash p)"
definition pat_name :: "string \<Rightarrow> string" where "pat_name p = snd (splitSlash p)"

lemma splitSlash_append [simp]: "CHR ''/'' \<notin> set a \<Longrightarrow> splitSlash (a @ CHR ''/'' # b) = (a, b)"
  by (simp add: splitSlash_def)

lemma matchesPattern_split:
  "p \<noteq> ''*/*'' \<Longrightarrow> matchesPattern r p = Some True \<longleftrightarrow>
     path_Match (pat_ns p) (pat_ns r) = Some True \<and> path_Match (pat_name p) (pat_name r) = Some True"
  by (auto simp: matchesPattern_def pat_ns_def pat_name_def Let_def split: option.splits)

lemma matchesPattern_all [simp]: "matchesPattern r ''*/*'' = Some True"
  by (simp add: matchesPattern_def)

text \<open>Patterns made of literal bytes and stars in both parts.\<close>

definition star_pattern :: "string \<Rightarrow> bool" where
  "star_pattern p = (star_only (pat_ns p) \<and> star_only (pat_name p))"

lemma star_pattern_trans:
  assumes "star_pattern p" "star_pattern q" "q \<noteq> ''*/*''"
    and "matchesPattern q p = Some True" "matchesPattern r q = Some True"
  shows "matchesPattern r p = Some True"
proof (cases "p = ''*/*''")
  case True
  then show ?thesis by simp
next
  case False
  with assms show ?thesis
    unfolding star_pattern_def by (auto simp: matchesPattern_split intro: star_match_trans)
qed

lemma ValidateAddPattern_ok:
  "ValidateAddPattern p = None \<longleftrightarrow>
     CHR ''/'' \<in> set p \<and> pat_ns p \<noteq> ''*'' \<and> pat_ns p \<noteq> ''_'' \<and> pat_ns p \<noteq> [] \<and> pat_name p \<noteq> []"
  by (auto simp: ValidateAddPattern_def SplitN_2 pat_ns_def pat_name_def splitSlash_def Let_def)

lemma literal_ns_exact:
  assumes "literal (pat_ns p)" "matchesPattern r p = Some True"
  shows "pat_ns r = pat_ns p"
proof (cases "p = ''*/*''")
  case True
  with assms(1) show ?thesis
    by (simp add: literal_def pat_ns_def splitSlash_def before_sep_def meta_chars_def)
next
  case False
  with assms show ?thesis by (simp add: matchesPattern_split path_Match_literal)
qed

subsection \<open>Listing namespaces\<close>

lemma map_of_add_ns_verb:
  "map_of (add_ns_verb ns v m) k =
     (if k = ns then Some (case map_of m ns of None \<Rightarrow> [v] | Some vs \<Rightarrow> if v \<in> set vs then vs else vs @ [v])
      else map_of m k)"
  by (induction m) auto

definition verbs_of :: "ns_verbs \<Rightarrow> string \<Rightarrow> verb set" where
  "verbs_of m ns = (case map_of m ns of None \<Rightarrow> {} | Some vs \<Rightarrow> set vs)"

lemma verbs_of_add: "verbs_of (add_ns_verb ns v m) k =
    (if k = ns then insert v (verbs_of m ns) else verbs_of m k)"
  by (auto simp: verbs_of_def map_of_add_ns_verb split: option.splits)

lemma verbs_of_collect:
  "verbs_of (collect_ns p v m) k =
     (if listed_ns (pat_ns p) \<and> k = pat_ns p then insert v (verbs_of m k) else verbs_of m k)"
  by (auto simp: collect_ns_def pat_ns_def Let_def verbs_of_add)

lemma verbs_of_fold_own:
  "verbs_of (fold (\<lambda>p m. if expired n p then m else collect_ns (p_resource_pattern p) (p_verb p) m) ps m) k =
     verbs_of m k \<union> {p_verb p | p. p \<in> set ps \<and> \<not> expired n p
        \<and> pat_ns (p_resource_pattern p) = k \<and> listed_ns k}"
  by (induction ps arbitrary: m) (auto simp: verbs_of_collect)

lemma verbs_of_fold_anon:
  "verbs_of (fold (\<lambda>p. collect_ns (ap_resource_pattern p) (ap_verb p)) ps m) k =
     verbs_of m k \<union> {ap_verb p | p. p \<in> set ps \<and> pat_ns (ap_resource_pattern p) = k \<and> listed_ns k}"
  by (induction ps arbitrary: m) (auto simp: verbs_of_collect)

definition wf_map :: "ns_verbs \<Rightarrow> bool" where
  "wf_map m = (distinct (map fst m) \<and> (\<forall>(k, vs)\<in>set m. vs \<noteq> [] \<and> distinct vs \<and> listed_ns k))"

lemma fst_add_ns_verb: "fst ` set (add_ns_verb ns v m) = insert ns (fst ` set m)"
  by (induction ns v m rule: add_ns_verb.induct) auto

lemma wf_map_Nil [simp]: "wf_map []"
  by (simp add: wf_map_def)

lemma verbs_of_Nil [simp]: "verbs_of [] k = {}"
  by (simp add: verbs_of_def)

lemma wf_add_ns_verb: "wf_map m \<Longrightarrow> listed_ns ns \<Longrightarrow> wf_map (add_ns_verb ns v m)"
proof (induction m)
  case Nil
  then show ?case by (simp add: wf_map_def)
next
  case (Cons kv m)
  obtain k vs where kv: "kv = (k, vs)" by (cases kv)
  with Cons have wf: "wf_map (add_ns_verb ns v m)" by (simp add: wf_map_def)
  show ?case
  proof (cases "k = ns")
    case True
    with Cons.prems kv show ?thesis by (auto simp: wf_map_def)
  next
    case False
    with wf Cons.prems kv fst_add_ns_verb [of ns v m] show ?thesis by (auto simp: wf_map_def)
  qed
qed

lemma wf_collect: "wf_map m \<Longrightarrow> wf_map (collect_ns p v m)"
  by (simp add: collect_ns_def Let_def wf_add_ns_verb)

lemma wf_fold_own: "wf_map m \<Longrightarrow>
    wf_map (fold (\<lambda>p m. if expired n p then m else collect_ns (p_resource_pattern p) (p_verb p) m) ps m)"
  by (induction ps arbitrary: m) (auto simp: wf_collect)

lemma wf_fold_anon: "wf_map m \<Longrightarrow>
    wf_map (fold (\<lambda>p. collect_ns (ap_resource_pattern p) (ap_verb p)) ps m)"
  by (induction ps arbitrary: m) (auto simp: wf_collect)

definition own_verbs :: "time \<Rightarrow> tables \<Rightarrow> principal option \<Rightarrow> string \<Rightarrow> verb set" where
  "own_verbs n t pr ns =
     (case pr of None \<Rightarrow> {}
      | Some p \<Rightarrow> (case own_perms p t of None \<Rightarrow> {}
          | Some ps \<Rightarrow> {p_verb q | q. q \<in> set ps \<and> \<not> expired n q
                          \<and> pat_ns (p_resource_pattern q) = ns \<and> listed_ns ns}))"

definition anon_verbs :: "time \<Rightarrow> tables \<Rightarrow> string \<Rightarrow> verb set" where
  "anon_verbs n t ns = {ap_verb q | q. q \<in> set (t_anon_permissions t) \<and> anon_live n q
                          \<and> pat_ns (ap_resource_pattern q) = ns \<and> listed_ns ns}"

lemma wp_NamespacesForPrincipal:
  "wp (NamespacesForPrincipal E pr) (\<lambda>r s'. tabs s' = tabs s \<and>
     (\<forall>m. r = Inr m \<longrightarrow> wf_map m \<and> (\<forall>ns. verbs_of m ns = own_verbs (now E) (tabs s) (Some pr) ns))) s"
  unfolding NamespacesForPrincipal_def wp_bind
  by (rule wp_mono [OF wp_permissionsForPrincipal])
    (auto simp: wp_simps own_verbs_def verbs_of_fold_own intro!: wf_fold_own split: sum.splits)

lemma wp_NamespacesForPrincipalWithAnon:
  "wp (NamespacesForPrincipalWithAnon E pr) (\<lambda>r s'. tabs s' = tabs s \<and>
     (\<forall>m. r = Inr m \<longrightarrow> wf_map m \<and>
        (\<forall>ns. verbs_of m ns = own_verbs (now E) (tabs s) pr ns \<union> anon_verbs (now E) (tabs s) ns))) s"
proof -
  have own: "wp (case pr of None \<Rightarrow> State_Monad.return (Inr []) | Some p \<Rightarrow> NamespacesForPrincipal E p)
      (\<lambda>r s'. tabs s' = tabs s \<and>
        (\<forall>m. r = Inr m \<longrightarrow> wf_map m \<and> (\<forall>ns. verbs_of m ns = own_verbs (now E) (tabs s) pr ns))) s"
  proof (cases pr)
    case None
    then show ?thesis by (simp add: wp_simps own_verbs_def)
  next
    case (Some p)
    then show ?thesis using wp_NamespacesForPrincipal [of E p s] by simp
  qed
  show ?thesis
    unfolding NamespacesForPrincipalWithAnon_def ListAnonPermissions_live wp_bind
    by (rule wp_mono [OF own])
      (auto simp: wp_simps verbs_of_fold_anon anon_verbs_def intro!: wf_fold_anon
        split: sum.splits)
qed

subsection \<open>What the checks decide\<close>

text \<open>C1. Whatever database calls fail and whatever patterns are stored,
  \<open>CheckWithAnon\<close> answers yes only for a request that the policy allows, and it never changes
  the tables.\<close>

theorem CheckWithAnon_never_overgrants:
  assumes "run_state (CheckWithAnon E pr v ns name) s = (r, s')"
  shows "tabs s' = tabs s \<and> (r = Inr True \<longrightarrow> policy (now E) (tabs s) pr v ns name)"
  using wpD [OF CheckWithAnon_sound assms] .

theorem CheckWithAnon_never_overgrants_witness:
  "\<exists>r s'. run_state (CheckWithAnon example_env None VerbTypeRead ''public'' ''a'') example_st = (r, s')
     \<and> r = Inr True \<and> tabs s' = tabs example_st
     \<and> policy (now example_env) (tabs example_st) None VerbTypeRead ''public'' ''a''"
proof -
  obtain r s' where run: "run_state (CheckWithAnon example_env None VerbTypeRead ''public'' ''a'') example_st = (r, s')"
    by fastforce
  moreover have "fst (run_state (CheckWithAnon example_env None VerbTypeRead ''public'' ''a'') example_st) = Inr True"
    by code_simp
  ultimately show ?thesis using CheckWithAnon_never_overgrants [OF run] by simp
qed

text \<open>C2. When no database call fails and no live pattern that the check reads is
  malformed, \<open>CheckWithAnon\<close> decides exactly the policy: some unexpired permission attached to
  the principal, or some live anonymous permission, has the verb and matches.\<close>

theorem CheckWithAnon_decides_policy:
  assumes "no_faults E" and "wf_anon (now E) (tabs s)"
    and "\<And>p. pr = Some p \<Longrightarrow> wf_own (now E) (tabs s) p"
  shows "fst (run_state (CheckWithAnon E pr v ns name) s) =
           Inr (policy (now E) (tabs s) pr v ns name)"
  using CheckWithAnon_exact [OF assms] by (simp add: wp_def split_beta)

lemma example_no_faults: "no_faults example_env"
  by (simp add: no_faults_def example_env_def)

lemma example_pattern_ok: "matchesPattern r ''prod/*'' \<noteq> None" "matchesPattern r ''public/*'' \<noteq> None"
proof -
  have "splitSlash ''prod/*'' = (''prod'', ''*'')" "splitSlash ''public/*'' = (''public'', ''*'')"
    by code_simp+
  moreover have "literal ''prod''" "literal ''public''" by code_simp+
  ultimately show "matchesPattern r ''prod/*'' \<noteq> None" "matchesPattern r ''public/*'' \<noteq> None"
    by (simp_all add: matchesPattern_def path_Match_literal path_Match_star Let_def)
qed

lemma example_wf_anon: "wf_anon n example_tables"
  using example_pattern_ok by (simp add: wf_anon_def example_tables_def empty_tables_def)

lemma example_wf_own: "wf_own n example_tables (NewPrincipalFromUser example_user)"
  using example_pattern_ok
  by (simp add: wf_own_def own_perms_def NewPrincipalFromUser_def example_user_def
      example_tables_def empty_tables_def linked_def example_perm_def)

theorem CheckWithAnon_decides_policy_witness:
  "fst (run_state (CheckWithAnon example_env (Some (NewPrincipalFromUser example_user)) VerbTypeDelete
      ''prod'' ''db'') example_st) =
     Inr (policy (now example_env) example_tables (Some (NewPrincipalFromUser example_user))
       VerbTypeDelete ''prod'' ''db'')"
  using CheckWithAnon_decides_policy [of example_env example_st
      "Some (NewPrincipalFromUser example_user)" VerbTypeDelete "''prod''" "''db''"]
  by (simp add: example_no_faults example_st_def init_st_def example_wf_anon example_wf_own)

subsection \<open>The reach of patterns\<close>



text \<open>A pattern that \<open>ValidateAddPattern\<close> accepts and whose namespace part has no
  wildcard matches only resources of that namespace, and never one of the reserved
  namespace.\<close>

theorem granted_literal_namespace:
  assumes "ValidateAddPattern p = None" and "literal (pat_ns p)"
    and "CHR ''/'' \<notin> set ns" and "matchesPattern (ns @ ''/'' @ name) p = Some True"
  shows "ns = pat_ns p \<and> ns \<noteq> ''_''"
proof -
  have "pat_ns (ns @ ''/'' @ name) = ns" using assms(3) by (simp add: pat_ns_def)
  with literal_ns_exact [OF assms(2,4)] have "ns = pat_ns p" by simp
  moreover from assms(1) have "pat_ns p \<noteq> ''_''" by (simp add: ValidateAddPattern_ok)
  ultimately show ?thesis by simp
qed

theorem granted_literal_namespace_witness:
  "''prod'' = pat_ns ''prod/*'' \<and> ''prod'' \<noteq> ''_''"
proof (rule granted_literal_namespace [of "''prod/*''" "''prod''" "''db''"])
  show "ValidateAddPattern ''prod/*'' = None" by code_simp
  show "literal (pat_ns ''prod/*'')" by code_simp
  show "CHR ''/'' \<notin> set ''prod''" by simp
  show "matchesPattern (''prod'' @ ''/'' @ ''db'') ''prod/*'' = Some True" by code_simp
qed

text \<open>A wildcard other than a lone star in the namespace part escapes the
  validation: the pattern \<open>?/users\<close> is accepted for a grant although it matches \<open>_/users\<close>, the
  resource that guards user administration.\<close>

theorem validated_pattern_reaches_users:
  "ValidateAddPattern ''?/users'' = None \<and> matchesPattern ''_/users'' ''?/users'' = Some True
   \<and> ValidateResourcePattern ''?/users''"
proof (intro conjI)
  show "ValidateAddPattern ''?/users'' = None" by code_simp
  show "matchesPattern ''_/users'' ''?/users'' = Some True" by code_simp
  show "ValidateResourcePattern ''?/users''" by code_simp
qed

text \<open>Access to a name with a slash in it is decided by its text alone: the pairs
  \<open>(a, b/c)\<close> and \<open>(a/b, c)\<close> of namespace and name are the same request to the check.\<close>

theorem slash_is_ambiguous:
  "CheckWithAnon E pr v a (b @ ''/'' @ c) = CheckWithAnon E pr v (a @ ''/'' @ b) c"
proof -
  have "Check E p v a (b @ ''/'' @ c) = Check E p v (a @ ''/'' @ b) c" for p
    by (simp only: Check_def append_assoc)
  moreover have "checkAnon E v a (b @ ''/'' @ c) = checkAnon E v (a @ ''/'' @ b) c"
    by (simp only: checkAnon_def append_assoc)
  ultimately show ?thesis by (simp only: CheckWithAnon_def cong: option.case_cong)
qed

subsection \<open>Listing namespaces\<close>



subsection \<open>Textual forms\<close>

text \<open>\<open>ParsePrincipal\<close> accepts exactly the texts \<open>user/<name>\<close> with a non-empty name
  without a slash, and \<open>sa/<namespace>/<name>\<close> with non-empty parts and no slash in the
  namespace, and returns the principal that is written there.\<close>

lemma ParsePrincipal_iff:
  "ParsePrincipal s = Some pr \<longleftrightarrow>
     (\<exists>n. s = ''user/'' @ n \<and> n \<noteq> [] \<and> CHR ''/'' \<notin> set n
        \<and> pr = \<lparr>pr_kind = PrincipalUser, pr_name = n, pr_sa_namespace = [], pr_sa_name = [],
                pr_token_id = 0\<rparr>)
     \<or> (\<exists>a b. s = ''sa/'' @ a @ ''/'' @ b \<and> a \<noteq> [] \<and> b \<noteq> [] \<and> CHR ''/'' \<notin> set a
        \<and> pr = NewPrincipalFromSA a b)"
    (is "_ \<longleftrightarrow> (\<exists>n. ?U n) \<or> (\<exists>a b. ?S a b)")
proof
  assume *: "ParsePrincipal s = Some pr"
  then consider
      (user) n where "SplitN (CHR ''/'') 3 s = [''user'', n]" "n \<noteq> []"
        "pr = \<lparr>pr_kind = PrincipalUser, pr_name = n, pr_sa_namespace = [], pr_sa_name = [], pr_token_id = 0\<rparr>"
    | (sa) a b where "SplitN (CHR ''/'') 3 s = [''sa'', a, b]" "a \<noteq> []" "b \<noteq> []" "pr = NewPrincipalFromSA a b"
    by (auto simp: ParsePrincipal_def NewPrincipalFromSA_def Let_def numeral_eq_Suc length_Suc_conv
        simp del: SplitN.simps split: if_splits)
  then show "(\<exists>n. ?U n) \<or> (\<exists>a b. ?S a b)"
  proof cases
    case user
    then show ?thesis using SplitN_3_pair [of "CHR ''/''" s] by auto
  next
    case sa
    then show ?thesis using SplitN_3_triple [of "CHR ''/''" s] by auto
  qed
next
  assume "(\<exists>n. ?U n) \<or> (\<exists>a b. ?S a b)"
  then show "ParsePrincipal s = Some pr"
  proof (elim disjE exE conjE)
    fix n assume "s = ''user/'' @ n" "n \<noteq> []" "CHR ''/'' \<notin> set n"
      "pr = \<lparr>pr_kind = PrincipalUser, pr_name = n, pr_sa_namespace = [], pr_sa_name = [], pr_token_id = 0\<rparr>"
    moreover from this have "SplitN (CHR ''/'') 3 s = [''user'', n]" by (simp add: SplitN_3_pair)
    ultimately show ?thesis by (simp add: ParsePrincipal_def)
  next
    fix a b assume "s = ''sa/'' @ a @ ''/'' @ b" "a \<noteq> []" "b \<noteq> []" "CHR ''/'' \<notin> set a"
      "pr = NewPrincipalFromSA a b"
    moreover from this have "SplitN (CHR ''/'') 3 s = [''sa'', a, b]" by (simp add: SplitN_3_triple)
    ultimately show ?thesis by (simp add: ParsePrincipal_def NewPrincipalFromSA_def)
  qed
qed

end
