(* ===== verification/K8s.thy ===== *)
theory K8s
  imports Authz_Props
begin

text \<open>
  The Kubernetes side of the server, \<open>internal/k8s\<close>: the bootstrap tokens and the CORS
  origins held in memory, the synchronisation of service-account permissions from a
  ConfigMap, the review of service-account tokens, and the loop that watches a ConfigMap.
  The Kubernetes API itself is the environment: \<open>k8s_client\<close> says whether a client could be
  made, \<open>token_review audience token\<close> is the answer of the TokenReview API (\<open>None\<close> for a
  failed call, otherwise whether the token is authenticated and for which user name).
\<close>

subsection \<open>admintokens.go\<close>

definition IsBootstrapToken :: "string list \<Rightarrow> string \<Rightarrow> bool" where
  "IsBootstrapToken tokens token = (if token = [] then False else token \<in> set tokens)"

definition decode_strings :: "json \<Rightarrow> string list option" where
  "decode_strings = decode_slice (\<lambda>j. decode_string j [])"

definition applyAdminTokens :: "env \<Rightarrow> string \<Rightarrow> unit prog" where
  "applyAdminTokens E data =
     State (\<lambda>s. ((),
       if data = [] then s\<lparr>admin_tokens := []\<rparr>
       else case Option.bind (json_Unmarshal E data) decode_strings of
         None \<Rightarrow> s
       | Some tokens \<Rightarrow> s\<lparr>admin_tokens := tokens\<rparr>))"

subsection \<open>cors.go\<close>

definition AllowedOrigins :: "st \<Rightarrow> string list" where
  "AllowedOrigins s = allowed_origins s"

definition applyCORSOrigins :: "env \<Rightarrow> string \<Rightarrow> unit prog" where
  "applyCORSOrigins E data =
     State (\<lambda>s. ((),
       if data = [] then s\<lparr>allowed_origins := []\<rparr>
       else case Option.bind (json_Unmarshal E data) decode_strings of
         None \<Rightarrow> s
       | Some origins \<Rightarrow> s\<lparr>allowed_origins := origins\<rparr>))"

subsection \<open>sync.go\<close>

record sync_permission =
  sp_resource_pattern :: string
  sp_verb :: string

record sa_entry =
  se_namespace :: string
  se_name :: string
  se_permissions :: "sync_permission list"

record syncConfig =
  sc_service_accounts :: "sa_entry list"

definition decode_sync_permission :: "json \<Rightarrow> sync_permission option" where
  "decode_sync_permission = decode_struct
     [str_field ''resource_pattern'' sp_resource_pattern sp_resource_pattern_update,
      str_field ''verb'' sp_verb sp_verb_update]
     \<lparr>sp_resource_pattern = [], sp_verb = []\<rparr>"

definition decode_sa_entry :: "json \<Rightarrow> sa_entry option" where
  "decode_sa_entry = decode_struct
     [str_field ''namespace'' se_namespace se_namespace_update,
      str_field ''name'' se_name se_name_update,
      val_field ''permissions'' (decode_slice decode_sync_permission) se_permissions_update]
     \<lparr>se_namespace = [], se_name = [], se_permissions = []\<rparr>"

definition decode_syncConfig :: "json \<Rightarrow> syncConfig option" where
  "decode_syncConfig = decode_struct
     [val_field ''service_accounts'' (decode_slice decode_sa_entry) sc_service_accounts_update]
     \<lparr>sc_service_accounts = []\<rparr>"

text \<open>One round of the loop over the permissions of an entry: \<open>None\<close> is \<open>continue\<close>.\<close>

definition sync_permission_row :: "sync_permission \<Rightarrow> permission option" where
  "sync_permission_row p =
     (case NormalizeResource (sp_resource_pattern p) of
        None \<Rightarrow> None
      | Some normalizedPattern \<Rightarrow>
          (if \<not> ValidateResourcePattern normalizedPattern then None
           else case ParseVerb (sp_verb p) of
             None \<Rightarrow> None
           | Some v \<Rightarrow> Some (NewPermission normalizedPattern v None)))"

definition syncSA :: "env \<Rightarrow> sa_entry \<Rightarrow> (dberr + unit) prog" where
  "syncSA E entry = do {
     r \<leftarrow> GetOrCreateSA E (se_namespace entry) (se_name entry);
     case r of
       Inl e \<Rightarrow> State_Monad.return (Inl e)
     | Inr a \<Rightarrow> do {
         let permissions = List.map_filter sync_permission_row (se_permissions entry);
         c \<leftarrow> ReplaceSAPermissions E (sa_id a) permissions;
         case c of
           Inl e \<Rightarrow> State_Monad.return (Inl e)
         | Inr _ \<Rightarrow> UpdateSASyncedAt E (sa_id a)
       }
   }"

text \<open>An entry that fails is logged and the next one is taken.\<close>

fun sync_entries :: "env \<Rightarrow> sa_entry list \<Rightarrow> unit prog" where
  "sync_entries E [] = State_Monad.return ()"
| "sync_entries E (e # es) = do { _ \<leftarrow> syncSA E e; sync_entries E es }"

definition applySync :: "env \<Rightarrow> string \<Rightarrow> unit prog" where
  "applySync E data =
     (if data = [] then State_Monad.return ()
      else case Option.bind (json_Unmarshal E data) decode_syncConfig of
        None \<Rightarrow> State_Monad.return ()
      | Some cfg \<Rightarrow> sync_entries E (sc_service_accounts cfg))"

subsection \<open>tokenreview.go\<close>

definition ValidateSAToken :: "env \<Rightarrow> string \<Rightarrow> (string \<times> string) option" where
  "ValidateSAToken E token =
     (let trimmed = TrimSpace (getenv E ''BRINECRYPT_SA_TOKEN_AUDIENCE'');
          audience = (if trimmed = [] then ''brinekey'' else trimmed) in
      if \<not> k8s_client E then None
      else case token_review E audience token of
        None \<Rightarrow> None
      | Some (authenticated, username) \<Rightarrow>
          (if \<not> authenticated then None
           else case NormalizeSubject username of
             None \<Rightarrow> None
           | Some subject \<Rightarrow>
               (let parts = SplitN (CHR ''/'') 2 subject in
                if length parts \<noteq> 2 \<or> parts ! 0 = [] \<or> parts ! 1 = [] then None
                else Some (parts ! 0, parts ! 1))))"

subsection \<open>Watching a ConfigMap\<close>

text \<open>
  The three watchers share one loop. Its phases are the places where it waits, its events
  what it waits for: the answer to the initial \<open>Get\<close>, the answer to \<open>Watch\<close>, the timer of
  30 seconds after a failed \<open>Watch\<close>, an object delivered on the channel (\<open>None\<close> when it is
  not a ConfigMap), the channel being closed, and the end of the context, which is checked
  once more before the loop starts over. An event that the current phase does not wait for
  leaves it as it is.
\<close>

type_synonym configmap = "string \<Rightarrow> string option"

datatype watch_phase = Fetching | Connecting | Backoff | Watching | Checking | Stopped

datatype watch_event =
    Fetched "configmap option"
  | WatchOpened bool
  | TimerFired
  | Delivered "configmap option"
  | ChannelClosed
  | CtxDone
  | CtxAlive

definition cm_data :: "configmap \<Rightarrow> string \<Rightarrow> string" where
  "cm_data cm k = (case cm k of None \<Rightarrow> [] | Some d \<Rightarrow> d)"

definition watch_begin :: "env \<Rightarrow> watch_phase" where
  "watch_begin E = (if k8s_client E then Fetching else Stopped)"

fun watch_next :: "(string \<Rightarrow> unit prog) \<Rightarrow> string \<Rightarrow> watch_phase \<Rightarrow> watch_event \<Rightarrow> watch_phase prog" where
  "watch_next apply key Fetching (Fetched None) = State_Monad.return Connecting"
| "watch_next apply key Fetching (Fetched (Some cm)) = do {
     _ \<leftarrow> apply (cm_data cm key);
     State_Monad.return Connecting
   }"
| "watch_next apply key Connecting (WatchOpened ok) =
     State_Monad.return (if ok then Watching else Backoff)"
| "watch_next apply key Backoff CtxDone = State_Monad.return Stopped"
| "watch_next apply key Backoff TimerFired = State_Monad.return Connecting"
| "watch_next apply key Watching CtxDone = State_Monad.return Checking"
| "watch_next apply key Watching ChannelClosed = State_Monad.return Checking"
| "watch_next apply key Watching (Delivered None) = State_Monad.return Watching"
| "watch_next apply key Watching (Delivered (Some cm)) = do {
     _ \<leftarrow> apply (cm_data cm key);
     State_Monad.return Watching
   }"
| "watch_next apply key Checking CtxDone = State_Monad.return Stopped"
| "watch_next apply key Checking CtxAlive = State_Monad.return Connecting"
| "watch_next apply key ph ev = State_Monad.return ph"

fun watch_run ::
  "(string \<Rightarrow> unit prog) \<Rightarrow> string \<Rightarrow> watch_phase \<Rightarrow> watch_event list \<Rightarrow> watch_phase prog" where
  "watch_run apply key ph [] = State_Monad.return ph"
| "watch_run apply key ph (ev # evs) = do {
     ph' \<leftarrow> watch_next apply key ph ev;
     watch_run apply key ph' evs
   }"

definition watchAdminTokens :: "env \<Rightarrow> watch_event list \<Rightarrow> watch_phase prog" where
  "watchAdminTokens E = watch_run (applyAdminTokens E) ''admin_tokens'' (watch_begin E)"

definition watchCORSOrigins :: "env \<Rightarrow> watch_event list \<Rightarrow> watch_phase prog" where
  "watchCORSOrigins E = watch_run (applyCORSOrigins E) ''allowed_origins'' (watch_begin E)"

definition watchLoop :: "env \<Rightarrow> watch_event list \<Rightarrow> watch_phase prog" where
  "watchLoop E = watch_run (applySync E) ''permissions'' (watch_begin E)"

text \<open>The watchers are started only when the environment names a ConfigMap.\<close>

definition sync_enabled :: "env \<Rightarrow> string \<Rightarrow> bool" where
  "sync_enabled E var =
     (\<not> (getenv E ''BRINECRYPT_SYNC_NAMESPACE'' = [] \<or> getenv E var = []))"

definition StartSync :: "env \<Rightarrow> watch_event list \<Rightarrow> watch_phase prog" where
  "StartSync E evs =
     (if sync_enabled E ''BRINECRYPT_SYNC_CONFIGMAP'' then watchLoop E evs
      else State_Monad.return Stopped)"

definition StartAdminTokenSync :: "env \<Rightarrow> watch_event list \<Rightarrow> watch_phase prog" where
  "StartAdminTokenSync E evs =
     (if sync_enabled E ''BRINECRYPT_ADMIN_TOKENS_CONFIGMAP'' then watchAdminTokens E evs
      else State_Monad.return Stopped)"

definition StartCORSSync :: "env \<Rightarrow> watch_event list \<Rightarrow> watch_phase prog" where
  "StartCORSSync E evs =
     (if sync_enabled E ''BRINECRYPT_CORS_CONFIGMAP'' then watchCORSOrigins E evs
      else State_Monad.return Stopped)"

end
