(* ===== verification/Http.thy ===== *)
theory Http
  imports Authz_Props
begin

text \<open>
  Requests, responses and the request context as the handlers of \<open>internal/api\<close> and the
  middleware of \<open>internal/auth\<close> see them. Reading headers, query parameters and path values
  is \<open>net/http\<close>'s work and appears as functions of the request; a body that cannot be read is
  \<open>None\<close>. A response keeps the status, the headers the program sets and, instead of the
  JSON text, the Go value that is passed to the JSON encoder (\<open>payload\<close>).
\<close>

text \<open>\<open>context.WithValue\<close> under the keys of \<open>middleware.go\<close>.\<close>

record request_context =
  cx_user :: "user option"
  cx_token :: "capability_token option"
  cx_sa :: "sa option"
  cx_bootstrap :: bool
  cx_auth_method :: string

definition no_context :: request_context where
  "no_context = \<lparr>cx_user = None, cx_token = None, cx_sa = None, cx_bootstrap = False,
                 cx_auth_method = []\<rparr>"

record request =
  rq_method :: string
  rq_segments :: "string list"
  rq_header :: "string \<Rightarrow> string"
  rq_query :: "string \<Rightarrow> string"
  rq_path_value :: "string \<Rightarrow> string"
  rq_body :: "string option"
  rq_remote_addr :: string
  rq_ctx :: request_context

text \<open>
  \<open>rq_segments\<close> are the decoded segments of the request's path, which the router matches;
  \<open>r.URL.Path\<close> is the whole path decoded.
\<close>

definition rq_path :: "request \<Rightarrow> string" where
  "rq_path r = concat (map (\<lambda>seg. CHR ''/'' # seg) (rq_segments r))"

record resource_summary =
  sum_name :: string
  sum_type :: resource_type
  sum_created_at :: time
  sum_created_by :: string
  sum_retired_at :: "time option"

record resource_value_summary =
  rvs_uuid :: uuid
  rvs_version :: uint
  rvs_created_by :: string
  rvs_created_at :: time
  rvs_retired_at :: "time option"
  rvs_encryption_algorithm :: encryption_algorithm

record namespace_permissions =
  np_namespace :: string
  np_verbs :: "verb list"

record userResponse =
  ur_name :: string
  ur_email :: string
  ur_created_at :: time
  ur_permissions :: "permission list"

record userSummary =
  us_name :: string
  us_email :: string
  us_created_at :: time

record patInfo =
  pi_id :: uint
  pi_expiry :: "time option"
  pi_created_at :: time
  pi_last_used_at :: "time option"

datatype query_answer =
    QueryResult "permission list" "time option"
  | PatQueryResult patInfo userSummary "permission list"

record saRef =
  ref_namespace :: string
  ref_name :: string

datatype payload =
    Empty
  | Text string
  | BadPattern string pattern_error
  | ResourceBody resource
  | ValueBody resource_value
  | VersionsBody "resource_value_summary list"
  | NamespacesBody "namespace_permissions list"
  | NamespaceBody string "verb list option" "resource_summary list"
  | SessionBody string string
  | TokenBody string
  | AnonTokenBody string int
  | UserBody userResponse
  | NamesBody "string list"
  | QueryBody "(string \<times> query_answer) list"
  | AnonPermissionsBody "anon_permission list"
  | AuditBody "audit_log list"
  | PrincipalsBody "saRef list"
  | PrincipalDetailsBody "(string \<times> permission list) list"

record response =
  rs_status :: nat
  rs_headers :: "(string \<times> string) list"
  rs_body :: payload

type_synonym handler = "request \<Rightarrow> response prog"

definition http_Error :: "string \<Rightarrow> nat \<Rightarrow> response" where
  "http_Error msg code =
     \<lparr>rs_status = code,
      rs_headers = [(''Content-Type'', ''text/plain; charset=utf-8''),
                    (''X-Content-Type-Options'', ''nosniff'')],
      rs_body = Text msg\<rparr>"

definition write_json :: "payload \<Rightarrow> response" where
  "write_json v =
     \<lparr>rs_status = 200, rs_headers = [(''Content-Type'', ''application/json'')], rs_body = v\<rparr>"

definition write_header :: "nat \<Rightarrow> response" where
  "write_header code = \<lparr>rs_status = code, rs_headers = [], rs_body = Empty\<rparr>"

abbreviation answer :: "response \<Rightarrow> response prog" where
  "answer r \<equiv> State_Monad.return r"

abbreviation internal_error :: response where
  "internal_error \<equiv> http_Error ''internal server error'' 500"

lemma response_simps [simp]:
  "rs_status (http_Error m c) = c" "rs_status (write_json v) = 200" "rs_status (write_header c) = c"
  "rs_body (http_Error m c) = Text m" "rs_body (write_json v) = v" "rs_body (write_header c) = Empty"
  by (simp_all add: http_Error_def write_json_def write_header_def)

text \<open>\<open>json.NewDecoder(r.Body).Decode(&v)\<close>\<close>

definition decode_body :: "env \<Rightarrow> (json \<Rightarrow> 'a option) \<Rightarrow> request \<Rightarrow> 'a option" where
  "decode_body E dec r = Option.bind (Option.bind (rq_body r) (json_Decode E)) dec"

end
