(* ===== verification/Auth.thy ===== *)
theory Auth
  imports K8s Http
begin

text \<open>
  Authentication, \<open>internal/auth\<close>: opaque tokens and their digests (\<open>tokengen.go\<close>), sessions
  (\<open>session.go\<close>) and the middleware that turns the bearer token of a request into a
  principal in its context (\<open>middleware.go\<close>).
\<close>

subsection \<open>tokengen.go\<close>

definition HashToken :: "env \<Rightarrow> string \<Rightarrow> string" where
  "HashToken E token = hex_encode (sha256 E token)"

definition GenerateToken :: "env \<Rightarrow> string option prog" where
  "GenerateToken E = do {
     b \<leftarrow> read_random E 32;
     case b of
       None \<Rightarrow> State_Monad.return None
     | Some bs \<Rightarrow> State_Monad.return (Some (hex_encode bs))
   }"

subsection \<open>session.go\<close>

abbreviation SessionPrefix :: string where "SessionPrefix \<equiv> ''sess_''"
abbreviation RefreshPrefix :: string where "RefreshPrefix \<equiv> ''refr_''"
abbreviation PATPrefix :: string where "PATPrefix \<equiv> ''pat_''"
abbreviation CapabilityPrefix :: string where "CapabilityPrefix \<equiv> ''cap_''"

datatype session_error = ErrInvalidCredentials | ErrInvalidToken | ErrRandom | ErrStore dberr

record SessionTokens =
  SessionToken :: string
  RefreshToken :: string

definition NewSession :: "env \<Rightarrow> user \<Rightarrow> (session_error + SessionTokens) prog" where
  "NewSession E u = do {
     raw \<leftarrow> GenerateToken E;
     case raw of
       None \<Rightarrow> State_Monad.return (Inl ErrRandom)
     | Some raw \<Rightarrow> do {
         let st = SessionPrefix @ raw;
         raw \<leftarrow> GenerateToken E;
         case raw of
           None \<Rightarrow> State_Monad.return (Inl ErrRandom)
         | Some raw \<Rightarrow> do {
             let rt = RefreshPrefix @ raw;
             let x = \<lparr>s_id = 0, s_user_id = u_id u, s_token_hash = HashToken E st,
                      s_refresh_token_hash = HashToken E rt,
                      s_expires_at = now E + 15 * Minute, s_created_at = 0\<rparr>;
             c \<leftarrow> CreateSession E x;
             case c of
               Inl e \<Rightarrow> State_Monad.return (Inl (ErrStore e))
             | Inr _ \<Rightarrow> State_Monad.return (Inr \<lparr>SessionToken = st, RefreshToken = rt\<rparr>)
           }
       }
   }"

definition Login :: "env \<Rightarrow> string \<Rightarrow> string \<Rightarrow> (session_error + SessionTokens) prog" where
  "Login E username password = do {
     r \<leftarrow> GetUser E username;
     case r of
       Inl _ \<Rightarrow> State_Monad.return (Inl ErrInvalidCredentials)
     | Inr u \<Rightarrow>
        (if \<not> bcrypt_compare E (u_pass u) password
         then State_Monad.return (Inl ErrInvalidCredentials)
         else NewSession E u)
   }"

definition Refresh :: "env \<Rightarrow> string \<Rightarrow> (session_error + SessionTokens) prog" where
  "Refresh E refreshToken =
     (if \<not> HasPrefix refreshToken RefreshPrefix then State_Monad.return (Inl ErrInvalidToken)
      else do {
        r \<leftarrow> GetSessionByRefreshTokenHash E (HashToken E refreshToken);
        case r of
          Inl _ \<Rightarrow> State_Monad.return (Inl ErrInvalidToken)
        | Inr session \<Rightarrow>
           (if s_expires_at session < now E then State_Monad.return (Inl ErrInvalidToken)
            else do {
              q \<leftarrow> GetUserById E (s_user_id session);
              case q of
                Inl _ \<Rightarrow> State_Monad.return (Inl ErrInvalidToken)
              | Inr u \<Rightarrow> do {
                  t \<leftarrow> NewSession E u;
                  case t of
                    Inl e \<Rightarrow> State_Monad.return (Inl e)
                  | Inr tokens \<Rightarrow> do {
                      d \<leftarrow> DeleteSession E (s_id session);
                      case d of
                        Inl e \<Rightarrow> State_Monad.return (Inl (ErrStore e))
                      | Inr _ \<Rightarrow> State_Monad.return (Inr tokens)
                    }
                }
            })
      })"

definition Logout :: "env \<Rightarrow> string \<Rightarrow> (session_error + unit) prog" where
  "Logout E sessionToken =
     (if \<not> HasPrefix sessionToken SessionPrefix then State_Monad.return (Inl ErrInvalidToken)
      else do {
        r \<leftarrow> GetSessionByTokenHash E (HashToken E sessionToken);
        case r of
          Inl _ \<Rightarrow> State_Monad.return (Inl ErrInvalidToken)
        | Inr session \<Rightarrow> do {
            c \<leftarrow> InvalidateSession E (s_id session);
            case c of
              Inl e \<Rightarrow> State_Monad.return (Inl (ErrStore e))
            | Inr _ \<Rightarrow> State_Monad.return (Inr ())
          }
      })"

subsection \<open>middleware.go\<close>

abbreviation AuthMethodSession :: string where "AuthMethodSession \<equiv> ''session''"
abbreviation AuthMethodPAT :: string where "AuthMethodPAT \<equiv> ''pat''"

definition looksLikeJWT :: "string \<Rightarrow> bool" where
  "looksLikeJWT s = (HasPrefix s ''eyJ'' \<and> CountChar s (CHR ''.'') = 2)"

text \<open>The resolvers: \<open>None\<close> stands for any error, which the middleware treats alike.\<close>

definition resolveSession :: "env \<Rightarrow> string \<Rightarrow> user option prog" where
  "resolveSession E token = do {
     r \<leftarrow> GetSessionByTokenHash E (HashToken E token);
     case r of
       Inl _ \<Rightarrow> State_Monad.return None
     | Inr session \<Rightarrow>
        (if s_expires_at session < now E then State_Monad.return None
         else do {
           q \<leftarrow> GetUserById E (s_user_id session);
           case q of Inl _ \<Rightarrow> State_Monad.return None | Inr u \<Rightarrow> State_Monad.return (Some u)
         })
   }"

definition resolvePAT :: "env \<Rightarrow> string \<Rightarrow> user option prog" where
  "resolvePAT E token = do {
     r \<leftarrow> GetPATByHash E (HashToken E token);
     case r of
       Inl _ \<Rightarrow> State_Monad.return None
     | Inr p \<Rightarrow>
        (if (case pat_expiry p of None \<Rightarrow> False | Some e \<Rightarrow> e < now E) then State_Monad.return None
         else do {
           q \<leftarrow> GetUserById E (pat_user_id p);
           case q of Inl _ \<Rightarrow> State_Monad.return None | Inr u \<Rightarrow> State_Monad.return (Some u)
         })
   }"

definition resolveCapabilityToken :: "env \<Rightarrow> string \<Rightarrow> capability_token option prog" where
  "resolveCapabilityToken E token = do {
     r \<leftarrow> GetCapabilityTokenByHash E (HashToken E token);
     case r of
       Inl _ \<Rightarrow> State_Monad.return None
     | Inr ct \<Rightarrow>
        (if (case ct_expires_at ct of None \<Rightarrow> False | Some e \<Rightarrow> e < now E)
         then State_Monad.return None
         else State_Monad.return (Some ct))
   }"

definition resolveSAJWT :: "env \<Rightarrow> string \<Rightarrow> sa option prog" where
  "resolveSAJWT E token =
     (case ValidateSAToken E token of
        None \<Rightarrow> State_Monad.return None
      | Some (namespace, name) \<Rightarrow> do {
          r \<leftarrow> GetOrCreateSA E namespace name;
          case r of Inl _ \<Rightarrow> State_Monad.return None | Inr a \<Rightarrow> State_Monad.return (Some a)
        })"

definition resolveToken :: "env \<Rightarrow> request_context \<Rightarrow> string \<Rightarrow> request_context option prog" where
  "resolveToken E cx raw =
     (if HasPrefix raw SessionPrefix then do {
        u \<leftarrow> resolveSession E raw;
        case u of
          None \<Rightarrow> State_Monad.return None
        | Some u \<Rightarrow> State_Monad.return (Some (cx\<lparr>cx_user := Some u, cx_auth_method := AuthMethodSession\<rparr>))
      }
      else if HasPrefix raw PATPrefix then do {
        u \<leftarrow> resolvePAT E raw;
        case u of
          None \<Rightarrow> State_Monad.return None
        | Some u \<Rightarrow> State_Monad.return (Some (cx\<lparr>cx_user := Some u, cx_auth_method := AuthMethodPAT\<rparr>))
      }
      else if HasPrefix raw CapabilityPrefix then do {
        c \<leftarrow> resolveCapabilityToken E raw;
        case c of
          None \<Rightarrow> State_Monad.return None
        | Some ct \<Rightarrow> State_Monad.return (Some (cx\<lparr>cx_token := Some ct\<rparr>))
      }
      else if looksLikeJWT raw then do {
        a \<leftarrow> resolveSAJWT E raw;
        case a of
          None \<Rightarrow> State_Monad.return None
        | Some a \<Rightarrow> State_Monad.return (Some (cx\<lparr>cx_sa := Some a\<rparr>))
      }
      else State_Monad.return None)"

definition public_paths :: "string list" where
  "public_paths = [''/auth/login'', ''/auth/anon'', ''/admin/anon'']"

definition optional_auth_paths :: "string list" where
  "optional_auth_paths = [''/api/v1/namespace'', ''/api/v1/resource'']"

definition bearer :: "request \<Rightarrow> string" where
  "bearer r = TrimPrefix (rq_header r ''Authorization'') ''Bearer ''"

definition AuthMiddleware :: "env \<Rightarrow> handler \<Rightarrow> handler" where
  "AuthMiddleware E nxt r =
     (if rq_path r \<in> set public_paths then nxt r
      else do {
        s \<leftarrow> State_Monad.get;
        let raw = bearer r;
        if rq_method r = ''POST'' \<and> rq_path r = ''/admin/user'' \<and> IsBootstrapToken (admin_tokens s) raw
        then nxt (r\<lparr>rq_ctx := (rq_ctx r)\<lparr>cx_bootstrap := True\<rparr>\<rparr>)
        else if rq_path r \<in> set optional_auth_paths then
          (if raw \<noteq> [] then do {
             cx \<leftarrow> resolveToken E (rq_ctx r) raw;
             case cx of
               None \<Rightarrow> answer (http_Error ''unauthorized'' 401)
             | Some cx \<Rightarrow> nxt (r\<lparr>rq_ctx := cx\<rparr>)
           }
           else nxt r)
        else if raw = [] then answer (http_Error ''unauthorized'' 401)
        else do {
          cx \<leftarrow> resolveToken E (rq_ctx r) raw;
          case cx of
            None \<Rightarrow> answer (http_Error ''unauthorized'' 401)
          | Some cx \<Rightarrow> nxt (r\<lparr>rq_ctx := cx\<rparr>)
        }
      })"

end
