(* ===== verification/Crypto.thy ===== *)
theory Crypto
  imports Store_Laws
begin

text \<open>
  Envelope encryption, \<open>internal/crypto/crypto.go\<close>. AES-GCM itself is the pair \<open>gcm_seal\<close>,
  \<open>gcm_open\<close> of the environment; \<open>gcm_correct\<close> and \<open>full_reads\<close> state what its documentation
  and that of \<open>io.ReadFull\<close> promise. The theory shows that what is sealed can be opened
  again with the same key, through the base64 text that is stored.
\<close>

definition GetKEK :: "env \<Rightarrow> bytes option" where
  "GetKEK E =
     (let hexKey = getenv E ''BRINECRYPT_KEK'' in
      if hexKey = [] then None
      else case hex_decode hexKey of
        None \<Rightarrow> None
      | Some key \<Rightarrow> (if length key \<noteq> 32 then None else Some key))"

definition GenerateDEK :: "env \<Rightarrow> bytes option prog" where
  "GenerateDEK E = read_random E 32"

text \<open>\<open>aes.NewCipher\<close> accepts exactly the key sizes of AES-128, AES-192 and AES-256.\<close>

definition aes_key_ok :: "bytes \<Rightarrow> bool" where
  "aes_key_ok key = (length key \<in> {16, 24, 32})"

definition NonceSize :: nat where
  "NonceSize = 12"

definition sealGCM :: "env \<Rightarrow> bytes \<Rightarrow> bytes \<Rightarrow> string option prog" where
  "sealGCM E plaintext key =
     (if \<not> aes_key_ok key then State_Monad.return None
      else do {
        n \<leftarrow> read_random E NonceSize;
        case n of
          None \<Rightarrow> State_Monad.return None
        | Some nonce \<Rightarrow>
            (let sealed = nonce @ gcm_seal E key nonce plaintext
             in State_Monad.return (Some (b64_encode sealed)))
      })"

definition openGCM :: "env \<Rightarrow> string \<Rightarrow> bytes \<Rightarrow> bytes option" where
  "openGCM E encoded key =
     (case b64_decode encoded of
        None \<Rightarrow> None
      | Some data \<Rightarrow>
          (if \<not> aes_key_ok key then None
           else if length data < NonceSize then None
           else
             (let nonce = take NonceSize data; ciphertext = drop NonceSize data
              in gcm_open E key nonce ciphertext)))"

definition EncryptDEK :: "env \<Rightarrow> bytes \<Rightarrow> bytes \<Rightarrow> string option prog" where
  "EncryptDEK E dek kek = sealGCM E dek kek"

definition DecryptDEK :: "env \<Rightarrow> string \<Rightarrow> bytes \<Rightarrow> bytes option" where
  "DecryptDEK E encryptedDEK kek = openGCM E encryptedDEK kek"

definition EncryptValue :: "env \<Rightarrow> string \<Rightarrow> bytes \<Rightarrow> string option prog" where
  "EncryptValue E plaintext dek = sealGCM E plaintext dek"

definition DecryptValue :: "env \<Rightarrow> string \<Rightarrow> bytes \<Rightarrow> string option" where
  "DecryptValue E ciphertext dek = openGCM E ciphertext dek"

subsection \<open>What the ciphers and the random source promise\<close>

definition gcm_correct :: "env \<Rightarrow> bool" where
  "gcm_correct E = (\<forall>k n p. aes_key_ok k \<longrightarrow> length n = NonceSize \<longrightarrow>
     gcm_open E k n (gcm_seal E k n p) = Some p)"

lemma GetKEK_length: "GetKEK E = Some k \<Longrightarrow> length k = 32"
  by (auto simp: GetKEK_def Let_def split: if_splits option.splits)

lemma GetKEK_ok: "GetKEK E = Some k \<Longrightarrow> aes_key_ok k"
  by (simp add: GetKEK_length aes_key_ok_def)

lemma aes_key_32: "length k = 32 \<Longrightarrow> aes_key_ok k"
  by (simp add: aes_key_ok_def)

lemma openGCM_sealed:
  assumes "gcm_correct E" "aes_key_ok k" "length n = NonceSize"
  shows "openGCM E (b64_encode (n @ gcm_seal E k n p)) k = Some p"
  using assms by (simp add: openGCM_def b64_decode_encode gcm_correct_def)

lemma openGCM_aes: "openGCM E c k = Some p \<Longrightarrow> aes_key_ok k"
  by (auto simp: openGCM_def split: option.splits if_splits)

lemma keeps_sealGCM [keeps_intros]:
  "keeps (\<lambda>s. g (tabs s)) (sealGCM E p k)"
  "keeps (\<lambda>s. g (tabs s)) (EncryptDEK E p k)"
  "keeps (\<lambda>s. g (tabs s)) (EncryptValue E p k)"
  "keeps (\<lambda>s. g (tabs s)) (GenerateDEK E)"
  unfolding EncryptDEK_def EncryptValue_def sealGCM_def GenerateDEK_def
  by (intro keeps_intros)+

text \<open>
  The contract of sealing that the resource handlers use: only the random counter moves,
  and under a correct cipher the text opens to the plaintext.
\<close>

lemma wp_sealGCM:
  assumes "gcm_correct E" "full_reads E"
  shows "wp (sealGCM E p k) (\<lambda>r s'. s' = s\<lparr>nrand := nrand s'\<rparr> \<and>
           (\<forall>c. r = Some c \<longrightarrow> openGCM E c k = Some p)) s"
  using assms
  by (auto simp: sealGCM_def wp_simps full_reads_def intro!: openGCM_sealed split: option.splits)

lemma wp_GenerateDEK:
  assumes "full_reads E"
  shows "wp (GenerateDEK E) (\<lambda>r s'. s' = s\<lparr>nrand := nrand s'\<rparr> \<and>
           (\<forall>k. r = Some k \<longrightarrow> aes_key_ok k)) s"
  using assms by (simp add: GenerateDEK_def wp_simps full_reads_def aes_key_ok_def)

lemma wp_sealGCM_total:
  assumes "rand_available E" "aes_key_ok k"
  shows "wp (sealGCM E p k) (\<lambda>r s'. r \<noteq> None) s"
proof -
  obtain n where "rand_read E (nrand s) NonceSize = Some n"
    using assms(1) by (auto simp: rand_available_def)
  with assms(2) show ?thesis by (simp add: sealGCM_def wp_simps)
qed

end
