(* ===== verification/Api_Common.thy ===== *)
theory Api_Common
  imports Auth Crypto
begin

text \<open>
  What the handlers of \<open>internal/api\<close> share: the principal and the actor of a request,
  writing the audit log, and the checks against the reserved namespace \<open>_\<close>. The
  combinators \<open>attempt\<close> and \<open>attempt_some\<close> are the recurring
  \<open>x, err := f(); if err != nil \{ http.Error(...); return \}\<close>.
\<close>

definition attempt ::
  "('e + 'a) prog \<Rightarrow> ('e \<Rightarrow> response) \<Rightarrow> ('a \<Rightarrow> response prog) \<Rightarrow> response prog" where
  "attempt m on_error k = do {
     r \<leftarrow> m;
     case r of Inl e \<Rightarrow> answer (on_error e) | Inr x \<Rightarrow> k x
   }"

definition attempt_some ::
  "'a option prog \<Rightarrow> response \<Rightarrow> ('a \<Rightarrow> response prog) \<Rightarrow> response prog" where
  "attempt_some m on_error k = do {
     r \<leftarrow> m;
     case r of None \<Rightarrow> answer on_error | Some x \<Rightarrow> k x
   }"

text \<open>The answers to a failed lookup.\<close>

definition not_found_or_500 :: "dberr \<Rightarrow> response" where
  "not_found_or_500 e =
     (if e = ErrRecordNotFound then http_Error ''not found'' 404 else internal_error)"

abbreviation metaNS :: string where "metaNS \<equiv> ''_''"
abbreviation metaNSResource :: string where "metaNSResource \<equiv> ''ns''"
abbreviation metaUsersResource :: string where "metaUsersResource \<equiv> ''users''"
abbreviation metaSAResource :: string where "metaSAResource \<equiv> ''sa''"

definition principalFromContext :: "request \<Rightarrow> principal option" where
  "principalFromContext r =
     (case cx_user (rq_ctx r) of
        Some u \<Rightarrow> Some (NewPrincipalFromUser u)
      | None \<Rightarrow>
        (case cx_token (rq_ctx r) of
           Some ct \<Rightarrow> Some (NewPrincipalFromToken ct)
         | None \<Rightarrow>
           (case cx_sa (rq_ctx r) of
              Some a \<Rightarrow> Some (NewPrincipalFromSA (sa_namespace a) (sa_name a))
            | None \<Rightarrow> None)))"

definition actorFromRequest :: "request \<Rightarrow> string" where
  "actorFromRequest r =
     (case cx_user (rq_ctx r) of
        Some u \<Rightarrow> ''user:'' @ u_name u
      | None \<Rightarrow>
        (case cx_sa (rq_ctx r) of
           Some a \<Rightarrow> ''sa:'' @ sa_namespace a @ ''/'' @ sa_name a
         | None \<Rightarrow>
           (case cx_token (rq_ctx r) of
              Some ct \<Rightarrow> ''token:'' @ show_uint (ct_id ct)
            | None \<Rightarrow> ''unknown'')))"

definition WriteAudit ::
  "env \<Rightarrow> request \<Rightarrow> string \<Rightarrow> string \<Rightarrow> string \<Rightarrow> string \<Rightarrow> unit prog" where
  "WriteAudit E r actor action resource status = do {
     _ \<leftarrow> CreateAuditLog E
       \<lparr>al_id = 0, al_created_at = 0, al_actor = actor, al_action = action,
        al_resource = resource, al_status = status, al_remote_addr = rq_remote_addr r\<rparr>;
     State_Monad.return ()
   }"

definition requireMeta :: "env \<Rightarrow> request \<Rightarrow> verb \<Rightarrow> string \<Rightarrow> bool prog" where
  "requireMeta E r v resource =
     (if cx_auth_method (rq_ctx r) \<noteq> AuthMethodSession then State_Monad.return False
      else case principalFromContext r of
        None \<Rightarrow> State_Monad.return False
      | Some pr \<Rightarrow> do {
          c \<leftarrow> Check E pr v metaNS resource;
          State_Monad.return (case c of Inl _ \<Rightarrow> False | Inr ok \<Rightarrow> ok)
        })"

definition requireMetaUser :: "env \<Rightarrow> request \<Rightarrow> verb \<Rightarrow> bool prog" where
  "requireMetaUser E r v = requireMeta E r v metaUsersResource"

definition hasMetaNS :: "env \<Rightarrow> principal option \<Rightarrow> verb \<Rightarrow> bool prog" where
  "hasMetaNS E pr v =
     (case pr of
        None \<Rightarrow> State_Monad.return False
      | Some p \<Rightarrow> do {
          c \<leftarrow> Check E p v metaNS metaNSResource;
          State_Monad.return (case c of Inl _ \<Rightarrow> False | Inr ok \<Rightarrow> ok)
        })"

subsection \<open>Rules\<close>

lemma wp_attempt [wp_simps]:
  "wp (attempt m h k) Q =
     wp m (\<lambda>r. case r of Inl e \<Rightarrow> Q (h e) | Inr x \<Rightarrow> wp (k x) Q)"
  by (simp add: attempt_def wp_simps cong: sum.case_cong)

lemma wp_attempt_some [wp_simps]:
  "wp (attempt_some m h k) Q =
     wp m (\<lambda>r. case r of None \<Rightarrow> Q h | Some x \<Rightarrow> wp (k x) Q)"
  by (simp add: attempt_some_def wp_simps cong: option.case_cong)

lemma keeps_attempt [keeps_intros]:
  "keeps f m \<Longrightarrow> (\<And>x. keeps f (k x)) \<Longrightarrow> keeps f (attempt m h k)"
  unfolding attempt_def by (intro keeps_intros)

lemma keeps_attempt_some [keeps_intros]:
  "keeps f m \<Longrightarrow> (\<And>x. keeps f (k x)) \<Longrightarrow> keeps f (attempt_some m h k)"
  unfolding attempt_some_def by (intro keeps_intros)

lemma preserves_attempt [preserves_intros]:
  "preserves P m \<Longrightarrow> (\<And>x. preserves P (k x)) \<Longrightarrow> preserves P (attempt m h k)"
  unfolding attempt_def by (intro preserves_intros)

lemma preserves_attempt_some [preserves_intros]:
  "preserves P m \<Longrightarrow> (\<And>x. preserves P (k x)) \<Longrightarrow> preserves P (attempt_some m h k)"
  unfolding attempt_some_def by (intro preserves_intros)

lemma keeps_requireMeta [keeps_intros]:
  "keeps (\<lambda>s. g (tabs s)) (requireMeta E r v x)"
  "keeps (\<lambda>s. g (tabs s)) (requireMetaUser E r v)"
  "keeps (\<lambda>s. g (tabs s)) (hasMetaNS E pr v)"
  unfolding requireMeta_def requireMetaUser_def hasMetaNS_def by (intro keeps_intros)+

lemma keeps_WriteAudit:
  "(\<And>f t. g (t_audit_logs_update f t) = g t) \<Longrightarrow> keeps (\<lambda>s. g (tabs s)) (WriteAudit E r a b c d)"
  unfolding WriteAudit_def by (intro keeps_intros ins_audit.keeps_insert_part)

lemma keeps_core_meta [keeps_intros]:
  "keeps core (requireMeta E r v x)" "keeps core (requireMetaUser E r v)" "keeps core (hasMetaNS E pr v)"
  unfolding requireMeta_def requireMetaUser_def hasMetaNS_def by (intro keeps_intros)+

text \<open>What a positive answer of the checks on the reserved namespace means.\<close>

lemmas meta_wps [wp_simps] =
  wp_run [of "requireMeta E r v x" for E r v x] wp_run [of "requireMetaUser E r v" for E r v]
  wp_run [of "hasMetaNS E pr v" for E pr v]

lemmas after_metas [simp] = keeps_core_meta [THEN keeps_core_after(1)] keeps_core_meta [THEN keeps_core_after(2)]
  keeps_core_meta [THEN keeps_core_after(3)] keeps_core_meta [THEN keeps_core_after(4)]
  keeps_core_meta [THEN keeps_core_after(5)] keeps_core_meta [THEN keeps_core_after(6)]

definition meta_policy :: "env \<Rightarrow> tables \<Rightarrow> request \<Rightarrow> verb \<Rightarrow> string \<Rightarrow> bool" where
  "meta_policy E t r v resource \<longleftrightarrow> cx_auth_method (rq_ctx r) = AuthMethodSession
     \<and> (\<exists>pr. principalFromContext r = Some pr \<and> own_policy (now E) t pr v metaNS resource)"

lemma requireMeta_sound: "outcome (requireMeta E r v x) s \<Longrightarrow> meta_policy E (tabs s) r v x"
proof -
  have "wp (requireMeta E r v x) (\<lambda>ok _. ok \<longrightarrow> meta_policy E (tabs s) r v x) s"
    unfolding requireMeta_def meta_policy_def
    by (auto simp: wp_simps dest!: own_check.result_check split: option.splits sum.splits)
  then show "outcome (requireMeta E r v x) s \<Longrightarrow> meta_policy E (tabs s) r v x"
    by (simp add: wp_run)
qed

lemma requireMetaUser_sound: "outcome (requireMetaUser E r v) s \<Longrightarrow> meta_policy E (tabs s) r v metaUsersResource"
  unfolding requireMetaUser_def by (rule requireMeta_sound)

lemma hasMetaNS_sound:
  "outcome (hasMetaNS E pr v) s \<Longrightarrow> \<exists>p. pr = Some p \<and> own_policy (now E) (tabs s) p v metaNS metaNSResource"
proof -
  have "wp (hasMetaNS E pr v) (\<lambda>ok _. ok \<longrightarrow>
      (\<exists>p. pr = Some p \<and> own_policy (now E) (tabs s) p v metaNS metaNSResource)) s"
    unfolding hasMetaNS_def
    by (auto simp: wp_simps dest!: own_check.result_check split: option.splits sum.splits)
  then show "outcome (hasMetaNS E pr v) s \<Longrightarrow> \<exists>p. pr = Some p \<and> own_policy (now E) (tabs s) p v metaNS metaNSResource"
    by (simp add: wp_run)
qed

lemma wp_WriteAudit [wp_simps]:
  "wp (WriteAudit E r actor action resource status) Q s =
     (let i = Suc (seqs s TAuditLogs); s1 = (tick s)\<lparr>seqs := (seqs s)(TAuditLogs := i)\<rparr> in
      if db_fault E (ncalls s) then Q () (tick s)
      else Q () (s1\<lparr>tabs := (tabs s)\<lparr>t_audit_logs := t_audit_logs (tabs s) @
        [\<lparr>al_id = i, al_created_at = now E, al_actor = actor, al_action = action,
          al_resource = resource, al_status = status, al_remote_addr = rq_remote_addr r\<rparr>]\<rparr>\<rparr>))"
  by (simp add: WriteAudit_def wp_simps ins_audit.wp_insert Let_def)

end
