(* ===== verification/Resource_Api.thy ===== *)
theory Resource_Api
  imports Api_Common
begin

text \<open>
  The namespace and resource endpoints, \<open>internal/api/resource.go\<close>.
\<close>

definition SummarizeResource :: "resource \<Rightarrow> resource_summary" where
  "SummarizeResource r =
     \<lparr>sum_name = r_name r, sum_type = r_type r, sum_created_at = r_created_at r,
      sum_created_by = r_created_by r, sum_retired_at = r_retired_at r\<rparr>"

definition SummarizeResourceValue :: "resource_value \<Rightarrow> resource_value_summary" where
  "SummarizeResourceValue r =
     \<lparr>rvs_uuid = rv_uuid r, rvs_version = rv_version r, rvs_created_by = rv_created_by r,
      rvs_created_at = rv_created_at r, rvs_retired_at = rv_retired_at r,
      rvs_encryption_algorithm = rv_encryption_algorithm r\<rparr>"

definition decryptValue :: "env \<Rightarrow> resource_value \<Rightarrow> resource_value option" where
  "decryptValue E rv =
     (if rv_encryption_algorithm rv = EncryptionAlgorithmUndefined then Some rv
      else case rv_encryption_key rv of
        None \<Rightarrow> None
      | Some key \<Rightarrow>
          (case GetKEK E of
             None \<Rightarrow> None
           | Some kek \<Rightarrow>
               (case DecryptDEK E (ek_encrypted_dek key) kek of
                  None \<Rightarrow> None
                | Some dek \<Rightarrow>
                    (case DecryptValue E (rv_data rv) dek of
                       None \<Rightarrow> None
                     | Some plaintext \<Rightarrow> Some (rv\<lparr>rv_data := plaintext\<rparr>)))))"

subsection \<open>Namespaces\<close>

fun collect_meta_loop :: "env \<Rightarrow> principal option \<Rightarrow> verb list \<Rightarrow> verb list prog" where
  "collect_meta_loop E pr [] = State_Monad.return []"
| "collect_meta_loop E pr (v # vs) = do {
     ok \<leftarrow> hasMetaNS E pr v;
     out \<leftarrow> collect_meta_loop E pr vs;
     State_Monad.return (if ok then v # out else out)
   }"

definition collectMetaVerbs :: "env \<Rightarrow> principal option \<Rightarrow> verb list prog" where
  "collectMetaVerbs E pr =
     collect_meta_loop E pr [VerbTypeList, VerbTypeRead, VerbTypeWrite, VerbTypeDelete]"

fun union_loop :: "verb list \<Rightarrow> verb list \<Rightarrow> verb list" where
  "union_loop seen [] = []"
| "union_loop seen (v # vs) =
     (if v \<notin> set seen then v # union_loop (v # seen) vs else union_loop seen vs)"

definition unionVerbs :: "verb list \<Rightarrow> verb list \<Rightarrow> verb list" where
  "unionVerbs a b = union_loop [] (a @ b)"

definition namespace_list :: "env \<Rightarrow> principal option \<Rightarrow> response prog" where
  "namespace_list E pr = do {
     meta \<leftarrow> hasMetaNS E pr VerbTypeList;
     if meta then
       attempt (ListNamespaces E) (\<lambda>_. internal_error) (\<lambda>allNS.
       attempt (NamespacesForPrincipalWithAnon E pr) (\<lambda>_. internal_error) (\<lambda>ownVerbs. do {
         metaVerbs \<leftarrow> collectMetaVerbs E pr;
         let own = map (\<lambda>(ns, verbs). \<lparr>np_namespace = ns, np_verbs = unionVerbs verbs metaVerbs\<rparr>)
                     (filter (\<lambda>(ns, _). ns \<noteq> ''_'') (map_range E ownVerbs));
         let rest = map (\<lambda>n. \<lparr>np_namespace = ns_name n, np_verbs = metaVerbs\<rparr>)
                      (filter (\<lambda>n. ns_name n \<noteq> ''_'' \<and> map_of ownVerbs (ns_name n) = None) allNS);
         answer (write_json (NamespacesBody (own @ rest)))
       }))
     else
       attempt (NamespacesForPrincipalWithAnon E pr) (\<lambda>_. internal_error) (\<lambda>nsVerbs. do {
         metaVerbs \<leftarrow> collectMetaVerbs E pr;
         answer (write_json (NamespacesBody
           (map (\<lambda>(ns, verbs). \<lparr>np_namespace = ns, np_verbs = unionVerbs verbs metaVerbs\<rparr>)
              (map_range E nsVerbs))))
       })
   }"

record namespace_body =
  nb_namespace :: string

definition decode_namespace_body :: "json \<Rightarrow> namespace_body option" where
  "decode_namespace_body = decode_struct
     [str_field ''namespace'' nb_namespace nb_namespace_update] \<lparr>nb_namespace = []\<rparr>"

text \<open>The decoding of the body that the three operations on one namespace share.\<close>

definition with_namespace :: "env \<Rightarrow> request \<Rightarrow> (string \<Rightarrow> response prog) \<Rightarrow> response prog" where
  "with_namespace E r k =
     (case decode_body E decode_namespace_body r of
        None \<Rightarrow> answer (http_Error ''invalid request body'' 400)
      | Some body \<Rightarrow>
          (if nb_namespace body = [] then answer (http_Error ''invalid request body'' 400)
           else if nb_namespace body = ''_'' then answer (http_Error ''not found'' 404)
           else k (nb_namespace body)))"

definition namespace_query_body :: "env \<Rightarrow> request \<Rightarrow> principal option \<Rightarrow> string \<Rightarrow> response prog" where
  "namespace_query_body E r pr ns =
     attempt (ListResources E ns) (\<lambda>_. internal_error) (\<lambda>resources.
     attempt (NamespacesForPrincipalWithAnon E pr) (\<lambda>_. internal_error) (\<lambda>nsVerbs. do {
       let summaries = map SummarizeResource resources;
       _ \<leftarrow> WriteAudit E r (actorFromRequest r) ActionResourceList (ns @ ''/*'') AuditStatusOK;
       answer (write_json (NamespaceBody ns (map_of nsVerbs ns) summaries))
     }))"

definition namespace_query :: "env \<Rightarrow> request \<Rightarrow> principal option \<Rightarrow> response prog" where
  "namespace_query E r pr = with_namespace E r (\<lambda>ns. do {
     meta \<leftarrow> hasMetaNS E pr VerbTypeRead;
     if \<not> meta then
       attempt (CheckWithAnon E pr VerbTypeList ns ''*'') (\<lambda>_. internal_error) (\<lambda>allowed.
         if \<not> allowed then answer (http_Error ''forbidden'' 403)
         else namespace_query_body E r pr ns)
     else namespace_query_body E r pr ns
   })"

definition namespace_create :: "env \<Rightarrow> request \<Rightarrow> principal option \<Rightarrow> response prog" where
  "namespace_create E r pr = with_namespace E r (\<lambda>ns. do {
     meta \<leftarrow> hasMetaNS E pr VerbTypeWrite;
     if \<not> meta then answer (http_Error ''forbidden'' 403)
     else do {
       g \<leftarrow> GetNamespace E ns;
       case g of
         Inr _ \<Rightarrow> answer (http_Error ''namespace already exists'' 409)
       | Inl _ \<Rightarrow>
           attempt (CreateNamespace E ns) (\<lambda>_. internal_error) (\<lambda>_. do {
             _ \<leftarrow> WriteAudit E r (actorFromRequest r) ActionResourceWrite (''_/ns:'' @ ns) AuditStatusOK;
             answer (write_header 201)
           })
     }
   })"

definition namespace_delete :: "env \<Rightarrow> request \<Rightarrow> principal option \<Rightarrow> response prog" where
  "namespace_delete E r pr = with_namespace E r (\<lambda>ns. do {
     meta \<leftarrow> hasMetaNS E pr VerbTypeDelete;
     if \<not> meta then answer (http_Error ''forbidden'' 403)
     else
       attempt (ListResources E ns) (\<lambda>_. internal_error) (\<lambda>resources.
         if 0 < length resources then answer (http_Error ''namespace is not empty'' 409)
         else attempt (DeleteNamespace E ns) not_found_or_500 (\<lambda>_. do {
           _ \<leftarrow> WriteAudit E r (actorFromRequest r) ActionResourceDelete (''_/ns:'' @ ns) AuditStatusOK;
           answer (write_header 204)
         }))
   })"

definition NamespaceHandler :: "env \<Rightarrow> handler" where
  "NamespaceHandler E r =
     (let pr = principalFromContext r; op = rq_query r ''op'' in
      if op = ''list'' then namespace_list E pr
      else if op = ''query'' then namespace_query E r pr
      else if op = ''create'' then namespace_create E r pr
      else if op = ''delete'' then namespace_delete E r pr
      else answer (http_Error (''op must be 'list', 'query', 'create', or 'delete'' @ [CHR 0x27]) 400))"

subsection \<open>Resources\<close>

record resourceQueryRequest =
  qr_namespace :: string
  qr_name :: string
  qr_version :: string
  qr_uuid :: string

definition decode_resourceQueryRequest :: "json \<Rightarrow> resourceQueryRequest option" where
  "decode_resourceQueryRequest = decode_struct
     [str_field ''namespace'' qr_namespace qr_namespace_update,
      str_field ''name'' qr_name qr_name_update,
      str_field ''version'' qr_version qr_version_update,
      str_field ''uuid'' qr_uuid qr_uuid_update]
     \<lparr>qr_namespace = [], qr_name = [], qr_version = [], qr_uuid = []\<rparr>"

text \<open>\<open>resource.Namespace.Name\<close>, empty when the namespace was not loaded.\<close>

definition resource_ns :: "resource \<Rightarrow> string" where
  "resource_ns r = (case r_ns r of None \<Rightarrow> [] | Some n \<Rightarrow> ns_name n)"

definition handleGetByUUID :: "env \<Rightarrow> request \<Rightarrow> principal option \<Rightarrow> string \<Rightarrow> response prog" where
  "handleGetByUUID E r pr uuidStr =
     attempt (GetResourceValueByUUID E uuidStr) not_found_or_500 (\<lambda>rv.
     attempt (GetResourceByID E (rv_resource_id rv)) (\<lambda>_. internal_error) (\<lambda>resource.
     attempt (CheckWithAnon E pr VerbTypeRead (resource_ns resource) (r_name resource))
       (\<lambda>_. internal_error) (\<lambda>allowed.
       if \<not> allowed then answer (http_Error ''not found'' 404)
       else case decryptValue E rv of
         None \<Rightarrow> answer internal_error
       | Some rv \<Rightarrow> do {
           _ \<leftarrow> WriteAudit E r (actorFromRequest r) ActionResourceRead
                  (resource_ns resource @ ''/'' @ r_name resource) AuditStatusOK;
           answer (write_json (ValueBody rv))
         })))"

text \<open>The choice of the stored version that a textual version names.\<close>

definition select_version ::
  "env \<Rightarrow> resource \<Rightarrow> string \<Rightarrow> (resource_value \<Rightarrow> response prog) \<Rightarrow> response prog" where
  "select_version E resource version k =
     (if uuid_Parse E version
      then attempt (GetResourceValueByUUID E version) not_found_or_500 k
      else case ParseUint version of
        None \<Rightarrow> answer (http_Error ''invalid version'' 400)
      | Some vnum \<Rightarrow> attempt (GetResourceVersion E (r_id resource) vnum) not_found_or_500 k)"

definition handleGetResource ::
  "env \<Rightarrow> request \<Rightarrow> principal option \<Rightarrow> string \<Rightarrow> string \<Rightarrow> string \<Rightarrow> response prog" where
  "handleGetResource E r pr namespace name version =
     (if namespace = ''_'' then answer (http_Error ''not found'' 404)
      else
        attempt (CheckWithAnon E pr VerbTypeRead namespace name) (\<lambda>_. internal_error) (\<lambda>allowed.
        if \<not> allowed then answer (http_Error ''forbidden'' 403)
        else
          attempt (GetResource E namespace name) not_found_or_500 (\<lambda>resource.
          if version = [] \<or> version = ''latest'' then
            (case (case r_value resource of
                     None \<Rightarrow> Some resource
                   | Some v \<Rightarrow> map_option (\<lambda>v'. resource\<lparr>r_value := Some v'\<rparr>) (decryptValue E v)) of
               None \<Rightarrow> answer internal_error
             | Some resource \<Rightarrow> do {
                 _ \<leftarrow> WriteAudit E r (actorFromRequest r) ActionResourceRead
                        (namespace @ ''/'' @ name) AuditStatusOK;
                 answer (write_json (ResourceBody resource))
               })
          else
            select_version E resource version (\<lambda>rv.
              case decryptValue E rv of
                None \<Rightarrow> answer internal_error
              | Some rv \<Rightarrow> do {
                  _ \<leftarrow> WriteAudit E r (actorFromRequest r) ActionResourceRead
                         (namespace @ ''/'' @ name) AuditStatusOK;
                  answer (write_json (ValueBody rv))
                }))))"

definition handleListVersions ::
  "env \<Rightarrow> request \<Rightarrow> principal option \<Rightarrow> string \<Rightarrow> string \<Rightarrow> response prog" where
  "handleListVersions E r pr namespace name =
     (if namespace = ''_'' then answer (http_Error ''not found'' 404)
      else
        attempt (CheckWithAnon E pr VerbTypeList namespace name) (\<lambda>_. internal_error) (\<lambda>allowed.
        if \<not> allowed then answer (http_Error ''forbidden'' 403)
        else
          attempt (GetResource E namespace name) not_found_or_500 (\<lambda>resource.
          attempt (ListResourceVersions E (r_id resource)) (\<lambda>_. internal_error) (\<lambda>versions. do {
            let summary = map SummarizeResourceValue versions;
            _ \<leftarrow> WriteAudit E r (actorFromRequest r) ActionResourceList
                   (namespace @ ''/'' @ name @ ''/versions'') AuditStatusOK;
            answer (write_json (VersionsBody summary))
          }))))"

definition handleResourceQuery :: "env \<Rightarrow> request \<Rightarrow> principal option \<Rightarrow> response prog" where
  "handleResourceQuery E r pr =
     (let op = rq_query r ''op'' in
      case decode_body E decode_resourceQueryRequest r of
        None \<Rightarrow> answer (http_Error ''invalid request body'' 400)
      | Some body \<Rightarrow>
          (if op = ''query'' then
             (if qr_uuid body \<noteq> [] then handleGetByUUID E r pr (qr_uuid body)
              else if qr_namespace body \<noteq> [] \<and> qr_name body \<noteq> []
              then handleGetResource E r pr (qr_namespace body) (qr_name body) (qr_version body)
              else answer (http_Error ''provide namespace+name or uuid'' 400))
           else if op = ''versions'' then
             (if qr_namespace body = [] \<or> qr_name body = []
              then answer (http_Error ''namespace and name required'' 400)
              else handleListVersions E r pr (qr_namespace body) (qr_name body))
           else answer (http_Error (''op must be 'query' or 'versions'' @ [CHR 0x27]) 400)))"

record resource_put_body =
  pb_namespace :: string
  pb_name :: string
  pb_type :: resource_type
  pb_value :: string

definition decode_resource_put_body :: "json \<Rightarrow> resource_put_body option" where
  "decode_resource_put_body = decode_struct
     [str_field ''namespace'' pb_namespace pb_namespace_update,
      str_field ''name'' pb_name pb_name_update,
      val_field ''type'' ResourceType_UnmarshalJSON pb_type_update,
      str_field ''value'' pb_value pb_value_update]
     \<lparr>pb_namespace = [], pb_name = [], pb_type = ResourceTypeUndefined, pb_value = []\<rparr>"

text \<open>
  The steps of \<open>handleResourcePut\<close> after the check, each passing its result on: the
  namespace is found or created, the resource is found (and retyped) or created, and the
  value is encrypted when the type asks for it.
\<close>

definition put_namespace :: "env \<Rightarrow> string \<Rightarrow> (uint \<Rightarrow> response prog) \<Rightarrow> response prog" where
  "put_namespace E namespace k = do {
     g \<leftarrow> GetNamespace E namespace;
     case g of
       Inr ns \<Rightarrow> k (ns_id ns)
     | Inl e \<Rightarrow>
         (if e = ErrRecordNotFound
          then attempt (CreateNamespace E namespace) (\<lambda>_. internal_error) k
          else answer internal_error)
   }"

definition put_resource ::
  "env \<Rightarrow> resource_put_body \<Rightarrow> uint \<Rightarrow> (uint \<Rightarrow> response prog) \<Rightarrow> response prog" where
  "put_resource E body nsId k = do {
     g \<leftarrow> GetResource E (pb_namespace body) (pb_name body);
     case g of
       Inl e \<Rightarrow>
         (if e \<noteq> ErrRecordNotFound then answer internal_error
          else attempt (CreateResource E
                 \<lparr>r_id = 0, r_namespace_id = nsId, r_ns = None, r_name = pb_name body,
                  r_type = pb_type body, r_created_at = 0, r_created_by = [], r_retired_at = None,
                  r_value = None\<rparr>) (\<lambda>_. internal_error) k)
     | Inr resource \<Rightarrow>
         (if r_type resource \<noteq> pb_type body
          then attempt (UpdateResourceType E (r_id resource) (pb_type body)) (\<lambda>_. internal_error)
                 (\<lambda>_. k (r_id resource))
          else k (r_id resource))
   }"

definition put_encrypt ::
  "env \<Rightarrow> resource_put_body \<Rightarrow>
   (string \<Rightarrow> encryption_algorithm \<Rightarrow> uint option \<Rightarrow> response prog) \<Rightarrow> response prog" where
  "put_encrypt E body k =
     (if pb_type body = ResourceTypeEncrypted then
        (case GetKEK E of
           None \<Rightarrow> answer internal_error
         | Some kek \<Rightarrow>
             attempt_some (GenerateDEK E) internal_error (\<lambda>dek.
             attempt_some (EncryptValue E (pb_value body) dek) internal_error (\<lambda>data.
             attempt_some (EncryptDEK E dek kek) internal_error (\<lambda>encryptedDEK.
             attempt (CreateEncryptionKey E encryptedDEK 1) (\<lambda>_. internal_error) (\<lambda>encKeyId.
               k data EncryptionAlgorithmAES256GCM (Some encKeyId))))))
      else k (pb_value body) EncryptionAlgorithmUndefined None)"

definition new_value :: "uint \<Rightarrow> string \<Rightarrow> encryption_algorithm \<Rightarrow> uint option \<Rightarrow> resource_value" where
  "new_value resourceId data algorithm encKeyId =
     \<lparr>rv_uuid = 0, rv_resource_id = resourceId, rv_version = 0, rv_data = data,
      rv_encryption_algorithm = algorithm, rv_encryption_key_id = encKeyId,
      rv_encryption_key = None, rv_created_by = [], rv_created_at = 0, rv_retired_at = None\<rparr>"

definition handleResourcePut :: "env \<Rightarrow> request \<Rightarrow> principal option \<Rightarrow> response prog" where
  "handleResourcePut E r pr =
     (case decode_body E decode_resource_put_body r of
        None \<Rightarrow> answer (http_Error ''invalid request body'' 400)
      | Some body \<Rightarrow>
          (if pb_namespace body = [] \<or> pb_name body = []
           then answer (http_Error ''namespace and name required'' 400)
           else if pb_namespace body = ''_'' then answer (http_Error ''not found'' 404)
           else if pb_type body = ResourceTypeUndefined
           then answer (http_Error ''type required'' 400)
           else
             attempt (CheckWithAnon E pr VerbTypeWrite (pb_namespace body) (pb_name body))
               (\<lambda>_. internal_error) (\<lambda>allowed.
             if \<not> allowed then answer (http_Error ''forbidden'' 403)
             else
               put_namespace E (pb_namespace body) (\<lambda>nsId.
               put_resource E body nsId (\<lambda>resourceId.
               put_encrypt E body (\<lambda>data algorithm encKeyId.
               attempt (CreateResourceValue E (new_value resourceId data algorithm encKeyId))
                 (\<lambda>_. internal_error) (\<lambda>_. do {
                 _ \<leftarrow> WriteAudit E r (actorFromRequest r) ActionResourceWrite
                        (pb_namespace body @ ''/'' @ pb_name body) AuditStatusOK;
                 answer (write_header 204)
               })))))))"

record resource_delete_body =
  db_namespace :: string
  db_name :: string

definition decode_resource_delete_body :: "json \<Rightarrow> resource_delete_body option" where
  "decode_resource_delete_body = decode_struct
     [str_field ''namespace'' db_namespace db_namespace_update,
      str_field ''name'' db_name db_name_update]
     \<lparr>db_namespace = [], db_name = []\<rparr>"

definition handleResourceDelete :: "env \<Rightarrow> request \<Rightarrow> principal option \<Rightarrow> response prog" where
  "handleResourceDelete E r pr =
     (case decode_body E decode_resource_delete_body r of
        None \<Rightarrow> answer (http_Error ''invalid request body'' 400)
      | Some body \<Rightarrow>
          (if db_namespace body = [] \<or> db_name body = []
           then answer (http_Error ''namespace and name required'' 400)
           else if db_namespace body = ''_'' then answer (http_Error ''not found'' 404)
           else
             attempt (CheckWithAnon E pr VerbTypeDelete (db_namespace body) (db_name body))
               (\<lambda>_. internal_error) (\<lambda>allowed.
             if \<not> allowed then answer (http_Error ''forbidden'' 403)
             else
               attempt (DeleteResource E (db_namespace body) (db_name body)) not_found_or_500 (\<lambda>_. do {
                 _ \<leftarrow> WriteAudit E r (actorFromRequest r) ActionResourceDelete
                        (db_namespace body @ ''/'' @ db_name body) AuditStatusOK;
                 answer (write_header 204)
               }))))"

definition ResourceHandler :: "env \<Rightarrow> handler" where
  "ResourceHandler E r =
     (let pr = principalFromContext r in
      if rq_method r = ''POST'' then handleResourceQuery E r pr
      else if rq_method r = ''PUT'' then handleResourcePut E r pr
      else if rq_method r = ''DELETE'' then handleResourceDelete E r pr
      else answer (http_Error ''method not allowed'' 405))"

end
