(* ===== verification/Token_Api.thy ===== *)
theory Token_Api
  imports Api_Common
begin

text \<open>
  Personal access tokens, capability tokens and sessions over HTTP:
  \<open>internal/api/tokens.go\<close> and \<open>internal/api/auth.go\<close>.
\<close>

subsection \<open>Permission entries in request bodies (admin.go)\<close>

record permissionEntry =
  pe_verb :: verb
  pe_resource_pattern :: string
  pe_expires_at :: "time option"

definition decode_permissionEntry :: "env \<Rightarrow> json \<Rightarrow> permissionEntry option" where
  "decode_permissionEntry E = decode_struct
     [val_field ''verb'' Verb_UnmarshalJSON pe_verb_update,
      str_field ''resource_pattern'' pe_resource_pattern pe_resource_pattern_update,
      val_field ''expires_at'' (decode_time_ptr (unmarshal_time E)) pe_expires_at_update]
     \<lparr>pe_verb = VerbTypeList, pe_resource_pattern = [], pe_expires_at = None\<rparr>"

subsection \<open>tokens.go\<close>

record pat_body =
  patb_expiry :: "time option"

definition decode_pat_body :: "env \<Rightarrow> json \<Rightarrow> pat_body option" where
  "decode_pat_body E = decode_struct
     [val_field ''expiry'' (decode_time_ptr (unmarshal_time E)) patb_expiry_update]
     \<lparr>patb_expiry = None\<rparr>"

definition IssuePAT :: "env \<Rightarrow> handler" where
  "IssuePAT E r =
     (case cx_user (rq_ctx r) of
        None \<Rightarrow> answer (http_Error ''unauthorized'' 401)
      | Some user \<Rightarrow>
          (case decode_body E (decode_pat_body E) r of
             None \<Rightarrow> answer (http_Error ''bad request'' 400)
           | Some body \<Rightarrow>
               attempt_some (GenerateToken E) internal_error (\<lambda>raw.
               let token = PATPrefix @ raw in
               attempt (CreatePAT E
                 \<lparr>pat_id = 0, pat_user_id = u_id user, pat_hash = HashToken E token,
                  pat_expiry = patb_expiry body, pat_created_at = 0, pat_last_used_at = None\<rparr>)
                 (\<lambda>_. internal_error) (\<lambda>_. do {
                 _ \<leftarrow> WriteAudit E r (''user:'' @ u_name user) ActionTokenPATIssue
                        (''user:'' @ u_name user) AuditStatusOK;
                 answer (write_json (TokenBody token))
               }))))"

definition RevokePAT :: "env \<Rightarrow> handler" where
  "RevokePAT E r =
     (case cx_user (rq_ctx r) of
        None \<Rightarrow> answer (http_Error ''unauthorized'' 401)
      | Some user \<Rightarrow>
          (case ParseUint (rq_path_value r ''id'') of
             None \<Rightarrow> answer (http_Error ''bad request'' 400)
           | Some i \<Rightarrow>
               attempt (GetPATByID E i) (\<lambda>_. http_Error ''not found'' 404) (\<lambda>p.
               if pat_user_id p \<noteq> u_id user then answer (http_Error ''unauthorized'' 401)
               else attempt (DeletePAT E (pat_id p)) (\<lambda>_. internal_error) (\<lambda>_. do {
                 _ \<leftarrow> WriteAudit E r (''user:'' @ u_name user) ActionTokenPATRevoke
                        (''user:'' @ u_name user) AuditStatusOK;
                 answer (write_header 204)
               }))))"

record capability_body =
  capb_permissions :: "permissionEntry list"

definition decode_capability_body :: "env \<Rightarrow> json \<Rightarrow> capability_body option" where
  "decode_capability_body E = decode_struct
     [val_field ''permissions'' (decode_slice (decode_permissionEntry E)) capb_permissions_update]
     \<lparr>capb_permissions = []\<rparr>"

text \<open>The check of one requested entry; the error is the answer to send.\<close>

definition check_entry :: "env \<Rightarrow> principal \<Rightarrow> permissionEntry \<Rightarrow> (response + unit) prog" where
  "check_entry E pr entry =
     (let parts = SplitN (CHR ''/'') 2 (pe_resource_pattern entry) in
      if length parts \<noteq> 2 \<or> parts ! 0 = [] \<or> parts ! 1 = []
      then State_Monad.return (Inl (http_Error ''bad request'' 400))
      else do {
        c \<leftarrow> Check E pr (pe_verb entry) (parts ! 0) (parts ! 1);
        State_Monad.return
          (if c = Inr True then Inr () else Inl (http_Error ''unauthorized'' 401))
      })"

text \<open>
  Creating the token and its permissions in one transaction, for \<open>IssueCapabilityToken\<close> and
  \<open>AnonToken\<close>; the permissions to attach are given as rows without keys.
\<close>

definition attach_new :: "env \<Rightarrow> uint \<Rightarrow> permission \<Rightarrow> (dberr + unit) prog" where
  "attach_new E ctId p = do {
     c \<leftarrow> CreatePermission E p;
     case c of
       Inl e \<Rightarrow> State_Monad.return (Inl e)
     | Inr pId \<Rightarrow> AddPermissionToCapabilityToken E ctId pId
   }"

definition create_token :: "env \<Rightarrow> capability_token \<Rightarrow> permission list \<Rightarrow> (dberr + unit) prog" where
  "create_token E ct ps = transaction E (do {
     c \<leftarrow> CreateCapabilityToken E ct;
     case c of
       Inl e \<Rightarrow> State_Monad.return (Inl e)
     | Inr ctId \<Rightarrow> foreach ps (attach_new E ctId)
   })"

definition entry_permission :: "permissionEntry \<Rightarrow> permission" where
  "entry_permission entry =
     NewPermission (pe_resource_pattern entry) (pe_verb entry) (pe_expires_at entry)"

definition IssueCapabilityToken :: "env \<Rightarrow> handler" where
  "IssueCapabilityToken E r =
     (case cx_user (rq_ctx r) of
        None \<Rightarrow> answer (http_Error ''unauthorized'' 401)
      | Some user \<Rightarrow>
          (let pr = NewPrincipalFromUser user in
           case decode_body E (decode_capability_body E) r of
             None \<Rightarrow> answer (http_Error ''bad request'' 400)
           | Some body \<Rightarrow>
               (if capb_permissions body = [] then answer (http_Error ''bad request'' 400)
                else
                  attempt (foreach (capb_permissions body) (check_entry E pr)) (\<lambda>resp. resp) (\<lambda>_.
                  attempt_some (GenerateToken E) internal_error (\<lambda>raw.
                  let token = CapabilityPrefix @ raw in
                  attempt (create_token E
                    \<lparr>ct_id = 0, ct_issued_by = Some (u_id user), ct_token_hash = HashToken E token,
                     ct_expires_at = None, ct_created_at = 0, ct_permissions = []\<rparr>
                    (map entry_permission (capb_permissions body)))
                    (\<lambda>_. internal_error) (\<lambda>_. do {
                    _ \<leftarrow> WriteAudit E r (''user:'' @ u_name user) ActionTokenCapIssue
                           (''user:'' @ u_name user) AuditStatusOK;
                    answer (write_json (TokenBody token))
                  }))))))"

definition RevokeCapabilityToken :: "env \<Rightarrow> handler" where
  "RevokeCapabilityToken E r =
     (case cx_user (rq_ctx r) of
        None \<Rightarrow> answer (http_Error ''unauthorized'' 401)
      | Some user \<Rightarrow>
          (case ParseUint (rq_path_value r ''id'') of
             None \<Rightarrow> answer (http_Error ''bad request'' 400)
           | Some i \<Rightarrow>
               attempt (GetCapabilityTokenByID E i) (\<lambda>_. http_Error ''not found'' 404) (\<lambda>ct.
               if ct_issued_by ct = None \<or> ct_issued_by ct \<noteq> Some (u_id user)
               then answer (http_Error ''unauthorized'' 401)
               else attempt (DeleteCapabilityToken E (ct_id ct)) (\<lambda>_. internal_error) (\<lambda>_. do {
                 _ \<leftarrow> WriteAudit E r (''user:'' @ u_name user) ActionTokenCapRevoke
                        (''user:'' @ u_name user) AuditStatusOK;
                 answer (write_header 204)
               }))))"

subsection \<open>auth.go\<close>

text \<open>\<open>time.Duration(n) * time.Second\<close> is a 64-bit product.\<close>

definition wrap64 :: "int \<Rightarrow> int" where
  "wrap64 x = (x + 2 ^ 63) mod 2 ^ 64 - 2 ^ 63"

definition anonTokenTTL :: "env \<Rightarrow> duration" where
  "anonTokenTTL E =
     (let s = getenv E ''ANON_TOKEN_TTL_SECONDS'' in
      if s \<noteq> [] then
        (case Atoi s of
           Some n \<Rightarrow> (if 0 < n then wrap64 (n * Second) else Hour)
         | None \<Rightarrow> Hour)
      else Hour)"

text \<open>\<open>int(d.Seconds())\<close>: towards zero.\<close>

definition whole_seconds :: "duration \<Rightarrow> int" where
  "whole_seconds d = (if 0 \<le> d then d div Second else - ((- d) div Second))"

record LoginRequestBody =
  lr_user :: string
  lr_pass :: string

definition decode_LoginRequestBody :: "json \<Rightarrow> LoginRequestBody option" where
  "decode_LoginRequestBody = decode_struct
     [str_field ''user'' lr_user lr_user_update, str_field ''pass'' lr_pass lr_pass_update]
     \<lparr>lr_user = [], lr_pass = []\<rparr>"

definition api_Login :: "env \<Rightarrow> handler" where
  "api_Login E r =
     (case decode_body E decode_LoginRequestBody r of
        None \<Rightarrow> answer (http_Error ''malformed input'' 400)
      | Some request \<Rightarrow>
          (if lr_user request = [] \<or> lr_pass request = []
           then answer (http_Error ''malformed input'' 400)
           else do {
             t \<leftarrow> Login E (lr_user request) (lr_pass request);
             case t of
               Inl _ \<Rightarrow> do {
                 _ \<leftarrow> WriteAudit E r (''user:'' @ lr_user request) ActionAuthLogin
                        (''user:'' @ lr_user request) AuditStatusDenied;
                 answer (http_Error ''incorrect user or password'' 401)
               }
             | Inr tokens \<Rightarrow> do {
                 _ \<leftarrow> WriteAudit E r (''user:'' @ lr_user request) ActionAuthLogin
                        (''user:'' @ lr_user request) AuditStatusOK;
                 answer (write_json (SessionBody (SessionToken tokens) (RefreshToken tokens)))
               }
           }))"

record RefreshSessionRequest =
  rr_token :: string

definition decode_RefreshSessionRequest :: "json \<Rightarrow> RefreshSessionRequest option" where
  "decode_RefreshSessionRequest = decode_struct
     [str_field ''token'' rr_token rr_token_update] \<lparr>rr_token = []\<rparr>"

definition api_Refresh :: "env \<Rightarrow> handler" where
  "api_Refresh E r =
     (case decode_body E decode_RefreshSessionRequest r of
        None \<Rightarrow> answer (http_Error ''malformed input'' 400)
      | Some request \<Rightarrow>
          (if rr_token request = [] then answer (http_Error ''malformed input'' 400)
           else
             attempt (Refresh E (rr_token request)) (\<lambda>_. http_Error ''unauthorized'' 401) (\<lambda>tokens. do {
               let actor = actorFromRequest r;
               _ \<leftarrow> WriteAudit E r actor ActionAuthRefresh actor AuditStatusOK;
               answer (write_json (SessionBody (SessionToken tokens) (RefreshToken tokens)))
             })))"

definition api_Logout :: "env \<Rightarrow> handler" where
  "api_Logout E r =
     (let token = bearer r in
      if token = [] then answer (http_Error ''unauthorized'' 401)
      else
        (let actor = actorFromRequest r in
         attempt (Logout E token) (\<lambda>_. http_Error ''unauthorized'' 401) (\<lambda>_. do {
           _ \<leftarrow> WriteAudit E r actor ActionAuthLogout actor AuditStatusOK;
           answer (write_header 204)
         })))"

definition anon_entry_permission :: "anon_permission \<Rightarrow> permission" where
  "anon_entry_permission ap =
     NewPermission (ap_resource_pattern ap) (ap_verb ap) (ap_expires_at ap)"

definition AnonToken :: "env \<Rightarrow> handler" where
  "AnonToken E r =
     attempt (ListAnonPermissions E) (\<lambda>_. internal_error) (\<lambda>anonPerms.
     if length anonPerms = 0 then answer (http_Error ''anonymous access not configured'' 503)
     else
       attempt_some (GenerateToken E) internal_error (\<lambda>raw.
       let token = CapabilityPrefix @ raw; ttl = anonTokenTTL E; exp = now E + ttl in
       attempt (create_token E
         \<lparr>ct_id = 0, ct_issued_by = None, ct_token_hash = HashToken E token,
          ct_expires_at = Some exp, ct_created_at = 0, ct_permissions = []\<rparr>
         (map anon_entry_permission anonPerms))
         (\<lambda>_. internal_error) (\<lambda>_. do {
         _ \<leftarrow> WriteAudit E r ''anon'' ActionAuthAnon ''anon'' AuditStatusOK;
         answer (write_json (AnonTokenBody token (whole_seconds ttl)))
       })))"

end
