(* ===== verification/Admin_Api.thy ===== *)
theory Admin_Api
  imports Token_Api
begin

text \<open>
  Administration over HTTP: users, permissions, anonymous permissions and service accounts
  (\<open>internal/api/admin.go\<close>) and the audit log (\<open>internal/api/audit.go\<close>).
\<close>

subsection \<open>Creating users\<close>

record user_body =
  ub_name :: string
  ub_email :: string
  ub_pass :: string

definition decode_user_body :: "json \<Rightarrow> user_body option" where
  "decode_user_body = decode_struct
     [str_field ''name'' ub_name ub_name_update, str_field ''email'' ub_email ub_email_update,
      str_field ''pass'' ub_pass ub_pass_update]
     \<lparr>ub_name = [], ub_email = [], ub_pass = []\<rparr>"

text \<open>\<open>bcrypt.GenerateFromPassword\<close> draws a salt.\<close>

definition bcrypt_generate :: "env \<Rightarrow> string \<Rightarrow> string option prog" where
  "bcrypt_generate E pass =
     State (\<lambda>s. (bcrypt_hash E (nrand s) pass, s\<lparr>nrand := Suc (nrand s)\<rparr>))"

definition bootstrapGrants :: "(string \<times> verb list) list" where
  "bootstrapGrants =
     [(metaUsersResource, [VerbTypeList, VerbTypeRead, VerbTypeWrite, VerbTypeDelete]),
      (metaSAResource, [VerbTypeList, VerbTypeRead]),
      (metaNSResource, [VerbTypeList, VerbTypeRead, VerbTypeWrite, VerbTypeDelete])]"

definition grant_user :: "env \<Rightarrow> uint \<Rightarrow> permission \<Rightarrow> (dberr + unit) prog" where
  "grant_user E i p = do {
     c \<leftarrow> CreatePermission E p;
     case c of Inl e \<Rightarrow> State_Monad.return (Inl e) | Inr pId \<Rightarrow> AddPermissionToUser E i pId
   }"

definition bootstrap_user :: "env \<Rightarrow> uint \<Rightarrow> (dberr + unit) prog" where
  "bootstrap_user E i =
     foreach bootstrapGrants (\<lambda>(resource, verbs).
       foreach verbs (\<lambda>v. grant_user E i (NewPermission (metaNS @ ''/'' @ resource) v None)))"

definition api_CreateUser :: "env \<Rightarrow> handler" where
  "api_CreateUser E r = do {
     let isBootstrap = cx_bootstrap (rq_ctx r);
     ok \<leftarrow> (if isBootstrap then State_Monad.return True else requireMetaUser E r VerbTypeWrite);
     if \<not> ok then answer (http_Error ''forbidden'' 403)
     else case decode_body E decode_user_body r of
       None \<Rightarrow> answer (http_Error ''bad request'' 400)
     | Some body \<Rightarrow>
         (if ub_name body = [] \<or> ub_pass body = [] then answer (http_Error ''bad request'' 400)
          else
            attempt_some (bcrypt_generate E (ub_pass body)) internal_error (\<lambda>hash.
            attempt (CreateUser E
              \<lparr>u_id = 0, u_name = ub_name body, u_email = ub_email body, u_pass = hash,
               u_created_at = 0\<rparr>) (\<lambda>_. internal_error) (\<lambda>uId.
            attempt (if isBootstrap then bootstrap_user E uId else State_Monad.return (Inr ()))
              (\<lambda>_. internal_error) (\<lambda>_. do {
              _ \<leftarrow> WriteAudit E r (actorFromRequest r) ActionUserCreate
                     (metaNS @ ''/'' @ ub_name body) AuditStatusOK;
              answer (write_header 204)
            }))))
   }"

subsection \<open>Querying users\<close>

record queryEntry =
  qe_username :: string
  qe_namespace :: string
  qe_sa :: string
  qe_cap_token :: "uint option"
  qe_pat :: "uint option"

definition decode_queryEntry :: "json \<Rightarrow> queryEntry option" where
  "decode_queryEntry = decode_struct
     [str_field ''username'' qe_username qe_username_update,
      str_field ''namespace'' qe_namespace qe_namespace_update,
      str_field ''sa'' qe_sa qe_sa_update,
      val_field ''cap_token'' decode_uint_ptr qe_cap_token_update,
      val_field ''pat'' decode_uint_ptr qe_pat_update]
     \<lparr>qe_username = [], qe_namespace = [], qe_sa = [], qe_cap_token = None, qe_pat = None\<rparr>"

record query_body =
  qb_query :: "queryEntry list"

definition decode_query_body :: "json \<Rightarrow> query_body option" where
  "decode_query_body = decode_struct
     [val_field ''query'' (decode_slice decode_queryEntry) qb_query_update] \<lparr>qb_query = []\<rparr>"

text \<open>\<open>perms, _ := ...\<close>: a failed read leaves the slice empty.\<close>

definition ignoring_error :: "('e + 'a list) prog \<Rightarrow> 'a list prog" where
  "ignoring_error m = do {
     r \<leftarrow> m;
     State_Monad.return (case r of Inl _ \<Rightarrow> [] | Inr xs \<Rightarrow> xs)
   }"

fun put_key :: "string \<Rightarrow> 'v \<Rightarrow> (string \<times> 'v) list \<Rightarrow> (string \<times> 'v) list" where
  "put_key k v [] = [(k, v)]"
| "put_key k v ((k', v') # m) = (if k = k' then (k, v) # m else (k', v') # put_key k v m)"

text \<open>One entry of the query: the key and the value to store, or the answer to send.\<close>

definition query_entry :: "env \<Rightarrow> queryEntry \<Rightarrow> (response + string \<times> query_answer) prog" where
  "query_entry E entry =
     (if qe_username entry \<noteq> [] then do {
        g \<leftarrow> GetUser E (qe_username entry);
        case g of
          Inl _ \<Rightarrow> State_Monad.return (Inl (http_Error (''not found: user/'' @ qe_username entry) 404))
        | Inr u \<Rightarrow> do {
            perms \<leftarrow> ignoring_error (GetPermissionsForUser E (u_id u));
            State_Monad.return (Inr (''user/'' @ qe_username entry, QueryResult perms None))
          }
      }
      else if qe_sa entry \<noteq> [] \<and> qe_namespace entry \<noteq> [] then do {
        g \<leftarrow> GetSA E (qe_namespace entry) (qe_sa entry);
        case g of
          Inl _ \<Rightarrow> State_Monad.return (Inl (http_Error
            (''not found: sa/'' @ qe_namespace entry @ ''/'' @ qe_sa entry) 404))
        | Inr a \<Rightarrow> do {
            perms \<leftarrow> ignoring_error (GetPermissionsForSA E (sa_id a));
            State_Monad.return (Inr (''sa/'' @ qe_namespace entry @ ''/'' @ qe_sa entry,
              QueryResult perms None))
          }
      }
      else case qe_cap_token entry of
        Some i \<Rightarrow> do {
          g \<leftarrow> GetCapabilityTokenByID E i;
          case g of
            Inl _ \<Rightarrow> State_Monad.return (Inl (http_Error ''not found: cap_token'' 404))
          | Inr ct \<Rightarrow> do {
              perms \<leftarrow> ignoring_error (GetPermissionsForCapabilityToken E (ct_id ct));
              State_Monad.return (Inr (''cap_token/'' @ show_uint (ct_id ct),
                QueryResult perms (ct_expires_at ct)))
            }
        }
      | None \<Rightarrow>
          (case qe_pat entry of
             Some i \<Rightarrow> do {
               g \<leftarrow> GetPATByID E i;
               case g of
                 Inl _ \<Rightarrow> State_Monad.return (Inl (http_Error ''not found: pat'' 404))
               | Inr p \<Rightarrow> do {
                   h \<leftarrow> GetUserById E (pat_user_id p);
                   case h of
                     Inl _ \<Rightarrow> State_Monad.return (Inl internal_error)
                   | Inr u \<Rightarrow> do {
                       perms \<leftarrow> ignoring_error (GetPermissionsForUser E (u_id u));
                       State_Monad.return (Inr (''pat/'' @ show_uint (pat_id p),
                         PatQueryResult
                           \<lparr>pi_id = pat_id p, pi_expiry = pat_expiry p, pi_created_at = pat_created_at p,
                            pi_last_used_at = pat_last_used_at p\<rparr>
                           \<lparr>us_name = u_name u, us_email = u_email u, us_created_at = u_created_at u\<rparr>
                           perms))
                     }
                 }
             }
           | None \<Rightarrow> State_Monad.return
               (Inl (http_Error ''bad request: unrecognized query entry'' 400))))"

fun query_entries ::
  "env \<Rightarrow> queryEntry list \<Rightarrow> (string \<times> query_answer) list \<Rightarrow>
   (response + (string \<times> query_answer) list) prog" where
  "query_entries E [] results = State_Monad.return (Inr results)"
| "query_entries E (entry # es) results = do {
     q \<leftarrow> query_entry E entry;
     case q of
       Inl resp \<Rightarrow> State_Monad.return (Inl resp)
     | Inr (k, v) \<Rightarrow> query_entries E es (put_key k v results)
   }"

definition AdminUser :: "env \<Rightarrow> handler" where
  "AdminUser E r =
     (let op = rq_query r ''op'' in
      if op = [] then
        (case cx_user (rq_ctx r) of
           None \<Rightarrow> answer (http_Error ''forbidden'' 403)
         | Some user \<Rightarrow> do {
             perms \<leftarrow> ignoring_error (GetPermissionsForUser E (u_id user));
             answer (write_json (UserBody
               \<lparr>ur_name = u_name user, ur_email = u_email user, ur_created_at = u_created_at user,
                ur_permissions = perms\<rparr>))
           })
      else if op = ''list'' then do {
        ok \<leftarrow> requireMetaUser E r VerbTypeList;
        if \<not> ok then answer (http_Error ''forbidden'' 403)
        else attempt (ListUsers E) (\<lambda>_. internal_error) (\<lambda>users.
          answer (write_json (NamesBody (map u_name users))))
      }
      else if op = ''query'' then do {
        ok \<leftarrow> requireMetaUser E r VerbTypeRead;
        if \<not> ok then answer (http_Error ''forbidden'' 403)
        else case decode_body E decode_query_body r of
          None \<Rightarrow> answer (http_Error ''bad request'' 400)
        | Some body \<Rightarrow>
            (if qb_query body = [] then answer (http_Error ''bad request'' 400)
             else attempt (query_entries E (qb_query body) []) (\<lambda>resp. resp) (\<lambda>results.
               answer (write_json (QueryBody results))))
      }
      else answer (http_Error ''bad request: unknown op'' 400))"

definition GetAnonInfo :: "env \<Rightarrow> handler" where
  "GetAnonInfo E r = attempt (ListAnonPermissions E) (\<lambda>_. internal_error) (\<lambda>perms.
     answer (write_json (AnonPermissionsBody perms)))"

definition DeleteUserByName :: "env \<Rightarrow> handler" where
  "DeleteUserByName E r = do {
     ok \<leftarrow> requireMetaUser E r VerbTypeDelete;
     if \<not> ok then answer (http_Error ''forbidden'' 403)
     else
       (let name = rq_path_value r ''name'' in
        attempt (DeleteUser E name) (\<lambda>_. internal_error) (\<lambda>_. do {
          _ \<leftarrow> WriteAudit E r (actorFromRequest r) ActionUserDelete (metaNS @ ''/'' @ name) AuditStatusOK;
          answer (write_header 204)
        }))
   }"

subsection \<open>Granting and revoking permissions\<close>

record permissionsRequestBody =
  prb_principal :: string
  prb_permissions :: "permissionEntry list"

definition decode_permissionsRequestBody :: "env \<Rightarrow> json \<Rightarrow> permissionsRequestBody option" where
  "decode_permissionsRequestBody E = decode_struct
     [str_field ''principal'' prb_principal prb_principal_update,
      val_field ''permissions'' (decode_slice (decode_permissionEntry E)) prb_permissions_update]
     \<lparr>prb_principal = [], prb_permissions = []\<rparr>"

text \<open>
  The part that granting and revoking share: decoding, parsing the principal, validating
  every pattern with the given test and finding the principal's row.
\<close>

definition principal_id :: "env \<Rightarrow> principal \<Rightarrow> (dberr + uint) prog" where
  "principal_id E pr =
     (if pr_kind pr = PrincipalUser then do {
        g \<leftarrow> GetUser E (pr_name pr);
        State_Monad.return (map_sum (\<lambda>e. e) u_id g)
      }
      else if pr_kind pr = PrincipalSA then do {
        g \<leftarrow> GetSA E (pr_sa_namespace pr) (pr_sa_name pr);
        State_Monad.return (map_sum (\<lambda>e. e) sa_id g)
      }
      else State_Monad.return (Inr 0))"

definition with_permissions ::
  "env \<Rightarrow> request \<Rightarrow> (string \<Rightarrow> pattern_error option) \<Rightarrow>
   (permissionsRequestBody \<Rightarrow> principal \<Rightarrow> uint \<Rightarrow> response prog) \<Rightarrow> response prog" where
  "with_permissions E r validate k = do {
     ok \<leftarrow> requireMetaUser E r VerbTypeWrite;
     if \<not> ok then answer (http_Error ''forbidden'' 403)
     else case decode_body E (decode_permissionsRequestBody E) r of
       None \<Rightarrow> answer (http_Error ''bad request'' 400)
     | Some body \<Rightarrow>
         (if prb_principal body = [] \<or> prb_permissions body = []
          then answer (http_Error ''bad request'' 400)
          else case ParsePrincipal (prb_principal body) of
            None \<Rightarrow> answer (http_Error ''bad request'' 400)
          | Some pr \<Rightarrow>
              (if \<not> list_all (\<lambda>entry. validate (pe_resource_pattern entry) = None) (prb_permissions body)
               then answer (http_Error ''bad request'' 400)
               else attempt (principal_id E pr) (\<lambda>_. http_Error ''not found'' 404) (k body pr)))
   }"

definition grant_entry :: "env \<Rightarrow> principal \<Rightarrow> uint \<Rightarrow> permissionEntry \<Rightarrow> (dberr + unit) prog" where
  "grant_entry E pr i entry = do {
     c \<leftarrow> CreatePermission E (entry_permission entry);
     case c of
       Inl e \<Rightarrow> State_Monad.return (Inl e)
     | Inr pId \<Rightarrow>
         (if pr_kind pr = PrincipalUser then AddPermissionToUser E i pId
          else if pr_kind pr = PrincipalSA then AddPermissionToSA E i pId
          else State_Monad.return (Inr ()))
   }"

definition GrantPermissions :: "env \<Rightarrow> handler" where
  "GrantPermissions E r = with_permissions E r ValidateAddPattern (\<lambda>body pr i.
     attempt (foreach (prb_permissions body) (grant_entry E pr i)) (\<lambda>_. internal_error) (\<lambda>_. do {
       _ \<leftarrow> WriteAudit E r (actorFromRequest r) ActionPermGrant (prb_principal body) AuditStatusOK;
       answer (write_header 204)
     }))"

definition revoke_entry :: "env \<Rightarrow> principal \<Rightarrow> uint \<Rightarrow> permissionEntry \<Rightarrow> (dberr + unit) prog" where
  "revoke_entry E pr i entry =
     (if pr_kind pr = PrincipalUser
      then RevokeMatchingPermissionsFromUser E i (pe_verb entry) (pe_resource_pattern entry)
      else if pr_kind pr = PrincipalSA
      then RevokeMatchingPermissionsFromSA E i (pe_verb entry) (pe_resource_pattern entry)
      else State_Monad.return (Inr ()))"

definition RevokePermissions :: "env \<Rightarrow> handler" where
  "RevokePermissions E r = with_permissions E r ValidateDeletePattern (\<lambda>body pr i.
     attempt (foreach (prb_permissions body) (revoke_entry E pr i)) (\<lambda>_. internal_error) (\<lambda>_. do {
       _ \<leftarrow> WriteAudit E r (actorFromRequest r) ActionPermRevoke (prb_principal body) AuditStatusOK;
       answer (write_header 204)
     }))"

subsection \<open>Anonymous permissions\<close>

definition api_ListAnonPermissions :: "env \<Rightarrow> handler" where
  "api_ListAnonPermissions E r = do {
     ok \<leftarrow> requireMetaUser E r VerbTypeList;
     if \<not> ok then answer (http_Error ''forbidden'' 403)
     else attempt (ListAnonPermissions E) (\<lambda>_. internal_error) (\<lambda>perms.
       answer (write_json (AnonPermissionsBody perms)))
   }"

definition add_anon_entry :: "env \<Rightarrow> permissionEntry \<Rightarrow> (dberr + unit) prog" where
  "add_anon_entry E entry = do {
     c \<leftarrow> CreateAnonPermission E
       \<lparr>ap_id = 0, ap_resource_pattern = pe_resource_pattern entry, ap_verb = pe_verb entry,
        ap_expires_at = pe_expires_at entry, ap_created_at = 0\<rparr>;
     State_Monad.return (map_sum (\<lambda>e. e) (\<lambda>_. ()) c)
   }"

fun first_pattern_error :: "permissionEntry list \<Rightarrow> (string \<times> pattern_error) option" where
  "first_pattern_error [] = None"
| "first_pattern_error (entry # es) =
     (case ValidateAddPattern (pe_resource_pattern entry) of
        Some e \<Rightarrow> Some (pe_resource_pattern entry, e)
      | None \<Rightarrow> first_pattern_error es)"

text \<open>\<open>http.Error(w, "bad request: "+err.Error(), 400)\<close>, with the error kept as a value.\<close>

definition pattern_error_response :: "string \<Rightarrow> pattern_error \<Rightarrow> response" where
  "pattern_error_response p e = (http_Error [] 400)\<lparr>rs_body := BadPattern p e\<rparr>"

definition AddAnonPermissions :: "env \<Rightarrow> handler" where
  "AddAnonPermissions E r = do {
     ok \<leftarrow> requireMetaUser E r VerbTypeWrite;
     if \<not> ok then answer (http_Error ''forbidden'' 403)
     else case decode_body E (decode_slice (decode_permissionEntry E)) r of
       None \<Rightarrow> answer (http_Error ''bad request'' 400)
     | Some entries \<Rightarrow>
         (if entries = [] then answer (http_Error ''bad request'' 400)
          else case first_pattern_error entries of
            Some (p, e) \<Rightarrow> answer (pattern_error_response p e)
          | None \<Rightarrow>
              attempt (foreach entries (add_anon_entry E)) (\<lambda>_. internal_error) (\<lambda>_. do {
                _ \<leftarrow> WriteAudit E r (actorFromRequest r) ActionPermGrant ''_/anon'' AuditStatusOK;
                answer (write_header 204)
              }))
   }"

definition api_DeleteAnonPermission :: "env \<Rightarrow> handler" where
  "api_DeleteAnonPermission E r = do {
     ok \<leftarrow> requireMetaUser E r VerbTypeWrite;
     if \<not> ok then answer (http_Error ''forbidden'' 403)
     else case ParseUint (rq_path_value r ''id'') of
       None \<Rightarrow> answer (http_Error ''bad request'' 400)
     | Some i \<Rightarrow>
         attempt (DeleteAnonPermission E i) (\<lambda>_. internal_error) (\<lambda>_. do {
           _ \<leftarrow> WriteAudit E r (actorFromRequest r) ActionPermRevoke ''_/anon'' AuditStatusOK;
           answer (write_header 204)
         })
   }"

subsection \<open>Service accounts\<close>

definition decode_saRef :: "json \<Rightarrow> saRef option" where
  "decode_saRef = decode_struct
     [str_field ''namespace'' ref_namespace ref_namespace_update,
      str_field ''name'' ref_name ref_name_update]
     \<lparr>ref_namespace = [], ref_name = []\<rparr>"

record principals_body =
  pb_principals :: "saRef list"

definition decode_principals_body :: "json \<Rightarrow> principals_body option" where
  "decode_principals_body = decode_struct
     [val_field ''principals'' (decode_slice decode_saRef) pb_principals_update]
     \<lparr>pb_principals = []\<rparr>"

fun principal_details ::
  "env \<Rightarrow> saRef list \<Rightarrow> (string \<times> permission list) list \<Rightarrow>
   (response + (string \<times> permission list) list) prog" where
  "principal_details E [] result = State_Monad.return (Inr result)"
| "principal_details E (ref # refs) result = do {
     g \<leftarrow> GetSA E (ref_namespace ref) (ref_name ref);
     case g of
       Inl _ \<Rightarrow> State_Monad.return (Inl (http_Error ''not found'' 404))
     | Inr a \<Rightarrow> do {
         q \<leftarrow> GetPermissionsForSA E (sa_id a);
         case q of
           Inl _ \<Rightarrow> State_Monad.return (Inl internal_error)
         | Inr perms \<Rightarrow>
             principal_details E refs (put_key (ref_namespace ref @ '':'' @ ref_name ref) perms result)
       }
   }"

text \<open>The references of the body; \<open>[]\<close> selects the listing of all service accounts.\<close>

definition requested_refs :: "env \<Rightarrow> string \<Rightarrow> saRef list" where
  "requested_refs E body =
     (if body = [] then []
      else case Option.bind (json_Unmarshal E body) decode_principals_body of
        None \<Rightarrow> []
      | Some reqBody \<Rightarrow> pb_principals reqBody)"

definition Principals :: "env \<Rightarrow> handler" where
  "Principals E r =
     (case rq_body r of
        None \<Rightarrow> answer (http_Error ''bad request'' 400)
      | Some body \<Rightarrow>
          (let refs = requested_refs E body in
           if refs = [] then do {
             ok \<leftarrow> requireMeta E r VerbTypeList metaSAResource;
             if \<not> ok then answer (http_Error ''forbidden'' 403)
             else attempt (ListSA E) (\<lambda>_. internal_error) (\<lambda>sas.
               answer (write_json (PrincipalsBody
                 (map (\<lambda>a. \<lparr>ref_namespace = sa_namespace a, ref_name = sa_name a\<rparr>) sas))))
           }
           else do {
             ok \<leftarrow> requireMeta E r VerbTypeRead metaSAResource;
             if \<not> ok then answer (http_Error ''forbidden'' 403)
             else attempt (principal_details E refs []) (\<lambda>resp. resp) (\<lambda>result.
               answer (write_json (PrincipalDetailsBody result)))
           }))"

subsection \<open>audit.go\<close>

definition parseTimeParam :: "env \<Rightarrow> request \<Rightarrow> string \<Rightarrow> response + time option" where
  "parseTimeParam E r param =
     (let s = rq_query r param in
      if s = [] then Inr None
      else case parse_RFC3339 E s of
        None \<Rightarrow> Inl (http_Error (''invalid '' @ param @ '': use RFC3339'') 400)
      | Some t \<Rightarrow> Inr (Some t))"

text \<open>The limit of a query; 0 leaves the default to the store.\<close>

definition parse_limit :: "request \<Rightarrow> response + int" where
  "parse_limit r =
     (let l = rq_query r ''limit'' in
      if l = [] then Inr 0
      else case Atoi l of
        None \<Rightarrow> Inl (http_Error ''invalid limit'' 400)
      | Some n \<Rightarrow> (if n \<le> 0 \<or> 10000 < n then Inl (http_Error ''invalid limit'' 400) else Inr n))"

definition GetAuditLog :: "env \<Rightarrow> handler" where
  "GetAuditLog E r = do {
     ok \<leftarrow> requireMetaUser E r VerbTypeRead;
     if \<not> ok then answer (http_Error ''forbidden'' 403)
     else case parseTimeParam E r ''since'' of
       Inl resp \<Rightarrow> answer resp
     | Inr since \<Rightarrow>
         (case parseTimeParam E r ''until'' of
            Inl resp \<Rightarrow> answer resp
          | Inr until \<Rightarrow>
              (case parse_limit r of
                 Inl resp \<Rightarrow> answer resp
               | Inr limit \<Rightarrow>
                   attempt (QueryAuditLogs E
                     \<lparr>aq_actor = rq_query r ''actor'', aq_action = rq_query r ''action'',
                      aq_resource = rq_query r ''resource'', aq_since = since, aq_until = until,
                      aq_status = rq_query r ''status'', aq_limit = limit\<rparr>)
                     (\<lambda>_. internal_error) (\<lambda>logs. answer (write_json (AuditBody logs)))))
   }"

end
