(* ===== verification/Server.thy ===== *)
theory Server
  imports Resource_Api Admin_Api
begin

text \<open>
  The assembled server: the CORS middleware (\<open>internal/api/cors.go\<close>), the health endpoints
  (\<open>internal/api/health.go\<close>, \<open>cmd/server/main.go\<close>) and the routes of \<open>cmd/server/main.go\<close>
  behind the middlewares. The router is that of \<open>net/http\<close>: a route has a method and a
  pattern of segments, \<open>GET\<close> also serves \<open>HEAD\<close>, a path that only other methods serve is
  answered with 405 and an unknown path with 404. Paths that the router rewrites by a
  redirect before it looks for a route are not requests of this model.
\<close>

subsection \<open>cors.go\<close>

text \<open>The loop over the origins: \<open>(allowed, wildcard)\<close>.\<close>

fun origin_loop :: "string \<Rightarrow> string list \<Rightarrow> bool \<times> bool" where
  "origin_loop requestOrigin [] = (False, False)"
| "origin_loop requestOrigin (o' # os) =
     (if o' = ''*'' then (True, True)
      else if o' = requestOrigin then (True, False)
      else origin_loop requestOrigin os)"

definition cors_headers :: "string list \<Rightarrow> string \<Rightarrow> (string \<times> string) list" where
  "cors_headers origins requestOrigin =
     (let (allowed, wildcard) = origin_loop requestOrigin origins in
      if allowed then
        (if wildcard then [(''Access-Control-Allow-Origin'', ''*'')]
         else [(''Access-Control-Allow-Origin'', requestOrigin), (''Vary'', ''Origin'')])
        @ [(''Access-Control-Allow-Methods'', ''GET, POST, PUT, DELETE, OPTIONS''),
           (''Access-Control-Allow-Headers'', ''Content-Type, Authorization'')]
      else [])"

definition CORSMiddleware :: "handler \<Rightarrow> handler" where
  "CORSMiddleware nxt r = do {
     s \<leftarrow> State_Monad.get;
     let origins = AllowedOrigins s;
     if length origins = 0 then nxt r
     else do {
       let hs = cors_headers origins (rq_header r ''Origin'');
       resp \<leftarrow> (if rq_method r = ''OPTIONS'' then answer (write_header 204) else nxt r);
       answer (resp\<lparr>rs_headers := hs @ rs_headers resp\<rparr>)
     }
   }"

subsection \<open>health.go\<close>

definition Ready :: "env \<Rightarrow> handler" where
  "Ready E r = attempt (db_query E (\<lambda>_. Inr ())) (\<lambda>_. http_Error ''not ready'' 503)
     (\<lambda>_. answer (write_header 200))"

definition healthz :: handler where
  "healthz r = answer (write_header 200)"

subsection \<open>Routing\<close>

datatype seg = SegLit string | SegWild string

type_synonym route = "string \<times> seg list \<times> handler"

fun match_segs :: "seg list \<Rightarrow> string list \<Rightarrow> (string \<times> string) list option" where
  "match_segs [] [] = Some []"
| "match_segs (SegLit l # ps) (x # xs) = (if x = l then match_segs ps xs else None)"
| "match_segs (SegWild n # ps) (x # xs) =
     (if x = [] then None else map_option ((#) (n, x)) (match_segs ps xs))"
| "match_segs _ _ = None"

definition method_matches :: "string \<Rightarrow> string \<Rightarrow> bool" where
  "method_matches rm m = (rm = m \<or> rm = ''GET'' \<and> m = ''HEAD'')"

definition path_value :: "(string \<times> string) list \<Rightarrow> string \<Rightarrow> string" where
  "path_value bs k = (case map_of bs k of None \<Rightarrow> [] | Some v \<Rightarrow> v)"

fun find_route ::
  "route list \<Rightarrow> request \<Rightarrow> ((string \<times> string) list \<times> handler) option" where
  "find_route [] r = None"
| "find_route ((m, ps, h) # rs) r =
     (case (if method_matches m (rq_method r) then match_segs ps (rq_segments r) else None) of
        Some bs \<Rightarrow> Some (bs, h)
      | None \<Rightarrow> find_route rs r)"

definition path_known :: "route list \<Rightarrow> request \<Rightarrow> bool" where
  "path_known rs r = list_ex (\<lambda>(_, ps, _). match_segs ps (rq_segments r) \<noteq> None) rs"

definition serve_mux :: "route list \<Rightarrow> handler" where
  "serve_mux rs r =
     (case find_route rs r of
        Some (bs, h) \<Rightarrow> h (r\<lparr>rq_path_value := path_value bs\<rparr>)
      | None \<Rightarrow>
          (if path_known rs r then answer (http_Error ''Method Not Allowed'' 405)
           else answer (http_Error ''404 page not found'' 404)))"

abbreviation lits :: "string list \<Rightarrow> seg list" where
  "lits xs \<equiv> map SegLit xs"

subsection \<open>main.go\<close>

definition inner_routes :: "env \<Rightarrow> route list" where
  "inner_routes E =
     [(''POST'', lits [''auth'', ''login''], api_Login E),
      (''POST'', lits [''auth'', ''refresh''], api_Refresh E),
      (''DELETE'', lits [''auth'', ''logout''], api_Logout E),
      (''POST'', lits [''auth'', ''anon''], AnonToken E),
      (''POST'', lits [''api'', ''v1'', ''tokens'', ''pat''], IssuePAT E),
      (''DELETE'', lits [''api'', ''v1'', ''tokens'', ''pat''] @ [SegWild ''id''], RevokePAT E),
      (''POST'', lits [''api'', ''v1'', ''tokens'', ''capability''], IssueCapabilityToken E),
      (''DELETE'', lits [''api'', ''v1'', ''tokens'', ''capability''] @ [SegWild ''id''],
         RevokeCapabilityToken E),
      (''GET'', lits [''admin'', ''user''], AdminUser E),
      (''POST'', lits [''admin'', ''user''], api_CreateUser E),
      (''DELETE'', lits [''admin'', ''user''] @ [SegWild ''name''], DeleteUserByName E),
      (''GET'', lits [''admin'', ''anon''], GetAnonInfo E),
      (''POST'', lits [''admin'', ''permissions''], GrantPermissions E),
      (''DELETE'', lits [''admin'', ''permissions''], RevokePermissions E),
      (''GET'', lits [''admin'', ''audit''], GetAuditLog E),
      (''GET'', lits [''admin'', ''principals''], Principals E),
      (''GET'', lits [''admin'', ''anon'', ''permissions''], api_ListAnonPermissions E),
      (''POST'', lits [''admin'', ''anon'', ''permissions''], AddAnonPermissions E),
      (''DELETE'', lits [''admin'', ''anon'', ''permissions''] @ [SegWild ''id''],
         api_DeleteAnonPermission E),
      (''GET'', lits [''api'', ''v1'', ''namespace''], NamespaceHandler E),
      (''POST'', lits [''api'', ''v1'', ''namespace''], NamespaceHandler E),
      (''POST'', lits [''api'', ''v1'', ''resource''], ResourceHandler E),
      (''PUT'', lits [''api'', ''v1'', ''resource''], ResourceHandler E),
      (''DELETE'', lits [''api'', ''v1'', ''resource''], ResourceHandler E)]"

definition inner :: "env \<Rightarrow> handler" where
  "inner E = serve_mux (inner_routes E)"

definition server :: "env \<Rightarrow> handler" where
  "server E r =
     (if method_matches ''GET'' (rq_method r) \<and> rq_segments r = [''healthz''] then healthz r
      else if method_matches ''GET'' (rq_method r) \<and> rq_segments r = [''ready''] then Ready E r
      else CORSMiddleware (AuthMiddleware E (inner E)) r)"

end
