(* ===== verification/Db_Inv.thy ===== *)
theory Db_Inv
  imports Store_Laws
begin

text \<open>
  The integrity of the database, and that every operation of \<open>internal/store\<close> keeps it.

  \<^item> \<open>keys_ok\<close>: the rows of every table have different keys, none above the table's sequence;
  \<^item> \<open>refs_ok\<close>: every foreign key refers to a stored row, also in the link tables;
  \<^item> \<open>versions_ok\<close>: the values of every resource are numbered 1, 2, 3, and so on, in the order in
    which they were stored, and have different UUIDs;
  \<^item> \<open>ciphers_ok\<close>: a value has a data encryption key exactly when it is encrypted;
  \<^item> \<open>names_ok\<close>: no namespace has the reserved name \<open>_\<close>.

  A sequence only grows, also when a transaction is rolled back; \<open>intact\<close> says that the
  invariant is kept and that no sequence shrank, which makes it composable with
  transactions.
\<close>

named_theorems inv_defs "the parts of the integrity of the database"

subsection \<open>Keys\<close>

definition keyed :: "('r \<Rightarrow> uint) \<Rightarrow> nat \<Rightarrow> 'r list \<Rightarrow> bool" where
  "keyed k n xs \<longleftrightarrow> distinct (map k xs) \<and> (\<forall>x\<in>set xs. k x \<le> n)"

lemma keyed_append [simp]:
  "keyed k n xs \<Longrightarrow> k x = Suc n \<Longrightarrow> keyed k (Suc n) (xs @ [x])"
  by (force simp: keyed_def)

lemma keyed_filter [simp]: "keyed k n xs \<Longrightarrow> keyed k n (filter P xs)"
  by (auto simp: keyed_def distinct_map_filter)

lemma keyed_map [simp]: "keyed k n xs \<Longrightarrow> (\<And>x. k (f x) = k x) \<Longrightarrow> keyed k n (map f xs)"
  by (auto simp: keyed_def comp_def)

lemma keyed_mono: "keyed k m xs \<Longrightarrow> m \<le> n \<Longrightarrow> keyed k n xs"
  by (force simp: keyed_def)

lemma keyed_Nil [simp]: "keyed k n []"
  by (simp add: keyed_def)

lemma keyed_first_by:
  assumes "keyed k n xs" "x \<in> set xs" "i = k x"
  shows "first_by k (\<lambda>y. k y = i) xs = Some x"
  using assms by (intro first_by_unique) (auto simp: keyed_def distinct_map dest: inj_onD)

definition keys_ok :: "tables \<Rightarrow> (tname \<Rightarrow> nat) \<Rightarrow> bool" where
  [inv_defs]: "keys_ok t q \<longleftrightarrow>
     keyed p_id (q TPermissions) (t_permissions t) \<and> keyed u_id (q TUsers) (t_users t)
   \<and> keyed sa_id (q TSAs) (t_sas t) \<and> keyed s_id (q TSessions) (t_sessions t)
   \<and> keyed pat_id (q TPATs) (t_pats t) \<and> keyed ct_id (q TCapabilityTokens) (t_capability_tokens t)
   \<and> keyed ap_id (q TAnonPermissions) (t_anon_permissions t) \<and> keyed ns_id (q TNamespaces) (t_namespaces t)
   \<and> keyed ek_id (q TEncryptionKeys) (t_encryption_keys t) \<and> keyed r_id (q TResources) (t_resources t)
   \<and> keyed al_id (q TAuditLogs) (t_audit_logs t)"

lemma keys_ok_mono: "keys_ok t q \<Longrightarrow> q \<le> q' \<Longrightarrow> keys_ok t q'"
  unfolding keys_ok_def by (auto elim!: keyed_mono dest: le_funD)

subsection \<open>Foreign keys\<close>

definition refs_ok :: "tables \<Rightarrow> bool" where
  [inv_defs]: "refs_ok t \<longleftrightarrow>
     r_namespace_id ` set (t_resources t) \<subseteq> ns_id ` set (t_namespaces t)
   \<and> rv_resource_id ` set (t_resource_values t) \<subseteq> r_id ` set (t_resources t)
   \<and> (\<forall>v\<in>set (t_resource_values t). set_option (rv_encryption_key_id v) \<subseteq> ek_id ` set (t_encryption_keys t))
   \<and> s_user_id ` set (t_sessions t) \<subseteq> u_id ` set (t_users t)
   \<and> pat_user_id ` set (t_pats t) \<subseteq> u_id ` set (t_users t)
   \<and> (\<forall>c\<in>set (t_capability_tokens t). set_option (ct_issued_by c) \<subseteq> u_id ` set (t_users t))
   \<and> set (t_user_permissions t) \<subseteq> u_id ` set (t_users t) \<times> p_id ` set (t_permissions t)
   \<and> set (t_sa_permissions t) \<subseteq> sa_id ` set (t_sas t) \<times> p_id ` set (t_permissions t)
   \<and> set (t_capability_token_permissions t) \<subseteq> ct_id ` set (t_capability_tokens t) \<times> p_id ` set (t_permissions t)"

subsection \<open>Values and namespaces\<close>

definition values_of :: "tables \<Rightarrow> uint \<Rightarrow> resource_value list" where
  "values_of t i = filter (\<lambda>v. rv_resource_id v = i) (t_resource_values t)"

definition numbered :: "resource_value list \<Rightarrow> bool" where
  "numbered vs \<longleftrightarrow> map rv_version vs = [1..<Suc (length vs)]"

definition versions_ok :: "tables \<Rightarrow> bool" where
  [inv_defs]: "versions_ok t \<longleftrightarrow> distinct (map rv_uuid (t_resource_values t)) \<and> (\<forall>i. numbered (values_of t i))"

definition cipher_ok :: "resource_value \<Rightarrow> bool" where
  "cipher_ok v \<longleftrightarrow> (rv_encryption_algorithm v = EncryptionAlgorithmUndefined \<and> rv_encryption_key_id v = None)
     \<or> (rv_encryption_algorithm v = EncryptionAlgorithmAES256GCM \<and> rv_encryption_key_id v \<noteq> None)"

definition ciphers_ok :: "tables \<Rightarrow> bool" where
  [inv_defs]: "ciphers_ok t \<longleftrightarrow> (\<forall>v\<in>set (t_resource_values t). cipher_ok v)"

definition names_ok :: "tables \<Rightarrow> bool" where
  [inv_defs]: "names_ok t \<longleftrightarrow> ''_'' \<notin> ns_name ` set (t_namespaces t)"

definition db_inv :: "tables \<Rightarrow> (tname \<Rightarrow> nat) \<Rightarrow> bool" where
  [inv_defs]: "db_inv t q \<longleftrightarrow> keys_ok t q \<and> refs_ok t \<and> versions_ok t \<and> ciphers_ok t \<and> names_ok t"

lemma db_inv_mono: "db_inv t q \<Longrightarrow> q \<le> q' \<Longrightarrow> db_inv t q'"
  unfolding db_inv_def using keys_ok_mono by blast

lemma db_inv_init: "db_inv empty_tables q"
  by (simp add: inv_defs empty_tables_def values_of_def numbered_def)

subsection \<open>Programs that keep the integrity\<close>

text \<open>
  \<open>intact\<close> relates two states when the second keeps the integrity of the first and no
  sequence shrank.
\<close>

definition intact :: "st \<Rightarrow> st \<Rightarrow> bool" where
  "intact s s' \<longleftrightarrow> (db_inv (tabs s) (seqs s) \<longrightarrow> db_inv (tabs s') (seqs s') \<and> seqs s \<le> seqs s')"

interpretation integrity: db_step intact
proof
  show "intact s s'" if "core s' = core s" for s s'
    using core_eqD [OF that] by (simp add: intact_def)
  show "intact s s''" if "intact s s'" "intact s' s''" for s s' s''
    using that by (auto simp: intact_def)
  show "intact s (s'\<lparr>tabs := tabs s\<rparr>)" if "intact s s'" for s s'
    using that by (auto simp: intact_def intro: db_inv_mono)
qed (simp_all add: intact_def)

abbreviation safe :: "'a prog \<Rightarrow> bool" where
  "safe \<equiv> moves intact"

lemma safeI:
  "(\<And>s. db_inv (tabs s) (seqs s) \<Longrightarrow> wp m (\<lambda>_ s'. db_inv (tabs s') (seqs s') \<and> seqs s \<le> seqs s') s) \<Longrightarrow> safe m"
  by (simp add: moves_def intact_def [abs_def] wp_const_imp)

lemma safe_inv: "safe m \<Longrightarrow> db_inv (tabs s) (seqs s) \<Longrightarrow> db_inv (tabs (poststate m s)) (seqs (poststate m s))"
  by (simp add: moves_def intact_def wp_run)

lemma safe_db_exec:
  "(\<And>t t' q. db_inv t q \<Longrightarrow> f t = Inr t' \<Longrightarrow> db_inv t' q) \<Longrightarrow> safe (db_exec E f)"
  by (auto simp: wp_simps split: sum.splits intro!: safeI)

lemma safe_db_insert:
  assumes "\<And>t q. db_inv t q \<Longrightarrow> ok t \<Longrightarrow> db_inv (ins (Suc (q tn)) t) (q(tn := Suc (q tn)))"
  shows "safe (db_insert E tn ok ins)"
proof -
  have "q \<le> q(tn := Suc (q tn))" for q :: "tname \<Rightarrow> nat" by (simp add: le_fun_def)
  then show ?thesis using assms
    by (intro safeI) (auto simp: wp_simps Let_def intro: db_inv_mono)
qed

subsection \<open>Inserting rows\<close>

lemma list_ex_key: "list_ex (\<lambda>x. k x = i) xs \<longleftrightarrow> i \<in> k ` set xs"
  by (auto simp: list_ex_iff)

lemmas exists_simps = user_exists_def sa_exists_def token_exists_def list_ex_key

lemma safe_insert_rows [moves_intros]:
  "safe (CreateAnonPermission E ap)" "safe (CreateAuditLog E al)" "safe (CreateCapabilityToken E ct)"
  "safe (CreateEncryptionKey E c k)" "safe (CreatePAT E pat)" "safe (CreatePermission E p)"
  "safe (CreateResource E r)" "safe (CreateSA E a)" "safe (CreateSession E x)" "safe (CreateUser E u)"
  unfolding CreateAnonPermission_def CreateAuditLog_def CreateCapabilityToken_def CreateEncryptionKey_def
    CreatePAT_def CreatePermission_def CreateResource_def CreateSA_def CreateSession_def CreateUser_def
  by (rule safe_db_insert; auto simp: inv_defs values_of_def exists_simps split: option.splits)+

lemma safe_CreateNamespace: "name \<noteq> ''_'' \<Longrightarrow> safe (CreateNamespace E name)"
  unfolding CreateNamespace_def
  by (rule safe_db_insert) (auto simp: inv_defs values_of_def)

subsection \<open>Deleting and updating rows\<close>

text \<open>Fewer rows refer to the same rows; deleting a row together with what refers to it.\<close>

lemma fewer_refs [simp]:
  "f ` set xs \<subseteq> B \<Longrightarrow> f ` {x \<in> set xs. P x} \<subseteq> B"
  "set ls \<subseteq> C \<Longrightarrow> {l \<in> set ls. R l} \<subseteq> C"
  by auto

lemma without_row:
  "f ` set xs \<subseteq> k ` set ys \<Longrightarrow> f ` {x \<in> set xs. f x \<noteq> i} \<subseteq> k ` {y \<in> set ys. k y \<noteq> i}"
  "set ls \<subseteq> k ` set ys \<times> B \<Longrightarrow> {l \<in> set ls. case l of (a, _) \<Rightarrow> a \<noteq> i} \<subseteq> k ` {y \<in> set ys. k y \<noteq> i} \<times> B"
  "set ls \<subseteq> A \<times> k ` set ys \<Longrightarrow> {l \<in> set ls. case l of (_, b) \<Rightarrow> b \<noteq> i} \<subseteq> A \<times> k ` {y \<in> set ys. k y \<noteq> i}"
  by force+

lemma safe_deletes [moves_intros]:
  "safe (DeleteAnonPermission E i)" "safe (DeletePAT E i)" "safe (DeleteSession E i)"
  "safe (RevokePermissionFromUser E i j)" "safe (RevokePermissionFromSA E i j)"
  "safe (DeleteCapabilityToken E i)" "safe (DeletePermission E i)"
  unfolding DeleteAnonPermission_def DeletePAT_def DeleteSession_def DeleteCapabilityToken_def
    DeletePermission_def RevokePermissionFromUser_def RevokePermissionFromSA_def
  by (rule safe_db_exec; simp add: inv_defs values_of_def without_row; clarsimp simp: without_row)+

lemma unused_namespaces:
  assumes "f ` set xs \<subseteq> k ` set ys" and "\<not> list_ex (\<lambda>y. P y \<and> list_ex (\<lambda>x. f x = k y) xs) ys"
  shows "f ` set xs \<subseteq> k ` {y \<in> set ys. \<not> P y}"
  using assms by (force simp: list_ex_iff)

lemma safe_DeleteNamespace [moves_intros]: "safe (DeleteNamespace E name)"
  unfolding DeleteNamespace_def
  by (rule safe_db_exec)
    (clarsimp simp: inv_defs values_of_def unused_namespaces split: if_splits; blast)

lemma safe_updates [moves_intros]:
  "safe (UpdateResourceType E i ty)" "safe (UpdateSASyncedAt E i)"
  "safe (UpdateSessionTokens E i a b)" "safe (InvalidateSession E i)"
  unfolding UpdateResourceType_def UpdateSASyncedAt_def UpdateSessionTokens_def InvalidateSession_def
  by (rule safe_db_exec; simp add: inv_defs values_of_def image_image if_distrib del: if_image_distrib cong: if_cong;
      clarsimp simp: image_image if_distrib simp del: if_image_distrib cong: if_cong)+

text \<open>A deleted resource takes its values with it.\<close>

lemma values_of_deleted:
  "values_of (t\<lparr>t_resource_values := filter (\<lambda>v. rv_resource_id v \<noteq> i) (t_resource_values t), t_resources := rs\<rparr>) j =
     (if j = i then [] else values_of t j)"
  by (auto simp: values_of_def intro!: filter_cong)

lemma numbered_Nil [simp]: "numbered []"
  by (simp add: numbered_def)

lemma safe_DeleteResource [moves_intros]: "safe (DeleteResource E ns name)"
  unfolding DeleteResource_def
proof (intro moves_intros integrity.moves_core [OF keeps_core_db_query] safe_db_exec, simp, elim subst [of _ _ "\<lambda>t. db_inv t q" for q])
  fix t :: tables and q and r :: resource
  assume "db_inv t q"
  then show "db_inv (t\<lparr>t_resource_values := filter (\<lambda>v. rv_resource_id v \<noteq> r_id r) (t_resource_values t),
      t_resources := filter (\<lambda>x. r_id x \<noteq> r_id r) (t_resources t)\<rparr>) q"
    by (simp add: inv_defs values_of_deleted without_row distinct_map_filter)
qed

lemma without_issuer:
  "\<forall>c\<in>set cs. set_option (f c) \<subseteq> k ` set us \<Longrightarrow>
     \<forall>c. c \<in> set cs \<and> f c \<noteq> Some i \<longrightarrow> set_option (f c) \<subseteq> k ` {u \<in> set us. k u \<noteq> i}"
  "set ls \<subseteq> k' ` set cs \<times> B \<Longrightarrow>
     {l \<in> set ls. case l of (c, _) \<Rightarrow> c \<notin> k' ` {c \<in> set cs. P c}} \<subseteq> k' ` {c \<in> set cs. \<not> P c} \<times> B"
  by force+

lemma safe_delete_user_rows: "db_inv t q \<Longrightarrow> db_inv (delete_user_rows i t) q"
  unfolding delete_user_rows_def Let_def
  by (simp add: inv_defs values_of_def without_row without_issuer(2)) (elim conjE, erule without_issuer(1))

lemma safe_DeleteUser [moves_intros]: "safe (DeleteUser E name)"
  unfolding DeleteUser_def
  by (intro moves_intros integrity.moves_core [OF keeps_core_db_query] safe_db_exec) (auto intro: safe_delete_user_rows)

subsection \<open>Adding versions\<close>

lemma max_version_numbered:
  assumes "numbered (values_of t i)"
  shows "max_version t i = length (values_of t i)"
proof -
  have "fold max [1..<Suc n] 0 = n" for n :: nat by (induction n) auto
  then show ?thesis
    using assms by (simp add: max_version_def numbered_def flip: values_of_def)
qed

lemma numbered_append:
  "numbered (vs @ [v]) \<longleftrightarrow> numbered vs \<and> rv_version v = Suc (length vs)"
  by (auto simp: numbered_def)

lemma value_added:
  assumes "db_inv t q" and "value_ok row t" and "cipher_ok row"
    and "rv_version row = max_version t (rv_resource_id row) + 1"
  shows "db_inv (t\<lparr>t_resource_values := t_resource_values t @ [row]\<rparr>) q"
proof -
  have "values_of (t\<lparr>t_resource_values := t_resource_values t @ [row]\<rparr>) i =
      (if i = rv_resource_id row then values_of t i @ [row] else values_of t i)" for i
    by (simp add: values_of_def)
  moreover from assms(1) have "numbered (values_of t i)" for i by (simp add: db_inv_def versions_ok_def)
  moreover note max_version_numbered [OF this, of "rv_resource_id row"]
  moreover have "rv_uuid row \<notin> rv_uuid ` set (t_resource_values t)"
    using assms(2) by (auto simp: value_ok_def list_all_iff)
  moreover have "rv_resource_id row \<in> r_id ` set (t_resources t)"
    and "set_option (rv_encryption_key_id row) \<subseteq> ek_id ` set (t_encryption_keys t)"
    using assms(2) by (auto simp: value_ok_def list_ex_key split: option.splits)
  ultimately show ?thesis
    using assms(1,3,4) by (simp add: inv_defs numbered_append)
qed

lemma safe_CreateResourceValue:
  assumes "cipher_ok rv" shows "safe (CreateResourceValue E rv)"
proof (rule safeI)
  fix s :: st assume inv: "db_inv (tabs s) (seqs s)"
  have "cipher_ok (version_row E k (rv\<lparr>rv_version := n\<rparr>))" for k n
    using assms by (simp add: cipher_ok_def version_row_def)
  with inv show "wp (CreateResourceValue E rv) (\<lambda>_ s'. db_inv (tabs s') (seqs s') \<and> seqs s \<le> seqs s') s"
    unfolding CreateResourceValue_def
    by (auto simp: wp_simps wp_transaction Let_def intro!: value_added) (simp_all add: version_row_def)
qed

subsection \<open>Attaching permissions\<close>

text \<open>Attaching a permission that is stored.\<close>

lemma safe_attach:
  assumes "db_inv t q" and "p \<in> p_id ` set (t_permissions t)"
  shows "user_exists i t \<Longrightarrow> db_inv ((ensure_permission E p t)\<lparr>t_user_permissions := insert_link (i, p) (t_user_permissions t)\<rparr>) q"
    and "sa_exists i t \<Longrightarrow> db_inv ((ensure_permission E p t)\<lparr>t_sa_permissions := insert_link (i, p) (t_sa_permissions t)\<rparr>) q"
    and "token_exists i t \<Longrightarrow> db_inv ((ensure_permission E p t)\<lparr>t_capability_token_permissions :=
            insert_link (i, p) (t_capability_token_permissions t)\<rparr>) q"
  using assms by (simp_all add: list_ex_key inv_defs values_of_def exists_simps)

lemma safe_create_and_attach:
  assumes "\<And>p s. db_inv (tabs s) (seqs s) \<Longrightarrow> p \<in> p_id ` set (t_permissions (tabs s)) \<Longrightarrow>
             wp (add p) (\<lambda>_ s'. db_inv (tabs s') (seqs s') \<and> seqs s \<le> seqs s') s"
  shows "safe (do { c \<leftarrow> CreatePermission E p0;
           case c of Inl e \<Rightarrow> State_Monad.return (Inl e) | Inr p \<Rightarrow> add p })"
proof (rule safeI)
  fix s :: st assume inv: "db_inv (tabs s) (seqs s)"
  have created: "db_inv (tabs s') (seqs s') \<and> seqs s \<le> seqs s' \<and> (\<forall>p. c = Inr p \<longrightarrow> p \<in> p_id ` set (t_permissions (tabs s')))"
    if run: "run_state (CreatePermission E p0) s = (c, s')" for c s'
  proof -
    have "safe (CreatePermission E p0)" by (intro moves_intros)
    with inv run have "db_inv (tabs s') (seqs s') \<and> seqs s \<le> seqs s'" by (auto simp: moves_def intact_def wp_def)
    moreover have "c = Inr p \<Longrightarrow> p \<in> p_id ` set (t_permissions (tabs s'))" for p
      using ins_permission.inserted [of E p0 s p s'] run by auto
    ultimately show ?thesis by blast
  qed
  show "wp (do { c \<leftarrow> CreatePermission E p0;
           case c of Inl e \<Rightarrow> State_Monad.return (Inl e) | Inr p \<Rightarrow> add p })
     (\<lambda>_ s'. db_inv (tabs s') (seqs s') \<and> seqs s \<le> seqs s') s"
    unfolding wp_bind
    by (rule wpI) (use created assms in \<open>fastforce simp: wp_simps split: sum.splits elim!: wp_mono intro: order_trans\<close>)
qed

lemma wp_attach_safe:
  assumes "db_inv (tabs s) (seqs s)" and "p \<in> p_id ` set (t_permissions (tabs s))"
  shows "wp (AddPermissionToUser E i p) (\<lambda>_ s'. db_inv (tabs s') (seqs s') \<and> seqs s \<le> seqs s') s"
    and "wp (AddPermissionToSA E i p) (\<lambda>_ s'. db_inv (tabs s') (seqs s') \<and> seqs s \<le> seqs s') s"
    and "wp (AddPermissionToCapabilityToken E i p) (\<lambda>_ s'. db_inv (tabs s') (seqs s') \<and> seqs s \<le> seqs s') s"
  unfolding AddPermissionToUser_def AddPermissionToSA_def AddPermissionToCapabilityToken_def
  using assms by (auto simp: wp_simps safe_attach)

text \<open>Replacing the permissions of a service account: new rows get consecutive keys.\<close>

definition numbered_rows :: "env \<Rightarrow> nat \<Rightarrow> permission list \<Rightarrow> permission list" where
  "numbered_rows E n ps = map (\<lambda>(k, p). p\<lparr>p_id := n + Suc k, p_created_at := now E\<rparr>) (enumerate 0 ps)"

lemma ids_numbered_rows: "map p_id (numbered_rows E n ps) = [Suc n..<Suc (n + length ps)]"
  by (rule nth_equalityI) (auto simp: numbered_rows_def nth_enumerate_eq simp del: upt_Suc)

lemma keyed_numbered_rows:
  assumes "keyed p_id n xs"
  shows "keyed p_id (n + length ps) (xs @ numbered_rows E n ps)"
proof -
  have ids: "p_id ` set (numbered_rows E n ps) = {Suc n..<Suc (n + length ps)}"
    using arg_cong [OF ids_numbered_rows, of set E n ps] by (simp del: upt_Suc)
  have "\<forall>x\<in>p_id ` set (numbered_rows E n ps). n < x \<and> x \<le> n + length ps"
    unfolding ids by simp
  with assms have "\<forall>x\<in>set (xs @ numbered_rows E n ps). p_id x \<le> n + length ps"
    and "p_id ` set xs \<inter> p_id ` set (numbered_rows E n ps) = {}"
    unfolding keyed_def by (auto 0 4 simp: trans_le_add1)
  moreover have "distinct (map p_id (numbered_rows E n ps))"
    unfolding ids_numbered_rows by (rule distinct_upt)
  ultimately show ?thesis using assms by (simp add: keyed_def)
qed

lemma set_fold_insert_link:
  "set (fold (\<lambda>p. insert_link (i, p_id p)) ps ls) = set ls \<union> Pair i ` p_id ` set ps"
  by (induction ps arbitrary: ls) auto

lemma wp_create_permissions [wp_simps]:
  "wp (create_permissions E ps) Q s =
     (if db_fault E (ncalls s) then Q (Inl ErrDB) (tick s)
      else (let rows = numbered_rows E (seqs s TPermissions) ps in
        Q (Inr rows) ((tick s)\<lparr>seqs := (seqs s)(TPermissions := seqs s TPermissions + length ps),
           tabs := (tabs s)\<lparr>t_permissions := t_permissions (tabs s) @ rows\<rparr>\<rparr>)))"
  by (simp add: wp_def create_permissions_def db_op_def Let_def numbered_rows_def)

lemma more_permissions [simp]:
  "set ls \<subseteq> A \<times> p_id ` set ps \<Longrightarrow> set ls \<subseteq> A \<times> p_id ` (set ps \<union> B)"
  by auto

lemma permissions_replaced:
  assumes "db_inv t q" and "sa_exists i t"
  shows "db_inv (t\<lparr>t_permissions := t_permissions t @ numbered_rows E (q TPermissions) ps,
      t_sa_permissions := fold (\<lambda>p. insert_link (i, p_id p)) (numbered_rows E (q TPermissions) ps)
        (filter (\<lambda>(a, _). a \<noteq> i) (t_sa_permissions t))\<rparr>) (q(TPermissions := q TPermissions + length ps))"
proof -
  have "{l \<in> set (t_sa_permissions t). case l of (a, _) \<Rightarrow> a \<noteq> i} \<union> Pair i ` p_id ` set rows
      \<subseteq> sa_id ` set (t_sas t) \<times> p_id ` (set (t_permissions t) \<union> set rows)" for rows
    using assms by (auto simp: db_inv_def refs_ok_def exists_simps)
  with assms show ?thesis
    by (simp add: inv_defs values_of_def set_fold_insert_link keyed_numbered_rows)
qed

lemma safe_ReplaceSAPermissions [moves_intros]: "safe (ReplaceSAPermissions E i ps)"
proof (rule safeI)
  fix s :: st assume inv: "db_inv (tabs s) (seqs s)"
  have q: "seqs s \<le> (seqs s)(TPermissions := seqs s TPermissions + n)" for n by (simp add: le_fun_def)
  have "db_inv ((tabs s)\<lparr>t_sa_permissions := filter (\<lambda>(a, _). a \<noteq> i) (t_sa_permissions (tabs s))\<rparr>) (seqs s)"
    using inv by (simp add: inv_defs values_of_def)
  with inv q show "wp (ReplaceSAPermissions E i ps) (\<lambda>_ s'. db_inv (tabs s') (seqs s') \<and> seqs s \<le> seqs s') s"
    unfolding ReplaceSAPermissions_def link_sa_permissions_def
    using permissions_replaced [OF inv, of i E ps]
    by (auto simp: wp_simps wp_transaction Let_def sa_exists_def intro: db_inv_mono [OF inv])
qed

lemma safe_GetOrCreateSA [moves_intros]: "safe (GetOrCreateSA E ns name)"
  unfolding GetOrCreateSA_def by (intro moves_intros integrity.moves_core keeps_intros)

lemma safe_revoke_matching [moves_intros]:
  "safe (RevokeMatchingPermissionsFromUser E i v pat)" "safe (RevokeMatchingPermissionsFromSA E i v pat)"
  unfolding RevokeMatchingPermissionsFromUser_def RevokeMatchingPermissionsFromSA_def
  by (intro moves_intros integrity.moves_core keeps_intros)+

text \<open>The queries only read.\<close>

lemmas safe_reads [moves_intros] = find_keeps_core [THEN integrity.moves_core] list_keeps_core [THEN integrity.moves_core]

end
