(* ===== verification/System.thy ===== *)
theory System
  imports Server Db_Inv "HOL-Library.Sublist"
begin

text \<open>
  The server as a state machine. A step is one request, answered by \<open>server\<close>, or one event of
  one of the three ConfigMap watchers; steps are taken one after the other, each in an
  environment of its own (its clock, its faults, its random source). \<open>reachable\<close> is the set
  of states that any sequence of steps produces from a freshly migrated database.

  The locale \<open>store_step\<close> is the interface between the data access layer and everything
  above it: a relation between states that holds across every operation of \<open>internal/store\<close>
  that the server uses holds across every handler, the whole server and every watcher.
\<close>

subsection \<open>Steps\<close>

inductive step :: "st \<Rightarrow> st \<Rightarrow> bool" where
  request: "rq_ctx r = no_context \<Longrightarrow> step s (poststate (server E r) s)"
| permissions_event: "step s (poststate (watch_next (applySync E) ''permissions'' ph ev) s)"
| admin_tokens_event: "step s (poststate (watch_next (applyAdminTokens E) ''admin_tokens'' ph ev) s)"
| origins_event: "step s (poststate (watch_next (applyCORSOrigins E) ''allowed_origins'' ph ev) s)"

abbreviation steps :: "st \<Rightarrow> st \<Rightarrow> bool" where
  "steps \<equiv> step\<^sup>*\<^sup>*"

definition reachable :: "st \<Rightarrow> bool" where
  "reachable s \<longleftrightarrow> steps init_st s"

lemma find_route_in: "find_route rs r = Some (bs, h) \<Longrightarrow> h \<in> (\<lambda>(_, _, h). h) ` set rs"
  by (induction rs r rule: find_route.induct) (auto split: option.splits if_splits)

subsection \<open>From the data access layer to the server\<close>

locale store_step = db_step R for R :: "st \<Rightarrow> st \<Rightarrow> bool" +
  assumes create_rows:
      "moves R (CreateAnonPermission E ap)" "moves R (CreateAuditLog E al)"
      "moves R (CreateCapabilityToken E ct)" "moves R (CreateEncryptionKey E c k)"
      "moves R (CreatePAT E pat)" "moves R (CreatePermission E p)" "moves R (CreateResource E res)"
      "moves R (CreateSession E x)" "moves R (CreateUser E u)"
    and create_namespace: "ns \<noteq> ''_'' \<Longrightarrow> moves R (CreateNamespace E ns)"
    and create_value: "cipher_ok rv \<Longrightarrow> moves R (CreateResourceValue E rv)"
    and attach_rows:
      "moves R (attach_new E i p)" "moves R (grant_user E i p)" "moves R (grant_entry E pr i entry)"
    and delete_rows:
      "moves R (DeleteAnonPermission E i)" "moves R (DeletePAT E i)" "moves R (DeleteSession E i)"
      "moves R (DeleteCapabilityToken E i)" "moves R (DeleteNamespace E ns)"
      "moves R (DeleteResource E ns name)" "moves R (DeleteUser E name)"
    and revoke_rows:
      "moves R (RevokeMatchingPermissionsFromUser E i v pat')"
      "moves R (RevokeMatchingPermissionsFromSA E i v pat')"
    and update_rows:
      "moves R (UpdateResourceType E i ty)" "moves R (InvalidateSession E i)"
    and sa_rows:
      "moves R (GetOrCreateSA E ns name)" "moves R (ReplaceSAPermissions E i ps)" "moves R (UpdateSASyncedAt E i)"
begin

lemmas store_moves = create_rows attach_rows delete_rows revoke_rows update_rows sa_rows

declare store_moves [moves_intros]

lemmas reads = find_keeps_core [THEN moves_core] list_keeps_core [THEN moves_core]
  Check_keeps_core [THEN moves_core] CheckWithAnon_keeps_core [THEN moves_core]
  keeps_core_meta [THEN moves_core]

declare reads [moves_intros]

lemma moves_attempt [moves_intros]:
  "moves R m \<Longrightarrow> (\<And>x. moves R (k x)) \<Longrightarrow> moves R (attempt m h k)"
  unfolding attempt_def by (intro moves_intros)

lemma moves_attempt_some [moves_intros]:
  "moves R m \<Longrightarrow> (\<And>x. moves R (k x)) \<Longrightarrow> moves R (attempt_some m h k)"
  unfolding attempt_some_def by (intro moves_intros)

lemma moves_WriteAudit [moves_intros]: "moves R (WriteAudit E r a b c d)"
  unfolding WriteAudit_def by (intro moves_intros)

lemma moves_random [moves_intros]:
  "moves R (GenerateToken E)" "moves R (GenerateDEK E)" "moves R (EncryptValue E v k)"
  "moves R (EncryptDEK E v k)" "moves R (bcrypt_generate E pass)"
  unfolding GenerateToken_def GenerateDEK_def EncryptValue_def EncryptDEK_def sealGCM_def
  by (intro moves_intros)+ (simp add: moves_def bcrypt_generate_def wp_def step_rand)

subsubsection \<open>Sessions and tokens\<close>

lemma moves_sessions [moves_intros]:
  "moves R (NewSession E u)" "moves R (Login E n pw)" "moves R (Refresh E tok)" "moves R (Logout E tok)"
proof -
  show new: "moves R (NewSession E u)" for u
    unfolding NewSession_def by (intro moves_intros)
  show "moves R (Login E n pw)" "moves R (Refresh E tok)" "moves R (Logout E tok)"
    unfolding Login_def Refresh_def Logout_def by (intro moves_intros new)+
qed

lemma moves_token_api [moves_intros]:
  "moves R (api_Login E r)" "moves R (api_Refresh E r)" "moves R (api_Logout E r)"
  "moves R (AnonToken E r)" "moves R (IssuePAT E r)" "moves R (RevokePAT E r)"
  "moves R (IssueCapabilityToken E r)" "moves R (RevokeCapabilityToken E r)"
  unfolding api_Login_def api_Refresh_def api_Logout_def AnonToken_def IssuePAT_def RevokePAT_def
    IssueCapabilityToken_def RevokeCapabilityToken_def create_token_def check_entry_def
  by (intro moves_intros)+

subsubsection \<open>Administration\<close>

lemma moves_bootstrap [moves_intros]: "moves R (bootstrap_user E i)"
  unfolding bootstrap_user_def by (intro moves_intros)

lemma moves_revoke [moves_intros]: "moves R (revoke_entry E pr i entry)" "moves R (add_anon_entry E entry)"
  unfolding revoke_entry_def add_anon_entry_def by (intro moves_intros)+

lemma moves_queries [moves_intros]:
  "moves R (ignoring_error m)" if "moves R m" for m :: "('e + 'b list) prog"
  unfolding ignoring_error_def by (intro moves_intros that)

lemma moves_query_entry [moves_intros]: "moves R (query_entry E entry)"
  unfolding query_entry_def by (intro moves_intros)

lemma moves_query_entries [moves_intros]: "moves R (query_entries E es res)"
  by (induction es arbitrary: res) (auto intro!: moves_intros)

lemma moves_principal_details [moves_intros]: "moves R (principal_details E refs res)"
  by (induction refs arbitrary: res) (auto intro!: moves_intros)

lemma moves_principal_id [moves_intros]: "moves R (principal_id E pr)"
  unfolding principal_id_def by (intro moves_intros)

lemma moves_with_permissions [moves_intros]:
  "(\<And>body pr i. moves R (k body pr i)) \<Longrightarrow> moves R (with_permissions E r val k)"
  unfolding with_permissions_def by (intro moves_intros)

lemma moves_admin_api [moves_intros]:
  "moves R (api_CreateUser E r)" "moves R (AdminUser E r)" "moves R (GetAnonInfo E r)"
  "moves R (DeleteUserByName E r)" "moves R (GrantPermissions E r)" "moves R (RevokePermissions E r)"
  "moves R (api_ListAnonPermissions E r)" "moves R (AddAnonPermissions E r)"
  "moves R (api_DeleteAnonPermission E r)" "moves R (Principals E r)" "moves R (GetAuditLog E r)"
  unfolding api_CreateUser_def AdminUser_def GetAnonInfo_def DeleteUserByName_def GrantPermissions_def
    RevokePermissions_def api_ListAnonPermissions_def AddAnonPermissions_def api_DeleteAnonPermission_def
    Principals_def GetAuditLog_def
  by (intro moves_intros)+

subsubsection \<open>Namespaces and resources\<close>

lemma moves_with_namespace [moves_intros]:
  "(\<And>ns. ns \<noteq> ''_'' \<Longrightarrow> moves R (k ns)) \<Longrightarrow> moves R (with_namespace E r k)"
  unfolding with_namespace_def by (intro moves_intros)

lemma moves_collect_meta [moves_intros]: "moves R (collect_meta_loop E pr vs)"
  by (induction vs) (auto intro!: moves_intros)

lemma moves_namespaces_of [moves_intros]: "moves R (NamespacesForPrincipalWithAnon E pr)"
  unfolding NamespacesForPrincipalWithAnon_def NamespacesForPrincipal_def
  by (intro moves_intros permissionsForPrincipal_keeps_core [THEN moves_core])

lemma moves_NamespaceHandler [moves_intros]: "moves R (NamespaceHandler E r)"
  unfolding NamespaceHandler_def namespace_list_def namespace_query_def namespace_create_def
    namespace_delete_def namespace_query_body_def collectMetaVerbs_def
  by (intro moves_intros create_namespace reads)

lemma moves_put_steps:
  "ns \<noteq> ''_'' \<Longrightarrow> (\<And>i. moves R (k i)) \<Longrightarrow> moves R (put_namespace E ns k)"
  "(\<And>i. moves R (k i)) \<Longrightarrow> moves R (put_resource E body i k)"
  "(\<And>d a key. (a = EncryptionAlgorithmUndefined \<and> key = None) \<or> (a = EncryptionAlgorithmAES256GCM \<and> key \<noteq> None) \<Longrightarrow>
      moves R (k' d a key)) \<Longrightarrow> moves R (put_encrypt E body k')"
  unfolding put_namespace_def put_resource_def put_encrypt_def
  by (intro moves_intros create_namespace; simp)+

lemma moves_ResourceHandler [moves_intros]: "moves R (ResourceHandler E r)"
proof -
  have "moves R (handleResourcePut E r pr)" for pr
    unfolding handleResourcePut_def
    by (intro moves_intros moves_put_steps create_value) (auto simp: cipher_ok_def new_value_def)
  then show ?thesis
    unfolding ResourceHandler_def handleResourceQuery_def handleResourceDelete_def handleGetByUUID_def
      handleGetResource_def handleListVersions_def select_version_def
    by (intro moves_intros)
qed

subsubsection \<open>The server and the watchers\<close>

lemma moves_route:
  "find_route (inner_routes E) r = Some (bs, h) \<Longrightarrow> moves R (h r')"
  by (drule find_route_in) (auto simp: inner_routes_def intro: moves_intros)

lemma moves_inner [moves_intros]: "moves R (inner E r)"
  unfolding inner_def serve_mux_def by (intro moves_intros) (simp add: moves_route)

lemma moves_resolveToken [moves_intros]: "moves R (resolveToken E cx raw)"
  unfolding resolveToken_def resolveSession_def resolvePAT_def resolveCapabilityToken_def resolveSAJWT_def
  by (intro moves_intros)

lemma moves_AuthMiddleware: "(\<And>r. moves R (h r)) \<Longrightarrow> moves R (AuthMiddleware E h r)"
  unfolding AuthMiddleware_def by (intro moves_intros)

lemma moves_CORSMiddleware: "moves R (h r) \<Longrightarrow> moves R (CORSMiddleware h r)"
  unfolding CORSMiddleware_def by (intro moves_intros)

theorem moves_server: "moves R (server E r)"
  unfolding server_def healthz_def Ready_def
  by (intro moves_intros moves_CORSMiddleware moves_AuthMiddleware)

lemma moves_memory [moves_intros]:
  "moves R (applyAdminTokens E d)" "moves R (applyCORSOrigins E d)"
  by (auto simp: moves_def wp_def applyAdminTokens_def applyCORSOrigins_def step_refl step_tokens
      step_origins split: option.splits)

lemma moves_applySync [moves_intros]: "moves R (applySync E d)"
proof -
  have "moves R (syncSA E entry)" for entry
    unfolding syncSA_def by (intro moves_intros)
  then have "moves R (sync_entries E es)" for es
    by (induction es) (auto intro!: moves_intros)
  then show ?thesis unfolding applySync_def by (intro moves_intros)
qed

lemma moves_watch_next:
  "(\<And>d. moves R (app d)) \<Longrightarrow> moves R (watch_next app key ph ev)"
  by (induction app key ph ev rule: watch_next.induct) (auto intro!: moves_intros)

lemma related_step: "step s s' \<Longrightarrow> R s s'"
  by (erule step.cases; hypsubst; rule moves_poststate [where R = R];
      intro moves_server moves_watch_next moves_memory moves_applySync)

lemma related_steps: "steps s s' \<Longrightarrow> R s s'"
  by (induction rule: rtranclp_induct) (auto intro: step_refl step_trans related_step)

end

subsection \<open>The integrity of the database\<close>

lemma safe_attach_rows:
  "safe (attach_new E i p)" "safe (grant_user E i p)" "safe (grant_entry E pr i entry)"
  unfolding attach_new_def grant_user_def grant_entry_def
  by (rule safe_create_and_attach; auto simp: wp_attach_safe wp_simps)+

interpretation consistent: store_step intact
  by unfold_locales (intro moves_intros safe_attach_rows safe_CreateNamespace safe_CreateResourceValue; assumption?)+

subsection \<open>What is only ever added to\<close>

text \<open>
  The audit log, the permission rows and the data encryption keys only grow at their end.
\<close>

definition appended :: "st \<Rightarrow> st \<Rightarrow> bool" where
  "appended s s' \<longleftrightarrow> prefix (t_audit_logs (tabs s)) (t_audit_logs (tabs s'))
     \<and> prefix (t_permissions (tabs s)) (t_permissions (tabs s'))
     \<and> prefix (t_encryption_keys (tabs s)) (t_encryption_keys (tabs s'))"

interpretation appending: db_step appended
proof
  show "appended s s'" if "core s' = core s" for s s'
    using core_eqD [OF that] by (simp add: appended_def)
qed (auto simp: appended_def)

lemma appends_db_exec:
  "(\<And>t t'. f t = Inr t' \<Longrightarrow> appended (s\<lparr>tabs := t\<rparr>) (s\<lparr>tabs := t'\<rparr>)) \<Longrightarrow> moves appended (db_exec E f)"
  by (auto simp: moves_def wp_simps appended_def split: sum.splits)

lemma appends_db_insert:
  "(\<And>i t. appended (s\<lparr>tabs := t\<rparr>) (s\<lparr>tabs := ins i t\<rparr>)) \<Longrightarrow> moves appended (db_insert E tn ok ins)"
  by (auto simp: moves_def wp_simps appended_def Let_def split: sum.splits)

lemma ensure_permission_appends:
  "prefix (t_permissions t) (t_permissions (ensure_permission E i t))"
  "t_audit_logs (ensure_permission E i t) = t_audit_logs t"
  "t_encryption_keys (ensure_permission E i t) = t_encryption_keys t"
  by (simp_all add: ensure_permission_def)

lemma appends_rows [moves_intros]:
  "moves appended (CreateAnonPermission E ap)" "moves appended (CreateAuditLog E al)"
  "moves appended (CreateCapabilityToken E ct)" "moves appended (CreateEncryptionKey E c k)"
  "moves appended (CreatePAT E pat)" "moves appended (CreatePermission E p)" "moves appended (CreateResource E res)"
  "moves appended (CreateSession E x)" "moves appended (CreateUser E u)" "moves appended (CreateNamespace E ns)"
  "moves appended (CreateSA E sa)"
  unfolding CreateAnonPermission_def CreateAuditLog_def CreateCapabilityToken_def CreateEncryptionKey_def
    CreatePAT_def CreatePermission_def CreateResource_def CreateSession_def CreateUser_def CreateNamespace_def
    CreateSA_def
  by (rule appends_db_insert; simp add: appended_def)+

lemma appends_updates [moves_intros]:
  "moves appended (DeleteAnonPermission E i)" "moves appended (DeletePAT E i)" "moves appended (DeleteSession E i)"
  "moves appended (DeleteCapabilityToken E i)" "moves appended (DeleteNamespace E ns)"
  "moves appended (RevokePermissionFromUser E i j)" "moves appended (RevokePermissionFromSA E i j)"
  "moves appended (UpdateResourceType E i ty)" "moves appended (InvalidateSession E i)"
  "moves appended (UpdateSASyncedAt E i)" "moves appended (AddPermissionToUser E i j)"
  "moves appended (AddPermissionToSA E i j)" "moves appended (AddPermissionToCapabilityToken E i j)"
  unfolding DeleteAnonPermission_def DeletePAT_def DeleteSession_def DeleteCapabilityToken_def
    DeleteNamespace_def RevokePermissionFromUser_def RevokePermissionFromSA_def UpdateResourceType_def
    InvalidateSession_def UpdateSASyncedAt_def AddPermissionToUser_def AddPermissionToSA_def
    AddPermissionToCapabilityToken_def
  by (rule appends_db_exec; auto simp: appended_def ensure_permission_appends split: if_splits)+

lemma appends_transactions [moves_intros]:
  "moves appended (DeleteResource E ns name)" "moves appended (DeleteUser E name)"
  "moves appended (CreateResourceValue E rv)" "moves appended (ReplaceSAPermissions E i ps)"
  unfolding DeleteResource_def DeleteUser_def CreateResourceValue_def ReplaceSAPermissions_def
    link_sa_permissions_def
  by (auto simp: moves_def wp_transaction wp_simps appended_def delete_user_rows_def Let_def split: option.splits)

interpretation growing: store_step appended
  by unfold_locales
    (unfold attach_new_def grant_user_def grant_entry_def GetOrCreateSA_def
      RevokeMatchingPermissionsFromUser_def RevokeMatchingPermissionsFromSA_def,
     (intro moves_intros find_keeps_core [THEN appending.moves_core] list_keeps_core [THEN appending.moves_core])+)

subsection \<open>The history of a resource\<close>

text \<open>
  Keys of resources are never used twice, and as long as a resource is stored its values
  only grow at their end.
\<close>

definition succeeds :: "st \<Rightarrow> st \<Rightarrow> bool" where
  "succeeds s s' \<longleftrightarrow>
     (\<forall>i \<in> r_id ` set (t_resources (tabs s')). i \<le> seqs s TResources \<longrightarrow> i \<in> r_id ` set (t_resources (tabs s)))
   \<and> (\<forall>i \<in> r_id ` set (t_resources (tabs s)) \<inter> r_id ` set (t_resources (tabs s')).
        prefix (values_of (tabs s) i) (values_of (tabs s') i))"

definition inherits :: "st \<Rightarrow> st \<Rightarrow> bool" where
  "inherits s s' \<longleftrightarrow> intact s s' \<and> (db_inv (tabs s) (seqs s) \<longrightarrow> succeeds s s')"

lemma succeeds_same:
  "t_resources (tabs s') = t_resources (tabs s) \<Longrightarrow> t_resource_values (tabs s') = t_resource_values (tabs s) \<Longrightarrow>
     succeeds s s'"
  by (simp add: succeeds_def values_of_def)

lemma resource_id_bound:
  "db_inv t q \<Longrightarrow> i \<in> r_id ` set (t_resources t) \<Longrightarrow> i \<le> q TResources"
  by (auto simp: db_inv_def keys_ok_def keyed_def)

lemma succeeds_trans:
  assumes "db_inv (tabs s) (seqs s)" and "seqs s \<le> seqs s'" and "succeeds s s'" and "succeeds s' s''"
  shows "succeeds s s''"
proof -
  have le: "seqs s TResources \<le> seqs s' TResources" using assms(2) by (simp add: le_fun_def)
  have earlier: "i \<in> r_id ` set (t_resources (tabs s'))"
    if "i \<in> r_id ` set (t_resources (tabs s''))" "i \<le> seqs s TResources" for i
    using that le assms(4) by (auto simp: succeeds_def)
  show ?thesis
    unfolding succeeds_def
  proof (intro conjI ballI impI)
    fix i assume "i \<in> r_id ` set (t_resources (tabs s''))" "i \<le> seqs s TResources"
    with earlier assms(3) show "i \<in> r_id ` set (t_resources (tabs s))"
      unfolding succeeds_def by blast
  next
    fix i assume i: "i \<in> r_id ` set (t_resources (tabs s)) \<inter> r_id ` set (t_resources (tabs s''))"
    with resource_id_bound [OF assms(1)] earlier have "i \<in> r_id ` set (t_resources (tabs s'))" by blast
    with i assms(3,4) show "prefix (values_of (tabs s) i) (values_of (tabs s'') i)"
      unfolding succeeds_def by (blast intro: prefix_order.trans)
  qed
qed

interpretation heritage: db_step inherits
proof
  show "inherits s s'" if "core s' = core s" for s s'
    using core_eqD [OF that] integrity.step_core [OF that] by (simp add: inherits_def succeeds_same)
  show "inherits s s''" if "inherits s s'" "inherits s' s''" for s s' s''
    using that succeeds_trans [of s s' s''] by (auto simp: inherits_def intact_def)
  show "inherits s (s'\<lparr>tabs := tabs s\<rparr>)" if "inherits s s'" for s s'
    using that integrity.step_rollback by (auto simp: inherits_def intro: succeeds_same)
qed (auto simp: inherits_def succeeds_same intact_def)

abbreviation resource_part :: "tables \<Rightarrow> resource list \<times> resource_value list" where
  "resource_part t \<equiv> (t_resources t, t_resource_values t)"

lemma inherits_frame:
  "moves intact m \<Longrightarrow> keeps (\<lambda>s. resource_part (tabs s)) m \<Longrightarrow> moves inherits m"
  by (auto simp: moves_def wp_run inherits_def dest: keeps_after intro!: succeeds_same)

lemma inherits_CreateResource: "moves inherits (CreateResource E r)"
proof -
  have "moves intact (CreateResource E r)" by (intro moves_intros)
  moreover have "wp (CreateResource E r) (\<lambda>_. succeeds s) s" for s
    by (auto simp: wp_simps ins_resource.wp_insert Let_def succeeds_def values_of_def)
  ultimately show ?thesis by (simp add: moves_def inherits_def wp_run)
qed

lemma inherits_UpdateResourceType: "moves inherits (UpdateResourceType E i ty)"
proof -
  have "moves intact (UpdateResourceType E i ty)" by (intro moves_intros)
  moreover have "wp (UpdateResourceType E i ty) (\<lambda>_. succeeds s) s" for s
    by (auto simp: UpdateResourceType_def wp_simps succeeds_def values_of_def split: if_splits)
  ultimately show ?thesis by (simp add: moves_def inherits_def wp_run)
qed

lemma inherits_DeleteResource: "moves inherits (DeleteResource E ns name)"
proof -
  have "moves intact (DeleteResource E ns name)" by (intro moves_intros)
  moreover have "wp (DeleteResource E ns name) (\<lambda>_. succeeds s) s" for s
    by (auto simp: DeleteResource_def wp_transaction wp_simps succeeds_def values_of_deleted succeeds_same split: option.splits)
  ultimately show ?thesis by (simp add: moves_def inherits_def wp_run)
qed

lemma inherits_CreateResourceValue: "cipher_ok rv \<Longrightarrow> moves inherits (CreateResourceValue E rv)"
proof -
  assume "cipher_ok rv"
  then have "moves intact (CreateResourceValue E rv)" by (rule safe_CreateResourceValue)
  moreover have "wp (CreateResourceValue E rv) (\<lambda>_. succeeds s) s" for s
    by (auto simp: CreateResourceValue_def wp_transaction wp_simps succeeds_def values_of_def Let_def succeeds_same)
  ultimately show ?thesis by (simp add: moves_def inherits_def wp_run)
qed

lemma resource_frame_inserts [keeps_intros]:
  "keeps (\<lambda>s. resource_part (tabs s)) (CreateAnonPermission E ap)"
  "keeps (\<lambda>s. resource_part (tabs s)) (CreateAuditLog E al)"
  "keeps (\<lambda>s. resource_part (tabs s)) (CreateCapabilityToken E ct)"
  "keeps (\<lambda>s. resource_part (tabs s)) (CreateEncryptionKey E c k)"
  "keeps (\<lambda>s. resource_part (tabs s)) (CreatePAT E pat)"
  "keeps (\<lambda>s. resource_part (tabs s)) (CreatePermission E p)"
  "keeps (\<lambda>s. resource_part (tabs s)) (CreateSession E x)"
  "keeps (\<lambda>s. resource_part (tabs s)) (CreateUser E u)"
  "keeps (\<lambda>s. resource_part (tabs s)) (CreateNamespace E ns)"
  "keeps (\<lambda>s. resource_part (tabs s)) (CreateSA E sa)"
  unfolding CreateAnonPermission_def CreateAuditLog_def CreateCapabilityToken_def CreateEncryptionKey_def
    CreatePAT_def CreatePermission_def CreateSession_def CreateUser_def CreateNamespace_def CreateSA_def
  by (rule keeps_db_insert_part; simp)+

lemma resource_frame_updates [keeps_intros]:
  "keeps (\<lambda>s. resource_part (tabs s)) (DeleteAnonPermission E i)"
  "keeps (\<lambda>s. resource_part (tabs s)) (DeletePAT E i)"
  "keeps (\<lambda>s. resource_part (tabs s)) (DeleteSession E i)"
  "keeps (\<lambda>s. resource_part (tabs s)) (DeleteCapabilityToken E i)"
  "keeps (\<lambda>s. resource_part (tabs s)) (DeleteNamespace E ns)"
  "keeps (\<lambda>s. resource_part (tabs s)) (RevokePermissionFromUser E i j)"
  "keeps (\<lambda>s. resource_part (tabs s)) (RevokePermissionFromSA E i j)"
  "keeps (\<lambda>s. resource_part (tabs s)) (InvalidateSession E i)"
  "keeps (\<lambda>s. resource_part (tabs s)) (UpdateSASyncedAt E i)"
  "keeps (\<lambda>s. resource_part (tabs s)) (AddPermissionToUser E i j)"
  "keeps (\<lambda>s. resource_part (tabs s)) (AddPermissionToSA E i j)"
  "keeps (\<lambda>s. resource_part (tabs s)) (AddPermissionToCapabilityToken E i j)"
  unfolding DeleteAnonPermission_def DeletePAT_def DeleteSession_def DeleteCapabilityToken_def
    DeleteNamespace_def RevokePermissionFromUser_def RevokePermissionFromSA_def InvalidateSession_def
    UpdateSASyncedAt_def AddPermissionToUser_def AddPermissionToSA_def AddPermissionToCapabilityToken_def
  by (rule keeps_db_exec_part; auto simp: ensure_permission_def split: if_splits)+

lemma resource_frame_transactions [keeps_intros]:
  "keeps (\<lambda>s. resource_part (tabs s)) (DeleteUser E name)"
  "keeps (\<lambda>s. resource_part (tabs s)) (ReplaceSAPermissions E i ps)"
  unfolding DeleteUser_def ReplaceSAPermissions_def link_sa_permissions_def
  by (auto simp: keeps_iff_wp wp_transaction wp_simps delete_user_rows_def Let_def split: option.splits)

lemma resource_frame_programs [keeps_intros]:
  "keeps (\<lambda>s. resource_part (tabs s)) (attach_new E i p)" "keeps (\<lambda>s. resource_part (tabs s)) (grant_user E i p)"
  "keeps (\<lambda>s. resource_part (tabs s)) (grant_entry E pr i entry)"
  "keeps (\<lambda>s. resource_part (tabs s)) (GetOrCreateSA E ns name)"
  "keeps (\<lambda>s. resource_part (tabs s)) (RevokeMatchingPermissionsFromUser E i v pat)"
  "keeps (\<lambda>s. resource_part (tabs s)) (RevokeMatchingPermissionsFromSA E i v pat)"
  unfolding attach_new_def grant_user_def grant_entry_def GetOrCreateSA_def
    RevokeMatchingPermissionsFromUser_def RevokeMatchingPermissionsFromSA_def
  by (intro keeps_intros)+

interpretation lineage: store_step inherits
  by unfold_locales
    (intro inherits_CreateResource inherits_UpdateResourceType inherits_DeleteResource
       inherits_CreateResourceValue consistent.create_namespace
     | assumption | (rule inherits_frame, (intro moves_intros consistent.create_namespace; assumption), intro keeps_intros))+

end
