(* ===== verification/Auth_Laws.thy ===== *)
theory Auth_Laws
  imports Auth
begin

text \<open>
  What authentication promises. \<open>token_resolver\<close> is the contract of the functions that turn
  a bearer token into a principal; the middleware is described by \<open>authentic\<close>, the contexts
  a request may be served with.
\<close>

subsection \<open>Credentials in the tables\<close>

definition live_session :: "env \<Rightarrow> string \<Rightarrow> tables \<Rightarrow> user \<Rightarrow> bool" where
  "live_session E tok t u \<longleftrightarrow>
     (\<exists>x\<in>set (t_sessions t). s_token_hash x = HashToken E tok \<and> now E \<le> s_expires_at x
        \<and> u \<in> set (t_users t) \<and> u_id u = s_user_id x)"

definition live_pat :: "env \<Rightarrow> string \<Rightarrow> tables \<Rightarrow> user \<Rightarrow> bool" where
  "live_pat E tok t u \<longleftrightarrow>
     (\<exists>p\<in>set (t_pats t). pat_hash p = HashToken E tok
        \<and> (\<forall>e. pat_expiry p = Some e \<longrightarrow> now E \<le> e) \<and> u \<in> set (t_users t) \<and> u_id u = pat_user_id p)"

definition live_token :: "env \<Rightarrow> string \<Rightarrow> tables \<Rightarrow> capability_token \<Rightarrow> bool" where
  "live_token E tok t c \<longleftrightarrow>
     (\<exists>c'\<in>set (t_capability_tokens t). ct_token_hash c' = HashToken E tok
        \<and> (\<forall>e. ct_expires_at c' = Some e \<longrightarrow> now E \<le> e)
        \<and> c = c'\<lparr>ct_permissions := linked (t_capability_token_permissions t) (ct_id c') t\<rparr>)"

definition reviewed_sa :: "env \<Rightarrow> string \<Rightarrow> tables \<Rightarrow> sa \<Rightarrow> bool" where
  "reviewed_sa E tok t a \<longleftrightarrow> ValidateSAToken E tok = Some (sa_namespace a, sa_name a)"

subsection \<open>The contract of a resolver\<close>

text \<open>
  \<open>frame\<close> is the part of the tables that resolving leaves alone: everything, except that a
  service account seen for the first time is recorded.
\<close>

locale token_resolver =
  fixes resolve :: "env \<Rightarrow> string \<Rightarrow> 'a option prog"
    and valid :: "env \<Rightarrow> string \<Rightarrow> tables \<Rightarrow> 'a \<Rightarrow> bool"
    and frame :: "tables \<Rightarrow> 'v"
  assumes resolve_keeps: "keeps (\<lambda>s. (frame (tabs s), admin_tokens s)) (resolve E tok)"
    and resolve_valid:
      "run_state (resolve E tok) s = (Some x, s') \<Longrightarrow> valid E tok (tabs s) x"
begin

lemma wp_resolve:
  "wp (resolve E tok) (\<lambda>r s'. frame (tabs s') = frame (tabs s) \<and> admin_tokens s' = admin_tokens s
     \<and> (\<forall>x. r = Some x \<longrightarrow> valid E tok (tabs s) x)) s"
  using keepsD [OF resolve_keeps] resolve_valid by (auto intro!: wpI)

end

definition outside_sas :: "tables \<Rightarrow> tables" where
  "outside_sas t = t\<lparr>t_sas := []\<rparr>"

lemma resolveSession_sound:
  "wp (resolveSession E tok) (\<lambda>r s'. tabs s' = tabs s \<and> admin_tokens s' = admin_tokens s
     \<and> (\<forall>u. r = Some u \<longrightarrow> live_session E tok (tabs s) u)) s"
  unfolding resolveSession_def live_session_def
  by (auto simp: wp_simps not_less dest!: first_by_Some_in split: option.splits)

lemma resolvePAT_sound:
  "wp (resolvePAT E tok) (\<lambda>r s'. tabs s' = tabs s \<and> admin_tokens s' = admin_tokens s
     \<and> (\<forall>u. r = Some u \<longrightarrow> live_pat E tok (tabs s) u)) s"
  unfolding resolvePAT_def live_pat_def
  by (fastforce simp: wp_simps not_less dest!: first_by_Some_in split: option.splits)

lemma select_token_live:
  assumes "select_token (HashToken E tok) t = Some c"
    and "\<And>e. ct_expires_at c = Some e \<Longrightarrow> now E \<le> e"
  shows "live_token E tok t c"
proof -
  from assms(1) obtain c' where "first_by ct_id (\<lambda>c. ct_token_hash c = HashToken E tok) (t_capability_tokens t) = Some c'"
    and c: "c = c'\<lparr>ct_permissions := linked (t_capability_token_permissions t) (ct_id c') t\<rparr>"
    by (auto simp: select_token_def)
  with first_by_Some_in [OF this(1)] assms(2) show ?thesis
    unfolding live_token_def by (intro bexI [of _ c']) auto
qed

lemma resolveCapabilityToken_sound:
  "wp (resolveCapabilityToken E tok) (\<lambda>r s'. tabs s' = tabs s \<and> admin_tokens s' = admin_tokens s
     \<and> (\<forall>c. r = Some c \<longrightarrow> live_token E tok (tabs s) c)) s"
  unfolding resolveCapabilityToken_def
  by (auto simp: wp_simps not_less intro!: select_token_live split: option.splits)

lemma wp_GetOrCreateSA:
  "wp (GetOrCreateSA E ns n) (\<lambda>r s'. outside_sas (tabs s') = outside_sas (tabs s)
     \<and> admin_tokens s' = admin_tokens s
     \<and> (\<forall>a. r = Inr a \<longrightarrow> sa_namespace a = ns \<and> sa_name a = n \<and> a \<in> set (t_sas (tabs s')))) s"
  unfolding GetOrCreateSA_def
  by (auto simp: wp_simps ins_sa.wp_insert outside_sas_def Let_def dest!: first_by_Some_in
      split: option.splits)

lemma resolveSAJWT_sound:
  "wp (resolveSAJWT E tok) (\<lambda>r s'. outside_sas (tabs s') = outside_sas (tabs s)
     \<and> admin_tokens s' = admin_tokens s
     \<and> (\<forall>a. r = Some a \<longrightarrow> reviewed_sa E tok (tabs s) a)) s"
  unfolding resolveSAJWT_def reviewed_sa_def
  by (auto simp: wp_simps intro!: wp_mono [OF wp_GetOrCreateSA] split: option.splits sum.splits)

interpretation session_resolver: token_resolver resolveSession live_session "\<lambda>t. t"
proof
  show "keeps (\<lambda>s. (tabs s, admin_tokens s)) (resolveSession E tok)" for E tok
    unfolding keeps_iff_wp by (auto intro: wp_mono [OF resolveSession_sound])
  show "run_state (resolveSession E tok) s = (Some x, s') \<Longrightarrow> live_session E tok (tabs s) x"
    for E tok s x s' using wpD [OF resolveSession_sound] by blast
qed

interpretation pat_resolver: token_resolver resolvePAT live_pat "\<lambda>t. t"
proof
  show "keeps (\<lambda>s. (tabs s, admin_tokens s)) (resolvePAT E tok)" for E tok
    unfolding keeps_iff_wp by (auto intro: wp_mono [OF resolvePAT_sound])
  show "run_state (resolvePAT E tok) s = (Some x, s') \<Longrightarrow> live_pat E tok (tabs s) x"
    for E tok s x s' using wpD [OF resolvePAT_sound] by blast
qed

interpretation capability_resolver: token_resolver resolveCapabilityToken live_token "\<lambda>t. t"
proof
  show "keeps (\<lambda>s. (tabs s, admin_tokens s)) (resolveCapabilityToken E tok)" for E tok
    unfolding keeps_iff_wp by (auto intro: wp_mono [OF resolveCapabilityToken_sound])
  show "run_state (resolveCapabilityToken E tok) s = (Some x, s') \<Longrightarrow> live_token E tok (tabs s) x"
    for E tok s x s' using wpD [OF resolveCapabilityToken_sound] by blast
qed

interpretation sa_resolver: token_resolver resolveSAJWT reviewed_sa outside_sas
proof
  show "keeps (\<lambda>s. (outside_sas (tabs s), admin_tokens s)) (resolveSAJWT E tok)" for E tok
    unfolding keeps_iff_wp by (auto intro: wp_mono [OF resolveSAJWT_sound])
  show "run_state (resolveSAJWT E tok) s = (Some x, s') \<Longrightarrow> reviewed_sa E tok (tabs s) x"
    for E tok s x s' using wpD [OF resolveSAJWT_sound] by blast
qed

subsection \<open>The middleware\<close>

definition credential :: "env \<Rightarrow> string \<Rightarrow> tables \<Rightarrow> request_context \<Rightarrow> request_context \<Rightarrow> bool" where
  "credential E raw t cx0 cx \<longleftrightarrow>
     (\<exists>u. HasPrefix raw SessionPrefix \<and> live_session E raw t u
        \<and> cx = cx0\<lparr>cx_user := Some u, cx_auth_method := AuthMethodSession\<rparr>)
   \<or> (\<exists>u. HasPrefix raw PATPrefix \<and> live_pat E raw t u
        \<and> cx = cx0\<lparr>cx_user := Some u, cx_auth_method := AuthMethodPAT\<rparr>)
   \<or> (\<exists>c. HasPrefix raw CapabilityPrefix \<and> live_token E raw t c \<and> cx = cx0\<lparr>cx_token := Some c\<rparr>)
   \<or> (\<exists>a. looksLikeJWT raw \<and> reviewed_sa E raw t a \<and> cx = cx0\<lparr>cx_sa := Some a\<rparr>)"

lemma credential_intros:
  "HasPrefix raw SessionPrefix \<Longrightarrow> live_session E raw t u \<Longrightarrow>
     credential E raw t cx0 (cx0\<lparr>cx_user := Some u, cx_auth_method := AuthMethodSession\<rparr>)"
  "HasPrefix raw PATPrefix \<Longrightarrow> live_pat E raw t u \<Longrightarrow>
     credential E raw t cx0 (cx0\<lparr>cx_user := Some u, cx_auth_method := AuthMethodPAT\<rparr>)"
  "HasPrefix raw CapabilityPrefix \<Longrightarrow> live_token E raw t c \<Longrightarrow>
     credential E raw t cx0 (cx0\<lparr>cx_token := Some c\<rparr>)"
  "looksLikeJWT raw \<Longrightarrow> reviewed_sa E raw t a \<Longrightarrow> credential E raw t cx0 (cx0\<lparr>cx_sa := Some a\<rparr>)"
  unfolding credential_def by blast+

lemma wp_resolveToken:
  "wp (resolveToken E cx0 raw) (\<lambda>r s'. outside_sas (tabs s') = outside_sas (tabs s)
     \<and> admin_tokens s' = admin_tokens s
     \<and> (\<forall>cx. r = Some cx \<longrightarrow> credential E raw (tabs s) cx0 cx)) s"
proof -
  consider "HasPrefix raw SessionPrefix"
    | "\<not> HasPrefix raw SessionPrefix" "HasPrefix raw PATPrefix"
    | "\<not> HasPrefix raw SessionPrefix" "\<not> HasPrefix raw PATPrefix" "HasPrefix raw CapabilityPrefix"
    | "\<not> HasPrefix raw SessionPrefix" "\<not> HasPrefix raw PATPrefix" "\<not> HasPrefix raw CapabilityPrefix"
    by blast
  then show ?thesis
  proof cases
    case 1
    then show ?thesis unfolding resolveToken_def if_P wp_bind
      by (auto simp: wp_simps outside_sas_def split: option.splits
          intro!: wp_mono [OF session_resolver.wp_resolve] credential_intros(1))
  next
    case 2
    then show ?thesis unfolding resolveToken_def
      by (auto simp: wp_simps outside_sas_def split: option.splits
          intro!: wp_mono [OF pat_resolver.wp_resolve] credential_intros(2))
  next
    case 3
    then show ?thesis unfolding resolveToken_def
      by (auto simp: wp_simps outside_sas_def split: option.splits
          intro!: wp_mono [OF capability_resolver.wp_resolve] credential_intros(3))
  next
    case 4
    then show ?thesis unfolding resolveToken_def
      by (auto simp: wp_simps split: option.splits
          intro!: wp_mono [OF sa_resolver.wp_resolve] credential_intros(4))
  qed
qed

text \<open>The contexts with which the middleware lets a request through to its handler.\<close>

definition authentic :: "env \<Rightarrow> request \<Rightarrow> st \<Rightarrow> request_context \<Rightarrow> bool" where
  "authentic E r s cx \<longleftrightarrow>
     (rq_path r \<in> set public_paths \<and> cx = rq_ctx r)
   \<or> (rq_method r = ''POST'' \<and> rq_path r = ''/admin/user'' \<and> bearer r \<noteq> []
        \<and> bearer r \<in> set (admin_tokens s) \<and> cx = (rq_ctx r)\<lparr>cx_bootstrap := True\<rparr>)
   \<or> (rq_path r \<in> set optional_auth_paths \<and> bearer r = [] \<and> cx = rq_ctx r)
   \<or> credential E (bearer r) (tabs s) (rq_ctx r) cx"

text \<open>
  The rule for reasoning about a request behind the middleware: the handler runs only in an
  authentic context, on tables that differ at most in a newly recorded service account.
\<close>

lemma wp_AuthMiddleware:
  assumes "\<And>s'. outside_sas (tabs s') = outside_sas (tabs s) \<Longrightarrow> Q (http_Error ''unauthorized'' 401) s'"
    and "\<And>cx s'. authentic E r s cx \<Longrightarrow> outside_sas (tabs s') = outside_sas (tabs s) \<Longrightarrow>
           admin_tokens s' = admin_tokens s \<Longrightarrow> wp (nxt (r\<lparr>rq_ctx := cx\<rparr>)) Q s'"
  shows "wp (AuthMiddleware E nxt r) Q s"
proof -
  have same: "r\<lparr>rq_ctx := rq_ctx r\<rparr> = r" by simp
  have resolved: "wp (resolveToken E (rq_ctx r) (bearer r))
      (\<lambda>cx. case cx of None \<Rightarrow> Q (http_Error ''unauthorized'' 401) | Some cx \<Rightarrow> wp (nxt (r\<lparr>rq_ctx := cx\<rparr>)) Q) s"
    by (rule wp_mono [OF wp_resolveToken])
      (auto intro!: assms simp: authentic_def split: option.splits)
  show ?thesis
    unfolding AuthMiddleware_def
    using assms(2) [of "rq_ctx r" s, unfolded same]
      assms(2) [of "(rq_ctx r)\<lparr>cx_bootstrap := True\<rparr>" s] assms(1) [of s] resolved
    by (auto simp: wp_simps Let_def IsBootstrapToken_def authentic_def
        cong: option.case_cong)
qed

end
