(* ===== verification/Auth_Props.thy ===== *)
theory Auth_Props
  imports Auth_Laws
begin

text \<open>
  Properties of authentication: who is let through by the middleware, and the life of a
  session from login through refresh to logout.
\<close>

subsection \<open>Sessions in the table\<close>

definition new_session :: "env \<Rightarrow> uint \<Rightarrow> user \<Rightarrow> SessionTokens \<Rightarrow> session" where
  "new_session E i u tok =
     \<lparr>s_id = i, s_user_id = u_id u, s_token_hash = HashToken E (SessionToken tok),
      s_refresh_token_hash = HashToken E (RefreshToken tok),
      s_expires_at = now E + 15 * Minute, s_created_at = now E\<rparr>"

definition user_by_name_is :: "st \<Rightarrow> string \<Rightarrow> user \<Rightarrow> bool" where
  "user_by_name_is s name u = (first_by u_id (\<lambda>u. u_name u = name) (t_users (tabs s)) = Some u)"

lemma wp_GenerateToken:
  "wp (GenerateToken E) Q s =
     (case rand_read E (nrand s) 32 of
        None \<Rightarrow> Q None (s\<lparr>nrand := Suc (nrand s)\<rparr>)
      | Some b \<Rightarrow> Q (Some (hex_encode b)) (s\<lparr>nrand := Suc (nrand s)\<rparr>))"
  by (simp add: GenerateToken_def wp_simps split: option.splits)

lemma wp_NewSession:
  "wp (NewSession E u) (\<lambda>r s'. case r of
       Inl _ \<Rightarrow> tabs s' = tabs s
     | Inr tok \<Rightarrow> tabs s' = (tabs s)\<lparr>t_sessions := t_sessions (tabs s)
                      @ [new_session E (Suc (seqs s TSessions)) u tok]\<rparr>
         \<and> user_exists (u_id u) (tabs s) \<and> HasPrefix (SessionToken tok) SessionPrefix
         \<and> HasPrefix (RefreshToken tok) RefreshPrefix) s"
  unfolding NewSession_def
  by (auto simp: wp_simps wp_GenerateToken ins_session.wp_insert new_session_def Let_def
      split: option.splits)

lemma wp_Login:
  "wp (Login E name pw) (\<lambda>r s'. case r of
       Inl _ \<Rightarrow> tabs s' = tabs s
     | Inr tok \<Rightarrow> \<exists>u. u \<in> set (t_users (tabs s)) \<and> u_name u = name \<and> bcrypt_compare E (u_pass u) pw
         \<and> tabs s' = (tabs s)\<lparr>t_sessions := t_sessions (tabs s)
                        @ [new_session E (Suc (seqs s TSessions)) u tok]\<rparr>) s"
  unfolding Login_def
  by (auto simp: wp_simps dest!: first_by_Some_in intro!: wp_mono [OF wp_NewSession]
      split: option.splits sum.splits)

lemma find_new_session:
  assumes "\<forall>x\<in>set xs. s_token_hash x \<noteq> s_token_hash y"
  shows "first_by s_id (\<lambda>x. s_token_hash x = s_token_hash y) (xs @ [y]) = Some y"
  using assms by (simp add: first_by_append_None first_by_None_iff)

lemma find_by_id:
  assumes "distinct (map k xs)" "x \<in> set xs"
  shows "first_by k' (\<lambda>y. k y = k x) xs = Some x"
  using assms by (intro first_by_unique) (auto simp: distinct_map dest: inj_onD)

lemma resolve_found:
  assumes "no_faults E" "distinct (map u_id (t_users (tabs s)))" "u \<in> set (t_users (tabs s))"
    and "first_by s_id (\<lambda>x. s_token_hash x = HashToken E tok) (t_sessions (tabs s)) = Some x"
    and "s_user_id x = u_id u"
  shows "fst (run_state (resolveSession E tok) s) =
           (if now E \<le> s_expires_at x then Some u else None)"
proof -
  have "wp (resolveSession E tok) (\<lambda>r _. r = (if now E \<le> s_expires_at x then Some u else None)) s"
    unfolding resolveSession_def using assms find_by_id [OF assms(2,3), of u_id]
    by (auto simp: wp_simps)
  then show ?thesis by (simp add: wp_def split_beta)
qed

subsection \<open>The middleware\<close>

text \<open>C3. A request behind the middleware is either answered 401 without reaching its
  handler, or the handler runs with an authentic context: the unchanged one on a public path
  or on an optional path without a token, the bootstrap mark for \<open>POST /admin/user\<close> with a
  configured bootstrap token, and otherwise the owner of an unexpired session, personal
  access token or capability token with the digest of the bearer token, or the service
  account that the token review names. The tables change at most by recording that service
  account.\<close>

theorem AuthMiddleware_only_authentic:
  "\<exists>s1. outside_sas (tabs s1) = outside_sas (tabs s) \<and>
     (run_state (AuthMiddleware E nxt r) s = (http_Error ''unauthorized'' 401, s1)
      \<or> (\<exists>cx. authentic E r s cx \<and>
           run_state (AuthMiddleware E nxt r) s = run_state (nxt (r\<lparr>rq_ctx := cx\<rparr>)) s1))"
proof -
  define Q where "Q = (\<lambda>x s'. \<exists>s1. outside_sas (tabs s1) = outside_sas (tabs s) \<and>
     ((x, s') = (http_Error ''unauthorized'' 401, s1)
      \<or> (\<exists>cx. authentic E r s cx \<and> (x, s') = run_state (nxt (r\<lparr>rq_ctx := cx\<rparr>)) s1)))"
  have "wp (AuthMiddleware E nxt r) Q s"
  proof (rule wp_AuthMiddleware)
    show "Q (http_Error ''unauthorized'' 401) s'" if "outside_sas (tabs s') = outside_sas (tabs s)" for s'
      using that by (auto simp: Q_def)
    show "wp (nxt (r\<lparr>rq_ctx := cx\<rparr>)) Q s'"
      if "authentic E r s cx" "outside_sas (tabs s') = outside_sas (tabs s)" for cx s'
    proof (rule wpI)
      fix x t assume "run_state (nxt (r\<lparr>rq_ctx := cx\<rparr>)) s' = (x, t)"
      with that show "Q x t" unfolding Q_def by (intro exI [of _ s']) auto
    qed
  qed
  then show ?thesis by (simp add: wp_def Q_def split: prod.splits)
qed

text \<open>A request to \<open>/auth/refresh\<close> without a bearer token is answered 401: the path
  is not among the public ones, so an expired session cannot be refreshed without a second,
  valid credential.\<close>

theorem refresh_needs_bearer:
  assumes "rq_path r = ''/auth/refresh''" and "rq_header r ''Authorization'' = []"
  shows "fst (run_state (AuthMiddleware E nxt r) s) = http_Error ''unauthorized'' 401"
proof -
  have "bearer r = []" using assms(2) by (simp add: bearer_def TrimPrefix_def)
  then have "wp (AuthMiddleware E nxt r) (\<lambda>x _. x = http_Error ''unauthorized'' 401) s"
    unfolding AuthMiddleware_def using assms(1)
    by (simp add: wp_simps public_paths_def optional_auth_paths_def)
  then show ?thesis by (simp add: wp_def split_beta)
qed

definition refresh_request :: request where
  "refresh_request =
     \<lparr>rq_method = ''POST'', rq_segments = [''auth'', ''refresh''], rq_header = (\<lambda>_. []),
      rq_query = (\<lambda>_. []), rq_path_value = (\<lambda>_. []), rq_body = Some [], rq_remote_addr = [],
      rq_ctx = no_context\<rparr>"

theorem refresh_needs_bearer_witness:
  "fst (run_state (AuthMiddleware example_env (\<lambda>_. answer (write_header 200)) refresh_request) example_st)
     = http_Error ''unauthorized'' 401"
  by (rule refresh_needs_bearer) (simp_all add: refresh_request_def rq_path_def)

subsection \<open>Login, refresh, logout\<close>

text \<open>C13. A successful login is one of a user of that name whose stored hash accepts the
  password, and its session token then resolves to that user for fifteen minutes and to
  nobody afterwards (when the digest of the new token is not already in the table).\<close>

theorem Login_session_resolves:
  assumes "run_state (Login E name pw) s = (Inr tok, s1)"
    and "\<forall>x\<in>set (t_sessions (tabs s)). s_token_hash x \<noteq> HashToken E (SessionToken tok)"
    and "distinct (map u_id (t_users (tabs s)))"
    and "no_faults E'" and "sha256 E' = sha256 E"
  shows "\<exists>u. u \<in> set (t_users (tabs s)) \<and> u_name u = name \<and> bcrypt_compare E (u_pass u) pw
    \<and> fst (run_state (resolveSession E' (SessionToken tok)) s1) =
        (if now E' \<le> now E + 15 * Minute then Some u else None)"
proof -
  from wpD [OF wp_Login assms(1)] obtain u i where u: "u \<in> set (t_users (tabs s))" "u_name u = name"
      "bcrypt_compare E (u_pass u) pw"
    and s1: "tabs s1 = (tabs s)\<lparr>t_sessions := t_sessions (tabs s) @ [new_session E i u tok]\<rparr>"
    by auto
  let ?x = "new_session E i u tok"
  have hash: "HashToken E' (SessionToken tok) = s_token_hash ?x"
    using assms(5) by (simp add: new_session_def HashToken_def)
  have "first_by s_id (\<lambda>x. s_token_hash x = HashToken E' (SessionToken tok)) (t_sessions (tabs s1)) = Some ?x"
    using find_new_session [of "t_sessions (tabs s)" ?x] assms(2)
    by (simp add: s1 hash) (simp add: new_session_def)
  then have "fst (run_state (resolveSession E' (SessionToken tok)) s1) =
      (if now E' \<le> s_expires_at ?x then Some u else None)"
    by (intro resolve_found assms(4)) (simp_all add: s1 assms(3) u new_session_def)
  then show ?thesis using u by (auto simp: new_session_def)
qed

lemma example_rand: "rand_available example_env" "full_reads example_env"
  by (simp_all add: rand_available_def full_reads_def example_env_def)

lemma Login_accepts:
  assumes "no_faults E" "rand_available E" "user_by_name_is s name u" "bcrypt_compare E (u_pass u) pw"
  shows "\<exists>tok s1. run_state (Login E name pw) s = (Inr tok, s1)"
proof -
  have "user_exists (u_id u) (tabs s)"
    using first_by_Some_in assms(3) by (force simp: user_by_name_is_def user_exists_def list_ex_iff)
  moreover obtain b b' where "rand_read E (nrand s) 32 = Some b" "rand_read E (Suc (nrand s)) 32 = Some b'"
    using assms(2) by (fastforce simp: rand_available_def)
  ultimately have "wp (Login E name pw) (\<lambda>r _. \<exists>tok. r = Inr tok) s"
    unfolding Login_def NewSession_def using assms
    by (simp add: wp_simps wp_GenerateToken ins_session.wp_insert user_by_name_is_def Let_def)
  then show ?thesis by (auto simp: wp_def split: prod.splits)
qed

lemma example_login: "\<exists>tok s1. run_state (Login example_env ''alice'' ''secret'') example_st = (Inr tok, s1)"
  by (rule Login_accepts [where u = example_user])
    (simp_all add: example_no_faults example_rand user_by_name_is_def example_st_def init_st_def
      example_tables_def empty_tables_def example_user_def)

theorem Login_session_resolves_witness:
  "\<exists>tok s1. run_state (Login example_env ''alice'' ''secret'') example_st = (Inr tok, s1)
     \<and> (\<exists>u. u_name u = ''alice'' \<and>
          fst (run_state (resolveSession example_env (SessionToken tok)) s1) = Some u)"
proof -
  from example_login obtain tok s1
    where run: "run_state (Login example_env ''alice'' ''secret'') example_st = (Inr tok, s1)" by auto
  moreover have "now example_env \<le> now example_env + 15 * Minute" by (simp add: Minute_def Second_def)
  ultimately show ?thesis
    using Login_session_resolves [OF run _ _ example_no_faults refl]
    by (force simp: example_st_def init_st_def example_tables_def empty_tables_def example_user_def)
qed

text \<open>C16. After a successful logout the session token no longer resolves, now or later.\<close>

theorem Logout_ends_session:
  assumes "run_state (Logout E tok) s = (Inr (), s1)"
    and "sha256 E' = sha256 E" and "now E \<le> now E'"
  shows "fst (run_state (resolveSession E' tok) s1) = None"
proof -
  define f :: "uint \<Rightarrow> session \<Rightarrow> session" where "f i = (\<lambda>x. if s_id x = i
      then x\<lparr>s_expires_at := now E - Second, s_refresh_token_hash := []\<rparr> else x)" for i
  have "wp (Logout E tok) (\<lambda>r s'. r = Inr () \<longrightarrow>
      (\<exists>x. first_by s_id (\<lambda>x. s_token_hash x = HashToken E tok) (t_sessions (tabs s)) = Some x
         \<and> t_sessions (tabs s') = map (f (s_id x)) (t_sessions (tabs s)))) s"
    unfolding Logout_def InvalidateSession_def f_def by (auto simp: wp_simps split: option.splits)
  from wpD [OF this assms(1)] obtain x
    where x: "first_by s_id (\<lambda>x. s_token_hash x = HashToken E tok) (t_sessions (tabs s)) = Some x"
    and s1: "t_sessions (tabs s1) = map (f (s_id x)) (t_sessions (tabs s))"
    by auto
  have "HashToken E' tok = HashToken E tok" using assms(2) by (simp add: HashToken_def)
  then have "first_by s_id (\<lambda>x. s_token_hash x = HashToken E' tok) (t_sessions (tabs s1)) = Some (f (s_id x) x)"
    unfolding s1 using x by (subst first_by_map) (auto simp: f_def)
  moreover have "s_expires_at (f (s_id x) x) < now E'"
    using assms(3) by (simp add: f_def Second_def)
  ultimately have "wp (resolveSession E' tok) (\<lambda>r _. r = None) s1"
    by (simp add: resolveSession_def wp_simps)
  then show ?thesis by (simp add: wp_def split_beta)
qed

definition session_st :: "st" where
  "session_st = example_st\<lparr>tabs := example_tables\<lparr>t_sessions :=
     [\<lparr>s_id = 1, s_user_id = 1, s_token_hash = HashToken example_env ''sess_1'',
       s_refresh_token_hash = HashToken example_env ''refr_1'', s_expires_at = 2000, s_created_at = 0\<rparr>]\<rparr>\<rparr>"

lemmas session_st_simps = session_st_def example_st_def init_st_def example_tables_def empty_tables_def
  example_user_def

theorem Logout_ends_session_witness:
  "\<exists>s1. run_state (Logout example_env ''sess_1'') session_st = (Inr (), s1)
     \<and> fst (run_state (resolveSession example_env ''sess_1'') s1) = None"
proof -
  have "wp (Logout example_env ''sess_1'') (\<lambda>r _. r = Inr ()) session_st"
    using example_no_faults
    by (simp add: Logout_def InvalidateSession_def wp_simps session_st_simps)
  then obtain s1 where run: "run_state (Logout example_env ''sess_1'') session_st = (Inr (), s1)"
    by (auto simp: wp_def split: prod.splits)
  then show ?thesis using Logout_ends_session [OF run, of example_env] by simp
qed

lemma wp_Refresh:
  "wp (Refresh E tok) (\<lambda>r s'. \<forall>tok'. r = Inr tok' \<longrightarrow>
     (\<exists>x u. first_by s_id (\<lambda>x. s_refresh_token_hash x = HashToken E tok) (t_sessions (tabs s)) = Some x
        \<and> now E \<le> s_expires_at x \<and> u \<in> set (t_users (tabs s)) \<and> u_id u = s_user_id x
        \<and> tabs s' = (tabs s)\<lparr>t_sessions := filter (\<lambda>y. s_id y \<noteq> s_id x)
             (t_sessions (tabs s) @ [new_session E (Suc (seqs s TSessions)) u tok'])\<rparr>)) s"
proof -
  have step: "wp (NewSession E u) (\<lambda>t. case t of
        Inl e \<Rightarrow> wp (State_Monad.return (Inl e)) Q
      | Inr tok' \<Rightarrow> wp (DeleteSession E i \<bind> (\<lambda>d. case d of
            Inl e \<Rightarrow> State_Monad.return (Inl (ErrStore e)) | Inr _ \<Rightarrow> State_Monad.return (Inr tok'))) Q) t"
    if "\<And>e t'. Q (Inl e) t'"
      and "\<And>tok' t'. tabs t' = (tabs t)\<lparr>t_sessions := filter (\<lambda>y. s_id y \<noteq> i)
             (t_sessions (tabs t) @ [new_session E (Suc (seqs t TSessions)) u tok'])\<rparr> \<Longrightarrow> Q (Inr tok') t'"
    for u i Q t
    by (rule wp_mono [OF wp_NewSession])
      (auto simp: wp_simps DeleteSession_def that split: sum.splits intro!: that(2))
  show ?thesis
    unfolding Refresh_def
    by (auto simp: wp_simps not_less intro!: step dest!: first_by_Some_in split: option.splits)
qed



end
