(* ===== verification/Resource_Props.thy ===== *)
theory Resource_Props
  imports Resource_Api Auth_Props
begin

text \<open>
  Properties of the resource endpoints: reading, writing and deleting need the policy's
  consent, answers are the stored values of the resource asked for, and a value that was
  put is read back.
\<close>

subsection \<open>Frames\<close>

definition outside_audit :: "tables \<Rightarrow> tables" where
  "outside_audit t = t\<lparr>t_audit_logs := []\<rparr>"

lemma outside_audit_upd [simp]: "outside_audit (t\<lparr>t_audit_logs := xs\<rparr>) = outside_audit t"
  by (simp add: outside_audit_def)

lemma wp_audit_answer:
  assumes "\<And>s'. outside_audit (tabs s') = outside_audit (tabs s) \<Longrightarrow> Q x s'"
  shows "wp (WriteAudit E r a b c d \<bind> (\<lambda>_. answer x)) Q s"
  using assms by (auto simp: wp_bind wp_return wp_WriteAudit Let_def)

subsection \<open>Reading\<close>

lemma wp_handleGetByUUID:
  "wp (handleGetByUUID E r pr u) (\<lambda>resp s'. outside_audit (tabs s') = outside_audit (tabs s) \<and>
     (rs_status resp = 200 \<longrightarrow> (\<exists>x v res v'. pg_uuid E u = Some x
        \<and> v \<in> set (t_resource_values (tabs s)) \<and> rv_uuid v = x
        \<and> res \<in> set (t_resources (tabs s)) \<and> r_id res = rv_resource_id v
        \<and> policy (now E) (tabs s) pr VerbTypeRead (resource_ns (load_ns (tabs s) res)) (r_name res)
        \<and> decryptValue E (load_key (tabs s) v) = Some v' \<and> resp = write_json (ValueBody v')))) s"
  unfolding handleGetByUUID_def
  by (auto 0 4 simp: wp_simps GetResourceValueByUUID_def not_found_or_500_def Let_def
        dest!: first_by_Some_in anon_check.result_check split: option.splits sum.splits)

lemma wp_handleGetResource:
  "wp (handleGetResource E r pr ns name version) (\<lambda>resp s'.
     outside_audit (tabs s') = outside_audit (tabs s) \<and>
     (rs_status resp = 200 \<longrightarrow> ns \<noteq> ''_'' \<and> policy (now E) (tabs s) pr VerbTypeRead ns name
        \<and> (\<exists>res. loaded_resource ns name (tabs s) = Some res
           \<and> (version = [] \<or> version = ''latest'' \<longrightarrow>
                (r_value res = None \<and> resp = write_json (ResourceBody res)
                 \<or> (\<exists>v v'. r_value res = Some v \<and> decryptValue E v = Some v'
                      \<and> resp = write_json (ResourceBody (res\<lparr>r_value := Some v'\<rparr>)))))
           \<and> (version \<noteq> [] \<and> version \<noteq> ''latest'' \<and> \<not> uuid_Parse E version \<longrightarrow>
                (\<exists>n v v'. ParseUint version = Some n \<and> v \<in> set (t_resource_values (tabs s))
                   \<and> rv_resource_id v = r_id res \<and> rv_version v = n
                   \<and> decryptValue E (load_key (tabs s) v) = Some v' \<and> resp = write_json (ValueBody v')))))) s"
  unfolding handleGetResource_def select_version_def
  by (auto simp: wp_simps GetResourceValueByUUID_def not_found_or_500_def Let_def
        dest!: first_by_Some_in anon_check.result_check split: option.splits sum.splits)

lemma wp_handleListVersions:
  "wp (handleListVersions E r pr ns name) (\<lambda>resp s'.
     outside_audit (tabs s') = outside_audit (tabs s) \<and>
     (rs_status resp = 200 \<longrightarrow> ns \<noteq> ''_'' \<and> policy (now E) (tabs s) pr VerbTypeList ns name
        \<and> (\<exists>res. loaded_resource ns name (tabs s) = Some res
           \<and> resp = write_json (VersionsBody (map SummarizeResourceValue (sort_key rv_version
               (filter (\<lambda>v. rv_resource_id v = r_id res) (t_resource_values (tabs s))))))))) s"
  unfolding handleListVersions_def ListResourceVersions_def
  by (auto simp: wp_simps not_found_or_500_def Let_def
        dest!: anon_check.result_check split: option.splits sum.splits)

subsection \<open>Writing and deleting\<close>

definition put_allowed :: "env \<Rightarrow> request \<Rightarrow> principal option \<Rightarrow> tables \<Rightarrow> bool" where
  "put_allowed E r pr t \<longleftrightarrow> (\<exists>body. decode_body E decode_resource_put_body r = Some body
     \<and> pb_namespace body \<noteq> ''_'' \<and> policy (now E) t pr VerbTypeWrite (pb_namespace body) (pb_name body))"

lemma wp_put_refused:
  "\<not> put_allowed E r pr (tabs s) \<Longrightarrow>
     wp (handleResourcePut E r pr) (\<lambda>resp s'. core s' = core s \<and> rs_status resp \<in> {400, 403, 404, 500}) s"
  unfolding handleResourcePut_def put_allowed_def
  by (auto simp: wp_simps dest!: anon_check.result_check split: option.splits sum.splits)

definition delete_allowed :: "env \<Rightarrow> request \<Rightarrow> principal option \<Rightarrow> tables \<Rightarrow> bool" where
  "delete_allowed E r pr t \<longleftrightarrow> (\<exists>body. decode_body E decode_resource_delete_body r = Some body
     \<and> db_namespace body \<noteq> ''_'' \<and> policy (now E) t pr VerbTypeDelete (db_namespace body) (db_name body))"

lemma wp_delete_refused:
  "\<not> delete_allowed E r pr (tabs s) \<Longrightarrow>
     wp (handleResourceDelete E r pr) (\<lambda>resp s'. core s' = core s \<and> rs_status resp \<in> {400, 403, 404, 500}) s"
  unfolding handleResourceDelete_def delete_allowed_def
  by (auto simp: wp_simps dest!: anon_check.result_check split: option.splits sum.splits)

lemma wp_delete_done:
  "wp (handleResourceDelete E r pr) (\<lambda>resp s'. rs_status resp = 204 \<longrightarrow>
     (\<exists>body res. decode_body E decode_resource_delete_body r = Some body
        \<and> select_resource (db_namespace body) (db_name body) (tabs s) = Some res
        \<and> outside_audit (tabs s') = outside_audit ((tabs s)\<lparr>
            t_resource_values := filter (\<lambda>v. rv_resource_id v \<noteq> r_id res) (t_resource_values (tabs s)),
            t_resources := filter (\<lambda>x. r_id x \<noteq> r_id res) (t_resources (tabs s))\<rparr>))) s"
  unfolding handleResourceDelete_def DeleteResource_def select_resource_def
  by (auto simp: wp_simps wp_transaction not_found_or_500_def Let_def outside_audit_def
      split: option.splits sum.splits)

subsection \<open>Put, then get\<close>

lemma new_value_simps [simp]:
  "rv_uuid (new_value i d a k) = 0" "rv_resource_id (new_value i d a k) = i"
  "rv_encryption_key_id (new_value i d a k) = k"
  by (simp_all add: new_value_def)

lemma max_version_ge:
  "v \<in> set (t_resource_values t) \<Longrightarrow> rv_resource_id v = i \<Longrightarrow> rv_version v \<le> max_version t i"
  unfolding max_version_def by (rule fold_max_ge) auto

lemma latest_after_insert:
  assumes "rv_resource_id row = i" "rv_version row = max_version t i + 1"
  shows "latest_value (t\<lparr>t_resource_values := t_resource_values t @ [row]\<rparr>) i = Some row"
  unfolding latest_value_def using assms
  by (auto intro!: first_by_append_less dest: max_version_ge)

text \<open>A stored text, algorithm and key from which the value can be recovered.\<close>

definition recovers :: "env \<Rightarrow> tables \<Rightarrow> string \<Rightarrow> encryption_algorithm \<Rightarrow> uint option \<Rightarrow> string \<Rightarrow> bool" where
  "recovers E t data alg key value \<longleftrightarrow>
     (alg = EncryptionAlgorithmUndefined \<and> data = value)
   \<or> (\<exists>k ek kek dek. alg = EncryptionAlgorithmAES256GCM \<and> key = Some k
        \<and> first_by ek_id (\<lambda>x. ek_id x = k) (t_encryption_keys t) = Some ek
        \<and> GetKEK E = Some kek \<and> DecryptDEK E (ek_encrypted_dek ek) kek = Some dek
        \<and> DecryptValue E data dek = Some value)"

lemma recovers_decrypts:
  assumes "recovers E t (rv_data v) (rv_encryption_algorithm v) (rv_encryption_key_id v) value"
  shows "\<exists>v'. decryptValue E (load_key t v) = Some v' \<and> rv_data v' = value \<and> rv_version v' = rv_version v"
  using assms by (auto simp: recovers_def decryptValue_def load_key_def)

lemma wp_put_namespace:
  assumes "\<And>s'. Q internal_error s'"
    and "\<And>i s'. list_ex (\<lambda>n. ns_id n = i \<and> ns_name n = ns) (t_namespaces (tabs s')) \<Longrightarrow>
           seqs s' TEncryptionKeys = seqs s TEncryptionKeys \<Longrightarrow>
           t_encryption_keys (tabs s') = t_encryption_keys (tabs s) \<Longrightarrow> wp (k i) Q s'"
  shows "wp (put_namespace E ns k) Q s"
  unfolding put_namespace_def CreateNamespace_def
  by (auto simp: wp_simps Let_def list_ex_iff intro!: assms dest!: first_by_Some_in split: option.splits)

lemma select_new_resource:
  assumes "select_resource ns name t = None" "r_name r = name"
    and "list_ex (\<lambda>n. ns_id n = r_namespace_id r \<and> ns_name n = ns) (t_namespaces t)"
  shows "select_resource ns name (t\<lparr>t_resources := t_resources t @ [r]\<rparr>) = Some r"
  using assms by (simp add: select_resource_def in_namespace_def first_by_append_None)

lemma select_retyped:
  assumes "select_resource ns name t = Some r"
  shows "select_resource ns name (t\<lparr>t_resources :=
           map (\<lambda>x. if r_id x = r_id r then x\<lparr>r_type := ty\<rparr> else x) (t_resources t)\<rparr>) = Some (r\<lparr>r_type := ty\<rparr>)"
  using assms unfolding select_resource_def by (simp add: in_namespace_def) (subst first_by_map; auto)

lemma wp_put_resource:
  assumes "\<And>s'. Q internal_error s'"
    and "list_ex (\<lambda>n. ns_id n = i \<and> ns_name n = pb_namespace body) (t_namespaces (tabs s))"
    and "\<And>res s'. select_resource (pb_namespace body) (pb_name body) (tabs s') = Some res \<Longrightarrow>
           r_type res = pb_type body \<Longrightarrow> seqs s' TEncryptionKeys = seqs s TEncryptionKeys \<Longrightarrow>
           t_encryption_keys (tabs s') = t_encryption_keys (tabs s) \<Longrightarrow> wp (k (r_id res)) Q s'"
  shows "wp (put_resource E body i k) Q s"
proof (cases "select_resource (pb_namespace body) (pb_name body) (tabs s)")
  case None
  let ?r = "\<lambda>j. \<lparr>r_id = j, r_namespace_id = i, r_ns = None, r_name = pb_name body, r_type = pb_type body,
      r_created_at = now E, r_created_by = [], r_retired_at = None, r_value = None\<rparr>"
  have "select_resource (pb_namespace body) (pb_name body)
      ((tabs s)\<lparr>t_resources := t_resources (tabs s) @ [?r j]\<rparr>) = Some (?r j)" for j
    using select_new_resource [OF None, of "?r j"] assms(2) by simp
  with None show ?thesis
    unfolding put_resource_def
    using assms(3) [of _ "?r (Suc (seqs s TResources))"]
    by (auto simp: wp_simps loaded_resource_def ins_resource.wp_insert Let_def assms(1))
next
  case (Some res)
  have "wp (k (r_id res)) Q s'"
    if "tabs s' = (tabs s)\<lparr>t_resources := map (\<lambda>x. if r_id x = r_id res then x\<lparr>r_type := pb_type body\<rparr> else x)
          (t_resources (tabs s))\<rparr>" "seqs s' = seqs s" for s'
    using assms(3) [of s' "res\<lparr>r_type := pb_type body\<rparr>"] select_retyped [OF Some, of "pb_type body"] that by simp
  with Some show ?thesis
    unfolding put_resource_def UpdateResourceType_def
    by (auto simp: wp_simps loaded_resource_def assms intro!: assms(3))
qed

lemma select_resource_cong:
  "t_resources t' = t_resources t \<Longrightarrow> t_namespaces t' = t_namespaces t \<Longrightarrow>
     select_resource ns name t' = select_resource ns name t"
  by (simp add: select_resource_def in_namespace_def)

lemma find_new_key:
  assumes "\<And>x. x \<in> set ks \<Longrightarrow> ek_id x \<le> n"
  shows "first_by ek_id (\<lambda>x. ek_id x = Suc n) (ks @ [k\<lparr>ek_id := Suc n\<rparr>]) = Some (k\<lparr>ek_id := Suc n\<rparr>)"
proof -
  have "first_by ek_id (\<lambda>x. ek_id x = Suc n) ks = None"
    using assms by (force simp: first_by_None_iff)
  then show ?thesis by (simp add: first_by_append_None)
qed

lemma wp_put_encrypt:
  assumes "gcm_correct E" "full_reads E"
    and "\<And>x. x \<in> set (t_encryption_keys (tabs s)) \<Longrightarrow> ek_id x \<le> seqs s TEncryptionKeys"
    and "\<And>s'. Q internal_error s'"
    and "\<And>data alg key s'. recovers E (tabs s') data alg key (pb_value body) \<Longrightarrow>
           (\<And>ns name. select_resource ns name (tabs s') = select_resource ns name (tabs s)) \<Longrightarrow>
           wp (k data alg key) Q s'"
  shows "wp (put_encrypt E body k) Q s"
proof (cases "pb_type body = ResourceTypeEncrypted")
  case False
  then show ?thesis unfolding put_encrypt_def
    using assms(5) [of s "pb_value body" EncryptionAlgorithmUndefined None] by (simp add: recovers_def)
next
  case True
  have key: "first_by ek_id (\<lambda>x. ek_id x = Suc (seqs s TEncryptionKeys))
      (t_encryption_keys (tabs s) @ [\<lparr>ek_id = Suc (seqs s TEncryptionKeys), ek_encrypted_dek = c,
         ek_kek_version = Suc 0, ek_created_at = now E\<rparr>]) =
      Some \<lparr>ek_id = Suc (seqs s TEncryptionKeys), ek_encrypted_dek = c, ek_kek_version = Suc 0,
            ek_created_at = now E\<rparr>" for c
    using find_new_key [OF assms(3), where k = "\<lparr>ek_id = 0, ek_encrypted_dek = c, ek_kek_version = Suc 0,
            ek_created_at = now E\<rparr>"] by simp
  show ?thesis
    unfolding put_encrypt_def if_P [OF True] GenerateDEK_def EncryptValue_def EncryptDEK_def sealGCM_def
      CreateEncryptionKey_def
    using assms(1,2)
    by (auto simp: wp_simps Let_def full_reads_def aes_key_32 GetKEK_ok recovers_def DecryptDEK_def
        DecryptValue_def key openGCM_sealed split: option.splits intro!: assms(4,5) select_resource_cong)
qed

text \<open>What a successful put leaves behind, as \<open>GetResource\<close> will see it.\<close>

definition stored :: "env \<Rightarrow> tables \<Rightarrow> resource_put_body \<Rightarrow> bool" where
  "stored E t body \<longleftrightarrow> (\<exists>res v v'. loaded_resource (pb_namespace body) (pb_name body) t = Some res
     \<and> r_type res = pb_type body \<and> r_value res = Some v \<and> decryptValue E v = Some v'
     \<and> rv_data v' = pb_value body)"

lemma stored_after_insert:
  assumes "select_resource (pb_namespace body) (pb_name body) t = Some res" "r_type res = pb_type body"
    and "recovers E t data alg key (pb_value body)"
    and "row = (new_value (r_id res) data alg key)\<lparr>rv_version := max_version t (r_id res) + 1,
               rv_uuid := u, rv_created_at := c\<rparr>"
    and "outside_audit t' = outside_audit (t\<lparr>t_resource_values := t_resource_values t @ [row]\<rparr>)"
  shows "stored E t' body"
proof -
  from assms(5) have t': "t_resource_values t' = t_resource_values t @ [row]" "t_resources t' = t_resources t"
      "t_namespaces t' = t_namespaces t" "t_encryption_keys t' = t_encryption_keys t"
    by (cases t; cases t'; simp add: outside_audit_def)+
  have latest: "latest_value t' (r_id res) = Some row"
    using latest_after_insert [of row "r_id res" t] assms(4) t'(1)
    by (simp add: latest_value_def new_value_def)
  have "recovers E t' (rv_data row) (rv_encryption_algorithm row) (rv_encryption_key_id row) (pb_value body)"
    using assms(3,4) t'(4) by (simp add: recovers_def new_value_def)
  from recovers_decrypts [OF this] obtain v' where "decryptValue E (load_key t' row) = Some v'"
    and "rv_data v' = pb_value body" by auto
  then show ?thesis
    unfolding stored_def loaded_resource_def
    using assms(1,2) latest t' by (simp add: select_resource_cong [of t' t])
qed

lemma wp_put_done:
  assumes "gcm_correct E" "full_reads E"
    and "\<And>x. x \<in> set (t_encryption_keys (tabs s)) \<Longrightarrow> ek_id x \<le> seqs s TEncryptionKeys"
    and "decode_body E decode_resource_put_body r = Some body"
  shows "wp (handleResourcePut E r pr) (\<lambda>resp s'. rs_status resp = 204 \<longrightarrow> stored E (tabs s') body) s"
proof -
  have create: "wp (CreateResourceValue E (new_value (r_id res) data alg key))
      (\<lambda>x. case x of
         Inl e \<Rightarrow> (\<lambda>s'. rs_status internal_error = 204 \<longrightarrow> stored E (tabs s') body)
       | Inr y \<Rightarrow> wp (WriteAudit E r a b c d \<bind> (\<lambda>_. answer (write_header 204)))
                   (\<lambda>resp s'. rs_status resp = 204 \<longrightarrow> stored E (tabs s') body)) t"
    if "select_resource (pb_namespace body) (pb_name body) (tabs t) = Some res" "r_type res = pb_type body"
      "recovers E (tabs t) data alg key (pb_value body)" for t res data alg key a b c d
    unfolding CreateResourceValue_def
    by (auto simp: wp_simps wp_transaction Let_def version_row_def outside_audit_def
        intro!: stored_after_insert [OF that])
  show ?thesis
    unfolding handleResourcePut_def
    by (auto simp: wp_simps assms(4) split: sum.splits 
        intro!: wp_put_namespace wp_put_resource wp_put_encrypt assms(1,2,3) create)
qed

text \<open>C8. A value that was put is read back: after a successful put, whoever may read the
  resource gets it with the type and the plaintext that were put, whether it was stored in
  clear or encrypted, provided the cipher is correct, the database answers and the key
  encryption key is unchanged.\<close>

theorem put_then_get:
  assumes "run_state (handleResourcePut E r pr) s = (resp, s1)" and "rs_status resp = 204"
    and "decode_body E decode_resource_put_body r = Some body"
    and "gcm_correct E" and "full_reads E"
    and "\<forall>x\<in>set (t_encryption_keys (tabs s)). ek_id x \<le> seqs s TEncryptionKeys"
    and "no_faults E'" and "gcm_open E' = gcm_open E" and "getenv E' = getenv E"
    and "outcome (CheckWithAnon E' pr' VerbTypeRead (pb_namespace body) (pb_name body)) s1 = Inr True"
    and "pb_namespace body \<noteq> ''_''"
  shows "\<exists>res v. outcome (handleGetResource E' r' pr' (pb_namespace body) (pb_name body) []) s1
            = write_json (ResourceBody res)
    \<and> r_name res = pb_name body \<and> r_type res = pb_type body
    \<and> r_value res = Some v \<and> rv_data v = pb_value body"
proof -
  have "stored E (tabs s1) body"
    using wpD [OF wp_put_done assms(1)] assms(2-6) by blast
  moreover have "decryptValue E' = decryptValue E"
  proof -
    have "openGCM E' = openGCM E" "GetKEK E' = GetKEK E"
      using assms(8,9) by (auto simp: fun_eq_iff openGCM_def GetKEK_def Let_def split: option.splits)
    then show ?thesis
      by (simp add: fun_eq_iff decryptValue_def DecryptDEK_def DecryptValue_def split: option.splits)
  qed
  ultimately obtain res v v' where res: "loaded_resource (pb_namespace body) (pb_name body) (tabs s1) = Some res"
    "r_type res = pb_type body" "r_value res = Some v" "decryptValue E' v = Some v'" "rv_data v' = pb_value body"
    by (auto simp: stored_def)
  have "r_name res = pb_name body"
    using res(1) by (auto simp: loaded_resource_def select_resource_def dest!: first_by_Some_in)
  moreover have "wp (handleGetResource E' r' pr' (pb_namespace body) (pb_name body) [])
      (\<lambda>resp _. resp = write_json (ResourceBody (res\<lparr>r_value := Some v'\<rparr>))) s1"
    unfolding handleGetResource_def using assms(7,10,11) res
    by (simp add: wp_simps Let_def)
  ultimately show ?thesis
    using res by (intro exI [of _ "res\<lparr>r_value := Some v'\<rparr>"] exI [of _ v']) (simp add: wp_run)
qed

definition put_env :: env where
  "put_env = example_env\<lparr>json_Decode := (\<lambda>_. Some (JObj [(''namespace'', JStr ''prod''), (''name'', JStr ''db''),
     (''type'', JStr ''encrypted''), (''value'', JStr ''pw'')]))\<rparr>"

definition put_request :: request where
  "put_request = refresh_request\<lparr>rq_method := ''PUT'', rq_segments := [''api'', ''v1'', ''resource'']\<rparr>"

definition put_body :: resource_put_body where
  "put_body = \<lparr>pb_namespace = ''prod'', pb_name = ''db'', pb_type = ResourceTypeEncrypted, pb_value = ''pw''\<rparr>"

definition alice :: principal where
  "alice = NewPrincipalFromUser example_user"

lemma put_env_simps [simp]:
  "now put_env = 1000" "db_fault put_env k = False"
  "rand_read put_env i n = Some (replicate n (char_of (97 + i)))"
  "gen_uuid put_env k = k + 1" "gcm_seal put_env k' n' p = p" "gcm_open put_env k' n' c = Some c"
  by (simp_all add: put_env_def)

lemma put_env_facts:
  "no_faults put_env" "gcm_correct put_env" "full_reads put_env"
  by (simp_all add: no_faults_def gcm_correct_def full_reads_def)

lemma put_evaluated:
  "outcome (CheckWithAnon put_env (Some alice) VerbTypeWrite ''prod'' ''db'') example_st = Inr True"
  "decode_body put_env decode_resource_put_body put_request = Some put_body"
  "GetKEK put_env = Some (replicate 32 (CHR 0x00))"
  by code_simp+

text \<open>The tables that decide what a user may do.\<close>

definition user_access :: "tables \<Rightarrow> _" where
  "user_access t = (t_users t, t_permissions t, t_user_permissions t, t_anon_permissions t)"

lemma alice_reads:
  assumes "user_access (tabs s) = user_access example_tables"
  shows "outcome (CheckWithAnon put_env (Some alice) VerbTypeRead ''prod'' ''db'') s = Inr True"
proof -
  have t: "t_users (tabs s) = t_users example_tables" "t_permissions (tabs s) = t_permissions example_tables"
      "t_user_permissions (tabs s) = t_user_permissions example_tables"
      "t_anon_permissions (tabs s) = t_anon_permissions example_tables"
    using assms by (simp_all add: user_access_def)
  have user: "pr_kind alice = PrincipalUser" by code_simp
  have "policy 1000 (tabs s) (Some alice) VerbTypeRead ''prod'' ''db''"
  proof -
    have "own_policy 1000 example_tables alice VerbTypeRead ''prod'' ''db''"
      by code_simp
    then show ?thesis
      by (simp add: policy_def own_policy_def own_perms_def t linked_def user)
  qed
  moreover have "wf_anon 1000 (tabs s)" "wf_own 1000 (tabs s) alice"
    using example_wf_anon [of 1000] example_wf_own [of 1000]
    by (simp_all add: t wf_anon_def wf_own_def own_perms_def linked_def user alice_def [symmetric])
  ultimately show ?thesis
    using CheckWithAnon_exact [OF put_env_facts(1), of s "Some alice" VerbTypeRead "''prod''" "''db''"]
    by (simp add: wp_run)
qed

lemma put_example:
  "\<exists>resp s1. run_state (handleResourcePut put_env put_request (Some alice)) example_st = (resp, s1)
     \<and> rs_status resp = 204 \<and>
     outcome (CheckWithAnon put_env (Some alice) VerbTypeRead ''prod'' ''db'') s1 = Inr True"
proof -
  have "wp (handleResourcePut put_env put_request (Some alice)) (\<lambda>resp s. rs_status resp = 204 \<and>
      user_access (tabs s) = user_access example_tables) example_st"
    by (simp add: handleResourcePut_def wp_simps put_evaluated put_namespace_def put_resource_def
        put_encrypt_def put_body_def ins_resource.wp_insert CreateEncryptionKey_def
        CreateResourceValue_def wp_transaction GenerateDEK_def EncryptDEK_def EncryptValue_def sealGCM_def
        aes_key_32 Let_def loaded_resource_def select_resource_def value_ok_def version_row_def user_access_def)
  then show ?thesis
    using alice_reads by (auto simp: wp_def split: prod.splits)
qed

theorem put_then_get_witness:
  "\<exists>s1 res v. outcome (handleGetResource put_env refresh_request (Some alice) ''prod'' ''db'' []) s1
      = write_json (ResourceBody res) \<and> r_value res = Some v \<and> rv_data v = ''pw''"
proof -
  from put_example obtain resp s1
    where run: "run_state (handleResourcePut put_env put_request (Some alice)) example_st = (resp, s1)"
      and ok: "rs_status resp = 204"
      and may: "outcome (CheckWithAnon put_env (Some alice) VerbTypeRead ''prod'' ''db'') s1 = Inr True"
    by auto
  show ?thesis
    using put_then_get [OF run ok put_evaluated(2) put_env_facts(2,3) _ put_env_facts(1) refl refl]
      may by (force simp: put_body_def)
qed

subsection \<open>The resource endpoint as a whole\<close>

lemma wp_handleResourceQuery:
  "wp (handleResourceQuery E r pr) (\<lambda>_ s'. outside_audit (tabs s') = outside_audit (tabs s)) s"
proof -
  have "wp (handleGetByUUID E r pr u) (\<lambda>_ s'. outside_audit (tabs s') = outside_audit (tabs s)) s"
    "wp (handleGetResource E r pr ns n v) (\<lambda>_ s'. outside_audit (tabs s') = outside_audit (tabs s)) s"
    "wp (handleListVersions E r pr ns n) (\<lambda>_ s'. outside_audit (tabs s') = outside_audit (tabs s)) s"
    for u ns n v
    using wp_handleGetByUUID [of E r pr u s] wp_handleGetResource [of E r pr ns n v s]
      wp_handleListVersions [of E r pr ns n s] by (auto elim!: wp_mono)
  then show ?thesis
    unfolding handleResourceQuery_def Let_def by (simp add: wp_simps split: option.splits)
qed


text \<open>C26. A value asked for by its UUID is answered with 404 or 500, or it is the decrypted
  stored value with that UUID, its resource is stored, and the policy lets the caller read
  that resource.\<close>

theorem handleGetByUUID_authorised:
  "rs_status (outcome (handleGetByUUID E r pr u) s) \<in> {404, 500}
   \<or> (\<exists>x v res v'. pg_uuid E u = Some x \<and> v \<in> set (t_resource_values (tabs s)) \<and> rv_uuid v = x
        \<and> res \<in> set (t_resources (tabs s)) \<and> r_id res = rv_resource_id v
        \<and> policy (now E) (tabs s) pr VerbTypeRead (resource_ns (load_ns (tabs s) res)) (r_name res)
        \<and> decryptValue E (load_key (tabs s) v) = Some v'
        \<and> outcome (handleGetByUUID E r pr u) s = write_json (ValueBody v'))"
proof -
  have "wp (handleGetByUUID E r pr u) (\<lambda>resp _. rs_status resp \<in> {200, 404, 500}) s"
    unfolding handleGetByUUID_def
    by (auto simp: wp_simps GetResourceValueByUUID_def not_found_or_500_def Let_def
        split: option.splits sum.splits)
  then show ?thesis
    using wp_handleGetByUUID [of E r pr u s] by (auto simp: wp_run)
qed

text \<open>C27. A DELETE that is answered with 204 removed the named resource and exactly its
  values; one that is answered otherwise removed and changed nothing.\<close>

theorem handleResourceDelete_exact:
  "(rs_status (outcome (handleResourceDelete E r pr) s) = 204
    \<and> (\<exists>body res. decode_body E decode_resource_delete_body r = Some body
        \<and> select_resource (db_namespace body) (db_name body) (tabs s) = Some res
        \<and> outside_audit (tabs (poststate (handleResourceDelete E r pr) s)) = outside_audit ((tabs s)\<lparr>
            t_resource_values := filter (\<lambda>v. rv_resource_id v \<noteq> r_id res) (t_resource_values (tabs s)),
            t_resources := filter (\<lambda>x. r_id x \<noteq> r_id res) (t_resources (tabs s))\<rparr>)))
   \<or> (rs_status (outcome (handleResourceDelete E r pr) s) \<in> {400, 403, 404, 500}
      \<and> tabs (poststate (handleResourceDelete E r pr) s) = tabs s)"
proof -
  have "wp (handleResourceDelete E r pr) (\<lambda>resp s'. rs_status resp = 204 \<or>
      rs_status resp \<in> {400, 403, 404, 500} \<and> tabs s' = tabs s) s"
    unfolding handleResourceDelete_def DeleteResource_def
    by (auto simp: wp_simps wp_transaction not_found_or_500_def Let_def split: option.splits sum.splits)
  then show ?thesis
    using wp_delete_done [of E r pr s] by (auto simp: wp_run)
qed

subsection \<open>Versions named by a UUID\<close>

text \<open>C28. A version that is given as a UUID is not tied to the resource: whoever may read some
  resource gets with its name and a foreign UUID the decrypted value of any other resource,
  whatever the policy says about that one.\<close>

theorem version_uuid_reads_any_value:
  assumes "no_faults E" and "ns \<noteq> ''_''"
    and "outcome (CheckWithAnon E pr VerbTypeRead ns name) s = Inr True"
    and "loaded_resource ns name (tabs s) = Some res"
    and "uuid_Parse E u" and "u \<noteq> ''latest''" and "u \<noteq> []" and "pg_uuid E u = Some x"
    and "first_by rv_uuid (\<lambda>v. rv_uuid v = x) (t_resource_values (tabs s)) = Some v"
    and "decryptValue E (load_key (tabs s) v) = Some v'"
  shows "outcome (handleGetResource E r pr ns name u) s = write_json (ValueBody v')"
proof -
  have "wp (handleGetResource E r pr ns name u) (\<lambda>resp _. resp = write_json (ValueBody v')) s"
    unfolding handleGetResource_def select_version_def using assms
    by (simp add: wp_simps Let_def GetResourceValueByUUID_def)
  then show ?thesis by (simp add: wp_run)
qed

definition leak_value :: resource_value where
  "leak_value = (new_value 2 ''hidden'' EncryptionAlgorithmUndefined None)\<lparr>rv_uuid := 7, rv_version := 1\<rparr>"

definition leak_resource :: "uint \<Rightarrow> uint \<Rightarrow> string \<Rightarrow> resource" where
  "leak_resource i ns name = \<lparr>r_id = i, r_namespace_id = ns, r_ns = None, r_name = name,
     r_type = ResourceTypeCleartext, r_created_at = 0, r_created_by = [], r_retired_at = None, r_value = None\<rparr>"

definition leak_st :: st where
  "leak_st = example_st\<lparr>tabs := example_tables\<lparr>
     t_namespaces := [\<lparr>ns_id = 1, ns_name = ''prod'', ns_created_at = 0\<rparr>,
                      \<lparr>ns_id = 2, ns_name = ''vault'', ns_created_at = 0\<rparr>],
     t_resources := [leak_resource 1 1 ''db'', leak_resource 2 2 ''key''],
     t_resource_values := [leak_value]\<rparr>\<rparr>"

lemma leak_checks:
  "outcome (CheckWithAnon example_env (Some alice) VerbTypeRead ''prod'' ''db'') leak_st = Inr True"
  "outcome (CheckWithAnon example_env (Some alice) VerbTypeRead ''vault'' ''key'') leak_st = Inr False"
  by code_simp+

lemma leak_found: "\<exists>res. loaded_resource ''prod'' ''db'' (tabs leak_st) = Some res"
  by (simp add: loaded_resource_def select_resource_def leak_st_def leak_resource_def in_namespace_def)

lemma leak_uuid: "uuid_Parse example_env ''uuid-7''" "pg_uuid example_env ''uuid-7'' = Some 7"
  by (simp_all add: ParseUint_def digit_val_def)

lemma leak_loaded:
  "first_by rv_uuid (\<lambda>v. rv_uuid v = 7) (t_resource_values (tabs leak_st)) = Some leak_value"
  "decryptValue example_env (load_key (tabs leak_st) leak_value) = Some leak_value"
  by (simp_all add: leak_st_def leak_value_def load_key_def decryptValue_def new_value_def)

theorem version_uuid_reads_any_value_witness:
  "outcome (CheckWithAnon example_env (Some alice) VerbTypeRead ''vault'' ''key'') leak_st = Inr False
   \<and> outcome (handleGetResource example_env put_request (Some alice) ''prod'' ''db'' ''uuid-7'') leak_st
       = write_json (ValueBody leak_value)"
  using leak_checks(2) leak_found version_uuid_reads_any_value
    [OF example_no_faults _ leak_checks(1) _ leak_uuid(1) _ _ leak_uuid(2) leak_loaded]
  by auto

end
