(* ===== verification/Admin_Props.thy ===== *)
theory Admin_Props
  imports System Resource_Props
begin

text \<open>
  Properties of the administration endpoints: who can change users and grants, that a grant
  adds and a revocation removes exactly what it names, and that a deleted user leaves no
  credential behind.
\<close>

subsection \<open>Who can change users and grants\<close>

definition acl :: "tables \<Rightarrow> user list \<times> (uint \<times> uint) list \<times> (uint \<times> uint) list \<times> anon_permission list" where
  "acl t = (t_users t, t_user_permissions t, t_sa_permissions t, t_anon_permissions t)"

lemma keeps_acl_exec [keeps_intros]:
  "keeps (\<lambda>s. acl (tabs s)) (DeletePAT E i)" "keeps (\<lambda>s. acl (tabs s)) (DeleteSession E i)"
  "keeps (\<lambda>s. acl (tabs s)) (InvalidateSession E i)" "keeps (\<lambda>s. acl (tabs s)) (DeleteCapabilityToken E i)"
  "keeps (\<lambda>s. acl (tabs s)) (DeleteNamespace E ns)" "keeps (\<lambda>s. acl (tabs s)) (UpdateResourceType E i ty)"
  "keeps (\<lambda>s. acl (tabs s)) (AddPermissionToCapabilityToken E i p)"
  unfolding DeletePAT_def DeleteSession_def InvalidateSession_def DeleteCapabilityToken_def
    DeleteNamespace_def UpdateResourceType_def AddPermissionToCapabilityToken_def
  by (rule keeps_db_exec_part; auto simp: acl_def ensure_permission_def split: if_splits)+

lemma keeps_acl_insert [keeps_intros]:
  "keeps (\<lambda>s. acl (tabs s)) (CreateAuditLog E al)" "keeps (\<lambda>s. acl (tabs s)) (CreateCapabilityToken E ct)"
  "keeps (\<lambda>s. acl (tabs s)) (CreateEncryptionKey E c k)" "keeps (\<lambda>s. acl (tabs s)) (CreatePAT E pat)"
  "keeps (\<lambda>s. acl (tabs s)) (CreatePermission E p)" "keeps (\<lambda>s. acl (tabs s)) (CreateResource E r)"
  "keeps (\<lambda>s. acl (tabs s)) (CreateSession E x)" "keeps (\<lambda>s. acl (tabs s)) (CreateNamespace E ns)"
  "keeps (\<lambda>s. acl (tabs s)) (CreateSA E a)"
  unfolding CreateAuditLog_def CreateCapabilityToken_def CreateEncryptionKey_def CreatePAT_def
    CreatePermission_def CreateResource_def CreateSession_def CreateNamespace_def CreateSA_def
  by (rule keeps_db_insert_part; simp add: acl_def)+

lemma keeps_acl_transactions [keeps_intros]:
  "keeps (\<lambda>s. acl (tabs s)) (DeleteResource E ns name)" "keeps (\<lambda>s. acl (tabs s)) (CreateResourceValue E rv)"
  unfolding DeleteResource_def CreateResourceValue_def
  by (auto simp: keeps_iff_wp wp_transaction wp_simps Let_def acl_def split: option.splits)

lemma keeps_acl_programs [keeps_intros]:
  "keeps (\<lambda>s. acl (tabs s)) (WriteAudit E r a b c d)" "keeps (\<lambda>s. acl (tabs s)) (create_token E ct ps)"
  "keeps (\<lambda>s. acl (tabs s)) (GenerateToken E)" "keeps (\<lambda>s. acl (tabs s)) (NewSession E u)"
  unfolding WriteAudit_def create_token_def attach_new_def GenerateToken_def NewSession_def
  by (intro keeps_intros)+

lemma keeps_acl_sessions [keeps_intros]:
  "keeps (\<lambda>s. acl (tabs s)) (Login E n pw)" "keeps (\<lambda>s. acl (tabs s)) (Refresh E tok)"
  "keeps (\<lambda>s. acl (tabs s)) (Logout E tok)"
  unfolding Login_def Refresh_def Logout_def by (intro keeps_intros)+

lemma keeps_acl_tokens:
  "keeps (\<lambda>s. acl (tabs s)) (api_Login E r)" "keeps (\<lambda>s. acl (tabs s)) (api_Refresh E r)"
  "keeps (\<lambda>s. acl (tabs s)) (api_Logout E r)" "keeps (\<lambda>s. acl (tabs s)) (AnonToken E r)"
  "keeps (\<lambda>s. acl (tabs s)) (IssuePAT E r)" "keeps (\<lambda>s. acl (tabs s)) (RevokePAT E r)"
  "keeps (\<lambda>s. acl (tabs s)) (IssueCapabilityToken E r)" "keeps (\<lambda>s. acl (tabs s)) (RevokeCapabilityToken E r)"
  unfolding api_Login_def api_Refresh_def api_Logout_def AnonToken_def IssuePAT_def RevokePAT_def
    IssueCapabilityToken_def RevokeCapabilityToken_def check_entry_def Let_def
  by (intro keeps_intros)+

lemma keeps_collect_meta [keeps_intros]: "keeps (\<lambda>s. acl (tabs s)) (collect_meta_loop E pr vs)"
  by (induction vs) (auto intro!: keeps_intros)

lemma keeps_acl_namespaces [keeps_intros]: "keeps (\<lambda>s. acl (tabs s)) (NamespacesForPrincipalWithAnon E pr)"
  unfolding NamespacesForPrincipalWithAnon_def NamespacesForPrincipal_def by (intro keeps_intros)

lemma keeps_acl_namespace_handler: "keeps (\<lambda>s. acl (tabs s)) (NamespaceHandler E r)"
  unfolding NamespaceHandler_def namespace_list_def namespace_query_def namespace_create_def
    namespace_delete_def namespace_query_body_def collectMetaVerbs_def with_namespace_def Let_def
  by (intro keeps_intros)

lemma keeps_acl_crypto [keeps_intros]:
  "keeps (\<lambda>s. acl (tabs s)) (GenerateDEK E)" "keeps (\<lambda>s. acl (tabs s)) (EncryptValue E v k)"
  "keeps (\<lambda>s. acl (tabs s)) (EncryptDEK E v k)"
  unfolding GenerateDEK_def EncryptValue_def EncryptDEK_def sealGCM_def Let_def by (intro keeps_intros)+

lemma keeps_acl_resource_handler: "keeps (\<lambda>s. acl (tabs s)) (ResourceHandler E r)"
  unfolding ResourceHandler_def handleResourceQuery_def handleResourcePut_def handleResourceDelete_def
    handleGetByUUID_def handleGetResource_def handleListVersions_def select_version_def
    put_namespace_def put_resource_def put_encrypt_def Let_def
  by (intro keeps_intros)

lemma keeps_query_entries [keeps_intros]:
  "keeps (\<lambda>s. acl (tabs s)) (query_entries E es res)" "keeps (\<lambda>s. acl (tabs s)) (principal_details E refs res')"
proof -
  have "keeps (\<lambda>s. acl (tabs s)) (query_entry E e)" for e
    unfolding query_entry_def ignoring_error_def by (intro keeps_intros)
  then show "keeps (\<lambda>s. acl (tabs s)) (query_entries E es res)"
    by (induction es arbitrary: res) (auto intro!: keeps_intros)
  show "keeps (\<lambda>s. acl (tabs s)) (principal_details E refs res')"
    by (induction refs arbitrary: res') (auto intro!: keeps_intros)
qed

lemma keeps_acl_reports:
  "keeps (\<lambda>s. acl (tabs s)) (AdminUser E r)" "keeps (\<lambda>s. acl (tabs s)) (GetAnonInfo E r)"
  "keeps (\<lambda>s. acl (tabs s)) (api_ListAnonPermissions E r)" "keeps (\<lambda>s. acl (tabs s)) (Principals E r)"
  "keeps (\<lambda>s. acl (tabs s)) (GetAuditLog E r)"
  unfolding AdminUser_def GetAnonInfo_def api_ListAnonPermissions_def Principals_def GetAuditLog_def
    ignoring_error_def Let_def
  by (intro keeps_intros)+

text \<open>The five handlers that do change them ask for the permission first.\<close>

lemma refused_meta: "\<not> meta_policy E (tabs s) r v metaUsersResource \<Longrightarrow> \<not> outcome (requireMetaUser E r v) s"
  using requireMetaUser_sound by blast

lemma wp_or_allowed: "(\<not> P \<Longrightarrow> wp m (\<lambda>_. X) s) \<Longrightarrow> wp m (\<lambda>_ s'. X s' \<or> P) s"
  by (cases P) simp_all

lemma wp_acl_guarded:
  "wp (api_CreateUser E r) (\<lambda>_ s'. acl (tabs s') = acl (tabs s) \<or> cx_bootstrap (rq_ctx r)
      \<or> meta_policy E (tabs s) r VerbTypeWrite metaUsersResource) s"
  "wp (DeleteUserByName E r) (\<lambda>_ s'. acl (tabs s') = acl (tabs s)
      \<or> meta_policy E (tabs s) r VerbTypeDelete metaUsersResource) s"
  "wp (GrantPermissions E r) (\<lambda>_ s'. acl (tabs s') = acl (tabs s)
      \<or> meta_policy E (tabs s) r VerbTypeWrite metaUsersResource) s"
  "wp (RevokePermissions E r) (\<lambda>_ s'. acl (tabs s') = acl (tabs s)
      \<or> meta_policy E (tabs s) r VerbTypeWrite metaUsersResource) s"
  "wp (AddAnonPermissions E r) (\<lambda>_ s'. acl (tabs s') = acl (tabs s)
      \<or> meta_policy E (tabs s) r VerbTypeWrite metaUsersResource) s"
  "wp (api_DeleteAnonPermission E r) (\<lambda>_ s'. acl (tabs s') = acl (tabs s)
      \<or> meta_policy E (tabs s) r VerbTypeWrite metaUsersResource) s"
  by (rule wp_or_allowed; simp add: api_CreateUser_def DeleteUserByName_def GrantPermissions_def
      RevokePermissions_def with_permissions_def AddAnonPermissions_def api_DeleteAnonPermission_def
      wp_simps refused_meta)+

definition may_administer :: "env \<Rightarrow> request \<Rightarrow> tables \<Rightarrow> bool" where
  "may_administer E r t \<longleftrightarrow> cx_bootstrap (rq_ctx r)
     \<or> meta_policy E t r VerbTypeWrite metaUsersResource \<or> meta_policy E t r VerbTypeDelete metaUsersResource"

lemma may_administer_path [simp]: "may_administer E (r\<lparr>rq_path_value := f\<rparr>) t = may_administer E r t"
proof -
  have "principalFromContext (r\<lparr>rq_path_value := f\<rparr>) = principalFromContext r"
    by (simp add: principalFromContext_def cong: option.case_cong)
  then show ?thesis by (simp add: may_administer_def meta_policy_def)
qed

lemma wp_acl_keeps: "keeps (\<lambda>s. acl (tabs s)) m \<Longrightarrow> wp m (\<lambda>_ s'. acl (tabs s') = acl (tabs s) \<or> P) s"
  using keeps_after [of "\<lambda>s. acl (tabs s)" m s] by (simp add: wp_run)

lemmas unprivileged = keeps_acl_tokens keeps_acl_namespace_handler keeps_acl_resource_handler keeps_acl_reports

lemma wp_privileged:
  assumes "h \<in> {api_CreateUser E, DeleteUserByName E, GrantPermissions E, RevokePermissions E,
                AddAnonPermissions E, api_DeleteAnonPermission E}"
  shows "wp (h r) (\<lambda>_ s'. acl (tabs s') = acl (tabs s) \<or> may_administer E r (tabs s)) s"
  using assms wp_acl_guarded [of E r s] by (auto simp: may_administer_def elim!: wp_mono)

lemma wp_inner_acl:
  "wp (inner E r) (\<lambda>_ s'. acl (tabs s') = acl (tabs s) \<or> may_administer E r (tabs s)) s"
proof -
  have route: "wp (h (r\<lparr>rq_path_value := f\<rparr>)) (\<lambda>_ s'. acl (tabs s') = acl (tabs s) \<or> may_administer E r (tabs s)) s"
    if "h \<in> (\<lambda>(_, _, h). h) ` set (inner_routes E)" for h f
  proof (cases "h \<in> {api_CreateUser E, DeleteUserByName E, GrantPermissions E, RevokePermissions E,
                AddAnonPermissions E, api_DeleteAnonPermission E}")
    case True
    from wp_privileged [OF this, of "r\<lparr>rq_path_value := f\<rparr>"] show ?thesis by simp
  next
    case False
    with that have "keeps (\<lambda>s. acl (tabs s)) (h (r\<lparr>rq_path_value := f\<rparr>))"
      unfolding inner_routes_def by (auto intro: unprivileged)
    then show ?thesis by (rule wp_acl_keeps)
  qed
  show ?thesis
    unfolding inner_def serve_mux_def
    by (cases "find_route (inner_routes E) r") (auto simp: wp_simps intro: route [OF find_route_in])
qed

lemma user_policy_outside_sas:
  assumes "outside_sas t' = outside_sas t"
  shows "own_policy n t' (NewPrincipalFromUser u) v ns name = own_policy n t (NewPrincipalFromUser u) v ns name"
proof -
  have "t_users t' = t_users t" "t_permissions t' = t_permissions t" "t_user_permissions t' = t_user_permissions t"
    using assms by (cases t; cases t'; simp add: outside_sas_def)+
  then show ?thesis by (simp add: own_policy_def own_perms_def linked_def NewPrincipalFromUser_def)
qed

text \<open>The administrators of a moment: holders of a bootstrap token or of a session of a user who may
  write or delete \<open>_/users\<close>.\<close>

definition administrator :: "env \<Rightarrow> request \<Rightarrow> st \<Rightarrow> bool" where
  "administrator E r s \<longleftrightarrow>
     (rq_method r = ''POST'' \<and> rq_path r = ''/admin/user'' \<and> bearer r \<noteq> [] \<and> bearer r \<in> set (admin_tokens s))
   \<or> (\<exists>u v. HasPrefix (bearer r) SessionPrefix \<and> live_session E (bearer r) (tabs s) u
        \<and> v \<in> {VerbTypeWrite, VerbTypeDelete}
        \<and> own_policy (now E) (tabs s) (NewPrincipalFromUser u) v ''_'' ''users'')"

lemma administrator_session:
  "HasPrefix (bearer r) SessionPrefix \<Longrightarrow> live_session E (bearer r) (tabs s) u \<Longrightarrow>
     own_policy (now E) (tabs s) (NewPrincipalFromUser u) VerbTypeWrite ''_'' ''users'' \<or>
     own_policy (now E) (tabs s) (NewPrincipalFromUser u) VerbTypeDelete ''_'' ''users'' \<Longrightarrow> administrator E r s"
  unfolding administrator_def by blast

lemma authentic_administrator:
  assumes "authentic E r s cx" and "rq_ctx r = no_context" and "outside_sas t' = outside_sas (tabs s)"
    and "may_administer E (r\<lparr>rq_ctx := cx\<rparr>) t'"
  shows "administrator E r s"
proof (cases "cx_bootstrap cx")
  case True
  with assms(1,2) show ?thesis
    by (auto simp: authentic_def no_context_def credential_def administrator_def)
next
  case False
  with assms(1,2,4) show ?thesis
    by (auto simp: authentic_def no_context_def credential_def may_administer_def meta_policy_def
        principalFromContext_def user_policy_outside_sas [OF assms(3)])
      (erule (1) administrator_session, simp)+
qed

text \<open>C5. Users, the permissions granted to users and service accounts, and the anonymous
  permissions change over HTTP only for a request that carries a bootstrap token on
  POST /admin/user, or the token of a live session whose user may write or delete
  \<open>_/users\<close> at that moment. In particular personal access tokens, capability tokens, service
  accounts and anonymous requests never change them, whatever they were granted.\<close>

theorem acl_changes_need_administrator:
  "acl (tabs (poststate (server E (r\<lparr>rq_ctx := no_context\<rparr>)) s)) = acl (tabs s)
   \<or> administrator E (r\<lparr>rq_ctx := no_context\<rparr>) s"
proof -
  let ?r = "r\<lparr>rq_ctx := no_context\<rparr>"
  let ?Q = "\<lambda>s'. acl (tabs s') = acl (tabs s) \<or> administrator E ?r s"
  have sas: "acl (tabs s') = acl (tabs s)" if "outside_sas (tabs s') = outside_sas (tabs s)" for s'
    using that by (cases "tabs s"; cases "tabs s'"; simp add: outside_sas_def acl_def)
  have auth: "wp (AuthMiddleware E (inner E) ?r) (\<lambda>_. ?Q) s"
  proof (rule wp_AuthMiddleware)
    fix cx and s' :: st assume *: "authentic E ?r s cx" "outside_sas (tabs s') = outside_sas (tabs s)"
    show "wp (inner E (?r\<lparr>rq_ctx := cx\<rparr>)) (\<lambda>_. ?Q) s'"
      by (rule wp_mono [OF wp_inner_acl])
        (use sas [OF *(2)] authentic_administrator [OF *(1) _ *(2)] in \<open>auto\<close>)
  qed (use sas in auto)
  then have "wp (server E ?r) (\<lambda>_. ?Q) s"
    unfolding server_def CORSMiddleware_def healthz_def Ready_def by (auto simp: wp_simps Let_def)
  then show ?thesis by (simp add: wp_run)
qed

subsection \<open>Granting and revoking\<close>

text \<open>What a permission row says, without its key and its time of creation.\<close>

definition right :: "permission \<Rightarrow> verb \<times> string \<times> time option" where
  "right p = (p_verb p, p_resource_pattern p, p_expires_at p)"

definition rights :: "(uint \<times> uint) list \<Rightarrow> tables \<Rightarrow> uint \<Rightarrow> (verb \<times> string \<times> time option) set" where
  "rights ls t i = right ` set (linked ls i t)"

text \<open>
  The permissions of one kind of principal, as the administration endpoints use them: rows
  are created and attached one by one, and detached by a pattern.
\<close>

text \<open>The loop rule with the elements already visited.\<close>

lemma wp_foreach_visited:
  assumes "I [] s"
    and "\<And>xs x t. x \<in> set zs \<Longrightarrow> I xs t \<Longrightarrow>
           wp (f x) (\<lambda>r t'. case r of Inl e \<Rightarrow> Q (Inl e) t' | Inr _ \<Rightarrow> I (xs @ [x]) t') t"
    and "\<And>t. I zs t \<Longrightarrow> Q (Inr ()) t"
  shows "wp (foreach zs f) Q s"
proof (rule wp_foreach [where I = "\<lambda>ys t. \<exists>xs. zs = xs @ ys \<and> I xs t"])
  show "\<exists>xs. zs = xs @ zs \<and> I xs s" using assms(1) by simp
next
  fix x ys t assume "\<exists>xs. zs = xs @ x # ys \<and> I xs t"
  then obtain xs where "zs = xs @ x # ys" "I xs t" by blast
  with assms(2) [of x xs t] show "wp (f x) (\<lambda>r t'. case r of Inl e \<Rightarrow> Q (Inl e) t'
      | Inr _ \<Rightarrow> \<exists>xs. zs = xs @ ys \<and> I xs t') t"
    by (auto elim!: wp_mono split: sum.splits)
qed (use assms(3) in auto)

locale permission_account = permission_links +
  assumes links_frame: "links (t\<lparr>t_permissions := ps\<rparr>) = links t"
    and links_stored: "db_inv t q \<Longrightarrow> snd ` set (links t) \<subseteq> p_id ` set (t_permissions t)"
begin

lemma wp_create_attach:
  assumes inv: "db_inv (tabs s) (seqs s)"
  shows "wp (do { c \<leftarrow> CreatePermission E p;
           case c of Inl e \<Rightarrow> State_Monad.return (Inl e) | Inr j \<Rightarrow> add_perm E i j })
     (\<lambda>r s'. r = Inr () \<longrightarrow> (\<forall>j. rights (links (tabs s')) (tabs s') j =
        (if j = i then insert (right p) (rights (links (tabs s)) (tabs s) j)
         else rights (links (tabs s)) (tabs s) j))) s"
proof -
  let ?n = "seqs s TPermissions" and ?ps = "t_permissions (tabs s)" and ?ls = "links (tabs s)"
  let ?row = "p\<lparr>p_id := Suc ?n, p_created_at := now E\<rparr>"
  let ?t = "(tabs s)\<lparr>t_permissions := ?ps @ [?row]\<rparr>"
  let ?t' = "upd_links (\<lambda>_. insert_link (i, Suc ?n) ?ls) ?t"
  from inv have old: "q \<in> set ?ps \<Longrightarrow> p_id q \<le> ?n" for q by (auto simp: db_inv_def keys_ok_def keyed_def)
  then have fresh: "(j, Suc ?n) \<notin> set ?ls" for j using links_stored [OF inv] by force
  have "set (linked (links ?t') j ?t') = (if j = i then insert ?row (set (linked ?ls j (tabs s))) else set (linked ?ls j (tabs s)))" for j
    using fresh by (intro set_eqI) (auto simp: linked_iff links_upd permissions_upd dest: old)
  then have "rights (links ?t') ?t' j = (if j = i then insert (right p) (rights ?ls (tabs s) j) else rights ?ls (tabs s) j)" for j
    by (simp add: rights_def right_def)
  then show ?thesis
    by (simp add: wp_simps ins_permission.wp_insert add_perm_eq Let_def ensure_permission_def links_frame split: sum.splits)
qed

end

locale revocable_account = permission_account +
  fixes revoke :: "env \<Rightarrow> uint \<Rightarrow> uint \<Rightarrow> (dberr + unit) prog"
    and revoke_matching :: "env \<Rightarrow> uint \<Rightarrow> verb \<Rightarrow> string \<Rightarrow> (dberr + unit) prog"
  assumes revoke_eq:
      "revoke E i p = db_exec E (\<lambda>t. Inr (upd_links (\<lambda>_. filter (\<lambda>l. l \<noteq> (i, p)) (links t)) t))"
    and revoke_matching_eq: "revoke_matching E i v pat = do {
          r \<leftarrow> get_perms E i;
          case r of
            Inl e \<Rightarrow> State_Monad.return (Inl e)
          | Inr perms \<Rightarrow> foreach perms (\<lambda>p.
              if p_verb p = v \<and> matchesDeletePattern (p_resource_pattern p) pat
              then revoke E i (p_id p) else State_Monad.return (Inr ()))
        }"
begin

lemma wp_revoke_matching:
  assumes inv: "db_inv (tabs s) (seqs s)"
  shows "wp (revoke_matching E i v pat)
     (\<lambda>r s'. r = Inr () \<longrightarrow> (\<forall>j. set (linked (links (tabs s')) j (tabs s')) =
        {p \<in> set (linked (links (tabs s)) j (tabs s)).
           \<not> (j = i \<and> p_verb p = v \<and> matchesDeletePattern (p_resource_pattern p) pat)})) s"
proof -
  let ?P = "\<lambda>p :: permission. p_verb p = v \<and> matchesDeletePattern (p_resource_pattern p) pat"
  let ?perms = "linked (links (tabs s)) i (tabs s)"
  define I where "I = (\<lambda>(xs :: permission list) (t :: st). t_permissions (tabs t) = t_permissions (tabs s)
      \<and> set (links (tabs t)) = set (links (tabs s)) - (\<lambda>p. (i, p_id p)) ` {p \<in> set xs. ?P p})"
  have same: "p = q" if "p \<in> set (t_permissions (tabs s))" "q \<in> set (t_permissions (tabs s))" "p_id p = p_id q" for p q
    using inv that by (auto simp: db_inv_def keys_ok_def keyed_def distinct_map dest: inj_onD)
  have final: "set (linked (links (tabs t)) j (tabs t)) =
      {p \<in> set (linked (links (tabs s)) j (tabs s)). \<not> (j = i \<and> ?P p)}" if "I ?perms t" for j t
    using that unfolding I_def by (auto simp: linked_iff dest: same)
  have "wp (foreach ?perms (\<lambda>p. if ?P p then revoke E i (p_id p) else State_Monad.return (Inr ())))
     (\<lambda>r s'. r = Inr () \<longrightarrow> (\<forall>j. set (linked (links (tabs s')) j (tabs s')) =
        {p \<in> set (linked (links (tabs s)) j (tabs s)). \<not> (j = i \<and> ?P p)})) (tick s)"
  proof (rule wp_foreach_visited [where I = I])
    show "I [] (tick s)" by (simp add: I_def)
  next
    fix xs p t assume "I xs t"
    then show "wp (if ?P p then revoke E i (p_id p) else State_Monad.return (Inr ()))
        (\<lambda>r t'. case r of Inl e \<Rightarrow> Inl e = Inr () \<longrightarrow> (\<forall>j. set (linked (links (tabs t')) j (tabs t')) =
           {p \<in> set (linked (links (tabs s)) j (tabs s)). \<not> (j = i \<and> ?P p)}) | Inr _ \<Rightarrow> I (xs @ [p]) t') t"
      by (auto simp: revoke_eq wp_simps I_def links_upd permissions_upd)
  qed (simp add: final)
  then show ?thesis
    by (simp add: revoke_matching_eq wp_simps wp_get_perms)
qed

end

interpretation user_account: revocable_account GetPermissionsForUser AddPermissionToUser
  t_user_permissions t_user_permissions_update user_exists RevokePermissionFromUser RevokeMatchingPermissionsFromUser
  by unfold_locales
    (auto simp: RevokePermissionFromUser_def RevokeMatchingPermissionsFromUser_def db_inv_def refs_ok_def)

interpretation sa_account: revocable_account GetPermissionsForSA AddPermissionToSA
  t_sa_permissions t_sa_permissions_update sa_exists RevokePermissionFromSA RevokeMatchingPermissionsFromSA
  by unfold_locales
    (auto simp: RevokePermissionFromSA_def RevokeMatchingPermissionsFromSA_def db_inv_def refs_ok_def)

interpretation token_account: permission_account GetPermissionsForCapabilityToken
  AddPermissionToCapabilityToken t_capability_token_permissions t_capability_token_permissions_update token_exists
  by unfold_locales (auto simp: db_inv_def refs_ok_def)

definition account :: "principal \<Rightarrow> tables \<Rightarrow> (uint \<times> uint) list" where
  "account pr t = (if pr_kind pr = PrincipalUser then t_user_permissions t else t_sa_permissions t)"

definition principal_row :: "principal \<Rightarrow> tables \<Rightarrow> uint option" where
  "principal_row pr t =
     (if pr_kind pr = PrincipalUser then map_option u_id (first_by u_id (\<lambda>u. u_name u = pr_name pr) (t_users t))
      else map_option sa_id (first_by sa_id
        (\<lambda>a. sa_namespace a = pr_sa_namespace pr \<and> sa_name a = pr_sa_name pr) (t_sas t)))"

definition named_kind :: "principal \<Rightarrow> bool" where
  "named_kind pr \<longleftrightarrow> pr_kind pr = PrincipalUser \<or> pr_kind pr = PrincipalSA"

lemma ParsePrincipal_kind: "ParsePrincipal x = Some pr \<Longrightarrow> named_kind pr"
  by (auto simp: ParsePrincipal_def Let_def named_kind_def split: if_splits)

lemma wp_principal_id:
  assumes "named_kind pr" and "\<And>e s'. core s' = core s \<Longrightarrow> Q (Inl e) s'"
    and "\<And>i s'. principal_row pr (tabs s) = Some i \<Longrightarrow> core s' = core s \<Longrightarrow> Q (Inr i) s'"
  shows "wp (principal_id E pr) Q s"
  using assms by (auto simp: principal_id_def named_kind_def wp_simps principal_row_def split: option.splits)

lemma wp_with_permissions:
  assumes "\<And>resp s'. rs_status resp \<noteq> 204 \<Longrightarrow> Q resp s'"
    and "\<And>body pr i u. decode_body E (decode_permissionsRequestBody E) r = Some body \<Longrightarrow>
           ParsePrincipal (prb_principal body) = Some pr \<Longrightarrow> principal_row pr (tabs s) = Some i \<Longrightarrow>
           core u = core s \<Longrightarrow> \<forall>entry\<in>set (prb_permissions body). validate (pe_resource_pattern entry) = None \<Longrightarrow>
           wp (k body pr i) Q u"
  shows "wp (with_permissions E r validate k) Q s"
  unfolding with_permissions_def
  by (auto simp: wp_simps list_all_iff split: option.splits
      intro!: assms wp_principal_id ParsePrincipal_kind)

lemma wp_grant_entry:
  assumes inv: "db_inv (tabs s) (seqs s)" and "named_kind pr"
  shows "wp (grant_entry E pr i entry) (\<lambda>r s'. r = Inr () \<longrightarrow> db_inv (tabs s') (seqs s') \<and>
     (\<forall>j. rights (account pr (tabs s')) (tabs s') j =
        (if j = i then insert (right (entry_permission entry)) (rights (account pr (tabs s)) (tabs s) j)
         else rights (account pr (tabs s)) (tabs s) j))) s"
proof -
  have "wp (grant_entry E pr i entry) (\<lambda>_ s'. db_inv (tabs s') (seqs s')) s"
    using moves_poststate [OF safe_attach_rows(3)] inv by (simp add: wp_run intact_def)
  moreover note user_account.wp_create_attach [OF inv, of E "entry_permission entry" i]
    sa_account.wp_create_attach [OF inv, of E "entry_permission entry" i]
  ultimately show ?thesis
    using assms(2) unfolding grant_entry_def named_kind_def account_def
    by (auto simp: wp_run cong: sum.case_cong)
qed

lemma wp_grant_entries:
  assumes "db_inv (tabs s) (seqs s)" and "named_kind pr"
  shows "wp (foreach es (grant_entry E pr i)) (\<lambda>r s'. r = Inr () \<longrightarrow>
     (\<forall>j. rights (account pr (tabs s')) (tabs s') j = rights (account pr (tabs s)) (tabs s) j
        \<union> (if j = i then (\<lambda>e. right (entry_permission e)) ` set es else {}))) s"
proof (rule wp_foreach_visited [where I = "\<lambda>xs t. db_inv (tabs t) (seqs t) \<and>
     (\<forall>j. rights (account pr (tabs t)) (tabs t) j = rights (account pr (tabs s)) (tabs s) j
        \<union> (if j = i then (\<lambda>e. right (entry_permission e)) ` set xs else {}))"], goal_cases)
  case (2 xs e t)
  then show ?case
    by (intro wp_mono [OF wp_grant_entry [OF _ assms(2)]]) (auto split: sum.splits)
qed (use assms in auto)

lemma rights_audit [simp]:
  "rights ls (t\<lparr>t_audit_logs := x\<rparr>) = rights ls t" "account pr (t\<lparr>t_audit_logs := x\<rparr>) = account pr t"
  by (simp_all add: rights_def linked_def account_def fun_eq_iff)

text \<open>C23. A grant that is answered with 204 came with valid patterns for an existing principal,
  added exactly the rights it lists to that principal and none to any other of its kind.\<close>

theorem GrantPermissions_exact:
  assumes "db_inv (tabs s) (seqs s)" and "run_state (GrantPermissions E r) s = (resp, s')" and "rs_status resp = 204"
  shows "\<exists>body pr i. decode_body E (decode_permissionsRequestBody E) r = Some body
     \<and> ParsePrincipal (prb_principal body) = Some pr \<and> principal_row pr (tabs s) = Some i
     \<and> (\<forall>entry\<in>set (prb_permissions body). ValidateAddPattern (pe_resource_pattern entry) = None)
     \<and> (\<forall>j. rights (account pr (tabs s')) (tabs s') j = rights (account pr (tabs s)) (tabs s) j
          \<union> (if j = i then (\<lambda>e. right (entry_permission e)) ` set (prb_permissions body) else {}))"
proof -
  define granted where "granted = (\<lambda>s' :: st. \<exists>body pr i. decode_body E (decode_permissionsRequestBody E) r = Some body
     \<and> ParsePrincipal (prb_principal body) = Some pr \<and> principal_row pr (tabs s) = Some i
     \<and> (\<forall>entry\<in>set (prb_permissions body). ValidateAddPattern (pe_resource_pattern entry) = None)
     \<and> (\<forall>j. rights (account pr (tabs s')) (tabs s') j = rights (account pr (tabs s)) (tabs s) j
          \<union> (if j = i then (\<lambda>e. right (entry_permission e)) ` set (prb_permissions body) else {})))"
  have "wp (GrantPermissions E r) (\<lambda>resp s'. rs_status resp = 204 \<longrightarrow> granted s') s"
    unfolding GrantPermissions_def
  proof (rule wp_with_permissions, simp)
    fix body pr i u assume *: "decode_body E (decode_permissionsRequestBody E) r = Some body"
      "ParsePrincipal (prb_principal body) = Some pr" "principal_row pr (tabs s) = Some i" "core u = core s"
      "\<forall>entry\<in>set (prb_permissions body). ValidateAddPattern (pe_resource_pattern entry) = None"
    show "wp (attempt (foreach (prb_permissions body) (grant_entry E pr i)) (\<lambda>_. internal_error) (\<lambda>_. do {
        _ \<leftarrow> WriteAudit E r (actorFromRequest r) ActionPermGrant (prb_principal body) AuditStatusOK;
        answer (write_header 204) })) (\<lambda>resp s'. rs_status resp = 204 \<longrightarrow> granted s') u"
      unfolding wp_attempt using * core_eqD [OF *(4)] assms(1)
      by (intro wp_mono [OF wp_grant_entries [OF _ ParsePrincipal_kind [OF *(2)]]])
        (auto simp: wp_simps Let_def granted_def split: sum.splits)
  qed
  with assms(2,3) show ?thesis by (auto simp: granted_def dest: wpD)
qed

lemma wp_revoke_entry:
  assumes inv: "db_inv (tabs s) (seqs s)" and "named_kind pr"
  shows "wp (revoke_entry E pr i entry) (\<lambda>r s'. r = Inr () \<longrightarrow> db_inv (tabs s') (seqs s') \<and>
     (\<forall>j. set (linked (account pr (tabs s')) j (tabs s')) = {p \<in> set (linked (account pr (tabs s)) j (tabs s)).
        \<not> (j = i \<and> p_verb p = pe_verb entry \<and> matchesDeletePattern (p_resource_pattern p) (pe_resource_pattern entry))})) s"
proof -
  have "wp (revoke_entry E pr i entry) (\<lambda>_ s'. db_inv (tabs s') (seqs s')) s"
    using moves_poststate [OF consistent.moves_revoke(1)] inv by (simp add: wp_run intact_def)
  moreover note user_account.wp_revoke_matching [OF inv] sa_account.wp_revoke_matching [OF inv]
  ultimately show ?thesis
    using assms(2) unfolding revoke_entry_def named_kind_def account_def by (auto simp: wp_run)
qed

lemma wp_revoke_entries:
  assumes "db_inv (tabs s) (seqs s)" and "named_kind pr"
  shows "wp (foreach es (revoke_entry E pr i)) (\<lambda>r s'. r = Inr () \<longrightarrow>
     (\<forall>j. set (linked (account pr (tabs s')) j (tabs s')) = {p \<in> set (linked (account pr (tabs s)) j (tabs s)).
        \<not> (j = i \<and> (\<exists>e\<in>set es. p_verb p = pe_verb e
             \<and> matchesDeletePattern (p_resource_pattern p) (pe_resource_pattern e)))})) s"
proof (rule wp_foreach_visited [where I = "\<lambda>xs t. db_inv (tabs t) (seqs t) \<and>
     (\<forall>j. set (linked (account pr (tabs t)) j (tabs t)) = {p \<in> set (linked (account pr (tabs s)) j (tabs s)).
        \<not> (j = i \<and> (\<exists>e\<in>set xs. p_verb p = pe_verb e
             \<and> matchesDeletePattern (p_resource_pattern p) (pe_resource_pattern e)))})"], goal_cases)
  case (2 xs e t)
  then show ?case
    by (intro wp_mono [OF wp_revoke_entry [OF _ assms(2)]]) (auto split: sum.splits)
qed (use assms in auto)

lemma linked_audit [simp]: "linked ls i (t\<lparr>t_audit_logs := x\<rparr>) = linked ls i t"
  by (simp add: linked_def)


subsection \<open>An administrator at work\<close>

text \<open>\<open>bob\<close> may write and delete \<open>_/users\<close>; his session asks for \<open>alice\<close>.\<close>

definition admin_user :: user where
  "admin_user = \<lparr>u_id = 2, u_name = ''bob'', u_email = [], u_pass = ''pw'', u_created_at = 0\<rparr>"

definition admin_st :: st where
  "admin_st = example_st\<lparr>tabs := example_tables\<lparr>
     t_users := [example_user, admin_user],
     t_permissions := [example_perm 1 VerbTypeRead ''prod/*'', example_perm 2 VerbTypeWrite ''prod/*'',
                       example_perm 3 VerbTypeWrite ''_/users'', example_perm 4 VerbTypeDelete ''_/users''],
     t_user_permissions := [(1, 1), (1, 2), (2, 3), (2, 4)]\<rparr>\<rparr>"

definition admin_env :: env where
  "admin_env = example_env\<lparr>json_Decode := (\<lambda>_. Some (JObj [(''principal'', JStr ''user/alice''),
     (''permissions'', JArr [JObj [(''verb'', JStr ''read''), (''resource_pattern'', JStr ''prod/*'')]])]))\<rparr>"

definition admin_request :: request where
  "admin_request = put_request\<lparr>rq_path_value := (\<lambda>_. ''alice''),
     rq_ctx := no_context\<lparr>cx_user := Some admin_user, cx_auth_method := AuthMethodSession\<rparr>\<rparr>"

lemma admin_db_inv: "db_inv (tabs admin_st) (seqs admin_st)"
  by (simp add: inv_defs admin_st_def example_tables_def empty_tables_def keyed_def example_user_def
      admin_user_def example_perm_def values_of_def)

lemma admin_answers:
  "rs_status (outcome (GrantPermissions admin_env admin_request) admin_st) = 204"
  "rs_status (outcome (RevokePermissions admin_env admin_request) admin_st) = 204"
  by code_simp+

definition admin_body :: permissionsRequestBody where
  "admin_body = \<lparr>prb_principal = ''user/alice'',
     prb_permissions = [\<lparr>pe_verb = VerbTypeRead, pe_resource_pattern = ''prod/*'', pe_expires_at = None\<rparr>]\<rparr>"

lemma admin_decoded:
  "decode_body admin_env (decode_permissionsRequestBody admin_env) admin_request = Some admin_body"
  "ParsePrincipal (prb_principal admin_body) = Some alice"
  "principal_row alice (tabs admin_st) = Some 1" "pr_kind alice = PrincipalUser"
  by code_simp+

theorem GrantPermissions_exact_witness:
  "(VerbTypeRead, ''prod/*'', Some NoExpiry)
     \<in> rights (t_user_permissions (tabs (poststate (GrantPermissions admin_env admin_request) admin_st)))
         (tabs (poststate (GrantPermissions admin_env admin_request) admin_st)) 1"
  using GrantPermissions_exact [OF admin_db_inv run_state_result_after admin_answers(1)] admin_decoded
  by (auto simp: account_def admin_body_def right_def entry_permission_def NewPermission_def)


subsection \<open>Deleting users\<close>

text \<open>C25. After a deletion that is answered with 204 the named user is gone with everything
  that could act for it: no session, no personal access token and no capability token of that
  user is left, so none of its credentials resolves in any later request on these tables; all
  other users stay.\<close>

theorem DeleteUserByName_leaves_no_credential:
  assumes "run_state (DeleteUserByName E r) s = (resp, s')" and "rs_status resp = 204"
  shows "\<exists>u. first_by u_id (\<lambda>u. u_name u = rq_path_value r ''name'') (t_users (tabs s)) = Some u
     \<and> t_users (tabs s') = filter (\<lambda>x. u_id x \<noteq> u_id u) (t_users (tabs s))
     \<and> (\<forall>E' tok x. u_id x = u_id u \<longrightarrow> \<not> live_session E' tok (tabs s') x \<and> \<not> live_pat E' tok (tabs s') x)
     \<and> (\<forall>E' tok c. live_token E' tok (tabs s') c \<longrightarrow> ct_issued_by c \<noteq> Some (u_id u))
     \<and> (\<forall>p. (u_id u, p) \<notin> set (t_user_permissions (tabs s')))"
proof -
  have "wp (DeleteUserByName E r) (\<lambda>resp s'. rs_status resp = 204 \<longrightarrow>
      (\<exists>u. first_by u_id (\<lambda>u. u_name u = rq_path_value r ''name'') (t_users (tabs s)) = Some u
         \<and> outside_audit (tabs s') = outside_audit (delete_user_rows (u_id u) (tabs s)))) s"
    unfolding DeleteUserByName_def DeleteUser_def
    by (auto simp: wp_simps wp_transaction Let_def split: option.splits)
  with assms obtain u where u: "first_by u_id (\<lambda>u. u_name u = rq_path_value r ''name'') (t_users (tabs s)) = Some u"
    and t': "outside_audit (tabs s') = outside_audit (delete_user_rows (u_id u) (tabs s))" by (auto dest: wpD)
  let ?d = "delete_user_rows (u_id u) (tabs s)"
  from t' have "t_users (tabs s') = t_users ?d" "t_sessions (tabs s') = t_sessions ?d" "t_pats (tabs s') = t_pats ?d"
      "t_capability_tokens (tabs s') = t_capability_tokens ?d" "t_user_permissions (tabs s') = t_user_permissions ?d"
    by (cases "tabs s'"; cases ?d; simp add: outside_audit_def)+
  with u show ?thesis
    by (auto simp: delete_user_rows_def Let_def live_session_def live_pat_def live_token_def)
qed

theorem DeleteUserByName_leaves_no_credential_witness:
  "\<exists>u. u_name u = ''alice'' \<and>
     \<not> live_session admin_env ''sess_1'' (tabs (poststate (DeleteUserByName admin_env admin_request) admin_st)) u"
proof -
  have "rs_status (outcome (DeleteUserByName admin_env admin_request) admin_st) = 204" by code_simp
  from DeleteUserByName_leaves_no_credential [OF run_state_result_after this]
  show ?thesis by (fastforce simp: admin_request_def dest: first_by_Some_in)
qed

lemma first_by_snoc:
  "first_by k P (xs @ [x]) =
     (case first_by k P xs of
        None \<Rightarrow> (if P x then Some x else None)
      | Some y \<Rightarrow> (if P x \<and> k x < k y then Some x else Some y))"
  by (induction xs) (auto split: option.splits)

lemma wp_State: "wp (State f) Q s = (case f s of (r, s') \<Rightarrow> Q r s')"
  by (simp add: wp_def)

text \<open>Names of users are not checked for uniqueness: creating a user whose name is taken
  succeeds, but the name keeps meaning the older user. The new password does not log in,
  the old one still does.\<close>

theorem duplicate_user_shadowed:
  assumes "no_faults E" and "db_inv (tabs s) (seqs s)"
    and "first_by u_id (\<lambda>u. u_name u = ub_name body) (t_users (tabs s)) = Some u"
    and "decode_body E decode_user_body r = Some body" and "ub_name body \<noteq> []" and "ub_pass body \<noteq> []"
    and "cx_bootstrap (rq_ctx r) = False" and "outcome (requireMetaUser E r VerbTypeWrite) s"
    and "bcrypt_hash E (nrand s) (ub_pass body) = Some h"
    and "run_state (api_CreateUser E r) s = (resp, s')"
    and "bcrypt_compare E (u_pass u) (ub_pass body) = False"
  shows "rs_status resp = 204 \<and> length (t_users (tabs s')) = Suc (length (t_users (tabs s)))
     \<and> outcome (Login E (ub_name body) (ub_pass body)) s' = Inl ErrInvalidCredentials"
proof -
  have le: "x \<in> set (t_users (tabs s)) \<Longrightarrow> u_id x \<le> seqs s TUsers" for x
    using assms(2) by (auto simp: db_inv_def keys_ok_def keyed_def)
  have shadow: "first_by u_id (\<lambda>u. u_name u = ub_name body) (t_users (tabs s) @ [x]) = Some u"
    if "u_id x = Suc (seqs s TUsers)" for x
    using assms(3) le [of u] first_by_Some_in [OF assms(3)] that by (simp add: first_by_snoc)
  have "wp (api_CreateUser E r) (\<lambda>resp s'. rs_status resp = 204
      \<and> length (t_users (tabs s')) = Suc (length (t_users (tabs s)))
      \<and> first_by u_id (\<lambda>u. u_name u = ub_name body) (t_users (tabs s')) = Some u) s"
    unfolding api_CreateUser_def bcrypt_generate_def using assms(1,4-9)
    by (simp add: wp_simps wp_State ins_user.wp_insert Let_def shadow)
  with assms(10) have "rs_status resp = 204 \<and> length (t_users (tabs s')) = Suc (length (t_users (tabs s)))"
    and found: "first_by u_id (\<lambda>u. u_name u = ub_name body) (t_users (tabs s')) = Some u" by (auto dest: wpD)
  moreover have "wp (Login E (ub_name body) (ub_pass body)) (\<lambda>x _. x = Inl ErrInvalidCredentials) s'"
    unfolding Login_def using found assms(1,11) by (simp add: wp_simps)
  ultimately show ?thesis by (simp add: wp_run)
qed

definition dup_env :: env where
  "dup_env = example_env\<lparr>json_Decode := (\<lambda>_. Some (JObj [(''name'', JStr ''alice''), (''pass'', JStr ''other'')]))\<rparr>"

definition dup_body :: user_body where
  "dup_body = \<lparr>ub_name = ''alice'', ub_email = [], ub_pass = ''other''\<rparr>"

lemma dup_evaluated:
  "first_by u_id (\<lambda>u. u_name u = ub_name dup_body) (t_users (tabs admin_st)) = Some example_user"
  "decode_body dup_env decode_user_body admin_request = Some dup_body"
  "outcome (requireMetaUser dup_env admin_request VerbTypeWrite) admin_st"
  "cx_bootstrap (rq_ctx admin_request) = False"
  "bcrypt_hash dup_env (nrand admin_st) (ub_pass dup_body) = Some ''other''"
  "bcrypt_compare dup_env (u_pass example_user) (ub_pass dup_body) = False"
  by code_simp+

theorem duplicate_user_shadowed_witness:
  "outcome (Login dup_env ''alice'' ''other'') (poststate (api_CreateUser dup_env admin_request) admin_st)
     = Inl ErrInvalidCredentials"
proof -
  have "no_faults dup_env" by (simp add: no_faults_def dup_env_def)
  from duplicate_user_shadowed [OF this admin_db_inv dup_evaluated(1,2) _ _ dup_evaluated(4,3,5)
      run_state_result_after dup_evaluated(6)]
  show ?thesis by (simp add: dup_body_def)
qed

end
