(* ===== verification/System_Props.thy ===== *)
theory System_Props
  imports Admin_Props
begin

text \<open>
  Properties of whole runs of the server: the integrity of the database in every reachable
  state, what is only ever added to, and the history of a resource.
\<close>

subsection \<open>A run\<close>

text \<open>
  The admin tokens arrive, and the holder of one creates the first user.
\<close>

definition boot_env :: env where
  "boot_env = example_env\<lparr>json_Unmarshal := (\<lambda>_. Some (JArr [JStr ''boot''])),
     json_Decode := (\<lambda>_. Some (JObj [(''name'', JStr ''root''), (''pass'', JStr ''pw'')]))\<rparr>"

definition boot_event :: watch_event where
  "boot_event = Fetched (Some (\<lambda>_. Some ''x''))"

definition boot_request :: request where
  "boot_request = refresh_request\<lparr>rq_segments := [''admin'', ''user''],
     rq_header := (\<lambda>h. if h = ''Authorization'' then ''Bearer boot'' else [])\<rparr>"

definition tokens_st :: st where
  "tokens_st = poststate (watch_next (applyAdminTokens boot_env) ''admin_tokens'' Fetching boot_event) init_st"

definition boot_st :: st where
  "boot_st = poststate (server boot_env boot_request) tokens_st"

lemma boot_steps: "steps init_st boot_st"
proof -
  have "step init_st tokens_st" unfolding tokens_st_def by (rule step.admin_tokens_event)
  moreover have "step tokens_st boot_st"
    unfolding boot_st_def by (rule step.request) (simp add: boot_request_def refresh_request_def)
  ultimately show ?thesis by (meson rtranclp.rtrancl_into_rtrancl rtranclp.rtrancl_refl)
qed

lemma tokens_st_simps: "admin_tokens tokens_st = [''boot'']" "tabs tokens_st = empty_tables"
  "allowed_origins tokens_st = []" "ncalls tokens_st = 0"
proof -
  have "Option.bind (json_Unmarshal boot_env ''x'') decode_strings = Some [''boot'']" by code_simp
  then show "admin_tokens tokens_st = [''boot'']" "tabs tokens_st = empty_tables" "allowed_origins tokens_st = []"
    "ncalls tokens_st = 0"
    by (simp_all add: tokens_st_def boot_event_def poststate_def applyAdminTokens_def cm_data_def init_st_def)
qed

lemma boot_evaluated:
  "find_route (inner_routes boot_env) (boot_request\<lparr>rq_ctx := cx\<rparr>) = Some ([], api_CreateUser boot_env)"
  "rq_path boot_request = ''/admin/user''" "bearer boot_request = ''boot''" "rq_method boot_request = ''POST''"
  "rq_segments boot_request = [''admin'', ''user'']" "rq_ctx boot_request = no_context" 
  by (simp_all add: boot_request_def refresh_request_def inner_routes_def method_matches_def rq_path_def
      bearer_def TrimPrefix_def)

lemma boot_decoded:
  "decode_body boot_env decode_user_body (boot_request\<lparr>rq_ctx := cx, rq_path_value := f\<rparr>) =
     Some \<lparr>ub_name = ''root'', ub_email = [], ub_pass = ''pw''\<rparr>"
  unfolding decode_body_def boot_request_def refresh_request_def by code_simp

lemma boot_env_simps: "db_fault boot_env k = False" "bcrypt_hash boot_env i p = Some p"
  by (simp_all add: boot_env_def)

lemma keeps_users_bootstrap: "keeps (\<lambda>s. t_users (tabs s)) (bootstrap_user E i)"
  unfolding bootstrap_user_def grant_user_def AddPermissionToUser_def
  by (intro keeps_intros ins_permission.keeps_insert_part keeps_db_exec_part)
    (auto simp: ensure_permission_def split: if_splits)

lemma boot_users: "map u_name (t_users (tabs boot_st)) = [''root'']"
proof -
  have "wp (server boot_env boot_request) (\<lambda>_ s'. map u_name (t_users (tabs s')) = [''root'']) tokens_st"
    unfolding server_def CORSMiddleware_def AuthMiddleware_def inner_def serve_mux_def
    by (simp add: wp_simps tokens_st_simps boot_evaluated Let_def AllowedOrigins_def method_matches_def
        public_paths_def IsBootstrapToken_def api_CreateUser_def boot_decoded bcrypt_generate_def wp_State
        ins_user.wp_insert wp_run [of "bootstrap_user boot_env i" for i] keeps_after [OF keeps_users_bootstrap]
        boot_env_simps empty_tables_def split: sum.splits)
  then show ?thesis by (simp add: boot_st_def wp_run)
qed

subsection \<open>Every reachable state\<close>

text \<open>C4. In every state that requests and watcher events lead to from a freshly migrated
  database, whatever fails on the way, the keys of every table are different and below its
  sequence, every foreign key refers to a stored row, the versions of every resource are
  numbered 1, 2, 3, and so on, encrypted values have their key, and no namespace has the
  reserved name.\<close>

theorem reachable_integrity:
  assumes "reachable s"
  shows "db_inv (tabs s) (seqs s)"
  using consistent.related_steps [of init_st s] assms db_inv_init
  by (simp add: reachable_def intact_def init_st_def)

theorem reachable_integrity_witness:
  "db_inv (tabs boot_st) (seqs boot_st) \<and> map u_name (t_users (tabs boot_st)) = [''root'']"
  using reachable_integrity [of boot_st] boot_steps boot_users by (simp add: reachable_def)

text \<open>C20. The audit log is append-only: no sequence of requests and watcher events removes,
  reorders or changes an entry. The same holds of the permission rows (revoking only removes
  links to them) and of the stored data encryption keys.\<close>

theorem history_is_append_only:
  assumes "steps s s'"
  shows "prefix (t_audit_logs (tabs s)) (t_audit_logs (tabs s'))
     \<and> prefix (t_permissions (tabs s)) (t_permissions (tabs s'))
     \<and> prefix (t_encryption_keys (tabs s)) (t_encryption_keys (tabs s'))"
  using growing.related_steps [OF assms] by (simp add: appended_def)

theorem history_is_append_only_witness:
  "prefix (t_permissions (tabs boot_st)) (t_permissions (tabs (poststate (server boot_env boot_request) boot_st)))"
proof -
  have "steps boot_st (poststate (server boot_env boot_request) boot_st)"
    by (rule r_into_rtranclp, rule step.request) (simp add: boot_evaluated)
  from history_is_append_only [OF this] show ?thesis by simp
qed

subsection \<open>Versions\<close>

lemma numbered_nth:
  assumes "numbered vs" "m < length vs"
  shows "rv_version (vs ! m) = Suc m"
proof -
  have "map rv_version vs ! m = [1..<Suc (length vs)] ! m" using assms(1) by (simp only: numbered_def)
  with assms(2) show ?thesis by (simp del: upt_Suc)
qed

lemma in_values_of: "v \<in> set (values_of t i) \<longleftrightarrow> v \<in> set (t_resource_values t) \<and> rv_resource_id v = i"
  by (auto simp: values_of_def)

lemma numbered_inj: "numbered vs \<Longrightarrow> v \<in> set vs \<Longrightarrow> 1 \<le> rv_version v \<and> rv_version v \<le> length vs \<and> v = vs ! (rv_version v - 1)"
  by (auto simp: in_set_conv_nth numbered_nth)

lemma find_version:
  assumes "numbered (values_of t i)"
  shows "first_by rv_uuid (\<lambda>v. rv_resource_id v = i \<and> rv_version v = k) (t_resource_values t) =
     (if 1 \<le> k \<and> k \<le> length (values_of t i) then Some (values_of t i ! (k - 1)) else None)"
proof (cases "1 \<le> k \<and> k \<le> length (values_of t i)")
  case True
  let ?v = "values_of t i ! (k - 1)"
  have "?v \<in> set (values_of t i)" "rv_version ?v = k"
    using True numbered_nth [OF assms, of "k - 1"] by auto
  with True numbered_inj [OF assms] show ?thesis
    by (auto intro!: first_by_unique simp: in_values_of)
next
  case False
  then have "first_by rv_uuid (\<lambda>v. rv_resource_id v = i \<and> rv_version v = k) (t_resource_values t) = None"
    using numbered_inj [OF assms] by (auto simp: first_by_None_iff in_values_of)
  with False show ?thesis by (simp only: if_False)
qed

lemma latest_is_last:
  assumes "numbered (values_of t i)"
  shows "latest_value t i = (if values_of t i = [] then None else Some (last (values_of t i)))"
proof (cases "latest_value t i")
  case None
  then have "set (values_of t i) = {}"
    by (auto simp: latest_value_def first_by_None_iff values_of_def)
  with None show ?thesis by simp
next
  case (Some v)
  let ?vs = "values_of t i"
  have v: "v \<in> set ?vs" using first_by_Some_in [OF Some [unfolded latest_value_def]] by (simp add: in_values_of)
  then have ne: "?vs \<noteq> []" by auto
  then have "last ?vs \<in> set ?vs" "rv_version (last ?vs) = length ?vs"
    using numbered_nth [OF assms, of "length ?vs - 1"] by (simp_all add: last_conv_nth)
  moreover from this have "rv_version (last ?vs) \<le> rv_version v"
    using first_by_Some_least [OF Some [unfolded latest_value_def], of "last ?vs"] by (simp add: in_values_of)
  ultimately have "v = last ?vs"
    using numbered_inj [OF assms v] ne by (auto simp: last_conv_nth)
  with Some ne show ?thesis by simp
qed


text \<open>A resource with two versions that anonymous callers may write.\<close>

definition hist_value :: "uint \<Rightarrow> string \<Rightarrow> resource_value" where
  "hist_value k d = (new_value 1 d EncryptionAlgorithmUndefined None)\<lparr>rv_uuid := 100 + k, rv_version := k\<rparr>"

definition hist_st :: st where
  "hist_st = example_st\<lparr>tabs := example_tables\<lparr>
     t_anon_permissions := [\<lparr>ap_id = 1, ap_resource_pattern = ''public/*'', ap_verb = VerbTypeWrite,
                             ap_expires_at = None, ap_created_at = 0\<rparr>],
     t_resources := [leak_resource 1 2 ''x''],
     t_resource_values := [hist_value 1 ''one'', hist_value 2 ''two'']\<rparr>\<rparr>"

lemma hist_values: "values_of (tabs hist_st) i = (if i = 1 then [hist_value 1 ''one'', hist_value 2 ''two''] else [])"
  by (simp add: values_of_def hist_st_def hist_value_def)

lemma hist_db_inv: "db_inv (tabs hist_st) (seqs hist_st)"
proof -
  have "numbered (values_of (tabs hist_st) i)" for i
    by (simp add: hist_values numbered_def hist_value_def upt_rec)
  then show ?thesis
    by (simp add: inv_defs)
      (simp add: hist_st_def example_tables_def empty_tables_def keyed_def example_user_def
        example_perm_def leak_resource_def hist_value_def new_value_def cipher_ok_def)
qed


text \<open>C21. The history of a resource is append-only: as long as a resource is stored, its values stay,
  unchanged and in order, whatever requests and watcher events happen; later values only
  follow them. A deleted resource never comes back with its old key.\<close>

theorem resource_history_append_only:
  assumes "db_inv (tabs s) (seqs s)" and "steps s s'"
    and "i \<in> r_id ` set (t_resources (tabs s'))" and "i \<le> seqs s TResources"
  shows "i \<in> r_id ` set (t_resources (tabs s)) \<and> prefix (values_of (tabs s) i) (values_of (tabs s') i)"
  using lineage.related_steps [OF assms(2)] assms unfolding inherits_def succeeds_def by blast

definition hist_env :: env where
  "hist_env = example_env\<lparr>json_Decode := (\<lambda>_. Some (JObj [(''namespace'', JStr ''public''), (''name'', JStr ''x''),
     (''type'', JStr ''cleartext''), (''value'', JStr ''three'')]))\<rparr>"

definition hist_after :: st where
  "hist_after = poststate (server hist_env put_request) hist_st"

lemma hist_outcome: "map rv_data (values_of (tabs hist_after) 1) = [''one'', ''two'', ''three'']
    \<and> map r_id (t_resources (tabs hist_after)) = [1]"
  by code_simp

theorem resource_history_append_only_witness:
  "prefix (values_of (tabs hist_st) 1) (values_of (tabs hist_after) 1)
   \<and> map rv_data (values_of (tabs hist_after) 1) = [''one'', ''two'', ''three'']"
proof -
  have "steps hist_st hist_after"
    unfolding hist_after_def
    by (rule r_into_rtranclp, rule step.request) (simp add: put_request_def refresh_request_def)
  moreover have "r_id ` set (t_resources (tabs hist_after)) = {1}"
    using arg_cong [of _ _ set, OF conjunct2 [OF hist_outcome]] by simp
  ultimately show ?thesis
    using resource_history_append_only [OF hist_db_inv, of hist_after 1] hist_outcome
    by (simp add: hist_st_def)
qed

end
