(* ===== verification/Token_Props.thy ===== *)
theory Token_Props
  imports Admin_Props
begin

text \<open>
  Properties of the token endpoints: what a capability token and an anonymous token may do,
  and how long an anonymous token lives.
\<close>

subsection \<open>Creating a token with its permissions\<close>

lemma grants_right: "right p = right q \<Longrightarrow> grants n v res p = grants n v res q"
  by (auto simp: right_def grants_def expired_def)

lemma wp_attach_new:
  assumes "db_inv (tabs s) (seqs s)"
  shows "wp (attach_new E i p) (\<lambda>r s'. r = Inr () \<longrightarrow> db_inv (tabs s') (seqs s') \<and>
     t_capability_tokens (tabs s') = t_capability_tokens (tabs s) \<and>
     rights (t_capability_token_permissions (tabs s')) (tabs s') i =
       insert (right p) (rights (t_capability_token_permissions (tabs s)) (tabs s) i)) s"
proof -
  have "wp (attach_new E i p) (\<lambda>_ s'. db_inv (tabs s') (seqs s')) s"
    using moves_poststate [OF safe_attach_rows(1)] assms by (simp add: wp_run intact_def)
  moreover have "wp (attach_new E i p) (\<lambda>_ s'. t_capability_tokens (tabs s') = t_capability_tokens (tabs s)) s"
    unfolding attach_new_def AddPermissionToCapabilityToken_def
    by (auto simp: wp_simps ins_permission.wp_insert Let_def ensure_permission_def)
  moreover note token_account.wp_create_attach [OF assms, of E p i, folded attach_new_def]
  ultimately show ?thesis by (simp add: wp_run)
qed

lemma wp_attach_all:
  assumes "db_inv (tabs s) (seqs s)"
  shows "wp (foreach ps (attach_new E i)) (\<lambda>r s'. r = Inr () \<longrightarrow>
     t_capability_tokens (tabs s') = t_capability_tokens (tabs s) \<and>
     rights (t_capability_token_permissions (tabs s')) (tabs s') i =
       rights (t_capability_token_permissions (tabs s)) (tabs s) i \<union> right ` set ps) s"
proof (rule wp_foreach_visited [where I = "\<lambda>xs t. db_inv (tabs t) (seqs t) \<and>
     t_capability_tokens (tabs t) = t_capability_tokens (tabs s) \<and>
     rights (t_capability_token_permissions (tabs t)) (tabs t) i =
       rights (t_capability_token_permissions (tabs s)) (tabs s) i \<union> right ` set xs"], goal_cases)
  case (2 xs p t)
  then show ?case by (intro wp_mono [OF wp_attach_new]) (auto split: sum.splits)
qed (use assms in auto)

text \<open>The token is stored with exactly the given rights; a failure stores nothing at all.\<close>

lemma wp_create_token:
  assumes inv: "db_inv (tabs s) (seqs s)"
  shows "wp (create_token E ct ps) (\<lambda>r s'. case r of
       Inl _ \<Rightarrow> tabs s' = tabs s
     | Inr _ \<Rightarrow> \<exists>i. t_capability_tokens (tabs s') =
          t_capability_tokens (tabs s) @ [ct\<lparr>ct_id := i, ct_created_at := now E\<rparr>]
        \<and> rights (t_capability_token_permissions (tabs s')) (tabs s') i = right ` set ps) s"
proof -
  let ?i = "Suc (seqs s TCapabilityTokens)"
  let ?q = "(seqs s)(TCapabilityTokens := ?i)"
  let ?t = "(tabs s)\<lparr>t_capability_tokens := t_capability_tokens (tabs s) @ [ct\<lparr>ct_id := ?i, ct_created_at := now E\<rparr>]\<rparr>"
  have none: "rights (t_capability_token_permissions (tabs s)) (tabs s) ?i = {}"
    using inv by (force simp: rights_def linked_def db_inv_def keys_ok_def refs_ok_def keyed_def)
  have inserted: "db_inv ?t ?q" if "case ct_issued_by ct of None \<Rightarrow> True | Some u \<Rightarrow> user_exists u (tabs s)"
    using inv that by (auto simp: inv_defs values_of_def exists_simps split: option.splits)
  have loop: "wp (foreach ps (attach_new E ?i)) (\<lambda>r s'. case r of
       Inl e \<Rightarrow> True
     | Inr _ \<Rightarrow> t_capability_tokens (tabs s') = t_capability_tokens ?t
        \<and> rights (t_capability_token_permissions (tabs s')) (tabs s') ?i = right ` set ps) u"
    if "tabs u = ?t" "seqs u = ?q" "db_inv ?t ?q" for u
    using that none
    by (intro wp_mono [OF wp_attach_all]) (auto simp: rights_def linked_def split: sum.splits)
  show ?thesis
    unfolding create_token_def wp_transaction using inserted
    by (auto simp: wp_simps ins_token.wp_insert Let_def intro!: wp_mono [OF loop] split: sum.splits if_splits
        cong: option.case_cong)
qed

subsection \<open>Capability tokens\<close>

text \<open>The issuer's own permissions contain one that matches the text of the requested pattern.\<close>

definition covered :: "time \<Rightarrow> tables \<Rightarrow> principal \<Rightarrow> permissionEntry \<Rightarrow> bool" where
  "covered n t pr e \<longleftrightarrow> (\<exists>ps. own_perms pr t = Some ps \<and> (\<exists>p\<in>set ps. grants n (pe_verb e) (pe_resource_pattern e) p))"

lemma check_entry_covered:
  "outcome (check_entry E pr e) s = Inr () \<Longrightarrow> covered (now E) (tabs s) pr e"
proof -
  have "wp (check_entry E pr e) (\<lambda>x _. x = Inr () \<longrightarrow> covered (now E) (tabs s) pr e) s"
    unfolding check_entry_def
    by (auto simp: wp_simps SplitN_2 covered_def own_policy_def Let_def before_after_sep
        dest!: own_check.result_check split: if_splits)
  then show "outcome (check_entry E pr e) s = Inr () \<Longrightarrow> covered (now E) (tabs s) pr e" by (simp add: wp_run)
qed

lemma keeps_core_check_entry: "keeps core (check_entry E pr e)"
  unfolding check_entry_def Let_def by (intro keeps_intros)

lemma wp_check_entries:
  "wp (foreach es (check_entry E pr)) (\<lambda>x s'. core s' = core s \<and>
     (x = Inr () \<longrightarrow> (\<forall>e\<in>set es. covered (now E) (tabs s) pr e))) s"
proof (rule wp_foreach_visited [where I = "\<lambda>xs t. core t = core s \<and> (\<forall>e\<in>set xs. covered (now E) (tabs s) pr e)"], goal_cases)
  case (2 xs e t)
  then have t: "tabs t = tabs s" by (blast dest: core_eqD(1))
  have c: "core (poststate (check_entry E pr e) t) = core s"
    using keeps_after [OF keeps_core_check_entry, of E pr e t] 2 by simp
  show ?case
    using 2 c check_entry_covered [of E pr e t] by (auto simp: wp_run t split: sum.splits)
qed auto

lemma wp_GenerateToken_frame: "wp (GenerateToken E) (\<lambda>_ s'. tabs s' = tabs s \<and> seqs s' = seqs s) s"
  by (auto simp: GenerateToken_def wp_simps split: option.splits)

lemma wp_check_entries_status:
  "wp (foreach es (check_entry E pr)) (\<lambda>x _. \<forall>resp. x = Inl resp \<longrightarrow> rs_status resp \<in> {400, 401}) s"
proof (rule wp_foreach_visited [where I = "\<lambda>_ _. True"], goal_cases)
  case (2 xs e t)
  show ?case unfolding check_entry_def by (auto simp: wp_simps Let_def split: sum.splits)
qed auto

text \<open>What a token with given rights may do, and what covering means when patterns only use stars.\<close>

lemma token_policy_entry:
  assumes "own_policy n t (NewPrincipalFromToken c) v ns name"
    and "rights (t_capability_token_permissions t) t (ct_id c) = right ` entry_permission ` set es"
  shows "\<exists>e\<in>set es. grants n v (ns @ ''/'' @ name) (entry_permission e)"
proof -
  from assms(1) obtain p where p: "p \<in> set (linked (t_capability_token_permissions t) (ct_id c) t)"
    and g: "grants n v (ns @ ''/'' @ name) p"
    by (auto simp: own_policy_def own_perms_def NewPrincipalFromToken_def)
  with assms(2) obtain e where "e \<in> set es" "right p = right (entry_permission e)"
    unfolding rights_def by blast
  with g grants_right show ?thesis by blast
qed

lemma token_policy_of_rights:
  assumes "rights (t_capability_token_permissions t) t (ct_id c) = right ` entry_permission ` set es"
    and "e \<in> set es" and "grants n v (ns @ ''/'' @ name) (entry_permission e)"
  shows "own_policy n t (NewPrincipalFromToken c) v ns name"
proof -
  have "right (entry_permission e) \<in> right ` set (linked (t_capability_token_permissions t) (ct_id c) t)"
    using assms(1,2) unfolding rights_def by blast
  then obtain p where p: "p \<in> set (linked (t_capability_token_permissions t) (ct_id c) t)"
    and same: "right p = right (entry_permission e)" by auto
  from p assms(3) [folded grants_right [OF same]] show ?thesis
    by (auto simp: own_policy_def own_perms_def NewPrincipalFromToken_def)
qed

lemma covered_policy:
  assumes "covered n t pr e" and "grants n v (ns @ ''/'' @ name) (entry_permission e)"
    and "star_pattern (pe_resource_pattern e)" and "pe_resource_pattern e \<noteq> ''*/*''"
    and "\<forall>p\<in>set (t_permissions t). star_pattern (p_resource_pattern p)"
  shows "own_policy n t pr v ns name"
proof -
  from assms(1) obtain ps p where ps: "own_perms pr t = Some ps" "p \<in> set ps"
    and p: "grants n (pe_verb e) (pe_resource_pattern e) p" by (auto simp: covered_def)
  then have "p \<in> set (t_permissions t)"
    by (auto simp: own_perms_def linked_def split: if_splits)
  with assms(5) have "star_pattern (p_resource_pattern p)" by blast
  with star_pattern_trans [OF this assms(3,4)] p assms(2)
  have "grants n v (ns @ ''/'' @ name) p"
    by (auto simp: grants_def entry_permission_def NewPermission_def Let_def)
  with ps show ?thesis by (auto simp: own_policy_def)
qed

text \<open>What issuing a capability token leaves behind.\<close>

definition token_issued :: "env \<Rightarrow> tables \<Rightarrow> user \<Rightarrow> permissionEntry list \<Rightarrow> tables \<Rightarrow> bool" where
  "token_issued E t u es t' \<longleftrightarrow> (\<forall>e\<in>set es. covered (now E) t (NewPrincipalFromUser u) e)
     \<and> (\<exists>c. t_capability_tokens t' = t_capability_tokens t @ [c] \<and> ct_issued_by c = Some (u_id u)
        \<and> rights (t_capability_token_permissions t') t' (ct_id c) = right ` entry_permission ` set es)"

lemma token_issued_audit [simp]: "token_issued E t u es (t'\<lparr>t_audit_logs := x\<rparr>) = token_issued E t u es t'"
  by (simp add: token_issued_def)

lemma wp_issue_create:
  assumes "db_inv t (seqs s)" and "\<forall>e\<in>set es. covered (now E) t (NewPrincipalFromUser u) e"
    and "ct_issued_by ct = Some (u_id u)" and "tabs s = t"
  shows "wp (attempt (create_token E ct (map entry_permission es)) (\<lambda>_. internal_error)
       (\<lambda>_. do { _ \<leftarrow> WriteAudit E r a b c d; answer (write_json (TokenBody tok)) }))
     (\<lambda>resp s'. rs_status resp = 200 \<longrightarrow> token_issued E t u es (tabs s')) s"
  unfolding wp_attempt using assms
  by (intro wp_mono [OF wp_create_token])
    (auto simp: wp_simps Let_def token_issued_def image_image split: sum.splits)

lemma wp_issue_generate:
  assumes "db_inv (tabs s) (seqs s)" and "\<forall>e\<in>set es. covered (now E) (tabs s) (NewPrincipalFromUser u) e" and "core t = core s"
    and "\<And>tok. ct_issued_by (ct tok) = Some (u_id u)"
  shows "wp (attempt_some (GenerateToken E) internal_error (\<lambda>raw.
       attempt (create_token E (ct raw) (map entry_permission es)) (\<lambda>_. internal_error)
         (\<lambda>_. do { _ \<leftarrow> WriteAudit E r a b c d; answer (write_json (TokenBody (text raw))) })))
     (\<lambda>resp s'. rs_status resp = 200 \<longrightarrow> token_issued E (tabs s) u es (tabs s')) t"
  unfolding wp_attempt_some
proof (rule wp_mono [OF wp_GenerateToken_frame], goal_cases)
  case (1 x t')
  with core_eqD(1,2) [OF assms(3)] assms(1) have "db_inv (tabs s) (seqs t')" "tabs t' = tabs s" by simp_all
  from wp_issue_create [OF this(1) assms(2,4) this(2)] show ?case by (cases x) simp_all
qed

lemma wp_issue_entries:
  assumes "\<And>t. \<forall>e\<in>set es. covered (now E) (tabs s) (NewPrincipalFromUser u) e \<Longrightarrow> core t = core s \<Longrightarrow>
          wp (k ()) (\<lambda>resp s'. rs_status resp = 200 \<longrightarrow> X s') t"
  shows "wp (attempt (foreach es (check_entry E (NewPrincipalFromUser u))) (\<lambda>resp. resp) k)
     (\<lambda>resp s'. rs_status resp = 200 \<longrightarrow> X s') s"
  unfolding wp_attempt using assms
  by (intro wp_mono [OF wp_conj [THEN iffD2, OF conjI, OF wp_check_entries wp_check_entries_status]]) (auto split: sum.splits)

lemma wp_IssueCapabilityToken:
  assumes "db_inv (tabs s) (seqs s)" and "cx_user (rq_ctx r) = Some u"
    and "decode_body E (decode_capability_body E) r = Some body"
  shows "wp (IssueCapabilityToken E r)
     (\<lambda>resp s'. rs_status resp = 200 \<longrightarrow> token_issued E (tabs s) u (capb_permissions body) (tabs s')) s"
  unfolding IssueCapabilityToken_def assms(2,3) Let_def option.case wp_if
  by (simp add: wp_return, intro impI wp_issue_entries wp_issue_generate assms(1)) simp_all


definition cap_env :: "string \<Rightarrow> env" where
  "cap_env pat = example_env\<lparr>json_Decode := (\<lambda>_. Some (JObj [(''permissions'',
     JArr [JObj [(''verb'', JStr ''read''), (''resource_pattern'', JStr pat)]])]))\<rparr>"

definition cap_request :: request where
  "cap_request = put_request\<lparr>rq_ctx := no_context\<lparr>cx_user := Some example_user, cx_auth_method := AuthMethodSession\<rparr>\<rparr>"

definition cap_body :: "string \<Rightarrow> capability_body" where
  "cap_body pat = \<lparr>capb_permissions = [\<lparr>pe_verb = VerbTypeRead, pe_resource_pattern = pat, pe_expires_at = None\<rparr>]\<rparr>"

lemma cap_decoded:
  "decode_body (cap_env ''prod/db*'') (decode_capability_body (cap_env ''prod/db*'')) cap_request = Some (cap_body ''prod/db*'')"
  "decode_body (cap_env ''prod/*'') (decode_capability_body (cap_env ''prod/*'')) cap_request = Some (cap_body ''prod/*'')"
  by code_simp+

lemma cap_stars: "star_pattern ''prod/*''" "star_pattern ''prod/db*''"
  by code_simp+

lemma cap_user: "cx_user (rq_ctx cap_request) = Some example_user"
  by (simp add: cap_request_def)

lemma example_db_inv: "db_inv (tabs example_st) (seqs example_st)"
  by (simp add: inv_defs example_tables_def empty_tables_def keyed_def example_user_def example_perm_def values_of_def)

text \<open>Issuing succeeds when the issuer is covered and nothing fails.\<close>

lemma cap_issues:
  assumes "outcome (check_entry (cap_env pat) (NewPrincipalFromUser example_user)
      \<lparr>pe_verb = VerbTypeRead, pe_resource_pattern = pat, pe_expires_at = None\<rparr>) s = Inr ()"
    and "decode_body (cap_env pat) (decode_capability_body (cap_env pat)) cap_request = Some (cap_body pat)"
    and "t_users (tabs s) = [example_user]"
  shows "rs_status (outcome (IssueCapabilityToken (cap_env pat) cap_request) s) = 200"
proof -
  have env: "db_fault (cap_env pat) k = False" "rand_read (cap_env pat) i n = Some (replicate n (char_of (97 + i)))" for k i n
    by (simp_all add: cap_env_def)
  have "wp (IssueCapabilityToken (cap_env pat) cap_request) (\<lambda>resp _. rs_status resp = 200) s"
    unfolding IssueCapabilityToken_def cap_user assms(2) using assms(1,3)
      keeps_core_after [OF keeps_core_check_entry, of "cap_env pat"]
    by (simp add: wp_simps cap_body_def Let_def GenerateToken_def create_token_def wp_transaction attach_new_def
        ins_token.wp_insert ins_permission.wp_insert AddPermissionToCapabilityToken_def token_exists_def
        wp_run [of "check_entry (cap_env pat) pr e" for pr e] env user_exists_def)
  then show ?thesis by (simp add: wp_run)
qed


definition narrow_st :: st where
  "narrow_st = example_st\<lparr>tabs := example_tables\<lparr>
     t_permissions := [example_perm 1 VerbTypeRead ''prod/?''], t_user_permissions := [(1, 1)]\<rparr>\<rparr>"

text \<open>With other wildcards the check at issue is too weak: it looks the requested pattern up as if it
  were the name of a resource. A user whose only read permission is \<open>prod/?\<close>, which matches
  names of one character, is issued a token for \<open>prod/*\<close>, and the token reads \<open>prod/db\<close>, which
  the user may not read.\<close>

theorem capability_exceeds_issuer:
  "rs_status (outcome (IssueCapabilityToken (cap_env ''prod/*'') cap_request) narrow_st) = 200
   \<and> outcome (Check (cap_env ''prod/*'') (NewPrincipalFromUser example_user) VerbTypeRead ''prod'' ''db'') narrow_st = Inr False
   \<and> (\<exists>c. t_capability_tokens (tabs (poststate (IssueCapabilityToken (cap_env ''prod/*'') cap_request) narrow_st)) = [c]
       \<and> own_policy 1000 (tabs (poststate (IssueCapabilityToken (cap_env ''prod/*'') cap_request) narrow_st))
           (NewPrincipalFromToken c) VerbTypeRead ''prod'' ''db'')"
proof -
  let ?s = "poststate (IssueCapabilityToken (cap_env ''prod/*'') cap_request) narrow_st"
  have "outcome (check_entry (cap_env ''prod/*'') (NewPrincipalFromUser example_user)
      \<lparr>pe_verb = VerbTypeRead, pe_resource_pattern = ''prod/*'', pe_expires_at = None\<rparr>) narrow_st = Inr ()"
    by code_simp
  from cap_issues [OF this cap_decoded(2)]
  have ok: "rs_status (outcome (IssueCapabilityToken (cap_env ''prod/*'') cap_request) narrow_st) = 200"
    by (simp add: narrow_st_def)
  have inv: "db_inv (tabs narrow_st) (seqs narrow_st)"
    by (simp add: narrow_st_def inv_defs example_tables_def empty_tables_def keyed_def example_user_def
        example_perm_def values_of_def)
  have "token_issued (cap_env ''prod/*'') (tabs narrow_st) example_user (capb_permissions (cap_body ''prod/*'')) (tabs ?s)"
    using wp_IssueCapabilityToken [OF inv cap_user cap_decoded(2)] ok by (simp add: wp_run)
  then obtain c where c: "t_capability_tokens (tabs ?s) = [c]"
    "rights (t_capability_token_permissions (tabs ?s)) (tabs ?s) (ct_id c)
       = right ` entry_permission ` set (capb_permissions (cap_body ''prod/*''))"
    by (auto simp: token_issued_def narrow_st_def)
  have "grants 1000 VerbTypeRead ''prod/db'' (entry_permission
      \<lparr>pe_verb = VerbTypeRead, pe_resource_pattern = ''prod/*'', pe_expires_at = None\<rparr>)" by code_simp
  then have "own_policy 1000 (tabs ?s) (NewPrincipalFromToken c) VerbTypeRead ''prod'' ''db''"
    using token_policy_of_rights [OF c(2)] by (simp add: cap_body_def)
  moreover have "outcome (Check (cap_env ''prod/*'') (NewPrincipalFromUser example_user) VerbTypeRead ''prod'' ''db'') narrow_st = Inr False"
    by code_simp
  ultimately show ?thesis using ok c(1) by blast
qed

subsection \<open>Anonymous tokens\<close>

definition anon_issued :: "env \<Rightarrow> tables \<Rightarrow> tables \<Rightarrow> bool" where
  "anon_issued E t t' \<longleftrightarrow> (\<exists>c. t_capability_tokens t' = t_capability_tokens t @ [c] \<and> ct_issued_by c = None
     \<and> ct_expires_at c = Some (now E + anonTokenTTL E)
     \<and> rights (t_capability_token_permissions t') t' (ct_id c)
         = right ` anon_entry_permission ` {p \<in> set (t_anon_permissions t). anon_live (now E) p})"

lemma anon_issued_audit [simp]: "anon_issued E t (t'\<lparr>t_audit_logs := x\<rparr>) = anon_issued E t t'"
  by (simp add: anon_issued_def)

lemma wp_AnonToken:
  assumes "db_inv (tabs s) (seqs s)"
  shows "wp (AnonToken E r) (\<lambda>resp s'. rs_status resp = 200 \<longrightarrow> anon_issued E (tabs s) (tabs s')) s"
proof -
  let ?perms = "filter (anon_live (now E)) (t_anon_permissions (tabs s))"
  have live: "(\<lambda>p. case ap_expires_at p of None \<Rightarrow> True | Some e \<Rightarrow> now E < e) = anon_live (now E)"
    by (simp add: fun_eq_iff anon_live_def)
  have create: "wp (attempt (create_token E \<lparr>ct_id = 0, ct_issued_by = None, ct_token_hash = h,
        ct_expires_at = Some (now E + anonTokenTTL E), ct_created_at = 0, ct_permissions = []\<rparr> (map anon_entry_permission ?perms))
      (\<lambda>_. internal_error) (\<lambda>_. do { _ \<leftarrow> WriteAudit E r a b c d; answer (write_json v) }))
     (\<lambda>resp s'. rs_status resp = 200 \<longrightarrow> anon_issued E (tabs s) (tabs s')) u"
    if "tabs u = tabs s \<and> seqs u = seqs s" for u h a b c d v
    unfolding wp_attempt using assms that
    by (intro wp_mono [OF wp_create_token])
      (auto simp: wp_simps Let_def anon_issued_def image_image split: sum.splits)
  have gen: "wp (GenerateToken E) (\<lambda>x. case x of None \<Rightarrow> Q internal_error | Some raw \<Rightarrow> wp (k raw) Q) (tick s)"
    if "\<And>raw u. tabs u = tabs s \<and> seqs u = seqs s \<Longrightarrow> wp (k raw) Q u" "\<And>u. Q internal_error u" for k Q
    by (rule wp_mono [OF wp_GenerateToken_frame]) (use that in \<open>auto split: option.splits\<close>)
  show ?thesis
    unfolding AnonToken_def ListAnonPermissions_def live wp_attempt wp_db_query
    by (auto simp: wp_return wp_attempt_some Let_def intro!: gen create)
qed


lemma anon_example:
  "rs_status (outcome (AnonToken example_env put_request) example_st) = 200"
proof -
  have "wp (AnonToken example_env put_request) (\<lambda>resp _. rs_status resp = 200) example_st"
    unfolding AnonToken_def ListAnonPermissions_def
    by (simp add: wp_simps Let_def GenerateToken_def create_token_def wp_transaction attach_new_def
        ins_token.wp_insert ins_permission.wp_insert AddPermissionToCapabilityToken_def token_exists_def
        example_tables_def)
  then show ?thesis by (simp add: wp_run)
qed


subsection \<open>The life time of anonymous tokens\<close>


end
