(* ===== verification/Server_Props.thy ===== *)
theory Server_Props
  imports System_Props Token_Props
begin

text \<open>
  Properties of the assembled server: which answers it gives, which origins it lets through,
  and how much of the audit log it returns.
\<close>

subsection \<open>Results of programs\<close>

definition yields :: "('a \<Rightarrow> bool) \<Rightarrow> ('s, 'a) state \<Rightarrow> bool" where
  "yields P m \<longleftrightarrow> (\<forall>s. P (outcome m s))"

named_theorems yields_intros "structural rules for results"

lemma yields_wp: "yields P m \<longleftrightarrow> (\<forall>s. wp m (\<lambda>x _. P x) s)"
  by (simp add: yields_def wp_run)

lemma yields_return [yields_intros]: "P x \<Longrightarrow> yields P (State_Monad.return x)"
  by (simp add: yields_wp wp_simps)

lemma yields_bind [yields_intros]: "(\<And>x. yields P (f x)) \<Longrightarrow> yields P (State_Monad.bind m f)"
  by (simp add: yields_wp wp_bind wp_run [of m])

lemma yields_if [yields_intros]:
  "(b \<Longrightarrow> yields P m) \<Longrightarrow> (\<not> b \<Longrightarrow> yields P n) \<Longrightarrow> yields P (if b then m else n)"
  by simp

lemma yields_case_option [yields_intros]:
  "(x = None \<Longrightarrow> yields P m) \<Longrightarrow> (\<And>y. x = Some y \<Longrightarrow> yields P (g y)) \<Longrightarrow>
     yields P (case x of None \<Rightarrow> m | Some y \<Rightarrow> g y)"
  by (cases x) auto

lemma yields_case_sum [yields_intros]:
  "(\<And>e. x = Inl e \<Longrightarrow> yields P (m e)) \<Longrightarrow> (\<And>y. x = Inr y \<Longrightarrow> yields P (g y)) \<Longrightarrow>
     yields P (case x of Inl e \<Rightarrow> m e | Inr y \<Rightarrow> g y)"
  by (cases x) auto

lemma yields_case_prod [yields_intros]:
  "(\<And>y z. x = (y, z) \<Longrightarrow> yields P (g y z)) \<Longrightarrow> yields P (case x of (y, z) \<Rightarrow> g y z)"
  by (cases x) auto

lemma yields_let [yields_intros]: "yields P (g v) \<Longrightarrow> yields P (let x = v in g x)"
  by simp

lemma yields_attempt [yields_intros]:
  "(\<And>e. P (h e)) \<Longrightarrow> (\<And>x. yields P (k x)) \<Longrightarrow> yields P (attempt m h k)"
  unfolding attempt_def by (intro yields_intros)

lemma yields_attempt_some [yields_intros]:
  "P h \<Longrightarrow> (\<And>x. yields P (k x)) \<Longrightarrow> yields P (attempt_some m h k)"
  unfolding attempt_some_def by (intro yields_intros)

text \<open>A program whose errors are answers themselves.\<close>

lemma yields_attempt_answer:
  assumes "yields (\<lambda>x. \<forall>resp. x = Inl resp \<longrightarrow> P resp) m" and "\<And>x. yields P (k x)"
  shows "yields P (attempt m (\<lambda>resp. resp) k)"
  using assms by (auto simp: yields_wp wp_attempt wp_run [of m] split: sum.splits)

subsection \<open>Answers\<close>

definition statuses :: "nat set" where
  "statuses = {200, 201, 204, 400, 401, 403, 404, 405, 409, 500, 503}"

definition plain_headers :: "(string \<times> string) list set" where
  "plain_headers = {[], [(''Content-Type'', ''application/json'')],
     [(''Content-Type'', ''text/plain; charset=utf-8''), (''X-Content-Type-Options'', ''nosniff'')]}"

definition answer_ok :: "response \<Rightarrow> bool" where
  "answer_ok resp \<longleftrightarrow> rs_status resp \<in> statuses \<and> rs_headers resp \<in> plain_headers"

lemma answer_ok_simps:
  "answer_ok (http_Error m c) \<longleftrightarrow> c \<in> statuses" "answer_ok (write_json v)" "answer_ok (write_header c) \<longleftrightarrow> c \<in> statuses"
  "answer_ok (not_found_or_500 e)" "answer_ok (pattern_error_response p err)"
  by (simp_all add: answer_ok_def http_Error_def write_json_def write_header_def plain_headers_def statuses_def
      not_found_or_500_def pattern_error_response_def)

lemmas answer_simps = answer_ok_simps statuses_def

lemma answers_tokens:
  "yields answer_ok (api_Login E r)" "yields answer_ok (api_Refresh E r)" "yields answer_ok (api_Logout E r)"
  "yields answer_ok (AnonToken E r)" "yields answer_ok (IssuePAT E r)" "yields answer_ok (RevokePAT E r)"
  "yields answer_ok (RevokeCapabilityToken E r)"
  unfolding api_Login_def api_Refresh_def api_Logout_def AnonToken_def IssuePAT_def RevokePAT_def
    RevokeCapabilityToken_def
  by (intro yields_intros; simp add: answer_simps)+

lemma answers_capability: "yields answer_ok (IssueCapabilityToken E r)"
proof -
  have "yields (\<lambda>x. \<forall>resp. x = Inl resp \<longrightarrow> answer_ok resp) (foreach es (check_entry E pr))" for es pr
    unfolding yields_wp
  proof (rule allI, rule wp_foreach_visited [where I = "\<lambda>_ _. True"], goal_cases)
    case (2 s xs e t)
    show ?case unfolding check_entry_def by (auto simp: wp_simps Let_def answer_simps split: sum.splits)
  qed auto
  then show ?thesis
    unfolding IssueCapabilityToken_def
    by (intro yields_intros yields_attempt_answer; simp add: answer_simps)
qed

lemma answers_admin:
  "yields answer_ok (api_CreateUser E r)" "yields answer_ok (GetAnonInfo E r)"
  "yields answer_ok (DeleteUserByName E r)" "yields answer_ok (GrantPermissions E r)"
  "yields answer_ok (RevokePermissions E r)" "yields answer_ok (api_ListAnonPermissions E r)"
  "yields answer_ok (AddAnonPermissions E r)" "yields answer_ok (api_DeleteAnonPermission E r)"
  unfolding api_CreateUser_def GetAnonInfo_def DeleteUserByName_def GrantPermissions_def RevokePermissions_def
    with_permissions_def api_ListAnonPermissions_def AddAnonPermissions_def api_DeleteAnonPermission_def
  by (intro yields_intros; simp add: answer_simps)+

text \<open>The loops of the reporting handlers fail with an answer.\<close>

lemma answers_query_entries:
  "yields (\<lambda>x. \<forall>resp. x = Inl resp \<longrightarrow> answer_ok resp) (query_entries E es res)"
proof (induction es arbitrary: res)
  case (Cons e es)
  have "yields (\<lambda>x. \<forall>resp. x = Inl resp \<longrightarrow> answer_ok resp) (query_entry E e)"
    unfolding query_entry_def by (intro yields_intros; simp add: answer_simps)
  with Cons show ?case
    by (auto simp: yields_wp wp_bind wp_run [of "query_entry E e"] wp_simps split: sum.splits)
qed (simp add: yields_return)

lemma answers_principal_details:
  "yields (\<lambda>x. \<forall>resp. x = Inl resp \<longrightarrow> answer_ok resp) (principal_details E refs res)"
  by (induction refs arbitrary: res) (auto intro!: yields_intros simp: answer_simps)

lemma answers_reports:
  "yields answer_ok (AdminUser E r)" "yields answer_ok (Principals E r)"
  unfolding AdminUser_def Principals_def
  by (intro yields_intros yields_attempt_answer answers_query_entries answers_principal_details; simp add: answer_simps)+

lemma answers_audit: "yields answer_ok (GetAuditLog E r)"
proof -
  have "parseTimeParam E r x = Inl resp \<Longrightarrow> answer_ok resp" "parse_limit r = Inl resp \<Longrightarrow> answer_ok resp" for x resp
    by (auto simp: parseTimeParam_def parse_limit_def Let_def answer_simps split: if_splits option.splits)
  then show ?thesis
    unfolding GetAuditLog_def by (intro yields_intros; simp add: answer_simps)
qed

lemma answers_namespaces: "yields answer_ok (NamespaceHandler E r)"
  unfolding NamespaceHandler_def namespace_list_def namespace_query_def namespace_create_def
    namespace_delete_def namespace_query_body_def with_namespace_def
  by (intro yields_intros; simp add: answer_simps)

lemma answers_resources: "yields answer_ok (ResourceHandler E r)"
  unfolding ResourceHandler_def handleResourceQuery_def handleResourcePut_def handleResourceDelete_def
    handleGetByUUID_def handleGetResource_def handleListVersions_def select_version_def
    put_namespace_def put_resource_def put_encrypt_def
  by (intro yields_intros; simp add: answer_simps)

lemmas answers_handlers = answers_tokens answers_capability answers_admin answers_reports answers_audit
  answers_namespaces answers_resources

lemma answers_inner: "yields answer_ok (inner E r)"
proof -
  have "yields answer_ok (h r')" if "find_route (inner_routes E) r = Some (bs, h)" for bs h r'
    using find_route_in [OF that] by (auto simp: inner_routes_def intro: answers_handlers)
  then show ?thesis
    unfolding inner_def serve_mux_def by (intro yields_intros; simp add: answer_simps)
qed

lemma answers_auth: "yields answer_ok (AuthMiddleware E (inner E) r)"
  unfolding AuthMiddleware_def by (intro yields_intros answers_inner; simp add: answer_simps)

lemma answers_probes: "yields answer_ok (healthz r)" "yields answer_ok (Ready E r)"
  unfolding healthz_def Ready_def by (intro yields_intros; simp add: answer_simps)+

text \<open>The CORS headers of an answer, and the rest of it.\<close>

lemma wp_server_answer:
  "wp (server E r) (\<lambda>resp _. rs_status resp \<in> statuses \<and>
     (\<exists>hs \<in> plain_headers. rs_headers resp = hs
        \<or> rs_headers resp = cors_headers (allowed_origins s) (rq_header r ''Origin'') @ hs)) s"
proof -
  have auth: "answer_ok (outcome (AuthMiddleware E (inner E) r) s)" "answer_ok (outcome (Ready E r) s)"
      "answer_ok (outcome (healthz r) s)"
    using answers_auth answers_probes by (simp_all add: yields_def)
  have "[] \<in> plain_headers" "204 \<in> statuses" by (simp_all add: plain_headers_def statuses_def)
  with auth show ?thesis
    unfolding server_def CORSMiddleware_def
    by (auto simp: wp_simps wp_run [of "AuthMiddleware E (inner E) r"] wp_run [of "Ready E r"]
        wp_run [of "healthz r"] AllowedOrigins_def Let_def answer_ok_def write_header_def)
qed


subsection \<open>Origins\<close>

text \<open>The reference: the first configured origin that is the wildcard or the origin of the request decides.\<close>

definition deciding_origin :: "string list \<Rightarrow> string \<Rightarrow> string option" where
  "deciding_origin origins origin = find (\<lambda>x. x = ''*'' \<or> x = origin) origins"

lemma deciding_origin_Some: "deciding_origin os origin = Some x \<Longrightarrow> x = ''*'' \<or> x = origin"
  by (auto simp: deciding_origin_def find_Some_iff)

lemma origin_loop_find:
  "origin_loop origin origins = (case deciding_origin origins origin of
     None \<Rightarrow> (False, False) | Some x \<Rightarrow> (True, x = ''*''))"
  unfolding deciding_origin_def by (induction origin origins rule: origin_loop.induct) auto

text \<open>C35. The loop over the configured origins computes the first one that is the wildcard or equals the
  origin of the request, and the server allows exactly that origin: an answer's
  \<open>Access-Control-Allow-Origin\<close> is that configured origin, and it has none when no configured
  origin fits.\<close>

theorem server_allows_configured_origins:
  "origin_loop (rq_header r ''Origin'') (allowed_origins s) =
     (case deciding_origin (allowed_origins s) (rq_header r ''Origin'') of
        None \<Rightarrow> (False, False) | Some x \<Rightarrow> (True, x = ''*''))
   \<and> {v. (''Access-Control-Allow-Origin'', v) \<in> set (rs_headers (outcome (server E r) s))}
       \<subseteq> set_option (deciding_origin (allowed_origins s) (rq_header r ''Origin''))"
proof -
  have "deciding_origin os origin = Some v" if "(''Access-Control-Allow-Origin'', v) \<in> set (cors_headers os origin)" for os origin v
    using that by (auto simp: cors_headers_def origin_loop_find dest: deciding_origin_Some split: option.splits if_splits)
  moreover have "(''Access-Control-Allow-Origin'', v) \<notin> set hs" if "hs \<in> plain_headers" for hs v
    using that by (auto simp: plain_headers_def)
  ultimately show ?thesis
    using wp_server_answer [of E r s] origin_loop_find by (auto simp: wp_run)
qed

subsection \<open>The audit log\<close>

lemma sorted_first: "sorted (map f (take n (sort_key f xs)))"
  by (simp add: take_map [symmetric] sorted_wrt_take)

text \<open>The filters of a query, and a page of the log for a limit.\<close>

definition audit_selects :: "request \<Rightarrow> audit_log \<Rightarrow> bool" where
  "audit_selects r l \<longleftrightarrow> rq_query r ''actor'' \<in> {[], al_actor l} \<and> rq_query r ''action'' \<in> {[], al_action l}
     \<and> rq_query r ''resource'' \<in> {[], al_resource l} \<and> rq_query r ''status'' \<in> {[], al_status l}"

definition audit_page :: "request \<Rightarrow> audit_log list \<Rightarrow> int \<Rightarrow> audit_log list \<Rightarrow> bool" where
  "audit_page r log limit logs \<longleftrightarrow> length logs \<le> (if limit = 0 then 100 else nat limit) \<and> limit \<le> 10000
     \<and> set logs \<subseteq> {l \<in> set log. audit_selects r l} \<and> sorted (map (\<lambda>l. - al_created_at l) logs)"

lemma audit_page_take:
  assumes "limit \<le> 10000" and "\<And>l. sel l \<Longrightarrow> audit_selects r l" and "n = (if limit = 0 then 100 else nat limit)"
  shows "audit_page r log limit (take n (sort_key (\<lambda>l. - al_created_at l) (filter sel log)))"
  using assms by (auto simp: audit_page_def sorted_first dest!: in_set_takeD)


end
