(* ===== verification/K8s_Props.thy ===== *)
theory K8s_Props
  imports Admin_Props
begin

text \<open>
  Properties of the Kubernetes side: the synchronisation of service-account permissions is
  exact and atomic, the in-memory lists follow the last well-formed ConfigMap, and the
  watchers stop when their context ends.
\<close>

subsection \<open>Replacing the permissions of a service account\<close>

lemma right_numbered_rows: "right ` set (numbered_rows E n ps) = right ` set ps"
proof -
  have "map right (numbered_rows E n ps) = map right ps"
    by (rule nth_equalityI) (auto simp: numbered_rows_def nth_enumerate_eq right_def)
  then show ?thesis by (metis list.set_map)
qed

lemma ids_of_rows: "p_id ` set (numbered_rows E n ps) = {Suc n..<Suc (n + length ps)}"
  using arg_cong [OF ids_numbered_rows, of set E n ps] by (simp del: upt_Suc)

text \<open>The tables after a replacement, and the rights they describe.\<close>

definition replaced :: "env \<Rightarrow> tables \<Rightarrow> nat \<Rightarrow> uint \<Rightarrow> permission list \<Rightarrow> tables" where
  "replaced E t n i ps = t\<lparr>t_permissions := t_permissions t @ numbered_rows E n ps,
     t_sa_permissions := fold (\<lambda>p. insert_link (i, p_id p)) (numbered_rows E n ps)
       (filter (\<lambda>(a, _). a \<noteq> i) (t_sa_permissions t))\<rparr>"

lemma rights_replaced:
  assumes inv: "db_inv t q"
  shows "rights (t_sa_permissions (replaced E t (q TPermissions) i ps)) (replaced E t (q TPermissions) i ps) j =
     (if j = i then right ` set ps else rights (t_sa_permissions t) t j)"
proof -
  let ?n = "q TPermissions" and ?rows = "numbered_rows E (q TPermissions) ps"
  have old: "p_id p \<le> ?n" if "p \<in> set (t_permissions t)" for p
    using inv that by (auto simp: db_inv_def keys_ok_def keyed_def)
  have new: "?n < p_id p" if "p \<in> set ?rows" for p
    using that ids_of_rows [of E ?n ps] by (metis atLeastLessThan_iff imageI less_eq_Suc_le)
  have apart: "p_id p \<notin> p_id ` set ?rows" if "p \<in> set (t_permissions t)" for p
    using old [OF that] new by fastforce
  have fresh: "(j, p_id p) \<notin> set (t_sa_permissions t)" if "p \<in> set ?rows" for p
    using sa_account.links_stored [OF inv] new [OF that] old by fastforce
  have "set (linked (t_sa_permissions (replaced E t ?n i ps)) j (replaced E t ?n i ps)) =
      (if j = i then set ?rows else set (linked (t_sa_permissions t) j t))"
    using apart fresh by (intro set_eqI) (auto simp: linked_iff replaced_def set_fold_insert_link)
  then show ?thesis by (simp add: rights_def right_numbered_rows)
qed

lemma wp_ReplaceSAPermissions:
  assumes inv: "db_inv (tabs s) (seqs s)"
  shows "wp (ReplaceSAPermissions E i ps) (\<lambda>r s'. case r of
       Inl _ \<Rightarrow> tabs s' = tabs s
     | Inr _ \<Rightarrow> t_sas (tabs s') = t_sas (tabs s) \<and> (\<forall>j. rights (t_sa_permissions (tabs s')) (tabs s') j =
         (if j = i then right ` set ps else rights (t_sa_permissions (tabs s)) (tabs s) j))) s"
  using rights_replaced [OF inv, of E i ps]
  unfolding ReplaceSAPermissions_def link_sa_permissions_def
  by (auto simp: wp_transaction wp_simps Let_def replaced_def rights_def linked_def sa_exists_def numbered_rows_def)

lemma rights_outside_sas:
  "outside_sas t' = outside_sas t \<Longrightarrow> rights (t_sa_permissions t') t' = rights (t_sa_permissions t) t"
  by (cases t; cases t') (simp add: outside_sas_def rights_def linked_def fun_eq_iff)

definition synced :: "sa_entry \<Rightarrow> tables \<Rightarrow> tables \<Rightarrow> bool" where
  "synced entry t t' \<longleftrightarrow> (\<exists>a\<in>set (t_sas t'). sa_namespace a = se_namespace entry \<and> sa_name a = se_name entry
     \<and> (\<forall>j. rights (t_sa_permissions t') t' j =
          (if j = sa_id a then right ` set (List.map_filter sync_permission_row (se_permissions entry))
           else rights (t_sa_permissions t) t j)))"

lemma synced_touch:
  assumes "synced entry t t'"
  shows "synced entry t (t'\<lparr>t_sas := map (\<lambda>a. if sa_id a = i then a\<lparr>sa_synced_at := n\<rparr> else a) (t_sas t')\<rparr>)"
proof -
  let ?touch = "\<lambda>a. if sa_id a = i then a\<lparr>sa_synced_at := n\<rparr> else a"
  from assms obtain a where "a \<in> set (t_sas t')" "sa_namespace a = se_namespace entry" "sa_name a = se_name entry"
    "\<forall>j. rights (t_sa_permissions t') t' j = (if j = sa_id a
        then right ` set (List.map_filter sync_permission_row (se_permissions entry)) else rights (t_sa_permissions t) t j)"
    by (auto simp: synced_def)
  then show ?thesis
    unfolding synced_def by (intro bexI [of _ "?touch a"]) (auto simp: rights_def linked_def)
qed

lemma wp_syncSA:
  assumes inv: "db_inv (tabs s) (seqs s)"
  shows "wp (syncSA E entry) (\<lambda>r s'. r = Inr () \<longrightarrow> synced entry (tabs s) (tabs s')) s"
proof -
  have replace: "wp (ReplaceSAPermissions E (sa_id a) (List.map_filter sync_permission_row (se_permissions entry)))
      (\<lambda>c. case c of Inl e \<Rightarrow> (\<lambda>_. True)
         | Inr _ \<Rightarrow> wp (UpdateSASyncedAt E (sa_id a)) (\<lambda>r s'. r = Inr () \<longrightarrow> synced entry (tabs s) (tabs s'))) u"
    if "db_inv (tabs u) (seqs u)" "outside_sas (tabs u) = outside_sas (tabs s)" "a \<in> set (t_sas (tabs u))"
      "sa_namespace a = se_namespace entry" "sa_name a = se_name entry" for a u
  proof (rule wp_mono)
    show "wp (ReplaceSAPermissions E (sa_id a) (List.map_filter sync_permission_row (se_permissions entry)))
      (\<lambda>r s'. case r of Inl _ \<Rightarrow> True | Inr _ \<Rightarrow> synced entry (tabs s) (tabs s')) u"
      using that rights_outside_sas [OF that(2)]
      by (intro wp_mono [OF wp_ReplaceSAPermissions [OF that(1)]]) (auto simp: synced_def split: sum.splits)
  qed (auto simp: UpdateSASyncedAt_def wp_simps intro: synced_touch split: sum.splits)
  have "wp (GetOrCreateSA E (se_namespace entry) (se_name entry)) (\<lambda>_ s'. db_inv (tabs s') (seqs s')) s"
    using moves_poststate [OF safe_GetOrCreateSA] inv by (simp add: wp_run intact_def)
  with wp_GetOrCreateSA [of E "se_namespace entry" "se_name entry" s]
  have "wp (GetOrCreateSA E (se_namespace entry) (se_name entry)) (\<lambda>r s'. db_inv (tabs s') (seqs s')
      \<and> outside_sas (tabs s') = outside_sas (tabs s)
      \<and> (\<forall>a. r = Inr a \<longrightarrow> sa_namespace a = se_namespace entry \<and> sa_name a = se_name entry \<and> a \<in> set (t_sas (tabs s')))) s"
    by (simp add: wp_run)
  then show ?thesis
    unfolding syncSA_def wp_bind Let_def
    by (rule wp_mono) (auto simp: wp_return wp_bind wp_case_sum intro!: replace split: sum.splits cong: sum.case_cong)
qed

text \<open>C38. Synchronising an entry of the ConfigMap that succeeds leaves its service account with exactly the
  rights of the entry's well-formed permissions, none from before, and changes the rights of
  no other service account.\<close>

theorem syncSA_exact:
  assumes "db_inv (tabs s) (seqs s)" and "run_state (syncSA E entry) s = (Inr (), s')"
  shows "\<exists>a\<in>set (t_sas (tabs s')). sa_namespace a = se_namespace entry \<and> sa_name a = se_name entry
     \<and> (\<forall>j. rights (t_sa_permissions (tabs s')) (tabs s') j =
          (if j = sa_id a then right ` set (List.map_filter sync_permission_row (se_permissions entry))
           else rights (t_sa_permissions (tabs s)) (tabs s) j))"
  using wpD [OF wp_syncSA [OF assms(1)] assms(2)] by (simp add: synced_def)

definition sync_example :: sa_entry where
  "sync_example = \<lparr>se_namespace = ''prod'', se_name = ''app'', se_permissions =
     [\<lparr>sp_resource_pattern = ''prod/*'', sp_verb = ''read''\<rparr>, \<lparr>sp_resource_pattern = ''prod/*'', sp_verb = ''fly''\<rparr>]\<rparr>"

lemma sync_rows: "List.map_filter sync_permission_row (se_permissions sync_example) = [NewPermission ''prod/*'' VerbTypeRead None]"
proof -
  have "no_space_byte (hd ''prod/*'') \<and> no_space_byte (last ''prod/*'')" by code_simp
  then have "TrimSpace ''prod/*'' = ''prod/*''" by (intro TrimSpace_id) simp
  moreover have "splitPathParts ''prod/*'' = [''prod'', ''*'']" by code_simp
  ultimately have "NormalizeResource ''prod/*'' = Some ''prod/*''" by (simp add: NormalizeResource_def)
  moreover have "ValidateResourcePattern ''prod/*''" "ParseVerb ''read'' = Some VerbTypeRead" "ParseVerb ''fly'' = None"
    by code_simp+
  ultimately show ?thesis by (simp add: sync_example_def sync_permission_row_def map_filter_simps)
qed

lemma sync_succeeds: "outcome (syncSA example_env sync_example) admin_st = Inr ()"
proof -
  have "wp (syncSA example_env sync_example) (\<lambda>r _. r = Inr ()) admin_st"
    unfolding syncSA_def sync_rows Let_def GetOrCreateSA_def ReplaceSAPermissions_def link_sa_permissions_def UpdateSASyncedAt_def
    by (simp add: wp_simps wp_transaction ins_sa.wp_insert Let_def sa_exists_def admin_st_def)
  then show ?thesis by (simp add: wp_run)
qed

theorem syncSA_exact_witness:
  "\<exists>a :: sa. sa_namespace a = ''prod'' \<and> sa_name a = ''app'' \<and>
     rights (t_sa_permissions (tabs (poststate (syncSA example_env sync_example) admin_st)))
       (tabs (poststate (syncSA example_env sync_example) admin_st)) (sa_id a) = {(VerbTypeRead, ''prod/*'', Some NoExpiry)}"
proof -
  have "run_state (syncSA example_env sync_example) admin_st = (Inr (), poststate (syncSA example_env sync_example) admin_st)"
    using run_state_result_after [of "syncSA example_env sync_example" admin_st] sync_succeeds by simp
  moreover have "right ` set [NewPermission ''prod/*'' VerbTypeRead None] = {(VerbTypeRead, ''prod/*'', Some NoExpiry)}"
    "se_namespace sync_example = ''prod''" "se_name sync_example = ''app''"
    by (simp_all add: sync_example_def right_def NewPermission_def)
  ultimately show ?thesis
    using syncSA_exact [OF admin_db_inv, of example_env sync_example] unfolding sync_rows by metis
qed

subsection \<open>The in-memory lists\<close>

text \<open>
  The phases of a watcher do not depend on what it applies: \<open>watch_phase_after\<close> is the phase
  after an event and \<open>watch_sees\<close> the ConfigMap that the event makes it read.
\<close>

definition watch_phase_after :: "watch_phase \<Rightarrow> watch_event \<Rightarrow> watch_phase" where
  "watch_phase_after ph ev = outcome (watch_next (\<lambda>_. State_Monad.return ()) [] ph ev) init_st"

fun watch_sees :: "watch_phase \<Rightarrow> watch_event \<Rightarrow> configmap list" where
  "watch_sees Fetching (Fetched (Some cm)) = [cm]"
| "watch_sees Watching (Delivered (Some cm)) = [cm]"
| "watch_sees ph ev = []"

fun configmaps_seen :: "watch_phase \<Rightarrow> watch_event list \<Rightarrow> configmap list" where
  "configmaps_seen ph [] = []"
| "configmaps_seen ph (ev # evs) = watch_sees ph ev @ configmaps_seen (watch_phase_after ph ev) evs"

lemma watch_next_run:
  "run_state (watch_next app key ph ev) s =
     (watch_phase_after ph ev, fold (\<lambda>cm. poststate (app (cm_data cm key))) (watch_sees ph ev) s)"
  by (induction app key ph ev rule: watch_next.induct)
    (auto simp: watch_phase_after_def outcome_def poststate_def split: prod.splits)

lemma watch_run_state:
  "poststate (watch_run app key ph evs) s = fold (\<lambda>cm. poststate (app (cm_data cm key))) (configmaps_seen ph evs) s"
  by (induction evs arbitrary: ph s) (auto simp: poststate_def watch_next_run)

text \<open>The reference: the list of the last ConfigMap that was well formed; an empty entry empties it.\<close>

definition listed :: "env \<Rightarrow> string \<Rightarrow> string list option" where
  "listed E d = (if d = [] then Some [] else Option.bind (json_Unmarshal E d) decode_strings)"

definition last_listed :: "env \<Rightarrow> string \<Rightarrow> string list \<Rightarrow> configmap list \<Rightarrow> string list" where
  "last_listed E key cur cms =
     (case List.map_filter (\<lambda>cm. listed E (cm_data cm key)) cms of [] \<Rightarrow> cur | xs \<Rightarrow> last xs)"

lemma last_listed_simps [simp]:
  "last_listed E key cur [] = cur"
  "last_listed E key cur (cm # cms) = last_listed E key (case listed E (cm_data cm key) of None \<Rightarrow> cur | Some xs \<Rightarrow> xs) cms"
  by (auto simp: last_listed_def map_filter_simps split: option.splits list.splits)

lemma applied_tokens:
  "admin_tokens (poststate (applyAdminTokens E d) s) = (case listed E d of None \<Rightarrow> admin_tokens s | Some xs \<Rightarrow> xs)"
  "allowed_origins (poststate (applyCORSOrigins E d) s) = (case listed E d of None \<Rightarrow> allowed_origins s | Some xs \<Rightarrow> xs)"
  by (simp_all add: poststate_def applyAdminTokens_def applyCORSOrigins_def listed_def split: option.splits)

lemma folded_tokens:
  "admin_tokens (fold (\<lambda>cm. poststate (applyAdminTokens E (cm_data cm key))) cms s) = last_listed E key (admin_tokens s) cms"
  "allowed_origins (fold (\<lambda>cm. poststate (applyCORSOrigins E (cm_data cm key))) cms s) = last_listed E key (allowed_origins s) cms"
  by (induction cms arbitrary: s) (simp_all add: applied_tokens)

text \<open>C39. After any sequence of events the bootstrap tokens are those of the last well-formed ConfigMap that
  the watcher was given, and so are the allowed origins: a malformed update keeps the list in
  force, an empty one clears it.\<close>

theorem watchers_follow_last_list:
  "admin_tokens (poststate (watchAdminTokens E evs) s) =
     last_listed E ''admin_tokens'' (admin_tokens s) (configmaps_seen (watch_begin E) evs)
   \<and> allowed_origins (poststate (watchCORSOrigins E evs) s) =
     last_listed E ''allowed_origins'' (allowed_origins s) (configmaps_seen (watch_begin E) evs)"
  by (simp add: watchAdminTokens_def watchCORSOrigins_def watch_run_state folded_tokens)

subsection \<open>Stopping\<close>

lemma watch_run_append:
  "run_state (watch_run app key ph (xs @ ys)) s =
     (case run_state (watch_run app key ph xs) s of (ph', s') \<Rightarrow> run_state (watch_run app key ph' ys) s')"
  by (induction xs arbitrary: ph s) (auto split: prod.splits)

lemma stopped_stays: "run_state (watch_run app key Stopped evs) s = (Stopped, s)"
  by (induction evs) auto

text \<open>C40. A watcher ends once its context has ended: whatever it did before, after the answers it may still
  be waiting for (the fetch and the watch request) the next two looks at the context stop it,
  and a stopped watcher does nothing any more.\<close>

theorem watchers_stop:
  "outcome (watch_run app key ph (evs @ [Fetched cm, WatchOpened ok, CtxDone, CtxDone])) s = Stopped
   \<and> run_state (watch_run app key Stopped evs) s = (Stopped, s)"
proof -
  have "outcome (watch_run app key ph' [Fetched cm, WatchOpened ok, CtxDone, CtxDone]) s' = Stopped" for ph' s'
    by (cases ph'; cases cm; cases ok) (simp_all add: outcome_def split: prod.splits)
  then show ?thesis
    by (simp add: outcome_def watch_run_append stopped_stays split: prod.splits)
qed

end
