(* ===== verification/Duration.thy ===== *)
theory Duration
  imports Encoding
begin

text \<open>
  \<open>time.ParseDuration\<close>, which reads the refresh interval of the operator's objects: a sign,
  then numbers with an optional fraction, each followed by a unit. The arithmetic is that
  of the \<open>uint64\<close> accumulators of the Go code, with the overflow tests where the code has
  them; the fraction of a unit is computed in \<open>float64\<close>, so rounding to 53 significant
  bits is written out as well.
\<close>

subsection \<open>Fractions of a unit in \<open>float64\<close>\<close>

definition round_even :: "nat \<Rightarrow> nat \<Rightarrow> nat" where
  "round_even n d =
     (let q = n div d; r = n mod d in
      if 2 * r < d \<or> 2 * r = d \<and> even q then q else Suc q)"

text \<open>
  The positive rational \<open>n / d\<close> is scaled by powers of two until its integer part has 53
  bits, rounded, and scaled back.
\<close>

function scale_up :: "nat \<Rightarrow> nat \<Rightarrow> nat \<Rightarrow> nat \<times> nat" where
  "scale_up n d k = (if n = 0 \<or> d * 2 ^ 52 \<le> n then (n, k) else scale_up (2 * n) d (Suc k))"
  by pat_completeness auto
termination by (relation "measure (\<lambda>(n, d, k). d * 2 ^ 52 - n)") auto

function scale_down :: "nat \<Rightarrow> nat \<Rightarrow> nat \<Rightarrow> nat \<times> nat" where
  "scale_down n d k = (if d = 0 \<or> n < d * 2 ^ 53 then (d, k) else scale_down n (2 * d) (Suc k))"
  by pat_completeness auto
termination by (relation "measure (\<lambda>(n, d, k). n - d)") auto

declare scale_up.simps [simp del] scale_down.simps [simp del]

definition float64 :: "nat \<times> nat \<Rightarrow> nat \<times> nat" where
  "float64 q =
     (let (n, d) = q; (n', up) = scale_up n d 0; (d', down) = scale_down n' d 0 in
      (round_even n' d' * 2 ^ down, 2 ^ up))"

text \<open>\<open>uint64(float64(f) * (float64(unit) / scale))\<close> with \<open>scale = 10 ^ digits\<close>.\<close>

definition fraction_ns :: "nat \<Rightarrow> nat \<Rightarrow> nat \<Rightarrow> nat" where
  "fraction_ns f unit digits =
     (let (a, b) = float64 (f, 1); (c, d) = float64 (unit, 10 ^ digits);
          (x, y) = float64 (a * c, b * d) in x div y)"

subsection \<open>Reading a duration\<close>

text \<open>\<open>leadingInt\<close> and \<open>leadingFraction\<close>, with their accumulators.\<close>

fun leadingInt :: "nat \<Rightarrow> string \<Rightarrow> (nat \<times> string) option" where
  "leadingInt x [] = Some (x, [])"
| "leadingInt x (c # cs) =
     (case digit_val c of
        None \<Rightarrow> Some (x, c # cs)
      | Some d \<Rightarrow>
          (if 2 ^ 63 div 10 < x then None
           else if 2 ^ 63 < x * 10 + d then None
           else leadingInt (x * 10 + d) cs))"

fun leadingFraction :: "nat \<Rightarrow> nat \<Rightarrow> bool \<Rightarrow> string \<Rightarrow> nat \<times> nat \<times> string" where
  "leadingFraction x digits overflow [] = (x, digits, [])"
| "leadingFraction x digits overflow (c # cs) =
     (case digit_val c of
        None \<Rightarrow> (x, digits, c # cs)
      | Some d \<Rightarrow>
          (if overflow \<or> (2 ^ 63 - 1) div 10 < x \<or> 2 ^ 63 < x * 10 + d
           then leadingFraction x digits True cs
           else leadingFraction (x * 10 + d) (Suc digits) False cs))"

definition unitMap :: "(string \<times> nat) list" where
  "unitMap =
     [(''ns'', 1), (''us'', 1000), ([CHR 0xC2, CHR 0xB5, CHR ''s''], 1000),
      ([CHR 0xCE, CHR 0xBC, CHR ''s''], 1000), (''ms'', 1000000),
      (''s'', 1000000000), (''m'', 60000000000), (''h'', 3600000000000)]"

text \<open>The quoting of \<open>time\<close>'s error messages, byte by byte.\<close>

definition quote_byte :: "char \<Rightarrow> string" where
  "quote_byte c =
     (let n = of_char c in
      if 128 \<le> n \<or> n < 32 then [CHR 0x5C, CHR ''x'', hex_digit (n div 16), hex_digit (n mod 16)]
      else if c = CHR 0x22 \<or> c = CHR 0x5C then [CHR 0x5C, c]
      else [c])"

definition quote :: "string \<Rightarrow> string" where
  "quote s = CHR 0x22 # concat (map quote_byte s) @ [CHR 0x22]"

definition invalid_duration :: "string \<Rightarrow> string" where
  "invalid_duration orig = ''time: invalid duration '' @ quote orig"

definition unit_char :: "char \<Rightarrow> bool" where
  "unit_char c = (c \<noteq> CHR ''.'' \<and> digit_val c = None)"

text \<open>
  One round of the loop reads a number with its unit: its value and what is left of the
  text, or the message of the error.
\<close>

definition optional_fraction :: "string \<Rightarrow> nat \<times> nat \<times> string" where
  "optional_fraction s =
     (if s \<noteq> [] \<and> hd s = CHR ''.'' then leadingFraction 0 0 False (tl s) else (0, 0, s))"

definition read_part :: "string \<Rightarrow> string \<Rightarrow> string + nat \<times> string" where
  "read_part orig s =
     (if s \<noteq> [] \<and> unit_char (hd s) then Inl (invalid_duration orig)
      else case leadingInt 0 s of
        None \<Rightarrow> Inl (invalid_duration orig)
      | Some (v, s1) \<Rightarrow>
          (let (f, digits, s2) = optional_fraction s1;
               post = (s1 \<noteq> [] \<and> hd s1 = CHR ''.'' \<and> length (tl s1) \<noteq> length s2);
               u = takeWhile unit_char s2; s3 = dropWhile unit_char s2 in
           if length s = length s1 \<and> \<not> post then Inl (invalid_duration orig)
           else if u = [] then Inl (''time: missing unit in duration '' @ quote orig)
           else case map_of unitMap u of
             None \<Rightarrow> Inl (''time: unknown unit '' @ quote u @ '' in duration '' @ quote orig)
           | Some unit \<Rightarrow>
               (if 2 ^ 63 div unit < v then Inl (invalid_duration orig)
                else
                  (let v1 = v * unit;
                       v2 = (if 0 < f then (v1 + fraction_ns f unit digits) mod 2 ^ 64 else v1) in
                   if 0 < f \<and> 2 ^ 63 < v2 then Inl (invalid_duration orig)
                   else Inr (v2, s3)))))"

lemma leadingInt_length: "leadingInt x s = Some (v, s1) \<Longrightarrow> length s1 \<le> length s"
  by (induction x s rule: leadingInt.induct) (auto split: option.splits if_splits simp: Let_def)

lemma leadingFraction_length: "leadingFraction x k b s = (f, d, s2) \<Longrightarrow> length s2 \<le> length s"
  by (induction x k b s rule: leadingFraction.induct) (auto split: option.splits if_splits simp: Let_def)

lemma optional_fraction_length: "optional_fraction s = (f, d, s2) \<Longrightarrow> length s2 \<le> length s"
  by (cases s) (auto simp: optional_fraction_def dest!: leadingFraction_length split: if_splits)

lemma dropWhile_shorter: "takeWhile P s \<noteq> [] \<Longrightarrow> length (dropWhile P s) < length s"
  by (cases s) (auto simp: length_dropWhile_le less_Suc_eq_le split: if_splits)

lemma read_part_shorter: "read_part orig s = Inr (v, s3) \<Longrightarrow> length s3 < length s"
  unfolding read_part_def Let_def
  by (auto split: if_splits option.splits prod.splits
      dest!: leadingInt_length optional_fraction_length dest: dropWhile_shorter)

function read_parts :: "string \<Rightarrow> nat \<Rightarrow> string \<Rightarrow> string + nat" where
  "read_parts orig d s =
     (if s = [] then Inr d
      else case read_part orig s of
        Inl e \<Rightarrow> Inl e
      | Inr (v, s3) \<Rightarrow>
          (let d' = (d + v) mod 2 ^ 64 in
           if 2 ^ 63 < d' then Inl (invalid_duration orig) else read_parts orig d' s3))"
  by pat_completeness auto
termination by (relation "measure (\<lambda>(orig, d, s). length s)") (auto dest: read_part_shorter)

declare read_parts.simps [simp del]

definition ParseDuration :: "string \<Rightarrow> string + duration" where
  "ParseDuration orig =
     (let sign = (orig \<noteq> [] \<and> (hd orig = CHR ''-'' \<or> hd orig = CHR ''+''));
          neg = (orig \<noteq> [] \<and> hd orig = CHR ''-'');
          s = (if sign then tl orig else orig) in
      if s = ''0'' then Inr 0
      else if s = [] then Inl (invalid_duration orig)
      else case read_parts orig 0 s of
        Inl e \<Rightarrow> Inl e
      | Inr d \<Rightarrow>
          (if neg then Inr (- int d)
           else if 2 ^ 63 - 1 < d then Inl (invalid_duration orig)
           else Inr (int d)))"

subsection \<open>Range\<close>

text \<open>A duration that was read is an \<open>int64\<close>.\<close>

lemma read_parts_bound: "read_parts orig d s = Inr n \<Longrightarrow> d \<le> 2 ^ 63 \<Longrightarrow> n \<le> 2 ^ 63"
  by (induction orig d s rule: read_parts.induct)
    (subst (asm) (2) read_parts.simps,
      auto simp: Let_def split: if_splits sum.splits prod.splits)

lemma ParseDuration_range:
  assumes "ParseDuration s = Inr d"
  shows "- (2 ^ 63) \<le> d \<and> d < 2 ^ 63"
  using assms unfolding ParseDuration_def Let_def
  by (auto split: if_splits sum.splits dest!: read_parts_bound)

subsection \<open>Durations without fractions\<close>

text \<open>
  What a text made of whole numbers with units means: the sum of the parts. Reading it
  back gives that sum as long as it is an \<open>int64\<close>.
\<close>

definition show_parts :: "(nat \<times> string) list \<Rightarrow> string" where
  "show_parts ps = concat (map (\<lambda>(n, u). show_uint n @ u) ps)"

fun total_ns :: "(nat \<times> string) list \<Rightarrow> nat option" where
  "total_ns [] = Some 0"
| "total_ns ((n, u) # ps) =
     (case (map_of unitMap u, total_ns ps) of
        (Some unit, Some t) \<Rightarrow> Some (n * unit + t)
      | _ \<Rightarrow> None)"

definition starts_digit :: "string \<Rightarrow> bool" where
  "starts_digit s = (s \<noteq> [] \<and> digit_val (hd s) \<noteq> None)"

lemma leadingInt_stop: "s = [] \<or> digit_val (hd s) = None \<Longrightarrow> leadingInt x s = Some (x, s)"
  by (cases s) auto

lemma show_uint_digits: "c \<in> set (show_uint n) \<Longrightarrow> digit_val c \<noteq> None"
proof (induction n rule: show_uint.induct)
  case (1 n)
  then show ?case
    by (auto simp: show_uint.simps [of n] split: if_splits)
qed

lemma starts_digit_show: "starts_digit (show_uint n @ s)"
proof -
  obtain c cs where "show_uint n = c # cs" by (cases "show_uint n") auto
  with show_uint_digits [of c n] show ?thesis by (simp add: starts_digit_def)
qed

lemma leadingInt_append_digit:
  assumes "leadingInt x ds = Some (v, [])" "digit_val c = Some d" "v * 10 + d \<le> 2 ^ 63"
  shows "leadingInt x (ds @ c # s) = leadingInt (v * 10 + d) s"
  using assms(1)
proof (induction x ds rule: leadingInt.induct)
  case (1 x)
  with assms(2,3) show ?case by (simp add: div_less_iff_less_mult not_less)
next
  case (2 x c cs)
  then show ?case by (auto split: option.splits if_splits)
qed

lemma leadingInt_show:
  "n \<le> 2 ^ 63 \<Longrightarrow> leadingInt 0 (show_uint n @ s) = leadingInt n s"
proof (induction n arbitrary: s rule: show_uint.induct)
  case (1 n)
  show ?case
  proof (cases "n < 10")
    case True
    then show ?thesis by (simp add: show_uint.simps [of n])
  next
    case False
    let ?m = "n div 10"
    have "?m \<le> n" by simp
    with "1.prems" have "?m \<le> 2 ^ 63" by linarith
    from "1.IH" [OF False this, of "[]"] have "leadingInt 0 (show_uint ?m) = Some (?m, [])" by simp
    moreover have "?m * 10 + n mod 10 = n" by simp
    ultimately show ?thesis
      using leadingInt_append_digit [of 0 "show_uint ?m" ?m "char_of (48 + n mod 10)" "n mod 10" s] "1.prems" False
      by (simp add: show_uint.simps [of n])
  qed
qed

lemma unitMap_text:
  assumes "map_of unitMap u = Some k"
  shows "u \<noteq> [] \<and> list_all unit_char u \<and> 0 < k"
proof -
  have "list_all (\<lambda>(u, k). u \<noteq> [] \<and> list_all unit_char u \<and> 0 < k) unitMap"
    by (simp add: unitMap_def unit_char_def digit_val_def)
  with map_of_SomeD [OF assms] show ?thesis by (auto simp: list_all_iff)
qed

lemma takeWhile_unit:
  assumes "list_all unit_char u" "s = [] \<or> starts_digit s"
  shows "takeWhile unit_char (u @ s) = u" "dropWhile unit_char (u @ s) = s"
  using assms by (induction u) (cases s; auto simp: starts_digit_def unit_char_def)+

lemma read_part_show:
  assumes u: "map_of unitMap u = Some k" and fits: "n * k \<le> 2 ^ 63" and s: "s = [] \<or> starts_digit s"
  shows "read_part orig (show_uint n @ u @ s) = Inr (n * k, s)"
proof -
  note t = unitMap_text [OF u]
  obtain c cs where cs: "u = c # cs" "unit_char c" using t by (cases u) auto
  have "n * 1 \<le> n * k" using t by (intro mult_le_mono2) simp
  with fits have n: "n \<le> 2 ^ 63" by linarith
  from cs have "leadingInt 0 (show_uint n @ u @ s) = Some (n, u @ s)"
    by (simp add: leadingInt_show [OF n] leadingInt_stop unit_char_def)
  moreover have "\<not> unit_char (hd (show_uint n @ u @ s))"
    using starts_digit_show [of n "u @ s"] by (auto simp: starts_digit_def unit_char_def)
  moreover have "optional_fraction (u @ s) = (0, 0, u @ s)"
    using cs by (simp add: optional_fraction_def unit_char_def)
  moreover have "\<not> 2 ^ 63 div k < n" using fits t by (simp add: not_less less_eq_div_iff_mult_less_eq)
  moreover have "hd (u @ s) \<noteq> CHR ''.''" using cs by (simp add: unit_char_def)
  ultimately show ?thesis
    using t s u by (auto simp: read_part_def takeWhile_unit)
qed

lemma starts_digit_parts: "show_parts ps = [] \<or> starts_digit (show_parts ps)"
  by (cases ps) (auto simp: show_parts_def starts_digit_show)

lemma show_parts_Cons: "show_parts ((n, u) # ps) = show_uint n @ u @ show_parts ps"
  by (simp add: show_parts_def)

lemma read_parts_show:
  "total_ns ps = Some t \<Longrightarrow> d + t \<le> 2 ^ 63 \<Longrightarrow> read_parts orig d (show_parts ps) = Inr (d + t)"
proof (induction ps arbitrary: d t)
  case Nil
  then show ?case by (simp add: show_parts_def read_parts.simps)
next
  case (Cons p ps)
  obtain n u where p: "p = (n, u)" by (cases p)
  with Cons.prems obtain k t' where k: "map_of unitMap u = Some k" "total_ns ps = Some t'" "t = n * k + t'"
    by (auto split: option.splits)
  from Cons.prems(2) k have "n * k \<le> 2 ^ 63" "d + n * k \<le> 2 ^ 63" "(d + n * k) + t' \<le> 2 ^ 63" by simp_all
  moreover from Cons.IH [OF k(2) this(3)]
  have "read_parts orig (d + n * k) (show_parts ps) = Inr (d + t)" using k by simp
  moreover have "d + n * k < 2 ^ 64" using calculation(2) by simp
  ultimately show ?case
    unfolding p show_parts_Cons read_parts.simps [of orig d "show_uint n @ u @ show_parts ps"]
      read_part_show [OF k(1) \<open>n * k \<le> 2 ^ 63\<close> starts_digit_parts]
    by (simp add: Let_def)
qed

lemma ParseDuration_show:
  assumes "ps \<noteq> []" "total_ns ps = Some t" "t < 2 ^ 63"
  shows "ParseDuration (show_parts ps) = Inr (int t)"
proof -
  obtain n u ps' where ps: "ps = (n, u) # ps'" using assms(1) by (cases ps) auto
  have "starts_digit (show_parts ps)"
    unfolding ps show_parts_Cons using starts_digit_show [of n] by simp
  then have "hd (show_parts ps) \<noteq> CHR ''-''" "hd (show_parts ps) \<noteq> CHR ''+''" "show_parts ps \<noteq> []"
    by (auto simp: starts_digit_def digit_val_def)
  moreover have "show_parts ps \<noteq> ''0''"
  proof -
    from assms(2) ps obtain k where "map_of unitMap u = Some k" by (auto split: option.splits)
    then have "u \<noteq> []" by (auto dest: unitMap_text)
    then have "2 \<le> length (show_parts ps)"
      unfolding ps show_parts_Cons
      by (cases "show_uint n"; cases u) auto
    then show ?thesis by auto
  qed
  moreover have "read_parts (show_parts ps) 0 (show_parts ps) = Inr t"
    using read_parts_show [OF assms(2), of 0] assms(3) by simp
  ultimately show ?thesis
    using assms(3) by (auto simp: ParseDuration_def Let_def)
qed

end
