(* ===== verification/Operator.thy ===== *)
theory Operator
  imports Duration Json
begin

text \<open>
  The Kubernetes operator, \<open>internal/operator\<close> and \<open>cmd/operator\<close>: it keeps a Kubernetes
  Secret equal to a value stored in the server, for every \<open>BrinecryptSecret\<close> object.

  The reconciler runs over an arbitrary world \<open>'c\<close>. What it calls there is a record of
  programs, \<open>'c kube\<close>: the Kubernetes client (\<open>client.Client\<close>, the token subresource of
  \<open>kubernetes.Interface\<close>, \<open>controllerutil.SetControllerReference\<close>) and
  \<open>HTTPClient.Do\<close>; \<open>op_env\<close> collects the clock, the configured URL and the readers and
  printers of the standard library whose text the operator only passes on. Errors are
  their messages.
\<close>

subsection \<open>crd.go\<close>

record BrinecryptSecretSpec =
  RemotePath :: string
  ServiceAccount :: string
  TargetSecret :: string
  SecretKey :: string
  RefreshInterval :: string

record BrinecryptSecretStatus =
  st_Ready :: bool
  st_LastSyncTime :: "time option"
  st_LastError :: string

text \<open>Of the object metadata, what the reconciler reads: the key of the object and its UID.\<close>

record BrinecryptSecret =
  bs_Namespace :: string
  bs_Name :: string
  bs_UID :: string
  bs_Spec :: BrinecryptSecretSpec
  bs_Status :: BrinecryptSecretStatus

text \<open>
  \<open>corev1.Secret\<close>: a zero creation timestamp is \<open>None\<close>, a nil data map is \<open>None\<close>, and of
  the owner references the UID of the controlling owner.
\<close>

record Secret =
  sec_Namespace :: string
  sec_Name :: string
  sec_CreationTimestamp :: "time option"
  sec_Type :: string
  sec_Data :: "(string \<rightharpoonup> bytes) option"
  sec_Controller :: "string option"

abbreviation SecretTypeOpaque :: string where "SecretTypeOpaque \<equiv> ''Opaque''"

subsection \<open>What the reconciler calls\<close>

datatype api_error = NotFound string | ApiError string

fun api_text :: "api_error \<Rightarrow> string" where
  "api_text (NotFound m) = m"
| "api_text (ApiError m) = m"

text \<open>\<open>client.IgnoreNotFound(err) == nil\<close>\<close>

definition IgnoreNotFound :: "api_error \<Rightarrow> bool" where
  "IgnoreNotFound e = (case e of NotFound _ \<Rightarrow> True | ApiError _ \<Rightarrow> False)"

record http_request =
  hq_Method :: string
  hq_URL :: string
  hq_Header :: "(string \<times> string) list"
  hq_Body :: string

record http_response =
  hp_StatusCode :: nat
  hp_Body :: string

type_synonym object_key = "string \<times> string"

record 'c kube =
  get_object :: "object_key \<Rightarrow> ('c, api_error + BrinecryptSecret) state"
  update_status :: "BrinecryptSecret \<Rightarrow> ('c, api_error + unit) state"
  get_secret :: "object_key \<Rightarrow> ('c, api_error + Secret) state"
  create_secret :: "Secret \<Rightarrow> ('c, api_error + unit) state"
  update_secret :: "Secret \<Rightarrow> ('c, api_error + unit) state"
  request_token :: "string \<Rightarrow> string \<Rightarrow> string list \<Rightarrow> int \<Rightarrow> ('c, string + string) state"
  http_Do :: "http_request \<Rightarrow> ('c, string + http_response) state"
  SetControllerReference :: "BrinecryptSecret \<Rightarrow> Secret \<Rightarrow> string + Secret"

text \<open>
  \<open>op_NewRequest\<close> is the error of \<open>http.NewRequestWithContext\<close> for a URL that cannot be
  parsed, \<open>op_Marshal\<close> and \<open>op_Decode\<close> are \<open>encoding/json\<close> on text, and \<open>op_decode_error\<close> the
  message for a text that does not decode.
\<close>

record op_env =
  op_now :: time
  BrinecryptURL :: string
  op_NewRequest :: "string \<Rightarrow> string option"
  op_Marshal :: "(string \<times> string) list \<Rightarrow> string + string"
  op_Decode :: "string \<Rightarrow> json option"
  op_decode_error :: "string \<Rightarrow> string"
  strconv_Quote :: "string \<Rightarrow> string"

subsection \<open>cmd/operator\<close>

definition operator_url :: "(string \<Rightarrow> string) \<Rightarrow> string" where
  "operator_url env =
     (let brinecryptURL = env ''BRINEKEY_BRINECRYPT_URL'' in
      if brinecryptURL = [] then ''http://brinecrypt:8080'' else brinecryptURL)"

subsection \<open>reconciler.go\<close>

definition defaultRefreshInterval :: duration where "defaultRefreshInterval = Hour"
definition minimumRefreshInterval :: duration where "minimumRefreshInterval = Second"
definition defaultSecretKey :: string where "defaultSecretKey = ''value''"
definition tokenAudience :: string where "tokenAudience = ''brinekey''"
definition tokenTTLSeconds :: int where "tokenTTLSeconds = 600"

text \<open>\<open>ctrl.Result\<close>; the zero value does not ask for another run.\<close>

record ctrl_result =
  RequeueAfter :: duration

type_synonym reconcile_result = "string + ctrl_result"

definition parseRefreshInterval :: "string \<Rightarrow> string + duration" where
  "parseRefreshInterval in' =
     (if in' = [] then Inr defaultRefreshInterval
      else case ParseDuration in' of
        Inl e \<Rightarrow> Inl (''invalid refreshInterval: '' @ e)
      | Inr d \<Rightarrow>
          (if d < minimumRefreshInterval then Inl ''refreshInterval must be >= 1s'' else Inr d))"

text \<open>
  \<open>brinecryptResourceResponse\<close>: the \<open>Data\<close> of \<open>Value\<close>, \<open>None\<close> for a nil pointer. A second
  \<open>value\<close> member is decoded into the struct that the first one allocated.
\<close>

definition decode_value :: "json \<Rightarrow> string option \<Rightarrow> string option option" where
  "decode_value j cur =
     (case j of
        JNull \<Rightarrow> Some None
      | JObj ms \<Rightarrow>
          map_option Some
            (decode_members [(''data'', decode_string)] ms (case cur of None \<Rightarrow> [] | Some d \<Rightarrow> d))
      | _ \<Rightarrow> None)"

definition decode_brinecryptResourceResponse :: "json \<Rightarrow> string option option" where
  "decode_brinecryptResourceResponse = decode_struct [(''value'', decode_value)] None"

text \<open>
  \<open>fetchRemoteSecretValue\<close>: the request it builds, how it reads the response, and the whole.
\<close>

definition fetch_request :: "string \<Rightarrow> string \<Rightarrow> string \<Rightarrow> http_request" where
  "fetch_request base bodyBytes jwt =
     \<lparr>hq_Method = ''POST'', hq_URL = base @ ''/api/v1/resource?op=query'',
      hq_Header = [(''Content-Type'', ''application/json''), (''Authorization'', ''Bearer '' @ jwt)],
      hq_Body = bodyBytes\<rparr>"

definition read_response :: "op_env \<Rightarrow> http_response \<Rightarrow> string + string" where
  "read_response C resp =
     (if hp_StatusCode resp < 200 \<or> 299 < hp_StatusCode resp
      then Inl (''brinecrypt returned status '' @ show_uint (hp_StatusCode resp)
                @ '': '' @ take 1024 (hp_Body resp))
      else case Option.bind (op_Decode C (hp_Body resp)) decode_brinecryptResourceResponse of
        None \<Rightarrow> Inl (''decode brinecrypt response failed: '' @ op_decode_error C (hp_Body resp))
      | Some None \<Rightarrow> Inl ''brinecrypt response missing value''
      | Some (Some data) \<Rightarrow> Inr data)"

definition fetchRemoteSecretValue ::
  "op_env \<Rightarrow> 'c kube \<Rightarrow> string \<Rightarrow> string \<Rightarrow> ('c, string + string) state" where
  "fetchRemoteSecretValue C K remotePath jwt =
     (let base = TrimRight (BrinecryptURL C) (CHR ''/'');
          parts = SplitN (CHR ''/'') 2 remotePath in
      if length parts \<noteq> 2
      then State_Monad.return (Inl (''remotePath must be namespace/name, got '' @ strconv_Quote C remotePath))
      else case op_Marshal C [(''namespace'', parts ! 0), (''name'', parts ! 1)] of
        Inl e \<Rightarrow> State_Monad.return (Inl (''marshal request body failed: '' @ e))
      | Inr bodyBytes \<Rightarrow>
          (let req = fetch_request base bodyBytes jwt in
           case op_NewRequest C (hq_URL req) of
             Some e \<Rightarrow> State_Monad.return (Inl (''build brinecrypt request failed: '' @ e))
           | None \<Rightarrow> do {
               r \<leftarrow> http_Do K req;
               case r of
                 Inl e \<Rightarrow> State_Monad.return (Inl (''brinecrypt request failed: '' @ e))
               | Inr resp \<Rightarrow> State_Monad.return (read_response C resp)
             }))"

definition fail :: "'c kube \<Rightarrow> BrinecryptSecret \<Rightarrow> string \<Rightarrow> ('c, reconcile_result) state" where
  "fail K obj err = do {
     r \<leftarrow> update_status K (obj\<lparr>bs_Status := (bs_Status obj)\<lparr>st_Ready := False, st_LastError := err\<rparr>\<rparr>);
     case r of
       Inl statusErr \<Rightarrow>
         State_Monad.return (Inl (''reconcile error: '' @ err @ ''; status update error: '' @ api_text statusErr))
     | Inr _ \<Rightarrow> State_Monad.return (Inl err)
   }"

text \<open>The target secret as the reconciler finds it, or the new one it starts from.\<close>

definition new_secret :: "BrinecryptSecret \<Rightarrow> Secret" where
  "new_secret obj =
     \<lparr>sec_Namespace = bs_Namespace obj, sec_Name = TargetSecret (bs_Spec obj),
      sec_CreationTimestamp = None, sec_Type = SecretTypeOpaque,
      sec_Data = Some (\<lambda>_. None), sec_Controller = None\<rparr>"

definition find_target ::
  "'c kube \<Rightarrow> BrinecryptSecret \<Rightarrow> ('c, api_error + Secret) state" where
  "find_target K obj = do {
     r \<leftarrow> get_secret K (bs_Namespace obj, TargetSecret (bs_Spec obj));
     case r of
       Inl e \<Rightarrow> State_Monad.return (if \<not> IgnoreNotFound e then Inl e else Inr (new_secret obj))
     | Inr outSecret \<Rightarrow>
         State_Monad.return (Inr
           (if sec_Data outSecret = None then outSecret\<lparr>sec_Data := Some (\<lambda>_. None)\<rparr> else outSecret))
   }"

definition secretKeyOf :: "BrinecryptSecret \<Rightarrow> string" where
  "secretKeyOf obj = (if SecretKey (bs_Spec obj) = [] then defaultSecretKey else SecretKey (bs_Spec obj))"

definition set_value :: "BrinecryptSecret \<Rightarrow> string \<Rightarrow> Secret \<Rightarrow> Secret" where
  "set_value obj v outSecret =
     outSecret\<lparr>sec_Type := SecretTypeOpaque,
               sec_Data := map_option (\<lambda>m. m(secretKeyOf obj \<mapsto> v)) (sec_Data outSecret)\<rparr>"

definition write_target :: "'c kube \<Rightarrow> Secret \<Rightarrow> ('c, string + unit) state" where
  "write_target K outSecret =
     (if sec_CreationTimestamp outSecret = None then do {
        r \<leftarrow> create_secret K outSecret;
        case r of
          Inl e \<Rightarrow> State_Monad.return (Inl (''create target secret failed: '' @ api_text e))
        | Inr _ \<Rightarrow> State_Monad.return (Inr ())
      }
      else do {
        r \<leftarrow> update_secret K outSecret;
        case r of
          Inl e \<Rightarrow> State_Monad.return (Inl (''update target secret failed: '' @ api_text e))
        | Inr _ \<Rightarrow> State_Monad.return (Inr ())
      })"

definition spec_complete :: "BrinecryptSecretSpec \<Rightarrow> bool" where
  "spec_complete sp = (\<not> (RemotePath sp = [] \<or> ServiceAccount sp = [] \<or> TargetSecret sp = []))"

text \<open>The part of \<open>Reconcile\<close> that produces the value: a token of the service account, then the fetch.\<close>

definition pull_value :: "op_env \<Rightarrow> 'c kube \<Rightarrow> BrinecryptSecret \<Rightarrow> ('c, string + string) state" where
  "pull_value C K obj = do {
     t \<leftarrow> request_token K (bs_Namespace obj) (ServiceAccount (bs_Spec obj)) [tokenAudience] tokenTTLSeconds;
     case t of
       Inl e \<Rightarrow> State_Monad.return (Inl (''token request failed: '' @ e))
     | Inr tok \<Rightarrow> fetchRemoteSecretValue C K (RemotePath (bs_Spec obj)) tok
   }"

text \<open>The part that puts the value into the target secret.\<close>

definition push_value ::
  "'c kube \<Rightarrow> BrinecryptSecret \<Rightarrow> string \<Rightarrow> ('c, string + unit) state" where
  "push_value K obj v = do {
     s \<leftarrow> find_target K obj;
     case s of
       Inl e \<Rightarrow> State_Monad.return (Inl (''get target secret failed: '' @ api_text e))
     | Inr outSecret \<Rightarrow>
         (case SetControllerReference K obj (set_value obj v outSecret) of
            Inl e \<Rightarrow> State_Monad.return (Inl (''set owner reference failed: '' @ e))
          | Inr outSecret \<Rightarrow> write_target K outSecret)
   }"

text \<open>The run for an object that was read.\<close>

definition reconcile_object :: "op_env \<Rightarrow> 'c kube \<Rightarrow> BrinecryptSecret \<Rightarrow> ('c, reconcile_result) state" where
  "reconcile_object C K obj =
     (case parseRefreshInterval (RefreshInterval (bs_Spec obj)) of
        Inl err \<Rightarrow> fail K obj err
      | Inr refresh \<Rightarrow>
          (if \<not> spec_complete (bs_Spec obj)
           then fail K obj ''spec.remotePath, spec.serviceAccount, and spec.targetSecret are required''
           else do {
             p \<leftarrow> pull_value C K obj;
             case p of
               Inl err \<Rightarrow> fail K obj err
             | Inr v \<Rightarrow> do {
                 w \<leftarrow> push_value K obj v;
                 case w of
                   Inl err \<Rightarrow> fail K obj err
                 | Inr _ \<Rightarrow> do {
                     u \<leftarrow> update_status K (obj\<lparr>bs_Status :=
                            \<lparr>st_Ready = True, st_LastSyncTime = Some (op_now C), st_LastError = []\<rparr>\<rparr>);
                     case u of
                       Inl e \<Rightarrow> State_Monad.return (Inl (api_text e))
                     | Inr _ \<Rightarrow> State_Monad.return (Inr \<lparr>RequeueAfter = refresh\<rparr>)
                   }
               }
           }))"

definition Reconcile :: "op_env \<Rightarrow> 'c kube \<Rightarrow> object_key \<Rightarrow> ('c, reconcile_result) state" where
  "Reconcile C K req = do {
     g \<leftarrow> get_object K req;
     case g of
       Inl e \<Rightarrow>
         (if IgnoreNotFound e then State_Monad.return (Inr \<lparr>RequeueAfter = 0\<rparr>)
          else State_Monad.return (Inl (api_text e)))
     | Inr obj \<Rightarrow> reconcile_object C K obj
   }"

end
