(* ===== verification/Operator_Laws.thy ===== *)
theory Operator_Laws
  imports Operator
begin

text \<open>
  What the operator promises about the cluster. \<open>cluster\<close> is the part of a cluster that
  matters to it; \<open>kube_api\<close> is the contract of the Kubernetes API that the reconciler relies
  on, over an arbitrary world with a view of its cluster, and \<open>kube_live\<close> adds that the API
  answers. \<open>reconciled\<close> is the abstract specification of one run of \<open>Reconcile\<close> as a
  relation between clusters, and the code refines it over every world with that contract.
\<close>

record cluster =
  objects :: "object_key \<rightharpoonup> BrinecryptSecret"
  secrets :: "object_key \<rightharpoonup> Secret"

definition object_key :: "BrinecryptSecret \<Rightarrow> object_key" where
  "object_key o' = (bs_Namespace o', bs_Name o')"

definition secret_key :: "Secret \<Rightarrow> object_key" where
  "secret_key s = (sec_Namespace s, sec_Name s)"

definition put_secret :: "Secret \<Rightarrow> cluster \<Rightarrow> cluster" where
  "put_secret s c = c\<lparr>secrets := (secrets c)(secret_key s \<mapsto> s)\<rparr>"

text \<open>The status subresource: the status of the stored object, and nothing else, is replaced.\<close>

definition put_status :: "BrinecryptSecret \<Rightarrow> cluster \<Rightarrow> cluster" where
  "put_status o' c =
     c\<lparr>objects := (objects c)(object_key o' :=
         map_option (\<lambda>x. x\<lparr>bs_Status := bs_Status o'\<rparr>) (objects c (object_key o')))\<rparr>"

text \<open>
  The contract. Reads return what is stored; a \<open>NotFound\<close> answer to a read is true; writes
  that succeed do what they say, and a write that reports an error either did it or did
  nothing. A stored secret has a creation timestamp. A controller reference is set only on
  an object that no other owner controls.
\<close>

locale kube_api =
  fixes K :: "'c kube" and view :: "'c \<Rightarrow> cluster"
  assumes object_read: "wp (get_object K k) (\<lambda>r w'. view w' = view w
      \<and> (\<forall>o'. r = Inr o' \<longrightarrow> objects (view w) k = Some o' \<and> object_key o' = k)
      \<and> (\<forall>m. r = Inl (NotFound m) \<longrightarrow> objects (view w) k = None)) w"
    and secret_read: "wp (get_secret K k) (\<lambda>r w'. view w' = view w
      \<and> (\<forall>s. r = Inr s \<longrightarrow> secrets (view w) k = Some s \<and> secret_key s = k \<and> sec_CreationTimestamp s \<noteq> None)
      \<and> (\<forall>m. r = Inl (NotFound m) \<longrightarrow> secrets (view w) k = None)) w"
    and secret_created: "wp (create_secret K s) (\<lambda>r w'.
        view w' = view w \<and> r \<noteq> Inr ()
      \<or> secrets (view w) (secret_key s) = None
        \<and> (\<exists>t. view w' = put_secret (s\<lparr>sec_CreationTimestamp := Some t\<rparr>) (view w))) w"
    and secret_updated: "wp (update_secret K s) (\<lambda>r w'.
        view w' = view w \<and> r \<noteq> Inr ()
      \<or> secrets (view w) (secret_key s) \<noteq> None \<and> view w' = put_secret s (view w)) w"
    and status_updated: "wp (update_status K o') (\<lambda>r w'.
        view w' = view w \<and> r \<noteq> Inr ()
      \<or> objects (view w) (object_key o') \<noteq> None \<and> view w' = put_status o' (view w)) w"
    and token_created: "wp (request_token K ns sa aud ttl) (\<lambda>_ w'. view w' = view w) w"
    and request_done: "wp (http_Do K hq) (\<lambda>_ w'. view w' = view w) w"
    and controller_set: "SetControllerReference K o' s = Inr s' \<Longrightarrow>
      s' = s\<lparr>sec_Controller := Some (bs_UID o')\<rparr>
      \<and> (sec_Controller s = None \<or> sec_Controller s = Some (bs_UID o'))"

subsection \<open>One run as a relation between clusters\<close>

text \<open>
  The secret that the value \<open>v\<close> is published in: the old target, or a new one, with the key
  of the object set to \<open>v\<close>, of type \<open>Opaque\<close> and controlled by the object. It requires that
  nobody else controls the old one.
\<close>

definition target_key :: "BrinecryptSecret \<Rightarrow> object_key" where
  "target_key o' = (bs_Namespace o', TargetSecret (bs_Spec o'))"

definition old_data :: "Secret option \<Rightarrow> string \<rightharpoonup> bytes" where
  "old_data s = (case Option.bind s sec_Data of None \<Rightarrow> (\<lambda>_. None) | Some m \<Rightarrow> m)"

definition published :: "BrinecryptSecret \<Rightarrow> string \<Rightarrow> cluster \<Rightarrow> cluster \<Rightarrow> bool" where
  "published o' v c c' \<longleftrightarrow>
     (\<exists>s. secret_key s = target_key o' \<and> sec_Type s = SecretTypeOpaque
        \<and> sec_Data s = Some ((old_data (secrets c (target_key o')))(secretKeyOf o' \<mapsto> v))
        \<and> sec_Controller s = Some (bs_UID o') \<and> sec_CreationTimestamp s \<noteq> None
        \<and> (\<forall>old. secrets c (target_key o') = Some old \<longrightarrow>
              sec_Controller old = None \<or> sec_Controller old = Some (bs_UID o'))
        \<and> c' = put_secret s c)"

definition ready_status :: "op_env \<Rightarrow> BrinecryptSecretStatus" where
  "ready_status C = \<lparr>st_Ready = True, st_LastSyncTime = Some (op_now C), st_LastError = []\<rparr>"

definition failed_status :: "string \<Rightarrow> BrinecryptSecretStatus \<Rightarrow> BrinecryptSecretStatus" where
  "failed_status e st = st\<lparr>st_Ready := False, st_LastError := e\<rparr>"

text \<open>
  \<open>genuine o' v\<close> says that \<open>v\<close> may be published for \<open>o'\<close>. A run does nothing when the object is gone
  (\<open>Gone\<close>) or cannot be read (\<open>Unread\<close>), reports an error in the status of the object
  (\<open>Reported\<close>) or cannot even do that (\<open>Unreported\<close>), in both cases possibly after the secret
  was written, or publishes a value, marks the object ready and asks to be run again after
  the refresh interval (\<open>Synced\<close>).
\<close>

inductive reconciled ::
  "op_env \<Rightarrow> (BrinecryptSecret \<Rightarrow> string \<Rightarrow> bool) \<Rightarrow> object_key \<Rightarrow> cluster \<Rightarrow> reconcile_result \<Rightarrow> cluster \<Rightarrow> bool"
  for C :: op_env and genuine :: "BrinecryptSecret \<Rightarrow> string \<Rightarrow> bool" and k :: object_key
  where
  Gone: "objects c k = None \<Longrightarrow> reconciled C genuine k c (Inr \<lparr>RequeueAfter = 0\<rparr>) c"
| Unread: "reconciled C genuine k c (Inl e) c"
| Reported: "objects c k = Some o' \<Longrightarrow> object_key o' = k \<Longrightarrow> c1 = c \<or> (\<exists>v. genuine o' v \<and> published o' v c c1) \<Longrightarrow>
    reconciled C genuine k c (Inl e) (put_status (o'\<lparr>bs_Status := failed_status e (bs_Status o')\<rparr>) c1)"
| Unreported: "objects c k = Some o' \<Longrightarrow> object_key o' = k \<Longrightarrow> c1 = c \<or> (\<exists>v. genuine o' v \<and> published o' v c c1) \<Longrightarrow>
    c2 = c1 \<or> c2 = put_status (o'\<lparr>bs_Status := st\<rparr>) c1 \<Longrightarrow>
    reconciled C genuine k c (Inl e) c2"
| Synced: "objects c k = Some o' \<Longrightarrow> object_key o' = k \<Longrightarrow> spec_complete (bs_Spec o') \<Longrightarrow>
    parseRefreshInterval (RefreshInterval (bs_Spec o')) = Inr d \<Longrightarrow> genuine o' v \<Longrightarrow> published o' v c c1 \<Longrightarrow>
    reconciled C genuine k c (Inr \<lparr>RequeueAfter = d\<rparr>) (put_status (o'\<lparr>bs_Status := ready_status C\<rparr>) c1)"

inductive_cases reconciled_InrE: "reconciled C genuine k c (Inr r) c'"

subsection \<open>The refresh interval\<close>

lemma parseRefreshInterval_range:
  "parseRefreshInterval s = Inr d \<Longrightarrow> Second \<le> d \<and> d < 2 ^ 63"
  unfolding parseRefreshInterval_def
  by (auto simp: defaultRefreshInterval_def minimumRefreshInterval_def Hour_def Minute_def Second_def not_less
      split: if_splits sum.splits dest: ParseDuration_range)

subsection \<open>The code refines the specification\<close>

lemma object_key_upd [simp]: "object_key (o'\<lparr>bs_Status := st\<rparr>) = object_key o'"
  by (simp add: object_key_def)

lemma published_objects: "published o' v c c' \<Longrightarrow> objects c' = objects c"
  by (auto simp: published_def put_secret_def)

text \<open>What \<open>find_target\<close> hands on: the old secret with a data map, or a fresh one.\<close>

definition found_target :: "BrinecryptSecret \<Rightarrow> cluster \<Rightarrow> api_error + Secret \<Rightarrow> bool" where
  "found_target o' c r \<longleftrightarrow>
     (\<forall>s. r = Inr s \<longrightarrow>
        secret_key s = target_key o' \<and> sec_Data s = Some (old_data (secrets c (target_key o')))
        \<and> (case secrets c (target_key o') of
              None \<Rightarrow> sec_CreationTimestamp s = None \<and> sec_Controller s = None
            | Some old \<Rightarrow> sec_CreationTimestamp s \<noteq> None \<and> sec_Controller s = sec_Controller old))"

text \<open>The target can be taken over: it is missing, or opaque and not controlled by another owner.\<close>

definition adoptable :: "BrinecryptSecret \<Rightarrow> cluster \<Rightarrow> bool" where
  "adoptable o' c =
     (case secrets c (target_key o') of
        None \<Rightarrow> True
      | Some s \<Rightarrow> sec_Type s = SecretTypeOpaque
          \<and> (sec_Controller s = None \<or> sec_Controller s = Some (bs_UID o')))"

context kube_api
begin

lemma wp_fetch: "wp (fetchRemoteSecretValue C K path tok) (\<lambda>_ w'. view w' = view w) w"
  unfolding fetchRemoteSecretValue_def
  by (auto simp: wp_simps Let_def intro!: wp_mono [OF request_done] split: sum.splits option.splits)

lemma wp_pull: "wp (pull_value C K o') (\<lambda>_ w'. view w' = view w) w"
  unfolding pull_value_def
  by (auto simp: wp_simps split: sum.splits intro!: wp_mono [OF token_created] wp_mono [OF wp_fetch])

lemma wp_find_target:
  "wp (find_target K o') (\<lambda>r w'. view w' = view w \<and> found_target o' (view w) r) w"
  unfolding find_target_def wp_bind
proof (rule wp_mono [OF secret_read], elim conjE)
  fix r :: "api_error + Secret" and w'
  assume v: "view w' = view w"
    and found: "\<forall>s. r = Inr s \<longrightarrow> secrets (view w) (bs_Namespace o', TargetSecret (bs_Spec o')) = Some s
      \<and> secret_key s = (bs_Namespace o', TargetSecret (bs_Spec o')) \<and> sec_CreationTimestamp s \<noteq> None"
    and none: "\<forall>m. r = Inl (NotFound m) \<longrightarrow> secrets (view w) (bs_Namespace o', TargetSecret (bs_Spec o')) = None"
  show "wp (case r of
      Inl e \<Rightarrow> State_Monad.return (if \<not> IgnoreNotFound e then Inl e else Inr (new_secret o'))
    | Inr s \<Rightarrow> State_Monad.return (Inr (if sec_Data s = None then s\<lparr>sec_Data := Some (\<lambda>_. None)\<rparr> else s)))
    (\<lambda>r w'. view w' = view w \<and> found_target o' (view w) r) w'"
  proof (cases r)
    case (Inl e)
    with v none show ?thesis
      by (cases e) (auto simp: wp_simps IgnoreNotFound_def found_target_def new_secret_def secret_key_def
          target_key_def old_data_def)
  next
    case (Inr s)
    with v found show ?thesis
      by (auto simp: wp_simps found_target_def secret_key_def target_key_def old_data_def)
  qed
qed

lemma wp_write:
  assumes "secret_key s = target_key o'" "sec_Type s = SecretTypeOpaque"
    "sec_Data s = Some ((old_data (secrets (view w) (target_key o')))(secretKeyOf o' \<mapsto> v))"
    "sec_Controller s = Some (bs_UID o')"
    "\<forall>old. secrets (view w) (target_key o') = Some old \<longrightarrow>
       sec_Controller old = None \<or> sec_Controller old = Some (bs_UID o')"
  shows "wp (write_target K s) (\<lambda>r w'. view w' = view w \<and> r \<noteq> Inr () \<or> published o' v (view w) (view w')) w"
proof (cases "sec_CreationTimestamp s")
  case None
  have "published o' v (view w) (put_secret (s\<lparr>sec_CreationTimestamp := Some t\<rparr>) (view w))" for t
    unfolding published_def
    by (rule exI [of _ "s\<lparr>sec_CreationTimestamp := Some t\<rparr>"]) (use assms in \<open>auto simp: secret_key_def\<close>)
  then show ?thesis
    unfolding write_target_def using None
    by (auto simp: wp_simps split: sum.splits intro!: wp_mono [OF secret_created])
next
  case (Some t)
  have "published o' v (view w) (put_secret s (view w))"
    unfolding published_def by (rule exI [of _ s]) (use assms Some in auto)
  then show ?thesis
    unfolding write_target_def using Some
    by (auto simp: wp_simps split: sum.splits intro!: wp_mono [OF secret_updated])
qed

lemma wp_push:
  "wp (push_value K o' v) (\<lambda>r w'. view w' = view w \<and> r \<noteq> Inr () \<or> published o' v (view w) (view w')) w"
  unfolding push_value_def wp_bind
proof (rule wp_mono [OF wp_find_target])
  fix r :: "api_error + Secret" and w'
  assume found: "view w' = view w \<and> found_target o' (view w) r"
  have "wp (write_target K s') (\<lambda>r w'. view w' = view w \<and> r \<noteq> Inr () \<or> published o' v (view w) (view w')) w'"
    if "r = Inr s" "SetControllerReference K o' (set_value o' v s) = Inr s'" for s s'
    using wp_write [of s' o' w' v] found that controller_set [OF that(2)]
    by (auto simp: found_target_def set_value_def secret_key_def split: option.splits)
  with found show "wp (case r of Inl e \<Rightarrow> State_Monad.return (Inl (''get target secret failed: '' @ api_text e))
      | Inr s \<Rightarrow> case SetControllerReference K o' (set_value o' v s) of
          Inl e \<Rightarrow> State_Monad.return (Inl (''set owner reference failed: '' @ e))
        | Inr s \<Rightarrow> write_target K s)
      (\<lambda>r w'. view w' = view w \<and> r \<noteq> Inr () \<or> published o' v (view w) (view w')) w'"
    by (auto simp: wp_simps split: sum.splits)
qed

lemma wp_fail:
  assumes "objects (view w0) k = Some o'" "object_key o' = k"
    "view w = view w0 \<or> (\<exists>v. genuine o' v \<and> published o' v (view w0) (view w))"
  shows "wp (fail K o' e) (\<lambda>r w'. reconciled C genuine k (view w0) r (view w')) w"
  unfolding fail_def wp_bind
proof (rule wp_mono [OF status_updated])
  fix r :: "api_error + unit" and w'
  let ?st = "failed_status e (bs_Status o')"
  assume "view w' = view w \<and> r \<noteq> Inr () \<or>
    objects (view w) (object_key (o'\<lparr>bs_Status := (bs_Status o')\<lparr>st_Ready := False, st_LastError := e\<rparr>\<rparr>)) \<noteq> None \<and>
    view w' = put_status (o'\<lparr>bs_Status := (bs_Status o')\<lparr>st_Ready := False, st_LastError := e\<rparr>\<rparr>) (view w)"
  then have "view w' = view w \<and> r \<noteq> Inr () \<or> view w' = put_status (o'\<lparr>bs_Status := ?st\<rparr>) (view w)"
    by (auto simp: failed_status_def)
  then show "wp (case r of
      Inl m \<Rightarrow> State_Monad.return (Inl (''reconcile error: '' @ e @ ''; status update error: '' @ api_text m))
    | Inr _ \<Rightarrow> State_Monad.return (Inl e)) (\<lambda>r w'. reconciled C genuine k (view w0) r (view w')) w'"
    using reconciled.Reported [of "view w0" k o' "view w" genuine C e, OF assms]
      reconciled.Unreported [of "view w0" k o' "view w" genuine "view w'" ?st C, OF assms]
    by (auto simp: wp_simps split: sum.splits)
qed

text \<open>
  The refinement: whatever the API answers and wherever it fails, a run of the code is a
  run of the specification, for any notion of a genuine value that the fetch establishes.
\<close>

lemma wp_reconcile_object:
  assumes o': "objects (view w) k = Some o'" "object_key o' = k"
    and pulled: "wp (pull_value C K o') (\<lambda>r _. \<forall>v. r = Inr v \<longrightarrow> genuine o' v) w"
  shows "wp (reconcile_object C K o') (\<lambda>r w'. reconciled C genuine k (view w) r (view w')) w"
proof -
  define Q where "Q = (\<lambda>r w'. reconciled C genuine k (view w) r (view w'))"
  have failed: "wp (fail K o' e) Q w'"
    if "view w' = view w \<or> (\<exists>v. genuine o' v \<and> published o' v (view w) (view w'))" for e w'
    unfolding Q_def using wp_fail [of w k o' w' genuine, OF o' that] .
  have synced: "wp (update_status K (o'\<lparr>bs_Status := ready_status C\<rparr>)) (\<lambda>u. case u of
        Inl e \<Rightarrow> wp (State_Monad.return (Inl (api_text e))) Q
      | Inr _ \<Rightarrow> wp (State_Monad.return (Inr \<lparr>RequeueAfter = d\<rparr>)) Q) w'"
    if "spec_complete (bs_Spec o')" "parseRefreshInterval (RefreshInterval (bs_Spec o')) = Inr d"
      "genuine o' v" "published o' v (view w) (view w')" for d v w'
    by (rule wp_mono [OF status_updated])
      (use that o' in \<open>auto simp: Q_def wp_simps intro: reconciled.Synced reconciled.Unreported split: sum.splits\<close>)
  have pushed: "wp (push_value K o' v) (\<lambda>p. case p of
        Inl e \<Rightarrow> wp (fail K o' e) Q
      | Inr _ \<Rightarrow> wp (update_status K (o'\<lparr>bs_Status := ready_status C\<rparr>)) (\<lambda>u. case u of
          Inl e \<Rightarrow> wp (State_Monad.return (Inl (api_text e))) Q
      | Inr _ \<Rightarrow> wp (State_Monad.return (Inr \<lparr>RequeueAfter = d\<rparr>)) Q)) w'"
    if "spec_complete (bs_Spec o')" "parseRefreshInterval (RefreshInterval (bs_Spec o')) = Inr d"
      "genuine o' v" and w': "view w' = view w" for d v w'
    by (rule wp_mono [OF wp_push])
      (use that synced in \<open>auto split: sum.splits intro!: failed\<close>)
  have "wp (pull_value C K o') (\<lambda>r w'. view w' = view w \<and> (\<forall>v. r = Inr v \<longrightarrow> genuine o' v)) w"
    using pulled wp_pull [of C o' w] by (simp add: wp_conj)
  then show ?thesis
    unfolding Q_def [symmetric] reconcile_object_def ready_status_def [symmetric]
    by (auto simp: wp_simps split: sum.splits elim!: wp_mono intro!: pushed failed [OF disjI1])
qed

lemma wp_Reconcile:
  assumes kept: "wp (get_object K k) (\<lambda>_. I) w"
    and pulled: "\<And>o' w'. I w' \<Longrightarrow> view w' = view w \<Longrightarrow> objects (view w) k = Some o' \<Longrightarrow> object_key o' = k \<Longrightarrow>
      wp (pull_value C K o') (\<lambda>r _. \<forall>v. r = Inr v \<longrightarrow> genuine o' v) w'"
  shows "wp (Reconcile C K k) (\<lambda>r w'. reconciled C genuine k (view w) r (view w')) w"
  unfolding Reconcile_def wp_bind
proof (rule wp_mono [OF wp_conj [THEN iffD2, OF conjI, OF object_read kept]], elim conjE)
  fix g :: "api_error + BrinecryptSecret" and w'
  assume v: "view w' = view w" and i: "I w'"
    and found: "\<forall>o'. g = Inr o' \<longrightarrow> objects (view w) k = Some o' \<and> object_key o' = k"
    and none: "\<forall>m. g = Inl (NotFound m) \<longrightarrow> objects (view w) k = None"
  show "wp (case g of
      Inl e \<Rightarrow> if IgnoreNotFound e then State_Monad.return (Inr \<lparr>RequeueAfter = 0\<rparr>)
        else State_Monad.return (Inl (api_text e))
    | Inr obj \<Rightarrow> reconcile_object C K obj) (\<lambda>r w'. reconciled C genuine k (view w) r (view w')) w'"
  proof (cases g)
    case (Inl e)
    with none v show ?thesis
      by (auto simp: wp_simps IgnoreNotFound_def intro: reconciled.Gone reconciled.Unread split: api_error.splits)
  next
    case (Inr o')
    with found v i show ?thesis using wp_reconcile_object [of w' k o' C genuine] pulled [of w' o'] by simp
  qed
qed

end

subsection \<open>An API that answers\<close>

text \<open>
  The liveness half of the contract: in a \<open>healthy\<close> world every call is answered and does
  its work, and the world stays healthy. The type of an existing secret cannot be changed,
  so an update is answered only when it keeps the type.
\<close>

locale kube_live = kube_api K view
  for K :: "'c kube" and view :: "'c \<Rightarrow> cluster" +
  fixes healthy :: "'c \<Rightarrow> bool"
  assumes object_answer: "healthy w \<Longrightarrow> objects (view w) k = Some o' \<Longrightarrow>
      wp (get_object K k) (\<lambda>r w'. r = Inr o' \<and> healthy w') w"
    and secret_answer: "healthy w \<Longrightarrow> wp (get_secret K k) (\<lambda>r w'. healthy w' \<and>
      (case secrets (view w) k of None \<Rightarrow> \<exists>m. r = Inl (NotFound m) | Some s \<Rightarrow> r = Inr s)) w"
    and create_answer: "healthy w \<Longrightarrow> secrets (view w) (secret_key s) = None \<Longrightarrow>
      wp (create_secret K s) (\<lambda>r w'. r = Inr () \<and> healthy w') w"
    and update_answer: "healthy w \<Longrightarrow> secrets (view w) (secret_key s) = Some old \<Longrightarrow> sec_Type old = sec_Type s \<Longrightarrow>
      sec_CreationTimestamp s \<noteq> None \<Longrightarrow> wp (update_secret K s) (\<lambda>r w'. r = Inr () \<and> healthy w') w"
    and status_answer: "healthy w \<Longrightarrow> objects (view w) (object_key o') \<noteq> None \<Longrightarrow>
      wp (update_status K o') (\<lambda>r w'. r = Inr () \<and> healthy w') w"
    and controller_answer: "sec_Controller s = None \<or> sec_Controller s = Some (bs_UID o') \<Longrightarrow>
      \<exists>s'. SetControllerReference K o' s = Inr s'"
begin

lemma push_answers:
  assumes "healthy w" "adoptable o' (view w)"
  shows "wp (push_value K o' v) (\<lambda>r w'. r = Inr () \<and> healthy w') w"
proof -
  have "wp (find_target K o') (\<lambda>r w'. healthy w' \<and> (\<exists>s. r = Inr s)) w"
    unfolding find_target_def wp_bind
    by (rule wp_mono [OF secret_answer [OF assms(1)]])
      (auto simp: wp_simps IgnoreNotFound_def split: sum.splits option.splits)
  then have "wp (find_target K o') (\<lambda>r w'. (view w' = view w \<and> found_target o' (view w) r)
      \<and> (healthy w' \<and> (\<exists>s. r = Inr s))) w"
    using wp_find_target [of o' w] by (simp add: wp_conj)
  then show ?thesis
    unfolding push_value_def wp_bind
  proof (rule wp_mono, elim conjE exE)
    fix r w' s
    assume w': "view w' = view w" "healthy w'" and r: "r = Inr s" and found: "found_target o' (view w) r"
    note s = found [unfolded found_target_def r, rule_format, OF refl]
    have "sec_Controller s = None \<or> sec_Controller s = Some (bs_UID o')"
      using s assms(2) by (auto simp: adoptable_def split: option.splits)
    with controller_answer obtain s' where s': "SetControllerReference K o' (set_value o' v s) = Inr s'"
      by (force simp: set_value_def)
    from controller_set [OF this] s have k: "secret_key s' = target_key o'" "sec_Type s' = SecretTypeOpaque"
      "sec_CreationTimestamp s' = sec_CreationTimestamp s"
      by (auto simp: set_value_def secret_key_def)
    have "wp (write_target K s') (\<lambda>r w'. r = Inr () \<and> healthy w') w'"
    proof (cases "secrets (view w) (target_key o')")
      case None
      with s k w' show ?thesis
        by (auto simp: write_target_def wp_simps intro!: wp_mono [OF create_answer])
    next
      case (Some old)
      with s k w' assms(2) show ?thesis
        by (auto simp: write_target_def wp_simps adoptable_def intro!: wp_mono [OF update_answer])
    qed
    then show "wp (case r of Inl e \<Rightarrow> State_Monad.return (Inl (''get target secret failed: '' @ api_text e))
        | Inr s \<Rightarrow> case SetControllerReference K o' (set_value o' v s) of
            Inl e \<Rightarrow> State_Monad.return (Inl (''set owner reference failed: '' @ e))
          | Inr s \<Rightarrow> write_target K s) (\<lambda>r w'. r = Inr () \<and> healthy w') w'"
      by (simp add: r s')
  qed
qed

lemma reconcile_object_answers:
  assumes "healthy w" "adoptable o' (view w)" "objects (view w) (object_key o') \<noteq> None"
    "spec_complete (bs_Spec o')" "parseRefreshInterval (RefreshInterval (bs_Spec o')) = Inr d"
    and pulled: "wp (pull_value C K o') (\<lambda>r w'. (\<exists>v. r = Inr v) \<and> healthy w') w"
  shows "wp (reconcile_object C K o') (\<lambda>r w'. r = Inr \<lparr>RequeueAfter = d\<rparr> \<and> healthy w') w"
proof -
  define Q :: "reconcile_result \<Rightarrow> 'c \<Rightarrow> bool"
    where "Q = (\<lambda>r w'. r = Inr \<lparr>RequeueAfter = d\<rparr> \<and> healthy w')"
  have pushed: "wp (push_value K o' v) (\<lambda>r w'. r = Inr () \<and> healthy w' \<and> objects (view w') (object_key o') \<noteq> None) w'"
    if "view w' = view w" "healthy w'" for v w'
  proof -
    have "wp (push_value K o' v) (\<lambda>r w''. (view w'' = view w' \<and> r \<noteq> Inr () \<or> published o' v (view w') (view w''))
        \<and> (r = Inr () \<and> healthy w'')) w'"
      using wp_push [of o' v w'] push_answers [of w' o' v] that assms(2) by (simp add: wp_conj)
    then show ?thesis
      by (rule wp_mono) (use that assms(3) in \<open>auto dest: published_objects\<close>)
  qed
  have status: "wp (update_status K (o'\<lparr>bs_Status := st\<rparr>)) (\<lambda>u. case u of
        Inl e \<Rightarrow> wp (State_Monad.return (Inl (api_text e))) Q
      | Inr _ \<Rightarrow> wp (State_Monad.return (Inr \<lparr>RequeueAfter = d\<rparr>)) Q) w'"
    if "healthy w'" "objects (view w') (object_key o') \<noteq> None" for st w'
    by (rule wp_mono [OF status_answer]) (use that in \<open>auto simp: Q_def wp_simps\<close>)
  have "wp (pull_value C K o') (\<lambda>r w'. view w' = view w \<and> ((\<exists>v. r = Inr v) \<and> healthy w')) w"
    using pulled wp_pull [of C o' w] by (simp add: wp_conj)
  then show ?thesis
    unfolding Q_def [symmetric] reconcile_object_def
    by (auto simp: wp_simps assms(4,5) elim!: wp_mono intro!: wp_mono [OF pushed] status)
qed

lemma Reconcile_answers:
  assumes "healthy w" "adoptable o' (view w)" "objects (view w) k = Some o'" "object_key o' = k"
    "spec_complete (bs_Spec o')" "parseRefreshInterval (RefreshInterval (bs_Spec o')) = Inr d"
    and kept: "wp (get_object K k) (\<lambda>_. I) w"
    and pulled: "\<And>w'. I w' \<Longrightarrow> healthy w' \<Longrightarrow> view w' = view w \<Longrightarrow>
      wp (pull_value C K o') (\<lambda>r w''. r = Inr v \<and> healthy w'') w'"
  shows "wp (Reconcile C K k) (\<lambda>r w'. r = Inr \<lparr>RequeueAfter = d\<rparr> \<and> healthy w' \<and>
      (\<exists>c1. published o' v (view w) c1 \<and> view w' = put_status (o'\<lparr>bs_Status := ready_status C\<rparr>) c1)) w"
proof -
  let ?g = "\<lambda>x u. x = o' \<and> u = v" and ?i = "\<lambda>w'. I w' \<and> healthy w'"
  have i: "wp (get_object K k) (\<lambda>r w'. (r = Inr o' \<and> healthy w') \<and> I w') w"
    using kept object_answer [OF assms(1,3)] by (simp add: wp_conj)
  have spec: "wp (Reconcile C K k) (\<lambda>r w'. reconciled C ?g k (view w) r (view w')) w"
  proof (rule wp_Reconcile [where I = ?i])
    show "wp (get_object K k) (\<lambda>_. ?i) w" by (rule wp_mono [OF i]) auto
    show "wp (pull_value C K x) (\<lambda>r _. \<forall>u. r = Inr u \<longrightarrow> ?g x u) w'"
      if "I w' \<and> healthy w'" "view w' = view w" "objects (view w) k = Some x" for x w'
    proof -
      have "x = o'" using that(3) assms(3) by simp
      then show ?thesis using that(1,2) by (auto intro!: wp_mono [OF pulled])
    qed
  qed
  have "wp (get_object K k) (\<lambda>r w'. ((r = Inr o' \<and> healthy w') \<and> I w') \<and> view w' = view w) w"
    using i wp_mono [OF object_read [of k w], of "\<lambda>_ w'. view w' = view w"] by (simp add: wp_conj)
  then have "wp (Reconcile C K k) (\<lambda>r w'. r = Inr \<lparr>RequeueAfter = d\<rparr> \<and> healthy w') w"
    unfolding Reconcile_def wp_bind
    by (rule wp_mono)
      (use assms in \<open>auto intro!: reconcile_object_answers wp_mono [OF pulled]\<close>)
  with spec have "wp (Reconcile C K k) (\<lambda>r w'. reconciled C ?g k (view w) r (view w')
      \<and> (r = Inr \<lparr>RequeueAfter = d\<rparr> \<and> healthy w')) w"
    by (simp add: wp_conj)
  then show ?thesis
    by (rule wp_mono) (use assms(3) in \<open>auto elim!: reconciled_InrE\<close>)
qed

end

end
