(* ===== verification/Delivery.thy ===== *)
theory Delivery
  imports Operator_Laws Server_Props
begin

text \<open>
  From the server to the operator: how a request of the operator reaches the server and what
  the server does with it. \<open>link\<close> has what connects the two: the environment of the server
  and the URL it is reached under, the tokens the cluster issues, and the text of a response
  body. The locales \<open>kube_server\<close> and \<open>kube_server_live\<close> add to the contract of the Kubernetes
  API that HTTP requests are answered by \<open>server\<close>.
\<close>

record link =
  dp_server :: env
  dp_url :: string
  dp_token :: "string \<Rightarrow> string \<Rightarrow> string"
  dp_text :: "payload \<Rightarrow> string"

subsection \<open>Requests over HTTP\<close>

text \<open>
  The request that the server sees: the path after the base URL in segments, the query
  parameters and the headers.
\<close>

definition query_pairs :: "string \<Rightarrow> (string \<times> string) list" where
  "query_pairs q = map (\<lambda>p. (before_sep (CHR ''='') p, after_sep (CHR ''='') p)) (Split (CHR ''&'') q)"

definition lookup :: "(string \<times> string) list \<Rightarrow> string \<Rightarrow> string" where
  "lookup xs n = (case map_of xs n of None \<Rightarrow> [] | Some v \<Rightarrow> v)"

definition received :: "string \<Rightarrow> http_request \<Rightarrow> request" where
  "received base hq =
     (let target = drop (length base) (hq_URL hq) in
      \<lparr>rq_method = hq_Method hq,
       rq_segments = tl (Split (CHR ''/'') (before_sep (CHR ''?'') target)),
       rq_header = lookup (hq_Header hq),
       rq_query = lookup (query_pairs (after_sep (CHR ''?'') target)),
       rq_path_value = (\<lambda>_. []),
       rq_body = Some (hq_Body hq),
       rq_remote_addr = [],
       rq_ctx = no_context\<rparr>)"

subsection \<open>The text of an answer\<close>

text \<open>
  The JSON object of a resource by the struct tags of \<open>internal/orm\<close>; times and UUIDs are
  printed by parameters. An unknown enumeration value cannot be printed.
\<close>

definition opt_member :: "string \<Rightarrow> json option \<Rightarrow> (string \<times> json) list" where
  "opt_member n j = (case j of None \<Rightarrow> [] | Some v \<Rightarrow> [(n, v)])"

definition namespace_json :: "(time \<Rightarrow> string) \<Rightarrow> namespace option \<Rightarrow> json" where
  "namespace_json T n =
     JObj [(''name'', JStr (case n of None \<Rightarrow> [] | Some x \<Rightarrow> ns_name x)),
           (''created_at'', JStr (T (case n of None \<Rightarrow> 0 | Some x \<Rightarrow> ns_created_at x)))]"

definition key_json :: "(time \<Rightarrow> string) \<Rightarrow> encryption_key \<Rightarrow> json" where
  "key_json T k =
     JObj [(''encrypted_dek'', JStr (ek_encrypted_dek k)), (''kek_version'', JInt (int (ek_kek_version k))),
           (''created_at'', JStr (T (ek_created_at k)))]"

definition value_json :: "(time \<Rightarrow> string) \<Rightarrow> (uuid \<Rightarrow> string) \<Rightarrow> resource_value \<Rightarrow> json option" where
  "value_json T U v =
     (case EncryptionAlgorithm_MarshalJSON (rv_encryption_algorithm v) of
        None \<Rightarrow> None
      | Some alg \<Rightarrow> Some (JObj (
          [(''uuid'', JStr (U (rv_uuid v))), (''version'', JInt (int (rv_version v))),
           (''data'', JStr (rv_data v)), (''encryption_algorithm'', alg)]
          @ opt_member ''encryption_key_id'' (map_option (\<lambda>i. JInt (int i)) (rv_encryption_key_id v))
          @ opt_member ''encryption_key'' (map_option (key_json T) (rv_encryption_key v))
          @ opt_member ''created_by'' (if rv_created_by v = [] then None else Some (JStr (rv_created_by v)))
          @ [(''created_at'', JStr (T (rv_created_at v)))]
          @ opt_member ''retired_at'' (map_option (\<lambda>t. JStr (T t)) (rv_retired_at v)))))"

definition resource_json :: "(time \<Rightarrow> string) \<Rightarrow> (uuid \<Rightarrow> string) \<Rightarrow> resource \<Rightarrow> json option" where
  "resource_json T U r =
     (case (ResourceType_MarshalJSON (r_type r),
            case r_value r of None \<Rightarrow> Some None | Some v \<Rightarrow> map_option Some (value_json T U v)) of
        (Some ty, Some value) \<Rightarrow> Some (JObj (
          [(''namespace'', namespace_json T (r_ns r)), (''name'', JStr (r_name r)), (''type'', ty),
           (''created_at'', JStr (T (r_created_at r))), (''created_by'', JStr (r_created_by r))]
          @ opt_member ''retired_at'' (map_option (\<lambda>t. JStr (T t)) (r_retired_at r))
          @ opt_member ''value'' value))
      | _ \<Rightarrow> None)"

text \<open>What the operator reads from it is the data of the value.\<close>

lemma fold_eq_names [simp]:
  "\<not> fold_eq ''value'' ''namespace''" "\<not> fold_eq ''value'' ''name''" "\<not> fold_eq ''value'' ''type''"
  "\<not> fold_eq ''value'' ''created_at''" "\<not> fold_eq ''value'' ''created_by''" "\<not> fold_eq ''value'' ''retired_at''"
  "\<not> fold_eq ''data'' ''uuid''" "\<not> fold_eq ''data'' ''version''" "\<not> fold_eq ''data'' ''encryption_algorithm''"
  "\<not> fold_eq ''data'' ''encryption_key_id''" "\<not> fold_eq ''data'' ''encryption_key''" "\<not> fold_eq ''data'' ''created_by''"
  "\<not> fold_eq ''data'' ''created_at''" "\<not> fold_eq ''data'' ''retired_at''"
  by code_simp+

lemma decode_value_json:
  "value_json T U v = Some j \<Longrightarrow> decode_value j None = Some (Some (rv_data v))"
  by (auto simp: value_json_def decode_value_def opt_member_def decode_string_def split: option.splits)

lemma decode_members_skip:
  "list_all (\<lambda>(n, _). \<not> fold_eq ''value'' n) ms \<Longrightarrow>
     decode_members [(''value'', f)] (ms @ ms') x = decode_members [(''value'', f)] ms' x"
  by (induction ms) auto

lemma decode_resource_json:
  assumes "resource_json T U r = Some j"
  shows "decode_brinecryptResourceResponse j = Some (map_option rv_data (r_value r))"
  using assms unfolding resource_json_def decode_brinecryptResourceResponse_def
  by (auto simp: decode_struct_def decode_members_skip decode_value_json opt_member_def
      split: option.splits)

subsection \<open>The operator's request at the server\<close>

text \<open>What the server sees of the request that \<open>fetchRemoteSecretValue\<close> sends.\<close>

lemma fetch_request_target:
  "Split (CHR ''/'') (before_sep (CHR ''?'') ''/api/v1/resource?op=query'') = [[], ''api'', ''v1'', ''resource'']"
  "query_pairs (after_sep (CHR ''?'') ''/api/v1/resource?op=query'') = [(''op'', ''query'')]"
  by code_simp+

lemma received_fetch:
  "rq_method (received base (fetch_request base body tok)) = ''POST''"
  "rq_segments (received base (fetch_request base body tok)) = [''api'', ''v1'', ''resource'']"
  "rq_query (received base (fetch_request base body tok)) ''op'' = ''query''"
  "rq_header (received base (fetch_request base body tok)) ''Authorization'' = ''Bearer '' @ tok"
  "rq_body (received base (fetch_request base body tok)) = Some body"
  "rq_ctx (received base (fetch_request base body tok)) = no_context"
  by (simp_all add: received_def fetch_request_def Let_def fetch_request_target lookup_def)

lemma received_fetch_path: "rq_path (received base (fetch_request base body tok)) = ''/api/v1/resource''"
  by (simp add: rq_path_def received_fetch)

lemma received_fetch_bearer: "bearer (received base (fetch_request base body tok)) = tok"
  by (simp add: bearer_def received_fetch TrimPrefix_def)

text \<open>A token that looks like a JWT is none of the server's own tokens.\<close>

lemma jwt_prefix:
  assumes "looksLikeJWT tok"
  shows "tok \<noteq> []" "\<not> HasPrefix tok SessionPrefix" "\<not> HasPrefix tok PATPrefix" "\<not> HasPrefix tok CapabilityPrefix"
  using assms by (auto simp: looksLikeJWT_def HasPrefix_iff)

definition query_body :: "string \<Rightarrow> string \<Rightarrow> resourceQueryRequest" where
  "query_body ns n = \<lparr>qr_namespace = ns, qr_name = n, qr_version = [], qr_uuid = []\<rparr>"

text \<open>The members of a marshalled Go map come in the order of their keys.\<close>

definition query_json :: "string \<Rightarrow> string \<Rightarrow> json" where
  "query_json ns n = JObj [(''name'', JStr n), (''namespace'', JStr ns)]"

lemma decode_query_json: "decode_resourceQueryRequest (query_json ns n) = Some (query_body ns n)"
proof -
  have "\<not> fold_eq ''namespace'' ''name''" by code_simp
  then show ?thesis
    by (simp add: decode_resourceQueryRequest_def query_json_def query_body_def decode_struct_def
        str_field_def decode_string_def)
qed

text \<open>The request reaches \<open>handleGetResource\<close> with the service account as its principal.\<close>

lemma inner_fetch:
  assumes "rq_method r = ''POST''" "rq_segments r = [''api'', ''v1'', ''resource'']"
    "rq_query r ''op'' = ''query''" "decode_body E decode_resourceQueryRequest r = Some (query_body ns n)"
  shows "inner E r =
    (if ns = [] \<or> n = [] then answer (http_Error ''provide namespace+name or uuid'' 400)
     else handleGetResource E (r\<lparr>rq_path_value := path_value []\<rparr>) (principalFromContext r) ns n [])"
proof -
  have "find_route (inner_routes E) r = Some ([], ResourceHandler E)"
    by (simp add: inner_routes_def method_matches_def assms(1,2))
  moreover have "decode_body E decode_resourceQueryRequest (r\<lparr>rq_path_value := f\<rparr>) = Some (query_body ns n)" for f
    using assms(4) by (simp add: decode_body_def)
  moreover have "principalFromContext (r\<lparr>rq_path_value := f\<rparr>) = principalFromContext r" for f
    by (simp add: principalFromContext_def split: option.splits)
  ultimately show ?thesis
    using assms by (simp add: inner_def serve_mux_def ResourceHandler_def handleResourceQuery_def
        query_body_def Let_def)
qed

lemma sa_principal:
  "principalFromContext (r\<lparr>rq_ctx := no_context\<lparr>cx_sa := Some a\<rparr>\<rparr>)
     = Some (NewPrincipalFromSA (sa_namespace a) (sa_name a))"
  by (simp add: principalFromContext_def no_context_def)

lemma wp_CORSMiddleware:
  assumes "rq_method r \<noteq> ''OPTIONS''" "\<And>resp s' hs. P resp s' \<Longrightarrow> P (resp\<lparr>rs_headers := hs\<rparr>) s'"
    and "wp (nxt r) P s"
  shows "wp (CORSMiddleware nxt r) P s"
  unfolding CORSMiddleware_def using assms
  by (auto simp: wp_simps Let_def elim!: wp_mono)

text \<open>
  A positive answer carries the latest value of the resource, and the policy lets the
  service account read the resource.
\<close>

definition read_answer :: "env \<Rightarrow> tables \<Rightarrow> principal \<Rightarrow> string \<Rightarrow> string \<Rightarrow> resource \<Rightarrow> bool" where
  "read_answer E t pr ns n res \<longleftrightarrow>
     ns \<noteq> ''_'' \<and> policy (now E) t (Some pr) VerbTypeRead ns n
   \<and> (\<exists>stored. loaded_resource ns n t = Some stored
        \<and> (r_value stored = None \<and> res = stored
           \<or> (\<exists>v v'. r_value stored = Some v \<and> decryptValue E v = Some v' \<and> res = stored\<lparr>r_value := Some v'\<rparr>)))"

lemma handleGetResource_statuses:
  "wp (handleGetResource E r pr ns n []) (\<lambda>resp _. rs_status resp = 200 \<or> 300 \<le> rs_status resp) s"
  unfolding handleGetResource_def
  by (auto simp: wp_simps not_found_or_500_def Let_def split: option.splits sum.splits)

lemma wp_get_latest:
  "wp (handleGetResource E r (Some pr) ns n []) (\<lambda>resp _. rs_status resp < 300 \<longrightarrow>
     (\<exists>res. rs_body resp = ResourceBody res \<and> read_answer E (tabs s) pr ns n res)) s"
proof -
  have "wp (handleGetResource E r (Some pr) ns n []) (\<lambda>resp s'. (rs_status resp = 200 \<or> 300 \<le> rs_status resp) \<and>
      (rs_status resp = 200 \<longrightarrow> (\<exists>res. rs_body resp = ResourceBody res \<and> read_answer E (tabs s) pr ns n res))) s"
    unfolding wp_conj
    by (intro conjI handleGetResource_statuses wp_mono [OF wp_handleGetResource])
      (auto simp: read_answer_def write_json_def)
  then show ?thesis by (rule wp_mono) auto
qed

lemma wp_server_fetch:
  assumes r: "rq_method r = ''POST''" "rq_segments r = [''api'', ''v1'', ''resource'']"
      "rq_query r ''op'' = ''query''" "rq_path r = ''/api/v1/resource''" "rq_ctx r = no_context"
    and tok: "looksLikeJWT (bearer r)" "\<And>x. ValidateSAToken E (bearer r) = Some x \<Longrightarrow> x = (a, b)"
    and body: "decode_body E decode_resourceQueryRequest r = Some (query_body ns n)"
  shows "wp (server E r) (\<lambda>resp _. rs_status resp < 300 \<longrightarrow>
     (\<exists>t res. outside_sas t = outside_sas (tabs s) \<and> rs_body resp = ResourceBody res
        \<and> read_answer E t (NewPrincipalFromSA a b) ns n res)) s"
proof -
  define Q :: "response \<Rightarrow> st \<Rightarrow> bool" where "Q = (\<lambda>resp _. rs_status resp < 300 \<longrightarrow>
     (\<exists>t res. outside_sas t = outside_sas (tabs s) \<and> rs_body resp = ResourceBody res
        \<and> read_answer E t (NewPrincipalFromSA a b) ns n res))"
  have handler: "wp (inner E (r\<lparr>rq_ctx := cx\<rparr>)) Q s'"
    if "authentic E r s cx" "outside_sas (tabs s') = outside_sas (tabs s)" for cx s'
  proof -
    from that(1) obtain x where x: "reviewed_sa E (bearer r) (tabs s) x" "cx = no_context\<lparr>cx_sa := Some x\<rparr>"
      using jwt_prefix [OF tok(1)] r
      by (auto simp: authentic_def credential_def public_paths_def)
    with tok(2) have "(sa_namespace x, sa_name x) = (a, b)" by (auto simp: reviewed_sa_def)
    moreover have "decode_body E decode_resourceQueryRequest (r\<lparr>rq_ctx := cx\<rparr>) = Some (query_body ns n)"
      using body by (simp add: decode_body_def)
    ultimately have "inner E (r\<lparr>rq_ctx := cx\<rparr>) =
        (if ns = [] \<or> n = [] then answer (http_Error ''provide namespace+name or uuid'' 400)
         else handleGetResource E (r\<lparr>rq_ctx := cx, rq_path_value := path_value []\<rparr>) (Some (NewPrincipalFromSA a b)) ns n [])"
      using inner_fetch [of "r\<lparr>rq_ctx := cx\<rparr>" E ns n] r x(2) by (simp add: sa_principal)
    then show ?thesis
      using that(2) by (auto simp: Q_def wp_simps intro: wp_mono [OF wp_get_latest])
  qed
  have "wp (AuthMiddleware E (inner E) r) Q s"
    by (rule wp_AuthMiddleware) (auto simp: Q_def [symmetric] intro: handler, simp add: Q_def)
  then have "wp (CORSMiddleware (AuthMiddleware E (inner E)) r) Q s"
    by (rule wp_CORSMiddleware [rotated 2]) (simp_all add: r Q_def)
  then show ?thesis
    unfolding Q_def [symmetric] using r by (simp add: server_def)
qed

subsection \<open>What is pulled\<close>

text \<open>
  What the operator relies on when it talks to the server. \<open>json_agrees\<close>: the server reads
  the text that the operator marshalled, and when the operator can read the text of the
  server's answer, it reads the resource that the answer carries. \<open>reviewed\<close>: a token that
  the cluster issues is a JWT, and a review that accepts it names the account it was issued
  for.
\<close>

definition account_token :: "'x link_scheme \<Rightarrow> BrinecryptSecret \<Rightarrow> string" where
  "account_token D o' = dp_token D (bs_Namespace o') (ServiceAccount (bs_Spec o'))"

definition server_answer :: "'x link_scheme \<Rightarrow> BrinecryptSecret \<Rightarrow> string \<Rightarrow> st \<Rightarrow> response" where
  "server_answer D o' b s =
     outcome (server (dp_server D) (received (dp_url D) (fetch_request (dp_url D) b (account_token D o')))) s"

definition json_agrees ::
  "op_env \<Rightarrow> 'x link_scheme \<Rightarrow> (time \<Rightarrow> string) \<Rightarrow> (uuid \<Rightarrow> string) \<Rightarrow> BrinecryptSecret \<Rightarrow> st \<Rightarrow> bool" where
  "json_agrees C D T U o' s \<longleftrightarrow>
     dp_url D = TrimRight (BrinecryptURL C) (CHR ''/'')
   \<and> (\<forall>ns n b. SplitN (CHR ''/'') 2 (RemotePath (bs_Spec o')) = [ns, n]
        \<and> op_Marshal C [(''namespace'', ns), (''name'', n)] = Inr b \<longrightarrow>
          json_Decode (dp_server D) b = Some (query_json ns n)
        \<and> (\<forall>res j. rs_body (server_answer D o' b s) = ResourceBody res
             \<and> op_Decode C (dp_text D (ResourceBody res)) = Some j \<longrightarrow> resource_json T U res = Some j))"

definition reviewed :: "'x link_scheme \<Rightarrow> BrinecryptSecret \<Rightarrow> bool" where
  "reviewed D o' \<longleftrightarrow> looksLikeJWT (account_token D o')
   \<and> (\<forall>x. ValidateSAToken (dp_server D) (account_token D o') = Some x \<longrightarrow>
         x = (bs_Namespace o', ServiceAccount (bs_Spec o')))"

text \<open>A value the object may have: the latest value of its remote path, readable by its account.\<close>

definition object_account :: "BrinecryptSecret \<Rightarrow> principal" where
  "object_account o' = NewPrincipalFromSA (bs_Namespace o') (ServiceAccount (bs_Spec o'))"

definition readable_value :: "env \<Rightarrow> tables \<Rightarrow> BrinecryptSecret \<Rightarrow> string \<Rightarrow> bool" where
  "readable_value E t o' v \<longleftrightarrow>
     (\<exists>ns n res x. RemotePath (bs_Spec o') = ns @ ''/'' @ n \<and> CHR ''/'' \<notin> set ns
        \<and> read_answer E t (object_account o') ns n res \<and> r_value res = Some x \<and> rv_data x = v)"

lemma remote_parts:
  assumes "SplitN (CHR ''/'') 2 p = [ns, n]"
  shows "p = ns @ ''/'' @ n" "CHR ''/'' \<notin> set ns"
proof -
  from assms have p: "CHR ''/'' \<in> set p" "ns = before_sep (CHR ''/'') p" "n = after_sep (CHR ''/'') p"
    by (auto simp: SplitN_2 split: if_splits)
  show "p = ns @ ''/'' @ n" using before_after_sep [OF p(1)] by (simp add: p(2,3))
  show "CHR ''/'' \<notin> set ns" by (simp add: p(2))
qed

lemma fetched_readable:
  assumes "json_agrees C D T U o' s" "reviewed D o'" and parts: "SplitN (CHR ''/'') 2 (RemotePath (bs_Spec o')) = [ns, n]"
    and b: "op_Marshal C [(''namespace'', ns), (''name'', n)] = Inr b"
    and status: "rs_status (server_answer D o' b s) < 300"
    and v: "Option.bind (op_Decode C (dp_text D (rs_body (server_answer D o' b s))))
      decode_brinecryptResourceResponse = Some (Some v)"
  shows "\<exists>t. outside_sas t = outside_sas (tabs s) \<and> readable_value (dp_server D) t o' v"
proof -
  let ?r = "received (dp_url D) (fetch_request (dp_url D) b (account_token D o'))"
  have "decode_body (dp_server D) decode_resourceQueryRequest ?r = Some (query_body ns n)"
    using assms(1) parts b by (simp add: json_agrees_def decode_body_def received_fetch decode_query_json)
  from wp_server_fetch [of ?r "dp_server D" "bs_Namespace o'" "ServiceAccount (bs_Spec o')" ns n s, OF _ _ _ _ _ _ _ this]
  obtain t res where t: "outside_sas t = outside_sas (tabs s)" "rs_body (server_answer D o' b s) = ResourceBody res"
    "read_answer (dp_server D) t (object_account o') ns n res"
    using assms(2) status
    by (auto simp: received_fetch received_fetch_path received_fetch_bearer reviewed_def wp_run
        server_answer_def object_account_def)
  from v t(2) obtain j where "op_Decode C (dp_text D (ResourceBody res)) = Some j"
    "decode_brinecryptResourceResponse j = Some (Some v)" by (cases "op_Decode C (dp_text D (ResourceBody res))") auto
  moreover with assms(1) parts b t(2) have "resource_json T U res = Some j" by (auto simp: json_agrees_def)
  ultimately have "map_option rv_data (r_value res) = Some v" using decode_resource_json [of T U res j] by simp
  then show ?thesis using t(1,3) remote_parts [OF parts] unfolding readable_value_def by blast
qed

subsection \<open>A server that answers\<close>

text \<open>
  The tables serve the object when its account is registered, no pattern that is checked is
  malformed, and the account may read the resource, which has a value that can be decrypted;
  \<open>res\<close> is then the answer. The audit log does not matter.
\<close>

definition serves :: "env \<Rightarrow> tables \<Rightarrow> BrinecryptSecret \<Rightarrow> string \<Rightarrow> string \<Rightarrow> resource \<Rightarrow> bool" where
  "serves E t o' ns n res \<longleftrightarrow> ns \<noteq> [] \<and> n \<noteq> []
   \<and> (\<exists>a. first_by sa_id (\<lambda>a. sa_namespace a = bs_Namespace o' \<and> sa_name a = ServiceAccount (bs_Spec o'))
            (t_sas t) = Some a)
   \<and> wf_anon (now E) t \<and> wf_own (now E) t (object_account o') \<and> read_answer E t (object_account o') ns n res"

lemma read_answer_exact:
  assumes "no_faults E" "wf_anon (now E) (tabs s)" "wf_own (now E) (tabs s) pr"
    and "read_answer E (tabs s) pr ns n res"
  shows "wp (handleGetResource E r (Some pr) ns n []) (\<lambda>resp s'. resp = write_json (ResourceBody res)
     \<and> outside_audit (tabs s') = outside_audit (tabs s)) s"
proof -
  have "outcome (CheckWithAnon E (Some pr) VerbTypeRead ns n) s = Inr True"
    using CheckWithAnon_exact [OF assms(1,2), of "Some pr" VerbTypeRead ns n] assms(3,4)
    by (simp add: wp_run read_answer_def)
  moreover from assms(4) obtain x where x: "loaded_resource ns n (tabs s) = Some x" "ns \<noteq> ''_''"
    "(case r_value x of None \<Rightarrow> Some x
      | Some v \<Rightarrow> map_option (\<lambda>v'. x\<lparr>r_value := Some v'\<rparr>) (decryptValue E v)) = Some res"
    by (auto simp: read_answer_def)
  ultimately show ?thesis
    unfolding handleGetResource_def using assms(1)
    by (simp add: wp_simps Let_def)
qed

lemma resolve_registered:
  assumes "no_faults E" "looksLikeJWT tok" "ValidateSAToken E tok = Some (ns, n)"
    and "first_by sa_id (\<lambda>a. sa_namespace a = ns \<and> sa_name a = n) (t_sas (tabs s)) = Some a"
  shows "wp (resolveToken E cx tok) (\<lambda>r s'. r = Some (cx\<lparr>cx_sa := Some a\<rparr>) \<and> tabs s' = tabs s) s"
  using assms jwt_prefix [OF assms(2)]
  by (simp add: resolveToken_def resolveSAJWT_def GetOrCreateSA_def wp_simps)

lemma server_serves:
  assumes "no_faults E" and s: "serves E (tabs s) o' ns n res"
    and r: "rq_method r = ''POST''" "rq_segments r = [''api'', ''v1'', ''resource'']"
      "rq_query r ''op'' = ''query''" "rq_path r = ''/api/v1/resource''" "rq_ctx r = no_context"
    and tok: "looksLikeJWT (bearer r)"
      "ValidateSAToken E (bearer r) = Some (bs_Namespace o', ServiceAccount (bs_Spec o'))"
    and body: "decode_body E decode_resourceQueryRequest r = Some (query_body ns n)"
  shows "wp (server E r) (\<lambda>resp s'. rs_status resp = 200 \<and> rs_body resp = ResourceBody res
     \<and> outside_audit (tabs s') = outside_audit (tabs s)) s"
proof -
  define Q :: "response \<Rightarrow> st \<Rightarrow> bool" where "Q = (\<lambda>resp s'. rs_status resp = 200 \<and> rs_body resp = ResourceBody res
     \<and> outside_audit (tabs s') = outside_audit (tabs s))"
  from s obtain a where a: "first_by sa_id (\<lambda>a. sa_namespace a = bs_Namespace o' \<and> sa_name a = ServiceAccount (bs_Spec o'))
      (t_sas (tabs s)) = Some a" by (auto simp: serves_def)
  then have names: "sa_namespace a = bs_Namespace o'" "sa_name a = ServiceAccount (bs_Spec o')"
    by (auto dest: first_by_Some_in)
  let ?cx = "no_context\<lparr>cx_sa := Some a\<rparr>"
  have "decode_body E decode_resourceQueryRequest (r\<lparr>rq_ctx := ?cx\<rparr>) = Some (query_body ns n)"
    using body by (simp add: decode_body_def)
  then have "inner E (r\<lparr>rq_ctx := ?cx\<rparr>) =
      handleGetResource E (r\<lparr>rq_ctx := ?cx, rq_path_value := path_value []\<rparr>) (Some (object_account o')) ns n []"
    using inner_fetch [of "r\<lparr>rq_ctx := ?cx\<rparr>" E ns n] r s names
    by (simp add: sa_principal object_account_def serves_def)
  then have handler: "wp (inner E (r\<lparr>rq_ctx := ?cx\<rparr>)) Q s'" if "tabs s' = tabs s" for s'
    using assms(1) s that
    by (auto simp: serves_def Q_def intro!: wp_mono [OF read_answer_exact])
  have "wp (AuthMiddleware E (inner E) r) Q s"
    unfolding AuthMiddleware_def using r jwt_prefix(1) [OF tok(1)]
    by (auto simp: wp_simps Let_def public_paths_def optional_auth_paths_def
        intro!: wp_mono [OF resolve_registered [OF assms(1) tok a]] handler)
  then have "wp (CORSMiddleware (AuthMiddleware E (inner E)) r) Q s"
    by (rule wp_CORSMiddleware [rotated 2]) (simp_all add: r Q_def)
  then show ?thesis
    unfolding Q_def [symmetric] using r by (simp add: server_def)
qed

lemma serves_log: "serves E (t\<lparr>t_audit_logs := xs\<rparr>) o' ns n res = serves E t o' ns n res"
proof -
  have "own_perms pr (t\<lparr>t_audit_logs := xs\<rparr>) = own_perms pr t" for pr
    by (simp add: own_perms_def linked_def)
  moreover have "load_key (t\<lparr>t_audit_logs := xs\<rparr>) = load_key t"
    "in_namespace (t\<lparr>t_audit_logs := xs\<rparr>) ns = in_namespace t ns"
    by (simp_all add: fun_eq_iff load_key_def in_namespace_def cong: option.case_cong)
  then have "loaded_resource ns n (t\<lparr>t_audit_logs := xs\<rparr>) = loaded_resource ns n t"
    by (simp add: loaded_resource_def select_resource_def latest_value_def load_ns_def)
  ultimately show ?thesis
    by (simp add: serves_def wf_anon_def wf_own_def read_answer_def policy_def own_policy_def anon_policy_def)
qed

lemma serves_audit:
  assumes "outside_audit t' = outside_audit t"
  shows "serves E t' o' ns n res = serves E t o' ns n res"
proof -
  have "t' = t\<lparr>t_audit_logs := t_audit_logs t'\<rparr>"
    using assms by (cases t; cases t') (simp add: outside_audit_def)
  then show ?thesis by (metis serves_log)
qed

subsection \<open>An API behind which the server answers\<close>

text \<open>The response to a fetch with body \<open>b\<close> and token \<open>tok\<close> when the server is in state \<open>s\<close>.\<close>

definition fetch_run :: "'x link_scheme \<Rightarrow> string \<Rightarrow> string \<Rightarrow> response prog" where
  "fetch_run D b tok = server (dp_server D) (received (dp_url D) (fetch_request (dp_url D) b tok))"

definition wire_response :: "'x link_scheme \<Rightarrow> response \<Rightarrow> http_response" where
  "wire_response D x = \<lparr>hp_StatusCode = rs_status x, hp_Body = dp_text D (rs_body x)\<rparr>"

text \<open>
  \<open>srv\<close> is the state of the server in a world. Only HTTP requests reach it; a fetch is
  answered by \<open>server\<close>, or fails, before or after the server has handled it. A token is the
  one that the cluster issues for the account.
\<close>

locale kube_server = kube_api K view
  for K :: "'c kube" and view :: "'c \<Rightarrow> cluster" +
  fixes srv :: "'c \<Rightarrow> st" and D :: "'x link_scheme"
  assumes server_kept: "keeps srv (get_object K k)" "keeps srv (get_secret K k)" "keeps srv (create_secret K s)"
      "keeps srv (update_secret K s)" "keeps srv (update_status K o')"
    and token_given: "wp (request_token K ns sa aud ttl) (\<lambda>r w'. srv w' = srv w
      \<and> (\<forall>tok. r = Inr tok \<longrightarrow> tok = dp_token D ns sa)) w"
    and fetch_answered: "wp (http_Do K (fetch_request (dp_url D) b tok)) (\<lambda>r w'.
      (\<exists>e. r = Inl e) \<and> (srv w' = srv w \<or> srv w' = poststate (fetch_run D b tok) (srv w))
      \<or> r = Inr (wire_response D (outcome (fetch_run D b tok) (srv w)))
        \<and> srv w' = poststate (fetch_run D b tok) (srv w)) w"

text \<open>In a healthy world the token is issued and the fetch is answered.\<close>

locale kube_server_live = kube_server K view srv D + kube_live K view healthy
  for K :: "'c kube" and view :: "'c \<Rightarrow> cluster" and srv :: "'c \<Rightarrow> st" and D :: "'x link_scheme"
    and healthy :: "'c \<Rightarrow> bool" +
  assumes token_answer: "healthy w \<Longrightarrow> wp (request_token K ns sa aud ttl) (\<lambda>r w'. (\<exists>tok. r = Inr tok) \<and> healthy w') w"
    and fetch_answer: "healthy w \<Longrightarrow>
      wp (http_Do K (fetch_request (dp_url D) b tok)) (\<lambda>r w'. (\<exists>resp. r = Inr resp) \<and> healthy w') w"

end
