(* ===== verification/Cluster.thy ===== *)
theory Cluster
  imports Delivery
begin

text \<open>
  A cluster that keeps the contracts. A \<open>world\<close> is a cluster, the state of the server and
  a counter of calls; \<open>deployment\<close> adds to the link between operator and server which calls
  fail. \<open>cluster_kube\<close> is the API over such a world: it serves the stored objects, rejects a
  second creation, an update of something that does not exist or that changes the type of a
  secret, may fail at any call, possibly after the write was done, and answers HTTP requests
  by running \<open>server\<close>.
\<close>

record world =
  w_cluster :: cluster
  w_server :: st
  w_calls :: nat

record deployment = link +
  dp_clock :: "nat \<Rightarrow> time"
  dp_fault :: "nat \<Rightarrow> string option"
  dp_applied :: "nat \<Rightarrow> bool"

subsection \<open>The API over a world\<close>

definition counted :: "deployment \<Rightarrow> (string \<Rightarrow> world \<Rightarrow> 'a \<times> world) \<Rightarrow> (world \<Rightarrow> 'a \<times> world) \<Rightarrow> (world, 'a) state" where
  "counted D failed f = State (\<lambda>w.
     let w1 = w\<lparr>w_calls := Suc (w_calls w)\<rparr> in
     case dp_fault D (w_calls w) of Some m \<Rightarrow> failed m w1 | None \<Rightarrow> f w1)"

definition read_call :: "deployment \<Rightarrow> (cluster \<Rightarrow> 'a option) \<Rightarrow> ('a \<Rightarrow> bool) \<Rightarrow> (world, api_error + 'a) state" where
  "read_call D look ok = counted D (\<lambda>m w. (Inl (ApiError m), w)) (\<lambda>w.
     (case look (w_cluster w) of
        None \<Rightarrow> Inl (NotFound ''not found'')
      | Some x \<Rightarrow> if ok x then Inr x else Inl (ApiError ''malformed object''), w))"

text \<open>A write is \<open>None\<close> when the API rejects it.\<close>

definition write_call :: "deployment \<Rightarrow> (nat \<Rightarrow> cluster \<Rightarrow> cluster option) \<Rightarrow> (world, api_error + unit) state" where
  "write_call D change = counted D
     (\<lambda>m w. (Inl (ApiError m),
        case change (w_calls w) (w_cluster w) of
          None \<Rightarrow> w
        | Some c \<Rightarrow> if dp_applied D (w_calls w) then w\<lparr>w_cluster := c\<rparr> else w))
     (\<lambda>w. case change (w_calls w) (w_cluster w) of
        None \<Rightarrow> (Inl (ApiError ''rejected''), w)
      | Some c \<Rightarrow> (Inr (), w\<lparr>w_cluster := c\<rparr>))"

definition cluster_create :: "deployment \<Rightarrow> Secret \<Rightarrow> nat \<Rightarrow> cluster \<Rightarrow> cluster option" where
  "cluster_create D s n c =
     (case secrets c (secret_key s) of
        None \<Rightarrow> Some (put_secret (s\<lparr>sec_CreationTimestamp := Some (dp_clock D n)\<rparr>) c)
      | Some _ \<Rightarrow> None)"

definition cluster_update :: "Secret \<Rightarrow> cluster \<Rightarrow> cluster option" where
  "cluster_update s c =
     (case secrets c (secret_key s) of
        None \<Rightarrow> None
      | Some old \<Rightarrow> if sec_Type old = sec_Type s then Some (put_secret s c) else None)"

definition cluster_status :: "BrinecryptSecret \<Rightarrow> cluster \<Rightarrow> cluster option" where
  "cluster_status o' c = (case objects c (object_key o') of None \<Rightarrow> None | Some _ \<Rightarrow> Some (put_status o' c))"

definition own_controller :: "BrinecryptSecret \<Rightarrow> Secret \<Rightarrow> string + Secret" where
  "own_controller o' s =
     (if sec_Controller s = None \<or> sec_Controller s = Some (bs_UID o')
      then Inr (s\<lparr>sec_Controller := Some (bs_UID o')\<rparr>) else Inl ''already owned by another controller'')"

definition send :: "deployment \<Rightarrow> http_request \<Rightarrow> (world, string + http_response) state" where
  "send D hq = counted D
     (\<lambda>m w. (Inl m,
        if HasPrefix (hq_URL hq) (dp_url D) \<and> dp_applied D (w_calls w)
        then w\<lparr>w_server := poststate (server (dp_server D) (received (dp_url D) hq)) (w_server w)\<rparr> else w))
     (\<lambda>w.
     if \<not> HasPrefix (hq_URL hq) (dp_url D) then (Inl ''no such host'', w)
     else case run_state (server (dp_server D) (received (dp_url D) hq)) (w_server w) of
       (resp, s) \<Rightarrow>
         (Inr \<lparr>hp_StatusCode = rs_status resp, hp_Body = dp_text D (rs_body resp)\<rparr>, w\<lparr>w_server := s\<rparr>))"

definition cluster_kube :: "deployment \<Rightarrow> world kube" where
  "cluster_kube D =
     \<lparr>get_object = (\<lambda>k. read_call D (\<lambda>c. objects c k) (\<lambda>o'. object_key o' = k)),
      update_status = (\<lambda>o'. write_call D (\<lambda>_. cluster_status o')),
      get_secret = (\<lambda>k. read_call D (\<lambda>c. secrets c k)
        (\<lambda>s. secret_key s = k \<and> sec_CreationTimestamp s \<noteq> None)),
      create_secret = (\<lambda>s. write_call D (cluster_create D s)),
      update_secret = (\<lambda>s. write_call D (\<lambda>_. cluster_update s)),
      request_token = (\<lambda>ns sa aud ttl. counted D (\<lambda>m w. (Inl m, w)) (\<lambda>w. (Inr (dp_token D ns sa), w))),
      http_Do = send D,
      SetControllerReference = own_controller\<rparr>"

lemmas cluster_calls = cluster_kube_def read_call_def write_call_def counted_def send_def

interpretation deployed: kube_api "cluster_kube D" w_cluster for D
  by unfold_locales
    (auto simp: wp_def cluster_calls Let_def cluster_create_def cluster_update_def cluster_status_def
      own_controller_def split: option.splits if_splits prod.splits)

text \<open>Nothing fails, and what is stored is well formed.\<close>

definition well_stored :: "cluster \<Rightarrow> bool" where
  "well_stored c \<longleftrightarrow>
     (\<forall>k o'. objects c k = Some o' \<longrightarrow> object_key o' = k)
   \<and> (\<forall>k s. secrets c k = Some s \<longrightarrow> secret_key s = k \<and> sec_CreationTimestamp s \<noteq> None)"

definition sound_from :: "deployment \<Rightarrow> world \<Rightarrow> bool" where
  "sound_from D w \<longleftrightarrow> well_stored (w_cluster w) \<and> (\<forall>n\<ge>w_calls w. dp_fault D n = None)"

lemma well_stored_put:
  "well_stored c \<Longrightarrow> sec_CreationTimestamp s \<noteq> None \<Longrightarrow> well_stored (put_secret s c)"
  "well_stored c \<Longrightarrow> well_stored (put_status o' c)"
  by (auto simp: well_stored_def put_secret_def put_status_def simp del: split_paired_All)

lemma secret_key_created [simp]: "secret_key (s\<lparr>sec_CreationTimestamp := t\<rparr>) = secret_key s"
  by (simp add: secret_key_def)

lemma keeps_server:
  "keeps w_server (get_object (cluster_kube D) k)" "keeps w_server (get_secret (cluster_kube D) k)"
  "keeps w_server (create_secret (cluster_kube D) sec)" "keeps w_server (update_secret (cluster_kube D) sec)"
  "keeps w_server (update_status (cluster_kube D) o')"
  by (auto simp: keeps_def cluster_calls Let_def split: option.splits)

interpretation connected_server: kube_server "cluster_kube D" w_cluster w_server D for D :: deployment
  by (unfold_locales, (rule keeps_server)+)
    (auto simp: wp_def cluster_calls Let_def fetch_request_def fetch_run_def wire_response_def
      outcome_def poststate_def split: option.splits prod.splits)

interpretation healthy: kube_server_live "cluster_kube D" w_cluster w_server D "sound_from D" for D :: deployment
proof
  fix w :: world and k o'
  assume "sound_from D w" "objects (w_cluster w) k = Some o'"
  then show "wp (get_object (cluster_kube D) k) (\<lambda>r w'. r = Inr o' \<and> sound_from D w') w"
    by (auto simp: wp_def cluster_calls sound_from_def well_stored_def Let_def simp del: split_paired_All)
next
  fix w :: world and k
  assume "sound_from D w"
  then show "wp (get_secret (cluster_kube D) k) (\<lambda>r w'. sound_from D w' \<and>
      (case secrets (w_cluster w) k of None \<Rightarrow> \<exists>m. r = Inl (NotFound m) | Some s \<Rightarrow> r = Inr s)) w"
    by (auto simp: wp_def cluster_calls sound_from_def well_stored_def Let_def simp del: split_paired_All
        split: option.splits)
next
  fix w :: world and s
  assume "sound_from D w" "secrets (w_cluster w) (secret_key s) = None"
  then show "wp (create_secret (cluster_kube D) s) (\<lambda>r w'. r = Inr () \<and> sound_from D w') w"
    by (simp add: wp_def cluster_calls sound_from_def cluster_create_def Let_def well_stored_put)
next
  fix w :: world and s old
  assume "sound_from D w" "secrets (w_cluster w) (secret_key s) = Some old" "sec_Type old = sec_Type s"
    "sec_CreationTimestamp s \<noteq> None"
  then show "wp (update_secret (cluster_kube D) s) (\<lambda>r w'. r = Inr () \<and> sound_from D w') w"
    by (simp add: wp_def cluster_calls sound_from_def cluster_update_def Let_def well_stored_put)
next
  fix w :: world and o'
  assume "sound_from D w" "objects (w_cluster w) (object_key o') \<noteq> None"
  then show "wp (update_status (cluster_kube D) o') (\<lambda>r w'. r = Inr () \<and> sound_from D w') w"
    by (auto simp: wp_def cluster_calls sound_from_def cluster_status_def Let_def well_stored_put)
next
  show "sec_Controller s = None \<or> sec_Controller s = Some (bs_UID o') \<Longrightarrow>
      \<exists>s'. SetControllerReference (cluster_kube D) o' s = Inr s'" for s o'
    by (auto simp: cluster_kube_def own_controller_def)
next
  fix w :: world and ns sa aud ttl
  assume "sound_from D w"
  then show "wp (request_token (cluster_kube D) ns sa aud ttl) (\<lambda>r w'. (\<exists>tok. r = Inr tok) \<and> sound_from D w') w"
    by (auto simp: wp_def cluster_calls sound_from_def Let_def)
next
  fix w :: world and b tok
  assume "sound_from D w"
  then show "wp (http_Do (cluster_kube D) (fetch_request (dp_url D) b tok)) (\<lambda>r w'. (\<exists>resp. r = Inr resp) \<and> sound_from D w') w"
    by (auto simp: wp_def cluster_calls sound_from_def Let_def fetch_request_def split: prod.splits)
qed

end
