(* ===== verification/Operator_Props.thy ===== *)
theory Operator_Props
  imports Cluster
begin

text \<open>
  Properties of the operator: every run of the code is a run of the specification, what it
  publishes is readable by the account of the object, a broken API delays it but does not
  stop it, and what refresh intervals mean.
\<close>

subsection \<open>The effect of one run\<close>

text \<open>The objects a run changes: at most the status of its own.\<close>

definition status_only :: "object_key \<Rightarrow> cluster \<Rightarrow> cluster \<Rightarrow> bool" where
  "status_only k c c' \<longleftrightarrow> (\<forall>x. x \<noteq> k \<longrightarrow> objects c' x = objects c x)
   \<and> (\<forall>o'. objects c k = Some o' \<longrightarrow> (\<exists>st. objects c' k = Some (o'\<lparr>bs_Status := st\<rparr>)))"

lemma status_only_put:
  assumes "objects c k = Some o'" "object_key o' = k" "objects c1 = objects c"
  shows "status_only k c (put_status (o'\<lparr>bs_Status := st\<rparr>) c1)"
  using assms by (auto simp: status_only_def put_status_def)

lemma status_only_same:
  assumes "objects c' = objects c" shows "status_only k c c'"
proof -
  have "\<exists>st. o' = o'\<lparr>bs_Status := st\<rparr>" for o' :: BrinecryptSecret
    by (rule exI [of _ "bs_Status o'"]) simp
  with assms show ?thesis by (auto simp: status_only_def)
qed

lemma secrets_put_status [simp]: "secrets (put_status o' c) = secrets c"
  by (simp add: put_status_def)

definition secrets_after ::
  "(BrinecryptSecret \<Rightarrow> string \<Rightarrow> bool) \<Rightarrow> object_key \<Rightarrow> cluster \<Rightarrow> cluster \<Rightarrow> bool" where
  "secrets_after genuine k c c' \<longleftrightarrow> secrets c' = secrets c
   \<or> (\<exists>o' v c1. objects c k = Some o' \<and> genuine o' v \<and> published o' v c c1 \<and> secrets c' = secrets c1)"

lemma secrets_afterI:
  "objects c k = Some o' \<Longrightarrow> c1 = c \<or> (\<exists>v. genuine o' v \<and> published o' v c c1) \<Longrightarrow> secrets c' = secrets c1 \<Longrightarrow>
     secrets_after genuine k c c'"
  unfolding secrets_after_def by blast

lemma reconciled_effect:
  assumes "reconciled C genuine k c r c'"
  shows "status_only k c c' \<and> secrets_after genuine k c c'"
  using assms
proof cases
  case (Reported o' c1 e)
  then have "objects c1 = objects c" by (auto dest: published_objects)
  with Reported show ?thesis
    by (intro conjI secrets_afterI [of c k o' c1]) (simp_all add: status_only_put)
next
  case (Unreported o' c1 st e)
  then have "objects c1 = objects c" by (auto dest: published_objects)
  moreover have "secrets c' = secrets c1" using Unreported by auto
  ultimately show ?thesis
    using Unreported by (intro conjI secrets_afterI [of c k o' c1]) (auto intro: status_only_put status_only_same)
next
  case (Synced o' d v c1)
  then have "objects c1 = objects c" by (auto dest: published_objects)
  with Synced show ?thesis
    by (intro conjI secrets_afterI [of c k o' c1]) (auto simp: status_only_put)
qed (simp_all add: secrets_after_def status_only_same)

subsection \<open>Refinement\<close>


subsection \<open>What is published\<close>

definition account_reads :: "'x link_scheme \<Rightarrow> st \<Rightarrow> BrinecryptSecret \<Rightarrow> string \<Rightarrow> bool" where
  "account_reads D s o' v \<longleftrightarrow>
     (\<exists>t. outside_sas t = outside_sas (tabs s) \<and> readable_value (dp_server D) t o' v)"

lemma server_answer_run: "outcome (fetch_run D b (account_token D o')) s = server_answer D o' b s"
  by (simp add: server_answer_def fetch_run_def)

context kube_server
begin

lemma fetch_readable:
  assumes "json_agrees C D T U o' (srv w)" "reviewed D o'"
  shows "wp (fetchRemoteSecretValue C K (RemotePath (bs_Spec o')) (account_token D o'))
    (\<lambda>r _. \<forall>v. r = Inr v \<longrightarrow> account_reads D (srv w) o' v) w"
proof (cases "length (SplitN (CHR ''/'') 2 (RemotePath (bs_Spec o'))) = 2")
  case False
  then show ?thesis by (simp add: fetchRemoteSecretValue_def wp_simps Let_def)
next
  case True
  then obtain ns n where parts: "SplitN (CHR ''/'') 2 (RemotePath (bs_Spec o')) = [ns, n]"
    by (auto simp: length_Suc_conv numeral_2_eq_2)
  have sent: "wp (http_Do K (fetch_request (dp_url D) b (account_token D o')))
      (\<lambda>r _. \<forall>resp. r = Inr resp \<longrightarrow> resp = wire_response D (server_answer D o' b (srv w))) w" for b
    by (rule wp_mono [OF fetch_answered]) (auto simp: server_answer_run)
  have url: "TrimRight (BrinecryptURL C) (CHR ''/'') = dp_url D" using assms(1) by (simp add: json_agrees_def)
  have "account_reads D (srv w) o' v"
    if "op_Marshal C [(''namespace'', ns), (''name'', n)] = Inr b"
      "read_response C (wire_response D (server_answer D o' b (srv w))) = Inr v" for b v
    using fetched_readable [OF assms parts that(1)] that(2)
    by (auto simp: read_response_def wire_response_def account_reads_def split: if_splits option.splits)
  then show ?thesis
    unfolding fetchRemoteSecretValue_def url
    by (auto simp: wp_simps Let_def parts intro!: wp_mono [OF sent] split: sum.splits option.splits)
qed

lemma pull_readable:
  assumes "json_agrees C D T U o' s" "reviewed D o'" "srv w = s"
  shows "wp (pull_value C K o') (\<lambda>r _. \<forall>v. r = Inr v \<longrightarrow> account_reads D s o' v) w"
proof -
  have "wp (fetchRemoteSecretValue C K (RemotePath (bs_Spec o')) (account_token D o'))
      (\<lambda>r _. \<forall>v. r = Inr v \<longrightarrow> account_reads D s o' v) w'" if "srv w' = s" for w'
    using fetch_readable [of C T U o' w'] that assms(1,2) by simp
  then show ?thesis
    unfolding pull_value_def wp_bind
    using assms(3) by (auto simp: wp_simps account_token_def [symmetric] intro!: wp_mono [OF token_given] split: sum.splits)
qed

lemma get_object_server: "wp (get_object K k) (\<lambda>_ w'. srv w' = srv w) w"
  by (rule keeps_wp [OF server_kept(1)])

lemma Reconcile_publishes:
  assumes "objects (view w) k = Some o'" and "json_agrees C D T U o' (srv w)" and "reviewed D o'"
  shows "wp (Reconcile C K k) (\<lambda>_ w'. status_only k (view w) (view w')
    \<and> (secrets (view w') = secrets (view w)
       \<or> (\<exists>v c1. account_reads D (srv w) o' v \<and> published o' v (view w) c1 \<and> secrets (view w') = secrets c1))) w"
proof -
  let ?g = "\<lambda>x. account_reads D (srv w) x"
  have "wp (Reconcile C K k) (\<lambda>r w'. reconciled C ?g k (view w) r (view w')) w"
  proof (rule wp_Reconcile [OF get_object_server])
    fix x w' assume "srv w' = srv w" "objects (view w) k = Some x"
    with assms show "wp (pull_value C K x) (\<lambda>r _. \<forall>v. r = Inr v \<longrightarrow> ?g x v) w'"
      by (auto intro: pull_readable)
  qed
  then show ?thesis
    by (rule wp_mono) (use assms(1) in \<open>auto simp: secrets_after_def dest!: reconciled_effect\<close>)
qed

end

subsection \<open>Delivery in the end\<close>

text \<open>
  The operator can reach the server for an object: the database answers, the URL and the
  body are well formed, the review accepts the token of the account, and the texts of the
  request and of the answer \<open>res\<close> are read as what they were written for.
\<close>

definition connected :: "op_env \<Rightarrow> 'x link_scheme \<Rightarrow> BrinecryptSecret \<Rightarrow> string \<Rightarrow> string \<Rightarrow> resource \<Rightarrow> bool" where
  "connected C D o' ns n res \<longleftrightarrow> no_faults (dp_server D)
   \<and> dp_url D = TrimRight (BrinecryptURL C) (CHR ''/'')
   \<and> op_NewRequest C (dp_url D @ ''/api/v1/resource?op=query'') = None
   \<and> SplitN (CHR ''/'') 2 (RemotePath (bs_Spec o')) = [ns, n]
   \<and> (\<exists>b. op_Marshal C [(''namespace'', ns), (''name'', n)] = Inr b
        \<and> json_Decode (dp_server D) b = Some (query_json ns n))
   \<and> looksLikeJWT (account_token D o')
   \<and> ValidateSAToken (dp_server D) (account_token D o') = Some (bs_Namespace o', ServiceAccount (bs_Spec o'))
   \<and> (\<exists>T U j. resource_json T U res = Some j \<and> op_Decode C (dp_text D (ResourceBody res)) = Some j)"

lemma status_irrelevant [simp]:
  "account_token D (o'\<lparr>bs_Status := st\<rparr>) = account_token D o'"
  "connected C D (o'\<lparr>bs_Status := st\<rparr>) ns n res = connected C D o' ns n res"
  "serves E t (o'\<lparr>bs_Status := st\<rparr>) ns n res = serves E t o' ns n res"
  "target_key (o'\<lparr>bs_Status := st\<rparr>) = target_key o'"
  "adoptable (o'\<lparr>bs_Status := st\<rparr>) c = adoptable o' c"
  "published (o'\<lparr>bs_Status := st\<rparr>) v = published o' v"
  "secretKeyOf (o'\<lparr>bs_Status := st\<rparr>) = secretKeyOf o'"
proof -
  show t: "account_token D (o'\<lparr>bs_Status := st\<rparr>) = account_token D o'"
    and k: "target_key (o'\<lparr>bs_Status := st\<rparr>) = target_key o'" "secretKeyOf (o'\<lparr>bs_Status := st\<rparr>) = secretKeyOf o'"
    by (simp_all add: account_token_def target_key_def secretKeyOf_def)
  show "connected C D (o'\<lparr>bs_Status := st\<rparr>) ns n res = connected C D o' ns n res"
    "serves E t (o'\<lparr>bs_Status := st\<rparr>) ns n res = serves E t o' ns n res"
    "adoptable (o'\<lparr>bs_Status := st\<rparr>) c = adoptable o' c"
    "published (o'\<lparr>bs_Status := st\<rparr>) v = published o' v"
    by (simp_all add: connected_def serves_def adoptable_def published_def object_account_def t k fun_eq_iff
        split: option.splits)
qed

lemma fetch_request_URL: "hq_URL (fetch_request base b tok) = base @ ''/api/v1/resource?op=query''"
  by (simp add: fetch_request_def)

text \<open>One exchange with a server that serves the object.\<close>

lemma fetch_run_serves:
  assumes "connected C D o' ns n res" "serves (dp_server D) (tabs s) o' ns n res"
    and b: "op_Marshal C [(''namespace'', ns), (''name'', n)] = Inr b"
  shows "wire_response D (outcome (fetch_run D b (account_token D o')) s)
      = \<lparr>hp_StatusCode = 200, hp_Body = dp_text D (ResourceBody res)\<rparr>
    \<and> serves (dp_server D) (tabs (poststate (fetch_run D b (account_token D o')) s)) o' ns n res"
proof -
  let ?r = "received (dp_url D) (fetch_request (dp_url D) b (account_token D o'))"
  have "decode_body (dp_server D) decode_resourceQueryRequest ?r = Some (query_body ns n)"
    using assms by (auto simp: connected_def decode_body_def received_fetch decode_query_json)
  from server_serves [of "dp_server D" s o' ns n res ?r, OF _ _ _ _ _ _ _ _ _ this] assms
  have run: "wp (fetch_run D b (account_token D o')) (\<lambda>resp s'. rs_status resp = 200 \<and> rs_body resp = ResourceBody res
      \<and> outside_audit (tabs s') = outside_audit (tabs s)) s"
    by (simp add: connected_def fetch_run_def received_fetch received_fetch_path received_fetch_bearer)
  then have same: "outside_audit (tabs (poststate (fetch_run D b (account_token D o')) s)) = outside_audit (tabs s)"
    by (simp add: wp_run)
  from run assms(2) show ?thesis
    by (simp add: wp_run wire_response_def serves_audit [OF same])
qed

lemma fetch_response:
  assumes "connected C D o' ns n res" "r_value res = Some x"
  shows "read_response C \<lparr>hp_StatusCode = 200, hp_Body = dp_text D (ResourceBody res)\<rparr> = Inr (rv_data x)"
  using assms by (auto simp: connected_def read_response_def dest!: decode_resource_json)

text \<open>
  What runs of the operator, failed or not, leave in place for an object \<open>o'\<close>: the object is
  stored with some status, its target can be taken over, and the server serves it.
\<close>

definition pending ::
  "'x link_scheme \<Rightarrow> BrinecryptSecret \<Rightarrow> string \<Rightarrow> string \<Rightarrow> resource \<Rightarrow> cluster \<Rightarrow> st \<Rightarrow> bool" where
  "pending D o' ns n res c s \<longleftrightarrow> serves (dp_server D) (tabs s) o' ns n res
   \<and> (\<exists>st. objects c (object_key o') = Some (o'\<lparr>bs_Status := st\<rparr>)) \<and> adoptable o' c"

lemma adoptable_published: "published o' v c c1 \<Longrightarrow> adoptable o' c1"
  by (auto simp: published_def adoptable_def put_secret_def)

lemma adoptable_secrets: "secrets c' = secrets c \<Longrightarrow> adoptable o' c' = adoptable o' c"
  by (simp add: adoptable_def)

lemma reconciled_pending:
  assumes "reconciled C g (object_key o') c r c'" "objects c (object_key o') = Some (o'\<lparr>bs_Status := st\<rparr>)"
    and "adoptable o' c"
  shows "(\<exists>st. objects c' (object_key o') = Some (o'\<lparr>bs_Status := st\<rparr>)) \<and> adoptable o' c'"
proof -
  from reconciled_effect [OF assms(1)] assms(2)
  obtain st' where "objects c' (object_key o') = Some (o'\<lparr>bs_Status := st'\<rparr>)" and "secrets_after g (object_key o') c c'"
    by (fastforce simp: status_only_def)
  moreover from this(2) assms(2) obtain c1 where "secrets c' = secrets c1" "c1 = c \<or> (\<exists>v. published o' v c c1)"
    by (auto simp: secrets_after_def)
  with assms(3) have "adoptable o' c'"
    using adoptable_secrets [of c' c1 o'] adoptable_published [of o' _ c c1] by auto
  ultimately show ?thesis by blast
qed

text \<open>
  The object is synced: it is ready without error, and its target secret has the value under
  its key.
\<close>

definition delivered :: "BrinecryptSecret \<Rightarrow> string \<Rightarrow> time \<Rightarrow> cluster \<Rightarrow> bool" where
  "delivered o' v t c \<longleftrightarrow>
     objects c (object_key o') =
       Some (o'\<lparr>bs_Status := \<lparr>st_Ready = True, st_LastSyncTime = Some t, st_LastError = []\<rparr>\<rparr>)
   \<and> (\<exists>s m. secrets c (target_key o') = Some s \<and> sec_Data s = Some m \<and> m (secretKeyOf o') = Some v
        \<and> sec_Type s = SecretTypeOpaque \<and> sec_Controller s = Some (bs_UID o'))"

lemma published_delivered:
  assumes "published o' v c c1" "objects c (object_key o') = Some (o'\<lparr>bs_Status := st\<rparr>)"
  shows "delivered o' v (op_now C) (put_status (o'\<lparr>bs_Status := ready_status C\<rparr>) c1)"
  using assms published_objects [OF assms(1)]
  by (auto simp: delivered_def published_def put_status_def put_secret_def ready_status_def)

text \<open>
  Runs one after the other, as the controller starts them again after an error or after the
  refresh interval; the clock may advance between them.
\<close>

primrec run_operator :: "op_env \<Rightarrow> (nat \<Rightarrow> time) \<Rightarrow> 'c kube \<Rightarrow> object_key \<Rightarrow> nat \<Rightarrow> 'c \<Rightarrow> 'c" where
  "run_operator C clock K k 0 w = w"
| "run_operator C clock K k (Suc i) w =
     poststate (Reconcile (C\<lparr>op_now := clock i\<rparr>) K k) (run_operator C clock K k i w)"

lemma connected_clock [simp]: "connected (C\<lparr>op_now := t\<rparr>) D o' ns n res = connected C D o' ns n res"
  by (simp add: connected_def)

context kube_server
begin

lemma keeps_server_steps: "keeps srv (fail K o' e)" "keeps srv (push_value K o' v)"
  unfolding fail_def push_value_def find_target_def write_target_def by (intro keeps_intros server_kept)+

lemma pull_served:
  assumes "connected C D o' ns n res"
  shows "preserves (\<lambda>w. serves (dp_server D) (tabs (srv w)) o' ns n res) (pull_value C K o')"
proof -
  from assms obtain b where c: "TrimRight (BrinecryptURL C) (CHR ''/'') = dp_url D"
    "SplitN (CHR ''/'') 2 (RemotePath (bs_Spec o')) = [ns, n]"
    and b: "op_Marshal C [(''namespace'', ns), (''name'', n)] = Inr b"
    by (auto simp: connected_def)
  let ?S = "\<lambda>w. serves (dp_server D) (tabs (srv w)) o' ns n res"
  have fetched: "wp (http_Do K (fetch_request (dp_url D) b (account_token D o'))) (\<lambda>_. ?S) w" if "?S w" for w
    by (rule wp_mono [OF fetch_answered]) (use fetch_run_serves [OF assms that b] that in auto)
  have "wp (fetchRemoteSecretValue C K (RemotePath (bs_Spec o')) (account_token D o')) (\<lambda>_. ?S) w" if "?S w" for w
    unfolding fetchRemoteSecretValue_def
    by (auto simp: wp_simps Let_def c b that intro!: wp_mono [OF fetched [OF that]] split: option.splits sum.splits)
  then show ?thesis
    unfolding preserves_iff_wp pull_value_def wp_bind
    by (auto simp: wp_simps account_token_def [symmetric] intro!: wp_mono [OF token_given] split: sum.splits)
qed

lemma pending_step:
  assumes conn: "connected C D o' ns n res" and w: "pending D o' ns n res (view w) (srv w)"
  shows "wp (Reconcile C K (object_key o')) (\<lambda>_ w'. pending D o' ns n res (view w') (srv w')) w"
proof -
  let ?k = "object_key o'" and ?S = "\<lambda>w. serves (dp_server D) (tabs (srv w)) o' ns n res"
  from w obtain st where o': "objects (view w) ?k = Some (o'\<lparr>bs_Status := st\<rparr>)" and s: "?S w"
    by (auto simp: pending_def)
  let ?o = "o'\<lparr>bs_Status := st\<rparr>"
  have pull: "preserves ?S (pull_value C K ?o)" using pull_served [of C ?o ns n res] conn by simp
  have object: "preserves ?S (reconcile_object C K ?o)"
    unfolding reconcile_object_def
    by (intro preserves_intros pull keeps_preserves [where f = srv] keeps_server_steps server_kept)
  have "wp (get_object K ?k) (\<lambda>g w'. (view w' = view w \<and> (\<forall>x. g = Inr x \<longrightarrow> objects (view w) ?k = Some x \<and> object_key x = ?k)
      \<and> (\<forall>m. g = Inl (NotFound m) \<longrightarrow> objects (view w) ?k = None)) \<and> srv w' = srv w) w"
    using object_read [of ?k w] get_object_server [of ?k w] by (simp add: wp_conj)
  then have "wp (Reconcile C K ?k) (\<lambda>_. ?S) w"
    unfolding Reconcile_def wp_bind
    by (rule wp_mono) (use o' s object in \<open>auto simp: wp_simps preserves_iff_wp split: sum.splits\<close>)
  moreover have "wp (Reconcile C K ?k) (\<lambda>r w'. reconciled C (\<lambda>_ _. True) ?k (view w) r (view w')) w"
    by (rule wp_Reconcile [where I = "\<lambda>_. True"]) simp_all
  ultimately have "wp (Reconcile C K ?k) (\<lambda>r w'. ?S w' \<and> reconciled C (\<lambda>_ _. True) ?k (view w) r (view w')) w"
    by (simp add: wp_conj)
  then show ?thesis
    by (rule wp_mono) (use w o' in \<open>auto simp: pending_def dest: reconciled_pending\<close>)
qed

lemma run_operator_pending:
  assumes "connected C D o' ns n res" "pending D o' ns n res (view w) (srv w)"
  shows "pending D o' ns n res (view (run_operator C clock K (object_key o') i w))
    (srv (run_operator C clock K (object_key o') i w))"
proof (induction i)
  case 0
  with assms show ?case by simp
next
  case (Suc i)
  with pending_step [of "C\<lparr>op_now := clock i\<rparr>" o' ns n res] assms(1) show ?case by (simp add: wp_run)
qed

end

context kube_server_live
begin

lemma pull_answers:
  assumes "connected C D o' ns n res" "r_value res = Some x"
    and s: "serves (dp_server D) (tabs (srv w)) o' ns n res" "healthy w"
  shows "wp (pull_value C K o') (\<lambda>r w'. r = Inr (rv_data x) \<and> healthy w') w"
proof -
  from assms(1) obtain b where c: "TrimRight (BrinecryptURL C) (CHR ''/'') = dp_url D"
    "op_NewRequest C (dp_url D @ ''/api/v1/resource?op=query'') = None"
    "SplitN (CHR ''/'') 2 (RemotePath (bs_Spec o')) = [ns, n]"
    and b: "op_Marshal C [(''namespace'', ns), (''name'', n)] = Inr b"
    by (auto simp: connected_def)
  have fetched: "wp (http_Do K (fetch_request (dp_url D) b (account_token D o')))
      (\<lambda>r w'. r = Inr \<lparr>hp_StatusCode = 200, hp_Body = dp_text D (ResourceBody res)\<rparr> \<and> healthy w') w'"
    if "srv w' = srv w" "healthy w'" for w'
  proof -
    let ?m = "http_Do K (fetch_request (dp_url D) b (account_token D o'))" and ?f = "fetch_run D b (account_token D o')"
    have "wp ?m (\<lambda>r w''. ((\<exists>e. r = Inl e) \<and> (srv w'' = srv w' \<or> srv w'' = poststate ?f (srv w'))
        \<or> r = Inr (wire_response D (outcome ?f (srv w'))) \<and> srv w'' = poststate ?f (srv w'))
        \<and> ((\<exists>resp. r = Inr resp) \<and> healthy w'')) w'"
      unfolding wp_conj [where P = "\<lambda>r w''. P r w'' \<or> Q r w''" for P Q]
      using fetch_answered [of b "account_token D o'" w'] fetch_answer [OF that(2), of b "account_token D o'"] by blast
    then show ?thesis
      by (rule wp_mono) (use fetch_run_serves [OF assms(1) s(1) b] that(1) in auto)
  qed
  have "wp (request_token K (bs_Namespace o') (ServiceAccount (bs_Spec o')) aud ttl) (\<lambda>r w'. (srv w' = srv w
      \<and> (\<forall>tok. r = Inr tok \<longrightarrow> tok = account_token D o')) \<and> ((\<exists>tok. r = Inr tok) \<and> healthy w')) w" for aud ttl
    unfolding wp_conj using token_given [of "bs_Namespace o'" "ServiceAccount (bs_Spec o')" aud ttl w]
      token_answer [OF s(2)] by (simp add: account_token_def wp_conj)
  then show ?thesis
    unfolding pull_value_def wp_bind
    by (rule wp_mono)
      (use fetch_response [OF assms(1,2)] in
        \<open>auto simp: fetchRemoteSecretValue_def wp_simps Let_def c b fetch_request_URL intro!: wp_mono [OF fetched]\<close>)
qed

lemma healthy_run:
  assumes conn: "connected C D o' ns n res" and x: "r_value res = Some x"
    and w: "pending D o' ns n res (view w) (srv w)"
    and "healthy w" "spec_complete (bs_Spec o')"
    and d: "parseRefreshInterval (RefreshInterval (bs_Spec o')) = Inr d"
  shows "wp (Reconcile C K (object_key o'))
    (\<lambda>r w'. r = Inr \<lparr>RequeueAfter = d\<rparr> \<and> delivered o' (rv_data x) (op_now C) (view w')) w"
proof -
  let ?k = "object_key o'"
  from w obtain st where o': "objects (view w) ?k = Some (o'\<lparr>bs_Status := st\<rparr>)"
    and served: "serves (dp_server D) (tabs (srv w)) o' ns n res" and adopt: "adoptable o' (view w)"
    by (auto simp: pending_def)
  let ?o = "o'\<lparr>bs_Status := st\<rparr>"
  have pulled: "wp (pull_value C K ?o) (\<lambda>r w''. r = Inr (rv_data x) \<and> healthy w'') w'"
    if "srv w' = srv w" "healthy w'" for w'
    by (rule pull_answers [of C ?o ns n res]) (use conn x that served in auto)
  have "wp (Reconcile C K ?k) (\<lambda>r w'. r = Inr \<lparr>RequeueAfter = d\<rparr> \<and> healthy w' \<and>
      (\<exists>c1. published ?o (rv_data x) (view w) c1 \<and>
         view w' = put_status (?o\<lparr>bs_Status := ready_status C\<rparr>) c1)) w"
    by (rule Reconcile_answers [OF assms(4) _ o' _ _ _ get_object_server])
      (use adopt assms(5) d pulled in auto)
  then show ?thesis
    by (rule wp_mono) (auto intro: published_delivered [OF _ o'])
qed

end

subsection \<open>Finitely many failures\<close>

text \<open>In the cluster of \<open>Cluster\<close>, every run makes at least one call, so a finite number of failures passes.\<close>

definition counting :: "world \<Rightarrow> world \<Rightarrow> bool" where
  "counting w w' \<longleftrightarrow> w_calls w \<le> w_calls w'"

interpretation calls: step_order counting
  by unfold_locales (auto simp: counting_def)

lemma moves_counted:
  assumes "\<And>m w. w_calls (snd (f m w)) = w_calls w" "\<And>w. w_calls (snd (g w)) = w_calls w"
  shows "moves counting (counted D f g)"
proof (rule movesI)
  fix w :: world
  let ?w1 = "w\<lparr>w_calls := Suc (w_calls w)\<rparr>"
  show "wp (counted D f g) (\<lambda>_. counting w) w"
    using assms(1) [of _ ?w1] assms(2) [of ?w1]
    by (simp add: wp_def counted_def counting_def Let_def split_beta split: option.splits)
qed

lemma moves_calls:
  "moves counting (get_object (cluster_kube D) k)" "moves counting (get_secret (cluster_kube D) k)"
  "moves counting (create_secret (cluster_kube D) sec)" "moves counting (update_secret (cluster_kube D) sec)"
  "moves counting (update_status (cluster_kube D) o')" "moves counting (request_token (cluster_kube D) ns sa aud ttl)"
  "moves counting (http_Do (cluster_kube D) hq)"
  unfolding cluster_kube_def read_call_def write_call_def send_def
  by (auto intro!: moves_counted split: option.splits prod.splits)

lemma moves_reconcile_object: "moves counting (reconcile_object C (cluster_kube D) o')"
  unfolding reconcile_object_def fail_def pull_value_def push_value_def find_target_def write_target_def
    fetchRemoteSecretValue_def
  by (intro moves_intros moves_calls)

lemma Reconcile_counts: "wp (Reconcile C (cluster_kube D) k) (\<lambda>_ w'. w_calls w < w_calls w') w"
proof -
  have "wp (get_object (cluster_kube D) k) (\<lambda>_ w'. w_calls w < w_calls w') w"
    by (auto simp: wp_def cluster_calls Let_def split: option.splits)
  moreover have "wp (reconcile_object C (cluster_kube D) o') (\<lambda>_ w''. w_calls w < w_calls w'') w'"
    if "w_calls w < w_calls w'" for o' w'
  proof -
    have "wp (reconcile_object C (cluster_kube D) o') (\<lambda>_. counting w') w'"
      using moves_reconcile_object by (simp add: moves_def)
    then show ?thesis by (rule wp_mono) (use that in \<open>auto simp: counting_def\<close>)
  qed
  ultimately show ?thesis
    unfolding Reconcile_def wp_bind by (auto simp: wp_simps elim!: wp_mono split: sum.splits)
qed

lemma well_stored_published: "well_stored c \<Longrightarrow> published o' v c c1 \<Longrightarrow> well_stored c1"
  by (auto simp: published_def intro: well_stored_put)

lemma reconciled_well_stored: "reconciled C g k c r c' \<Longrightarrow> well_stored c \<Longrightarrow> well_stored c'"
  by (induction rule: reconciled.induct) (auto intro: well_stored_put(2) well_stored_published)

lemma run_operator_counts:
  assumes "well_stored (w_cluster w)"
  shows "well_stored (w_cluster (run_operator C clock (cluster_kube D) k i w))
    \<and> i \<le> w_calls (run_operator C clock (cluster_kube D) k i w)"
proof (induction i)
  case 0
  with assms show ?case by simp
next
  case (Suc i)
  let ?w = "run_operator C clock (cluster_kube D) k i w" and ?C = "C\<lparr>op_now := clock i\<rparr>"
  have "wp (Reconcile ?C (cluster_kube D) k) (\<lambda>r w'. reconciled ?C (\<lambda>_ _. True) k (w_cluster ?w) r (w_cluster w')) ?w"
    by (rule deployed.wp_Reconcile [where I = "\<lambda>_. True"]) simp_all
  with Suc Reconcile_counts [of ?C D k ?w] show ?case
    by (auto simp: wp_run dest: reconciled_well_stored)
qed

lemma finite_faults_pass:
  assumes "finite {i. dp_fault D i \<noteq> None}" "well_stored (w_cluster w)"
  shows "\<exists>N. \<forall>i\<ge>N. sound_from D (run_operator C clock (cluster_kube D) k i w)"
proof -
  from assms(1) obtain N where N: "\<And>i. dp_fault D i \<noteq> None \<Longrightarrow> i < N"
    by (auto simp: finite_nat_set_iff_bounded)
  show ?thesis
  proof (intro exI [of _ N] allI impI)
    fix i assume "N \<le> i"
    with run_operator_counts [OF assms(2), of C clock D k i] N
    show "sound_from D (run_operator C clock (cluster_kube D) k i w)"
      by (force simp: sound_from_def)
  qed
qed

subsection \<open>Refresh intervals\<close>

text \<open>C37. A refresh interval that is accepted is between one second and the largest
  \<open>int64\<close> number of nanoseconds. One that is written as whole numbers with units means the
  sum of its parts: it is accepted exactly when the sum is at least a second, as long as it
  is an \<open>int64\<close>.\<close>

theorem parseRefreshInterval_exact:
  assumes "ps \<noteq> []" and "total_ns ps = Some t" and "t < 2 ^ 63"
  shows "parseRefreshInterval (show_parts ps) =
      (if int t < Second then Inl ''refreshInterval must be >= 1s'' else Inr (int t))
    \<and> (\<forall>d. parseRefreshInterval s = Inr d \<longrightarrow> Second \<le> d \<and> d < 2 ^ 63)"
proof -
  obtain n u ps' where ps: "ps = (n, u) # ps'" using assms(1) by (cases ps) auto
  have "show_parts ps \<noteq> []" by (simp add: ps show_parts_Cons)
  then show ?thesis
    using ParseDuration_show [OF assms] parseRefreshInterval_range [of s]
    by (simp add: parseRefreshInterval_def minimumRefreshInterval_def)
qed

theorem parseRefreshInterval_exact_witness:
  "parseRefreshInterval (show_parts [(1, ''h''), (30, ''m'')]) = Inr (90 * Minute)
   \<and> parseRefreshInterval (show_parts [(999, ''ms'')]) = Inl ''refreshInterval must be >= 1s''"
proof -
  have t: "total_ns [(1, ''h''), (30, ''m'')] = Some 5400000000000" "total_ns [(999, ''ms'')] = Some 999000000"
    by (simp_all add: unitMap_def)
  show ?thesis
    using parseRefreshInterval_exact [OF _ t(1)] parseRefreshInterval_exact [OF _ t(2)]
    by (simp add: Minute_def Second_def)
qed

subsection \<open>An example deployment\<close>

text \<open>
  The service account \<open>prod/app\<close> may read \<open>prod/*\<close>, where \<open>prod/db\<close> has the value \<open>pw\<close>; the
  object \<open>prod/db-secret\<close> wants it in the secret \<open>prod/db\<close>. The first two calls fail.
\<close>

definition op_value :: resource_value where
  "op_value = \<lparr>rv_uuid = 7, rv_resource_id = 1, rv_version = 1, rv_data = ''pw'',
     rv_encryption_algorithm = EncryptionAlgorithmUndefined, rv_encryption_key_id = None,
     rv_encryption_key = None, rv_created_by = [], rv_created_at = 0, rv_retired_at = None\<rparr>"

definition op_row :: resource where
  "op_row = \<lparr>r_id = 1, r_namespace_id = 1, r_ns = None, r_name = ''db'', r_type = ResourceTypeCleartext,
     r_created_at = 0, r_created_by = [], r_retired_at = None, r_value = None\<rparr>"

definition op_tables :: tables where
  "op_tables = example_tables\<lparr>t_sas := [\<lparr>sa_id = 1, sa_namespace = ''prod'', sa_name = ''app'', sa_synced_at = 0\<rparr>],
     t_sa_permissions := [(1, 1)], t_resources := [op_row], t_resource_values := [op_value]\<rparr>"

definition op_resource :: resource where
  "op_resource = op_row\<lparr>r_ns := Some \<lparr>ns_id = 1, ns_name = ''prod'', ns_created_at = 0\<rparr>, r_value := Some op_value\<rparr>"

definition op_server :: env where
  "op_server = example_env\<lparr>json_Decode := (\<lambda>b. if b = ''ask'' then Some (query_json ''prod'' ''db'') else None)\<rparr>"

definition op_object :: BrinecryptSecret where
  "op_object = \<lparr>bs_Namespace = ''prod'', bs_Name = ''db-secret'', bs_UID = ''u1'',
     bs_Spec = \<lparr>RemotePath = ''prod/db'', ServiceAccount = ''app'', TargetSecret = ''db'', SecretKey = [],
                RefreshInterval = []\<rparr>,
     bs_Status = \<lparr>st_Ready = False, st_LastSyncTime = None, st_LastError = []\<rparr>\<rparr>"

definition op_config :: op_env where
  "op_config = \<lparr>op_now = 1000, BrinecryptURL = ''http://brinecrypt:8080'', op_NewRequest = (\<lambda>_. None),
     op_Marshal = (\<lambda>_. Inr ''ask''), op_Decode = (\<lambda>_. resource_json (\<lambda>_. []) (\<lambda>_. []) op_resource),
     op_decode_error = (\<lambda>_. []), strconv_Quote = quote\<rparr>"

definition op_deployment :: deployment where
  "op_deployment = \<lparr>dp_server = op_server, dp_url = ''http://brinecrypt:8080'', dp_token = (\<lambda>_ _. ''eyJ.a.b''),
     dp_text = (\<lambda>_. ''text''), dp_clock = (\<lambda>_. 1000), dp_fault = (\<lambda>i. if i < 2 then Some ''timeout'' else None),
     dp_applied = (\<lambda>_. False)\<rparr>"

definition op_world :: world where
  "op_world = \<lparr>w_cluster = \<lparr>objects = (\<lambda>k. if k = (''prod'', ''db-secret'') then Some op_object else None),
                           secrets = (\<lambda>_. None)\<rparr>,
               w_server = example_st\<lparr>tabs := op_tables\<rparr>, w_calls = 0\<rparr>"

lemma op_no_faults: "no_faults op_server"
  by (simp add: no_faults_def op_server_def)

lemma op_token: "looksLikeJWT ''eyJ.a.b''" by code_simp

lemma op_review: "ValidateSAToken op_server ''eyJ.a.b'' = Some (''prod'', ''app'')"
proof -
  have "TrimSpace [] = []" "TrimSpace ''system:serviceaccount:prod:app'' = ''system:serviceaccount:prod:app''"
    by (rule TrimSpace_id; simp add: no_space_byte_def)+
  then show ?thesis
    by (simp add: ValidateSAToken_def op_server_def example_env_def NormalizeSubject_def SplitN_unfolds
        before_sep_def after_sep_def Let_def)
qed

lemma op_serves: "serves op_server op_tables op_object ''prod'' ''db'' op_resource"
proof -
  have now: "now op_server = 1000" by (simp add: op_server_def)
  have perms: "own_perms (object_account op_object) op_tables = Some [example_perm 1 VerbTypeRead ''prod/*'']"
    by code_simp
  have "policy 1000 op_tables (Some (object_account op_object)) VerbTypeRead ''prod'' ''db''" by code_simp
  moreover have "loaded_resource ''prod'' ''db'' op_tables = Some op_resource"
    by (simp add: loaded_resource_def select_resource_def in_namespace_def latest_value_def load_ns_def load_key_def
        op_tables_def op_row_def op_value_def op_resource_def)
  moreover have "decryptValue op_server op_value = Some op_value"
    by (simp add: decryptValue_def op_value_def)
  ultimately have "read_answer op_server op_tables (object_account op_object) ''prod'' ''db'' op_resource"
    by (simp add: read_answer_def now op_resource_def)
  moreover have "wf_own 1000 op_tables (object_account op_object)"
    by (simp add: wf_own_def perms example_pattern_ok example_perm_def)
  moreover have "wf_anon 1000 op_tables"
    by (simp add: wf_anon_def example_pattern_ok op_tables_def example_tables_def)
  ultimately show ?thesis
    by (simp add: serves_def now op_tables_def op_object_def)
qed

lemma op_json: "\<exists>j. resource_json (\<lambda>_. []) (\<lambda>_. []) op_resource = Some j"
  by (simp add: resource_json_def value_json_def op_resource_def op_row_def op_value_def
      ResourceType_MarshalJSON_def resourceTypeNames_def EncryptionAlgorithm_MarshalJSON_def EncryptionAlgorithmNames_def)

lemma op_url: "TrimRight ''http://brinecrypt:8080'' (CHR ''/'') = ''http://brinecrypt:8080''"
  by code_simp

lemma op_account_token: "account_token op_deployment op_object = ''eyJ.a.b''"
  by (simp add: account_token_def op_deployment_def)

lemma op_connected: "connected op_config op_deployment op_object ''prod'' ''db'' op_resource"
proof -
  have "SplitN (CHR ''/'') 2 ''prod/db'' = [''prod'', ''db'']" by code_simp
  then show ?thesis
    using op_json op_no_faults op_review op_token
    by (auto simp: connected_def op_account_token op_url)
      (auto simp: op_config_def op_deployment_def op_object_def op_server_def op_url)
qed

lemma op_pending:
  "pending op_deployment op_object ''prod'' ''db'' op_resource (w_cluster op_world) (w_server op_world)"
  "well_stored (w_cluster op_world)"
proof -
  have "\<exists>st. op_object = op_object\<lparr>bs_Status := st\<rparr>" by (rule exI [of _ "bs_Status op_object"]) simp
  then show "pending op_deployment op_object ''prod'' ''db'' op_resource (w_cluster op_world) (w_server op_world)"
    "well_stored (w_cluster op_world)"
    using op_serves
    by (auto simp: pending_def op_world_def op_deployment_def well_stored_def adoptable_def)
      (simp_all add: object_key_def op_object_def)
qed


lemma op_server_tabs: "tabs (w_server op_world) = op_tables" "dp_server op_deployment = op_server"
  by (simp_all add: op_world_def op_deployment_def)

lemma op_agrees: "json_agrees op_config op_deployment (\<lambda>_. []) (\<lambda>_. []) op_object (w_server op_world)"
proof -
  have fields: "dp_url op_deployment = ''http://brinecrypt:8080''" "BrinecryptURL op_config = ''http://brinecrypt:8080''"
    "op_Marshal op_config ms = Inr ''ask''" "op_Decode op_config t = resource_json (\<lambda>_. []) (\<lambda>_. []) op_resource"
    "json_Decode op_server ''ask'' = Some (query_json ''prod'' ''db'')"
    "RemotePath (bs_Spec op_object) = ''prod/db''" for ms t
    by (simp_all add: op_deployment_def op_config_def op_server_def op_object_def)
  let ?r = "received (dp_url op_deployment) (fetch_request (dp_url op_deployment) ''ask'' (account_token op_deployment op_object))"
  have "decode_body op_server decode_resourceQueryRequest ?r = Some (query_body ''prod'' ''db'')"
    by (simp add: decode_body_def received_fetch fields decode_query_json)
  from server_serves [of op_server "w_server op_world" op_object "''prod''" "''db''" op_resource ?r, OF _ _ _ _ _ _ _ _ _ this]
  have "rs_body (server_answer op_deployment op_object ''ask'' (w_server op_world)) = ResourceBody op_resource"
    using op_serves op_no_faults op_token op_review
    by (simp add: server_answer_def wp_run op_server_tabs received_fetch received_fetch_path received_fetch_bearer
        op_account_token) (simp add: op_object_def)
  moreover have "SplitN (CHR ''/'') 2 ''prod/db'' = [''prod'', ''db'']" by code_simp
  ultimately show ?thesis
    by (simp add: json_agrees_def fields op_url op_server_tabs)
qed

lemma op_reviewed: "reviewed op_deployment op_object"
  using op_token op_review by (simp add: reviewed_def op_account_token op_server_tabs) (simp add: op_object_def)

end
