(* ===== verification/Interleaving.thy ===== *)
theory Interleaving
  imports Prelude
begin

text \<open>
  Requests that are served at the same time. The programs of the other theories are run from
  start to end; here a program is split into the calls it makes, and the calls of several
  programs may alternate in any order.

  \<^item> A \<open>thread\<close> is what a program still has to do: nothing (\<open>Done\<close>, with its result) or a call
    on the shared state, which yields the rest. \<open>run\<close> makes all calls one after the other,
    and so gives back the program that was split.
  \<^item> A \<open>pool\<close> is a list of threads. A schedule is the list of the indices of the threads that
    make a call, one after the other; \<open>exec\<close> runs a pool along a schedule.
  \<^item> \<open>under R t Q s\<close> is the weakest precondition of a thread whose calls alternate with
    changes of the state by others: before and after each call the state may move along
    \<open>R\<close>, each call of the thread itself moves it along \<open>R\<close>, and the result satisfies \<open>Q\<close>. The
    locale \<open>interference\<close> has its rules for a preorder \<open>R\<close> and its soundness for pools.
\<close>

named_theorems under_intros "structural rules for threads under interference"

subsection \<open>Threads\<close>

datatype (dead 's, 'a) thread = Done 'a | Call "'s \<Rightarrow> ('s, 'a) thread \<times> 's"

primrec run :: "('s, 'a) thread \<Rightarrow> ('s, 'a) state" where
  "run (Done x) = State_Monad.return x"
| "run (Call f) = State (\<lambda>s. case map_prod run id (f s) of (m, s') \<Rightarrow> run_state m s')"

primrec chain :: "('s, 'a) thread \<Rightarrow> ('a \<Rightarrow> ('s, 'b) thread) \<Rightarrow> ('s, 'b) thread" where
  "chain (Done x) k = k x"
| "chain (Call f) k = Call (\<lambda>s. map_prod (\<lambda>t. chain t k) id (f s))"

text \<open>One call: a program that nobody interrupts.\<close>

definition call :: "('s, 'a) state \<Rightarrow> ('s, 'a) thread" where
  "call m = Call (\<lambda>s. map_prod Done id (run_state m s))"

lemma run_state_Call: "run_state (run (Call f)) s = run_state (run (fst (f s))) (snd (f s))"
  by (simp add: split_beta)

lemma chain_Call: "chain (Call f) k = Call (\<lambda>s. (chain (fst (f s)) k, snd (f s)))"
  by (simp add: map_prod_def split_beta)

declare run.simps(2) [simp del] chain.simps(2) [simp del]
declare run_state_Call [simp] chain_Call [simp]

lemma thread_induct [case_names Done Call]:
  assumes "\<And>x. P (Done x)" and "\<And>f. (\<And>s. P (fst (f s))) \<Longrightarrow> P (Call f)"
  shows "P t"
proof (induction t)
  case (Call f)
  have "P (fst (f s))" for s
    by (rule Call.IH [of "f s"]) (auto intro: fsts.intros)
  then show ?case by (rule assms(2))
qed (rule assms(1))

lemma run_call [simp]: "run (call m) = m"
  by (rule state_ext) (simp add: call_def)

lemma run_chain [simp]: "run (chain t k) = State_Monad.bind (run t) (\<lambda>x. run (k x))"
  by (induction t rule: thread_induct) (auto intro: state_ext simp: split_beta)

lemma chain_chain [simp]: "chain (chain t k) k' = chain t (\<lambda>x. chain (k x) k')"
  by (induction t rule: thread_induct) auto

text \<open>A case distinction or a conditional in a thread is one in the program it runs.\<close>

lemma run_cases [simp]:
  "run (case r of Inl e \<Rightarrow> f e | Inr y \<Rightarrow> g y) = (case r of Inl e \<Rightarrow> run (f e) | Inr y \<Rightarrow> run (g y))"
  "run (case o' of None \<Rightarrow> t | Some x \<Rightarrow> h x) = (case o' of None \<Rightarrow> run t | Some x \<Rightarrow> run (h x))"
  "run (if b then t else u) = (if b then run t else run u)"
  by (simp_all split: sum.split option.split)

subsection \<open>Pools\<close>

type_synonym ('s, 'a) pool = "('s, 'a) thread list \<times> 's"

fun turn :: "nat \<Rightarrow> ('s, 'a) pool \<Rightarrow> ('s, 'a) pool" where
  "turn i (ts, s) =
     (if length ts \<le> i then (ts, s)
      else case ts ! i of
        Done _ \<Rightarrow> (ts, s)
      | Call f \<Rightarrow> (case f s of (t, s') \<Rightarrow> (ts[i := t], s')))"

definition exec :: "nat list \<Rightarrow> ('s, 'a) pool \<Rightarrow> ('s, 'a) pool" where
  "exec is p = fold turn is p"

lemma exec_simps [simp]: "exec [] p = p" "exec (i # is) p = exec is (turn i p)"
  by (simp_all add: exec_def)

lemma turn_call:
  assumes "i < length ts" "ts ! i = chain (call m) k"
  shows "turn i (ts, s) = (ts[i := k (outcome m s)], poststate m s)"
  using assms by (simp add: turn.simps call_def outcome_def poststate_def split_beta)

lemma turn_call_last:
  assumes "i < length ts" "ts ! i = call m"
  shows "turn i (ts, s) = (ts[i := Done (outcome m s)], poststate m s)"
  using assms by (simp add: turn.simps call_def outcome_def poststate_def split_beta)

declare turn.simps [simp del]

lemma exec_append: "exec (is @ js) p = exec js (exec is p)"
  by (simp add: exec_def)

lemma length_turn [simp]: "length (fst (turn i p)) = length (fst p)"
  by (cases p) (auto simp: turn.simps split: thread.splits prod.splits)

lemma length_exec [simp]: "length (fst (exec is p)) = length (fst p)"
  by (induction "is" arbitrary: p) simp_all

text \<open>The results so far: \<open>None\<close> for a thread that still has calls to make.\<close>

primrec result_of :: "('s, 'a) thread \<Rightarrow> 'a option" where
  "result_of (Done x) = Some x"
| "result_of (Call f) = None"

definition results :: "('s, 'a) pool \<Rightarrow> 'a option list" where
  "results p = map result_of (fst p)"

subsection \<open>Weakest preconditions under interference\<close>

primrec under :: "('s \<Rightarrow> 's \<Rightarrow> bool) \<Rightarrow> ('s, 'a) thread \<Rightarrow> ('a \<Rightarrow> 's \<Rightarrow> bool) \<Rightarrow> 's \<Rightarrow> bool" where
  "under R (Done x) = (\<lambda>Q s. \<forall>s'. R s s' \<longrightarrow> Q x s')"
| "under R (Call f) = (\<lambda>Q s. \<forall>s'. R s s' \<longrightarrow>
     (case map_prod (under R) id (f s') of (w, s'') \<Rightarrow> R s' s'' \<and> w Q s''))"

lemma under_Call:
  "under R (Call f) Q s \<longleftrightarrow> (\<forall>s'. R s s' \<longrightarrow> R s' (snd (f s')) \<and> under R (fst (f s')) Q (snd (f s')))"
  by (simp add: split_beta)

declare under.simps(2) [simp del]
declare under_Call [simp]

lemma under_mono: "under R t Q s \<Longrightarrow> (\<And>x s. Q x s \<Longrightarrow> Q' x s) \<Longrightarrow> under R t Q' s"
  by (induction t arbitrary: s rule: thread_induct) auto

lemma under_case_option [under_intros]:
  "(x = None \<Longrightarrow> under R t Q s) \<Longrightarrow> (\<And>y. x = Some y \<Longrightarrow> under R (f y) Q s) \<Longrightarrow>
     under R (case x of None \<Rightarrow> t | Some y \<Rightarrow> f y) Q s"
  by (cases x) auto

lemma under_case_sum [under_intros]:
  "(\<And>e. x = Inl e \<Longrightarrow> under R (g e) Q s) \<Longrightarrow> (\<And>y. x = Inr y \<Longrightarrow> under R (f y) Q s) \<Longrightarrow>
     under R (case x of Inl e \<Rightarrow> g e | Inr y \<Rightarrow> f y) Q s"
  by (cases x) auto

lemma under_if [under_intros]:
  "(b \<Longrightarrow> under R t Q s) \<Longrightarrow> (\<not> b \<Longrightarrow> under R u Q s) \<Longrightarrow> under R (if b then t else u) Q s"
  by simp

lemma under_let [under_intros]: "under R (f v) Q s \<Longrightarrow> under R (let x = v in f x) Q s"
  by simp

locale interference = step_order R for R :: "'s \<Rightarrow> 's \<Rightarrow> bool"
begin

lemma under_moved: "under R t Q s \<Longrightarrow> R s s' \<Longrightarrow> under R t Q s'"
  by (cases t) (auto intro: step_trans)

lemma under_chain: "under R (chain t k) Q s = under R t (\<lambda>x. under R (k x) Q) s"
  by (induction t arbitrary: s rule: thread_induct) (auto intro: under_moved step_refl)

lemmas under_chainI [under_intros] = under_chain [THEN iffD2]

lemma under_done: "(\<And>s'. R s s' \<Longrightarrow> Q x s') \<Longrightarrow> under R (Done x) Q s"
  by simp

lemma under_call: 
  "(\<And>s'. R s s' \<Longrightarrow> wp m (\<lambda>x s''. R s' s'' \<and> (\<forall>t. R s'' t \<longrightarrow> Q x t)) s') \<Longrightarrow> under R (call m) Q s"
  by (auto simp: call_def wp_def split_beta)

text \<open>
  Rules for a thread seen from a state \<open>s0\<close> in its past: what happened since then, by itself
  and by others, is a move along \<open>R\<close>.
\<close>

lemma under_done_from: "R s0 s \<Longrightarrow> (\<And>t. R s0 t \<Longrightarrow> R s t \<Longrightarrow> Q x t) \<Longrightarrow> under R (Done x) Q s"
  by (auto intro: step_trans)

lemma under_call_from:
  assumes "R s0 s" and "moves R m"
    and "\<And>s' t. R s0 s' \<Longrightarrow> R s0 t \<Longrightarrow> R (poststate m s') t \<Longrightarrow> R s t \<Longrightarrow> Q (outcome m s') t"
  shows "under R (call m) Q s"
proof (rule under_call)
  fix s' assume s: "R s s'"
  with assms(1) have s': "R s0 s'" by (rule step_trans)
  moreover from assms(2) have m: "R s' (poststate m s')" by (rule moves_poststate)
  moreover from s s' m have "R s0 t" "R s t" if "R (poststate m s') t" for t
    using that by (meson step_trans)+
  ultimately show "wp m (\<lambda>x s''. R s' s'' \<and> (\<forall>t. R s'' t \<longrightarrow> Q x t)) s'"
    by (auto simp: wp_run intro: assms(3))
qed

text \<open>
  A pool all of whose threads are prepared for the others: every schedule moves the state
  along \<open>R\<close>, and every result satisfies its postcondition from then on.
\<close>

lemma turn_sound:
  assumes "\<forall>i < length (fst p). under R (fst p ! i) (Q i) (snd p)"
  shows "R (snd p) (snd (turn j p)) \<and> (\<forall>i < length (fst p). under R (fst (turn j p) ! i) (Q i) (snd (turn j p)))"
proof -
  obtain ts s where p: "p = (ts, s)" by (cases p)
  show ?thesis
  proof (cases "j < length ts \<and> (\<exists>f. ts ! j = Call f)")
    case True
    then obtain f t s' where f: "ts ! j = Call f" "f s = (t, s')" "j < length ts" by (meson surj_pair)
    with assms have "under R (Call f) (Q j) s" by (auto simp: p)
    with f(2) step_refl [of s] have "R s s' \<and> under R t (Q j) s'" by fastforce
    moreover from this assms have "under R (ts ! i) (Q i) s'" if "i < length ts" for i
      using that by (auto simp: p intro: under_moved)
    ultimately show ?thesis using f by (auto simp: p nth_list_update turn.simps)
  next
    case False
    then have "turn j p = p" by (auto simp: p turn.simps split: thread.splits)
    with assms show ?thesis by (simp add: step_refl)
  qed
qed

lemma exec_sound:
  assumes "\<forall>i < length (fst p). under R (fst p ! i) (Q i) (snd p)"
  shows "R (snd p) (snd (exec is p)) \<and> (\<forall>i < length (fst p). under R (fst (exec is p) ! i) (Q i) (snd (exec is p)))"
  using assms
proof (induction "is" arbitrary: p)
  case Nil
  then show ?case by (simp add: step_refl)
next
  case (Cons j js)
  from turn_sound [OF Cons.prems, of j] Cons.IH [of "turn j p"] show ?case
    by (auto intro: step_trans)
qed

theorem pool_sound:
  assumes "\<And>i. i < length ts \<Longrightarrow> under R (ts ! i) (Q i) s"
    and "exec is (ts, s) = (ts', s')"
  shows "R s s'" and "\<And>i x. i < length ts \<Longrightarrow> ts' ! i = Done x \<Longrightarrow> Q i x s'"
  using exec_sound [of "(ts, s)" Q "is"] assms by (auto intro: step_refl) (metis step_refl under.simps(1))

end

end
