(* ===== verification/Concurrent_Sessions.thy ===== *)
theory Concurrent_Sessions
  imports Interleaving Auth_Props Db_Inv
begin

text \<open>
  Sessions under concurrent requests: \<open>session.go\<close> split into its calls of the database and
  of the random source. Every call of the database is one statement, which the database
  carries out in one piece; the statements of different requests alternate.
\<close>

subsection \<open>session.go, call by call\<close>

definition NewSession_steps :: "env \<Rightarrow> user \<Rightarrow> (st, session_error + SessionTokens) thread" where
  "NewSession_steps E u =
     chain (call (GenerateToken E)) (\<lambda>raw.
     case raw of
       None \<Rightarrow> Done (Inl ErrRandom)
     | Some raw \<Rightarrow>
         let st = SessionPrefix @ raw in
         chain (call (GenerateToken E)) (\<lambda>raw.
         case raw of
           None \<Rightarrow> Done (Inl ErrRandom)
         | Some raw \<Rightarrow>
             let rt = RefreshPrefix @ raw;
                 x = \<lparr>s_id = 0, s_user_id = u_id u, s_token_hash = HashToken E st,
                      s_refresh_token_hash = HashToken E rt,
                      s_expires_at = now E + 15 * Minute, s_created_at = 0\<rparr> in
             chain (call (CreateSession E x)) (\<lambda>c.
             case c of
               Inl e \<Rightarrow> Done (Inl (ErrStore e))
             | Inr _ \<Rightarrow> Done (Inr \<lparr>SessionToken = st, RefreshToken = rt\<rparr>))))"

definition Login_steps :: "env \<Rightarrow> string \<Rightarrow> string \<Rightarrow> (st, session_error + SessionTokens) thread" where
  "Login_steps E username password =
     chain (call (GetUser E username)) (\<lambda>r.
     case r of
       Inl _ \<Rightarrow> Done (Inl ErrInvalidCredentials)
     | Inr u \<Rightarrow>
         if \<not> bcrypt_compare E (u_pass u) password then Done (Inl ErrInvalidCredentials)
         else NewSession_steps E u)"

definition Refresh_steps :: "env \<Rightarrow> string \<Rightarrow> (st, session_error + SessionTokens) thread" where
  "Refresh_steps E refreshToken =
     (if \<not> HasPrefix refreshToken RefreshPrefix then Done (Inl ErrInvalidToken)
      else
        chain (call (GetSessionByRefreshTokenHash E (HashToken E refreshToken))) (\<lambda>r.
        case r of
          Inl _ \<Rightarrow> Done (Inl ErrInvalidToken)
        | Inr session \<Rightarrow>
            if s_expires_at session < now E then Done (Inl ErrInvalidToken)
            else
              chain (call (GetUserById E (s_user_id session))) (\<lambda>q.
              case q of
                Inl _ \<Rightarrow> Done (Inl ErrInvalidToken)
              | Inr u \<Rightarrow>
                  chain (NewSession_steps E u) (\<lambda>t.
                  case t of
                    Inl e \<Rightarrow> Done (Inl e)
                  | Inr tokens \<Rightarrow>
                      chain (call (DeleteSession E (s_id session))) (\<lambda>d.
                      case d of
                        Inl e \<Rightarrow> Done (Inl (ErrStore e))
                      | Inr _ \<Rightarrow> Done (Inr tokens))))))"

definition Logout_steps :: "env \<Rightarrow> string \<Rightarrow> (st, session_error + unit) thread" where
  "Logout_steps E sessionToken =
     (if \<not> HasPrefix sessionToken SessionPrefix then Done (Inl ErrInvalidToken)
      else
        chain (call (GetSessionByTokenHash E (HashToken E sessionToken))) (\<lambda>r.
        case r of
          Inl _ \<Rightarrow> Done (Inl ErrInvalidToken)
        | Inr session \<Rightarrow>
            chain (call (InvalidateSession E (s_id session))) (\<lambda>c.
            case c of
              Inl e \<Rightarrow> Done (Inl (ErrStore e))
            | Inr _ \<Rightarrow> Done (Inr ()))))"

lemma run_NewSession_steps [simp]: "run (NewSession_steps E u) = NewSession E u"
  by (simp add: NewSession_steps_def NewSession_def Let_def cong: option.case_cong sum.case_cong if_cong)

lemma session_steps_run:
  "run (Login_steps E n pw) = Login E n pw" "run (Refresh_steps E tok) = Refresh E tok"
  "run (Logout_steps E tok) = Logout E tok"
  by (simp_all add: Login_steps_def Login_def Refresh_steps_def Refresh_def Logout_steps_def Logout_def
      cong: option.case_cong sum.case_cong if_cong)

subsection \<open>Requests that run at the same time\<close>

datatype session_request =
    LoginRequest env string string
  | RefreshRequest env string
  | LogoutRequest env string

primrec request_env :: "session_request \<Rightarrow> env" where
  "request_env (LoginRequest E n pw) = E"
| "request_env (RefreshRequest E tok) = E"
| "request_env (LogoutRequest E tok) = E"

primrec session_steps :: "session_request \<Rightarrow> (st, session_error + SessionTokens option) thread" where
  "session_steps (LoginRequest E n pw) = chain (Login_steps E n pw) (\<lambda>r. Done (map_sum id Some r))"
| "session_steps (RefreshRequest E tok) = chain (Refresh_steps E tok) (\<lambda>r. Done (map_sum id Some r))"
| "session_steps (LogoutRequest E tok) = chain (Logout_steps E tok) (\<lambda>r. Done (map_sum id (\<lambda>_. None) r))"

text \<open>
  What any of them may do to the sessions, seen from a refresh digest \<open>d\<close> that no new
  session gets: keys stay different and are not used again, and a session with the digest
  \<open>d\<close> was there before, under the same key.
\<close>

abbreviation session_ids :: "st \<Rightarrow> uint set" where
  "session_ids s \<equiv> s_id ` set (t_sessions (tabs s))"

definition session_moves :: "string \<Rightarrow> st \<Rightarrow> st \<Rightarrow> bool" where
  "session_moves d s s' \<longleftrightarrow>
     (keyed s_id (seqs s TSessions) (t_sessions (tabs s)) \<longrightarrow>
        keyed s_id (seqs s' TSessions) (t_sessions (tabs s')) \<and> seqs s TSessions \<le> seqs s' TSessions
      \<and> (\<forall>i \<le> seqs s TSessions. i \<in> session_ids s' \<longrightarrow> i \<in> session_ids s)
      \<and> (\<forall>x \<in> set (t_sessions (tabs s')). s_refresh_token_hash x = d \<longrightarrow>
           (\<exists>y \<in> set (t_sessions (tabs s)). s_id y = s_id x \<and> s_refresh_token_hash y = d)))"

interpretation sessions: interference "session_moves d" for d
proof
  show "session_moves d s s" for s by (auto simp: session_moves_def)
  show "session_moves d s s''" if "session_moves d s s'" "session_moves d s' s''" for s s' s''
    using that unfolding session_moves_def by (fastforce dest: le_trans)
qed

lemma session_moves_same:
  "tabs s' = tabs s \<Longrightarrow> seqs s' TSessions = seqs s TSessions \<Longrightarrow> session_moves d s s'"
  by (auto simp: session_moves_def)

lemma session_moves_read: "keeps core m \<Longrightarrow> moves (session_moves d) m"
  by (auto simp: moves_def wp_run keeps_core_after intro: session_moves_same)

lemma session_moves_token: "moves (session_moves d) (GenerateToken E)"
  by (auto simp: moves_def wp_GenerateToken intro: session_moves_same split: option.splits)

lemma session_moves_create:
  "s_refresh_token_hash x \<noteq> d \<Longrightarrow> moves (session_moves d) (CreateSession E x)"
  by (auto simp: moves_def ins_session.wp_insert Let_def intro: session_moves_same)
    (auto simp: session_moves_def intro: keyed_mono)

lemma session_moves_delete: "moves (session_moves d) (DeleteSession E i)"
  by (auto simp: moves_def DeleteSession_def wp_simps intro: session_moves_same)
    (auto simp: session_moves_def)

lemma session_moves_invalidate: "d \<noteq> [] \<Longrightarrow> moves (session_moves d) (InvalidateSession E i)"
  by (auto simp: moves_def InvalidateSession_def wp_simps intro: session_moves_same)
    (auto simp: session_moves_def if_distrib cong: if_cong)

text \<open>No refresh token that the random source can produce has the digest \<open>d\<close>.\<close>

definition digest_unused :: "env \<Rightarrow> string \<Rightarrow> bool" where
  "digest_unused E d \<longleftrightarrow>
     (\<forall>i b. rand_read E i 32 = Some b \<longrightarrow> HashToken E (RefreshPrefix @ hex_encode b) \<noteq> d)"

lemma digest_unusedD:
  assumes "digest_unused E d" "outcome (GenerateToken E) s = Some raw"
  shows "HashToken E (RefreshPrefix @ raw) \<noteq> d"
proof -
  have "wp (GenerateToken E) (\<lambda>r _. r = Some raw \<longrightarrow> HashToken E (RefreshPrefix @ raw) \<noteq> d) s"
    using assms(1) by (auto simp: wp_GenerateToken digest_unused_def split: option.splits)
  with assms(2) show ?thesis by (simp add: wp_run)
qed

lemma under_NewSession:
  assumes "digest_unused E d" and "session_moves d s0 s" and "\<And>r t. session_moves d s0 t \<Longrightarrow> Q r t"
  shows "under (session_moves d) (NewSession_steps E u) Q s"
  using assms(2) unfolding NewSession_steps_def
  by - (rule under_intros | erule assms(3) | rule session_moves_token session_moves_create
      | rule sessions.under_done_from [of d s0], assumption | rule sessions.under_call_from [of d s0], assumption
      | simp only: session.select_convs, erule digest_unusedD [OF assms(1)])+

lemma refresh_session_found:
  assumes "session_moves d s0 s" and "keyed s_id (seqs s0 TSessions) (t_sessions (tabs s0))"
    and "outcome (GetSessionByRefreshTokenHash E d) s = Inr x"
  shows "\<exists>y \<in> set (t_sessions (tabs s0)). s_refresh_token_hash y = d \<and> s_id y = s_id x \<and> s_id y \<le> seqs s0 TSessions"
proof -
  have "wp (GetSessionByRefreshTokenHash E d) (\<lambda>r _. r = Inr x \<longrightarrow>
      x \<in> set (t_sessions (tabs s)) \<and> s_refresh_token_hash x = d) s"
    by (auto simp: wp_simps dest: first_by_Some_in split: option.splits)
  with assms show ?thesis by (fastforce simp: wp_run session_moves_def keyed_def)
qed

lemma deleted_session_stays_away:
  assumes "session_moves d s0 s" and "session_moves d (poststate (DeleteSession E i) s) t"
    and "keyed s_id (seqs s0 TSessions) (t_sessions (tabs s0))" and "i \<le> seqs s0 TSessions"
    and "outcome (DeleteSession E i) s = Inr u"
  shows "i \<notin> session_ids t"
proof -
  have "wp (DeleteSession E i) (\<lambda>r s'. r = Inr u \<longrightarrow> i \<notin> session_ids s') s"
    by (auto simp: DeleteSession_def wp_simps)
  with assms(5) have "i \<notin> session_ids (poststate (DeleteSession E i) s)" by (simp add: wp_run)
  moreover have "session_moves d s0 (poststate (DeleteSession E i) s)"
    by (rule sessions.step_trans [OF assms(1) moves_poststate [OF session_moves_delete]])
  ultimately show ?thesis using assms(2-4) unfolding session_moves_def by (meson le_trans)
qed

lemma under_Refresh:
  assumes "digest_unused E d" and "session_moves d s0 s"
    and "keyed s_id (seqs s0 TSessions) (t_sessions (tabs s0))"
    and "\<And>r t. session_moves d s0 t \<Longrightarrow>
          (\<forall>x. r = Inr x \<longrightarrow> HashToken E tok = d \<longrightarrow> (\<exists>y \<in> set (t_sessions (tabs s0)). s_refresh_token_hash y = d \<and> s_id y \<notin> session_ids t)) \<Longrightarrow> Q r t"
  shows "under (session_moves d) (Refresh_steps E tok) Q s"
proof -
  have failed: "session_moves d s0 t \<Longrightarrow> Q (Inl e) t" for e t by (rule assms(4)) auto
  have succeeded: "Q (Inr x) t"
    if "session_moves d s0 s1" and "outcome (GetSessionByRefreshTokenHash E (HashToken E tok)) s1 = Inr y"
      and "session_moves d s0 s2" and "session_moves d (poststate (DeleteSession E (s_id y)) s2) t1"
      and "outcome (DeleteSession E (s_id y)) s2 = Inr u" and "session_moves d t1 t" and "session_moves d s0 t"
    for s1 s2 t1 t x y u
  proof (cases "HashToken E tok = d")
    case True
    from refresh_session_found [OF that(1) assms(3) that(2) [unfolded True]] obtain z where z: "z \<in> set (t_sessions (tabs s0))"
      "s_refresh_token_hash z = d" "s_id z = s_id y" "s_id z \<le> seqs s0 TSessions" by blast
    have "s_id y \<notin> session_ids t"
      by (rule deleted_session_stays_away [OF that(3) sessions.step_trans [OF that(4,6)] assms(3)]) (use z that in auto)
    with z that(7) show ?thesis by (intro assms(4) allI impI bexI [of _ z]) simp_all
  qed (use that(7) in \<open>auto intro: assms(4)\<close>)
  show ?thesis
    using assms(2) unfolding Refresh_steps_def
    by - (rule under_intros session_moves_delete | erule failed
        | rule session_moves_read, intro keeps_intros find_keeps_core
        | rule under_NewSession [OF assms(1), of s0], assumption
        | rule sessions.under_done_from [of d s0], assumption | rule sessions.under_call_from [of d s0], assumption
        | rule succeeded; assumption)+
qed

lemma under_Login:
  assumes "digest_unused E d" and "session_moves d s0 s" and "\<And>r t. session_moves d s0 t \<Longrightarrow> Q r t"
  shows "under (session_moves d) (Login_steps E n pw) Q s"
  using assms(2) unfolding Login_steps_def
  by - (rule under_intros | erule assms(3)
      | rule session_moves_read, intro keeps_intros find_keeps_core
      | rule under_NewSession [OF assms(1), of s0], assumption
      | rule sessions.under_done_from [of d s0], assumption | rule sessions.under_call_from [of d s0], assumption)+

lemma under_Logout:
  assumes "d \<noteq> []" and "session_moves d s0 s" and "\<And>r t. session_moves d s0 t \<Longrightarrow> Q r t"
  shows "under (session_moves d) (Logout_steps E tok) Q s"
  using assms(2) unfolding Logout_steps_def
  by - (rule under_intros session_moves_invalidate [OF assms(1)] | erule assms(3)
      | rule session_moves_read, intro keeps_intros find_keeps_core
      | rule sessions.under_done_from [of d s0], assumption | rule sessions.under_call_from [of d s0], assumption)+

definition spent :: "string \<Rightarrow> st \<Rightarrow> st \<Rightarrow> bool" where
  "spent d s t \<longleftrightarrow> (\<exists>y \<in> set (t_sessions (tabs s)). s_refresh_token_hash y = d \<and> s_id y \<notin> session_ids t)"

lemma spent_stays:
  assumes "spent d s t" and "session_moves d s t" and "session_moves d t t'"
    and "keyed s_id (seqs s TSessions) (t_sessions (tabs s))"
  shows "spent d s t'"
proof -
  from assms(1) obtain y where y: "y \<in> set (t_sessions (tabs s))" "s_refresh_token_hash y = d" "s_id y \<notin> session_ids t"
    by (auto simp: spent_def)
  with assms(4) have "s_id y \<le> seqs s TSessions" by (simp add: keyed_def)
  with y assms(2-4) have "s_id y \<notin> session_ids t'" unfolding session_moves_def by (meson le_trans)
  with y show ?thesis by (auto simp: spent_def)
qed

lemma under_session_steps:
  assumes "digest_unused (request_env q) d" and "d \<noteq> []"
    and "keyed s_id (seqs s TSessions) (t_sessions (tabs s))"
  shows "under (session_moves d) (session_steps q) (\<lambda>r t. session_moves d s t \<and>
     (\<forall>E tok x. q = RefreshRequest E tok \<longrightarrow> HashToken E tok = d \<longrightarrow> r = Inr x \<longrightarrow> spent d s t)) s"
proof (cases q)
  case (LoginRequest E n pw)
  with assms(1) show ?thesis
    by (auto intro!: sessions.under_chainI under_Login [of E d s] sessions.step_refl intro: sessions.step_trans)
next
  case (LogoutRequest E tok)
  with assms(2) show ?thesis
    by (auto intro!: sessions.under_chainI under_Logout [of d s] sessions.step_refl intro: sessions.step_trans)
next
  case (RefreshRequest E tok)
  have ok: "under (session_moves d) (Done (map_sum id Some r)) (\<lambda>r t. session_moves d s t \<and>
     (\<forall>E tok x. q = RefreshRequest E tok \<longrightarrow> HashToken E tok = d \<longrightarrow> r = Inr x \<longrightarrow> spent d s t)) t"
    if "session_moves d s t" "\<forall>x. r = Inr x \<longrightarrow> HashToken E tok = d \<longrightarrow> spent d s t"
    for r :: "session_error + SessionTokens" and t
    using that RefreshRequest assms(3)
    by (cases r) (auto intro: sessions.step_trans spent_stays)
  have "digest_unused E d" using assms(1) RefreshRequest by simp
  then show ?thesis
    using ok unfolding RefreshRequest session_steps.simps spent_def
    by (intro sessions.under_chainI under_Refresh [OF _ sessions.step_refl assms(3)])
qed

text \<open>C15. A refresh token dies with its first use, whatever else runs at the same time: when any
  number of logins, refreshes and logouts is in progress, their calls alternating in any
  order, then as soon as one refresh has succeeded, every refresh that is started from then
  on with the same token is refused.\<close>

theorem refresh_token_dies:
  assumes "exec is (map session_steps qs, s) = (ts, s')"
    and "i < length qs" and "qs ! i = RefreshRequest E tok" and "ts ! i = Done (Inr x)"
    and "\<forall>q \<in> set qs. digest_unused (request_env q) (HashToken E tok)" and "HashToken E tok \<noteq> []"
    and "keyed s_id (seqs s TSessions) (t_sessions (tabs s))"
    and "\<forall>y \<in> set (t_sessions (tabs s)). \<forall>z \<in> set (t_sessions (tabs s)).
           s_refresh_token_hash y = HashToken E tok \<longrightarrow> s_refresh_token_hash z = HashToken E tok \<longrightarrow> y = z"
    and "sha256 E' = sha256 E"
  shows "outcome (Refresh E' tok) s' = Inl ErrInvalidToken"
proof -
  let ?d = "HashToken E tok"
  have "under (session_moves ?d) (map session_steps qs ! j) (\<lambda>r t. session_moves ?d s t \<and>
     (\<forall>E tok x. qs ! j = RefreshRequest E tok \<longrightarrow> HashToken E tok = ?d \<longrightarrow> r = Inr x \<longrightarrow> spent ?d s t)) s"
    if "j < length (map session_steps qs)" for j
  proof -
    from that have j: "j < length qs" by simp
    with assms(5) have "digest_unused (request_env (qs ! j)) ?d" by simp
    then show ?thesis unfolding nth_map [OF j] by (rule under_session_steps [OF _ assms(6,7)])
  qed
  from sessions.pool_sound(2) [OF this assms(1), of i] assms(2-4)
  have moved: "session_moves ?d s s'" and "spent ?d s s'" by auto
  then obtain y where y: "y \<in> set (t_sessions (tabs s))" "s_refresh_token_hash y = ?d" "s_id y \<notin> session_ids s'"
    by (auto simp: spent_def)
  have "s_refresh_token_hash z \<noteq> ?d" if "z \<in> set (t_sessions (tabs s'))" for z
    using that y moved assms(7,8) unfolding session_moves_def by (metis imageI)
  then have "wp (Refresh E' tok) (\<lambda>r _. r = Inl ErrInvalidToken) s'"
    using assms(9) by (auto simp: Refresh_def wp_simps HashToken_def dest: first_by_Some_in split: option.splits)
  then show ?thesis by (simp add: wp_run)
qed

subsection \<open>Two refreshes with the same token\<close>

lemma call_results:
  "outcome (db_query E q) s = (if db_fault E (ncalls s) then Inl ErrDB else q (tabs s))"
  "poststate (db_query E q) s = tick s"
  "outcome (db_exec E f) s = (if db_fault E (ncalls s) then Inl ErrDB else map_sum id (\<lambda>_. ()) (f (tabs s)))"
  "poststate (db_exec E f) s =
     (if db_fault E (ncalls s) then tick s else case f (tabs s) of Inl _ \<Rightarrow> tick s | Inr t \<Rightarrow> (tick s)\<lparr>tabs := t\<rparr>)"
  "outcome (db_insert E tn ok ins) s =
     (if db_fault E (ncalls s) \<or> \<not> ok (tabs s) then Inl ErrDB else Inr (Suc (seqs s tn)))"
  "poststate (db_insert E tn ok ins) s =
     (if db_fault E (ncalls s) then tick s
      else let i = Suc (seqs s tn); s1 = (tick s)\<lparr>seqs := (seqs s)(tn := i)\<rparr> in
        if ok (tabs s) then s1\<lparr>tabs := ins i (tabs s)\<rparr> else s1)"
  by (simp_all add: outcome_def poststate_def db_query_def db_exec_def db_insert_def db_op_def Let_def split: sum.splits)

lemma token_results:
  assumes "rand_read E (nrand s) 32 = Some b"
  shows "outcome (GenerateToken E) s = Some (hex_encode b)"
    and "poststate (GenerateToken E) s = s\<lparr>nrand := Suc (nrand s)\<rparr>"
  using assms by (simp_all add: outcome_def poststate_def GenerateToken_def read_random_def)

text \<open>C29. A refresh token can be spent twice: when two refreshes with the same token run at the same time,
  both can read the session before either deletes it. Deleting a row that is gone is no
  error, so both answer with new tokens, and two sessions take the place of one.\<close>

theorem concurrent_refreshes:
  assumes "no_faults E" and "no_faults E'" and "sha256 E' = sha256 E"
    and "\<forall>i. rand_read E i 32 = Some (B i)" and "\<forall>i. rand_read E' i 32 = Some (B i)"
    and "HasPrefix tok RefreshPrefix"
    and "first_by s_id (\<lambda>x. s_refresh_token_hash x = HashToken E tok) (t_sessions (tabs s)) = Some x"
    and "now E \<le> s_expires_at x" and "now E' \<le> s_expires_at x"
    and "first_by u_id (\<lambda>u. u_id u = s_user_id x) (t_users (tabs s)) = Some u"
    and "s_id x \<le> seqs s TSessions"
  shows "\<exists>is a b s'. exec is ([Refresh_steps E tok, Refresh_steps E' tok], s) = ([Done (Inr a), Done (Inr b)], s')
     \<and> t_sessions (tabs s') = filter (\<lambda>y. s_id y \<noteq> s_id x) (t_sessions (tabs s))
          @ [new_session E (Suc (seqs s TSessions)) u a, new_session E' (Suc (Suc (seqs s TSessions))) u b]"
proof -
  have h: "HashToken E' t = HashToken E t" for t using assms(3) by (simp add: HashToken_def)
  from first_by_Some_in [OF assms(10)]
  have u: "u_id u = s_user_id x" "list_ex (\<lambda>v. u_id v = s_user_id x) (t_users (tabs s))"
    by (auto simp: list_ex_iff)
  from assms(11) have new: "s_id x \<noteq> Suc (seqs s TSessions)" "s_id x \<noteq> Suc (Suc (seqs s TSessions))" by auto
  let ?schedule = "[0, 1, 0, 1, 0, 0, 0, 1, 1, 1, 0, 1]"
  show ?thesis
    by (intro exI [of _ ?schedule], use assms(1-10) u new new [symmetric] in
      \<open>simp add: exec_def Refresh_steps_def NewSession_steps_def Let_def GetSessionByRefreshTokenHash_def
        GetUserById_def CreateSession_def DeleteSession_def turn_call turn_call_last call_results token_results h
        no_faults_def user_exists_def new_session_def\<close>)
qed

definition session_row :: session where
  "session_row = \<lparr>s_id = 1, s_user_id = 1, s_token_hash = HashToken example_env ''sess_1'',
     s_refresh_token_hash = HashToken example_env ''refr_1'', s_expires_at = 2000, s_created_at = 0\<rparr>"

lemma session_st_parts:
  "t_sessions (tabs session_st) = [session_row]" "t_users (tabs session_st) = [example_user]"
  "seqs session_st n = 10" "nrand session_st = 0"
  by (simp_all add: session_st_simps session_row_def)

lemma session_row_parts:
  "s_id session_row = 1" "s_user_id session_row = 1" "s_expires_at session_row = 2000" "u_id example_user = 1"
  "s_refresh_token_hash session_row = HashToken example_env ''refr_1''"
  "s_token_hash session_row = HashToken example_env ''sess_1''"
  by (simp_all add: session_row_def example_user_def)

lemma example_reads: "\<forall>i. rand_read example_env i 32 = Some (replicate 32 (char_of (97 + i)))"
  by simp

theorem concurrent_refreshes_witness:
  "\<exists>is a b s'. exec is ([Refresh_steps example_env ''refr_1'', Refresh_steps example_env ''refr_1''], session_st)
      = ([Done (Inr a), Done (Inr b)], s') \<and> length (t_sessions (tabs s')) = 2"
proof -
  obtain "is" a b s' where run: "exec is ([Refresh_steps example_env ''refr_1'',
      Refresh_steps example_env ''refr_1''], session_st) = ([Done (Inr a), Done (Inr b)], s')"
    and rows: "t_sessions (tabs s') = filter (\<lambda>y. s_id y \<noteq> s_id session_row) [session_row]
      @ [new_session example_env (Suc 10) example_user a, new_session example_env (Suc (Suc 10)) example_user b]"
    using concurrent_refreshes [OF example_no_faults example_no_faults refl example_reads example_reads,
        of "''refr_1''" session_st session_row example_user]
    by (auto simp: session_st_parts session_row_parts)
  from rows have "length (t_sessions (tabs s')) = 2" by simp
  with run show ?thesis by blast
qed

lemma example_digest_unused: "digest_unused example_env (HashToken example_env ''refr_1'')"
proof -
  have "RefreshPrefix @ hex_encode b \<noteq> ''refr_1''" if "length b = 32" for b
  proof
    assume "RefreshPrefix @ hex_encode b = ''refr_1''"
    from arg_cong [OF this, of length] that show False by simp
  qed
  then have "HashToken example_env (RefreshPrefix @ hex_encode b) \<noteq> HashToken example_env ''refr_1''" if "length b = 32" for b
    using that hex_encode_inj unfolding HashToken_def example_env_simps by blast
  then show ?thesis unfolding digest_unused_def by auto
qed

theorem refresh_token_dies_witness:
  "\<exists>is ts s' x. exec is (map session_steps [RefreshRequest example_env ''refr_1'', LogoutRequest example_env ''sess_1''], session_st) = (ts, s')
     \<and> ts ! 0 = Done (Inr x) \<and> outcome (Refresh example_env ''refr_1'') s' = Inl ErrInvalidToken"
proof -
  let ?qs = "[RefreshRequest example_env ''refr_1'', LogoutRequest example_env ''sess_1'']"
  let ?is = "[0, 1, 0, 0, 0, 0, 0]"
  have "\<exists>x t s'. exec ?is (map session_steps ?qs, session_st) = ([Done (Inr x), t], s')"
    by (simp add: exec_def Refresh_steps_def Logout_steps_def NewSession_steps_def Let_def GetSessionByRefreshTokenHash_def
        GetSessionByTokenHash_def GetUserById_def CreateSession_def DeleteSession_def turn_call turn_call_last
        call_results token_results user_exists_def session_st_parts session_row_parts)
  then obtain x t s' where run: "exec ?is (map session_steps ?qs, session_st) = ([Done (Inr x), t], s')"
    by blast
  have "HashToken example_env ''refr_1'' \<noteq> []" by (simp add: HashToken_def) 
  with refresh_token_dies [OF run, of 0 example_env "''refr_1''" x example_env] example_digest_unused
  have "outcome (Refresh example_env ''refr_1'') s' = Inl ErrInvalidToken"
    by (simp add: session_st_parts session_row_parts keyed_def)
  moreover have "[Done (Inr x), t] ! 0 = Done (Inr x)" by simp
  ultimately show ?thesis using run by blast
qed

end
