(* ===== verification/Concurrent_Puts.thy ===== *)
theory Concurrent_Puts
  imports Concurrent_Sessions System_Props
begin

text \<open>
  Writing resources under concurrent requests: \<open>handleResourcePut\<close> and
  \<open>CreateResourceValue\<close> split into their calls of the database and of the random source.
  The database runs at its default isolation, READ COMMITTED: each statement of a transaction
  sees what others have committed before it, and what a transaction writes becomes visible to
  others when it commits. So the statements of \<open>CreateResourceValue\<close> before its insertion are
  calls of their own, and the insertion and the commit are one call.

  The queries of a permission check are taken as one call: no put changes what they read.
\<close>

subsection \<open>resource\_value.go and handleResourcePut, call by call\<close>

definition commit :: "env \<Rightarrow> (dberr + 'a) prog \<Rightarrow> (dberr + 'a) prog" where
  "commit E body = do {
     s \<leftarrow> State_Monad.get;
     r \<leftarrow> body;
     case r of
       Inl e \<Rightarrow> do { _ \<leftarrow> rollback (tabs s); State_Monad.return (Inl e) }
     | Inr x \<Rightarrow> do {
         c \<leftarrow> db_query E (\<lambda>_. Inr ());
         case c of
           Inl e \<Rightarrow> do { _ \<leftarrow> rollback (tabs s); State_Monad.return (Inl e) }
         | Inr _ \<Rightarrow> State_Monad.return (Inr x)
       }
   }"

definition CreateResourceValue_steps :: "env \<Rightarrow> resource_value \<Rightarrow> (st, dberr + unit) thread" where
  "CreateResourceValue_steps E rv =
     chain (call (db_query E (\<lambda>_. Inr ()))) (\<lambda>b.
     case b of
       Inl e \<Rightarrow> Done (Inl e)
     | Inr _ \<Rightarrow>
         chain (call (db_query E (\<lambda>t. Inr (max_version t (rv_resource_id rv))))) (\<lambda>m.
         case m of
           Inl e \<Rightarrow> Done (Inl e)
         | Inr mx \<Rightarrow> call (commit E (insert_value E (rv\<lparr>rv_version := mx + 1\<rparr>)))))"

lemma wp_commit:
  "wp (commit E body) Q s =
     wp body (\<lambda>r s'. case r of
         Inl e \<Rightarrow> Q (Inl e) (s'\<lparr>tabs := tabs s\<rparr>)
       | Inr x \<Rightarrow> (if db_fault E (ncalls s') then Q (Inl ErrDB) ((tick s')\<lparr>tabs := tabs s\<rparr>)
                  else Q (Inr x) (tick s'))) s"
  unfolding commit_def
  by (simp add: wp_simps) (auto intro!: arg_cong [where f = "\<lambda>Q. wp body Q s"] ext split: sum.splits simp: wp_simps)

lemma wp_ext: "(\<And>Q s. wp m Q s = wp n Q s) \<Longrightarrow> m = n"
proof (rule state_ext)
  fix s assume "\<And>Q s. wp m Q s = wp n Q s"
  from this [of "\<lambda>r s'. run_state n s = (r, s')" s] show "run_state m s = run_state n s"
    by (auto simp: wp_def split: prod.splits)
qed

lemma tabs_unchanged: "tabs s = t \<Longrightarrow> s\<lparr>tabs := t\<rparr> = s"
  by auto

lemma run_CreateResourceValue_steps [simp]: "run (CreateResourceValue_steps E rv) = CreateResourceValue E rv"
  by (rule wp_ext) (simp add: CreateResourceValue_steps_def CreateResourceValue_def wp_simps wp_transaction wp_commit
      tabs_unchanged cong: sum.case_cong)

definition attempt_steps ::
  "(st, 'e + 'a) thread \<Rightarrow> ('e \<Rightarrow> response) \<Rightarrow> ('a \<Rightarrow> (st, response) thread) \<Rightarrow> (st, response) thread" where
  "attempt_steps t on_error k = chain t (\<lambda>r. case r of Inl e \<Rightarrow> Done (on_error e) | Inr x \<Rightarrow> k x)"

definition attempt_some_steps ::
  "(st, 'a option) thread \<Rightarrow> response \<Rightarrow> ('a \<Rightarrow> (st, response) thread) \<Rightarrow> (st, response) thread" where
  "attempt_some_steps t on_error k = chain t (\<lambda>r. case r of None \<Rightarrow> Done on_error | Some x \<Rightarrow> k x)"

lemma run_attempt_steps [simp]:
  "run (attempt_steps t h k) = attempt (run t) h (\<lambda>x. run (k x))"
  "run (attempt_some_steps t' a k') = attempt_some (run t') a (\<lambda>x. run (k' x))"
  by (simp_all add: attempt_steps_def attempt_def attempt_some_steps_def attempt_some_def
      cong: sum.case_cong option.case_cong)

definition put_namespace_steps ::
  "env \<Rightarrow> string \<Rightarrow> (uint \<Rightarrow> (st, response) thread) \<Rightarrow> (st, response) thread" where
  "put_namespace_steps E namespace k =
     chain (call (GetNamespace E namespace)) (\<lambda>g.
     case g of
       Inr ns \<Rightarrow> k (ns_id ns)
     | Inl e \<Rightarrow>
         if e = ErrRecordNotFound
         then attempt_steps (call (CreateNamespace E namespace)) (\<lambda>_. internal_error) k
         else Done internal_error)"

definition put_resource_steps ::
  "env \<Rightarrow> resource_put_body \<Rightarrow> uint \<Rightarrow> (uint \<Rightarrow> (st, response) thread) \<Rightarrow> (st, response) thread" where
  "put_resource_steps E body nsId k =
     chain (call (GetResource E (pb_namespace body) (pb_name body))) (\<lambda>g.
     case g of
       Inl e \<Rightarrow>
         if e \<noteq> ErrRecordNotFound then Done internal_error
         else attempt_steps (call (CreateResource E
                \<lparr>r_id = 0, r_namespace_id = nsId, r_ns = None, r_name = pb_name body,
                 r_type = pb_type body, r_created_at = 0, r_created_by = [], r_retired_at = None,
                 r_value = None\<rparr>)) (\<lambda>_. internal_error) k
     | Inr resource \<Rightarrow>
         if r_type resource \<noteq> pb_type body
         then attempt_steps (call (UpdateResourceType E (r_id resource) (pb_type body))) (\<lambda>_. internal_error)
                (\<lambda>_. k (r_id resource))
         else k (r_id resource))"

definition put_encrypt_steps ::
  "env \<Rightarrow> resource_put_body \<Rightarrow>
   (string \<Rightarrow> encryption_algorithm \<Rightarrow> uint option \<Rightarrow> (st, response) thread) \<Rightarrow> (st, response) thread" where
  "put_encrypt_steps E body k =
     (if pb_type body = ResourceTypeEncrypted then
        (case GetKEK E of
           None \<Rightarrow> Done internal_error
         | Some kek \<Rightarrow>
             attempt_some_steps (call (GenerateDEK E)) internal_error (\<lambda>dek.
             attempt_some_steps (call (EncryptValue E (pb_value body) dek)) internal_error (\<lambda>data.
             attempt_some_steps (call (EncryptDEK E dek kek)) internal_error (\<lambda>encryptedDEK.
             attempt_steps (call (CreateEncryptionKey E encryptedDEK 1)) (\<lambda>_. internal_error) (\<lambda>encKeyId.
               k data EncryptionAlgorithmAES256GCM (Some encKeyId))))))
      else k (pb_value body) EncryptionAlgorithmUndefined None)"

definition handleResourcePut_steps :: "env \<Rightarrow> request \<Rightarrow> principal option \<Rightarrow> (st, response) thread" where
  "handleResourcePut_steps E r pr =
     (case decode_body E decode_resource_put_body r of
        None \<Rightarrow> Done (http_Error ''invalid request body'' 400)
      | Some body \<Rightarrow>
          if pb_namespace body = [] \<or> pb_name body = []
          then Done (http_Error ''namespace and name required'' 400)
          else if pb_namespace body = ''_'' then Done (http_Error ''not found'' 404)
          else if pb_type body = ResourceTypeUndefined then Done (http_Error ''type required'' 400)
          else
            attempt_steps (call (CheckWithAnon E pr VerbTypeWrite (pb_namespace body) (pb_name body)))
              (\<lambda>_. internal_error) (\<lambda>allowed.
            if \<not> allowed then Done (http_Error ''forbidden'' 403)
            else
              put_namespace_steps E (pb_namespace body) (\<lambda>nsId.
              put_resource_steps E body nsId (\<lambda>resourceId.
              put_encrypt_steps E body (\<lambda>data algorithm encKeyId.
              attempt_steps (CreateResourceValue_steps E (new_value resourceId data algorithm encKeyId))
                (\<lambda>_. internal_error) (\<lambda>_.
                chain (call (WriteAudit E r (actorFromRequest r) ActionResourceWrite
                         (pb_namespace body @ ''/'' @ pb_name body) AuditStatusOK)) (\<lambda>_.
                Done (write_header 204))))))))"

lemma run_put_parts [simp]:
  "run (put_namespace_steps E ns k) = put_namespace E ns (\<lambda>i. run (k i))"
  "run (put_resource_steps E body i k) = put_resource E body i (\<lambda>i. run (k i))"
  "run (put_encrypt_steps E body k') = put_encrypt E body (\<lambda>d a e. run (k' d a e))"
  by (simp_all add: put_namespace_steps_def put_namespace_def put_resource_steps_def put_resource_def
      put_encrypt_steps_def put_encrypt_def cong: sum.case_cong option.case_cong if_cong)

lemma run_handleResourcePut_steps: "run (handleResourcePut_steps E r pr) = handleResourcePut E r pr"
  by (simp add: handleResourcePut_steps_def handleResourcePut_def cong: option.case_cong if_cong)

subsection \<open>What concurrent puts keep\<close>

text \<open>
  The integrity that survives concurrency: all of \<open>db_inv\<close>, except that the version numbers
  of a resource have no gap but may be used more than once.
\<close>

definition gapless :: "resource_value list \<Rightarrow> bool" where
  "gapless vs \<longleftrightarrow> (\<exists>n. rv_version ` set vs = {1..n})"

definition put_inv :: "tables \<Rightarrow> (tname \<Rightarrow> nat) \<Rightarrow> bool" where
  "put_inv t q \<longleftrightarrow> keys_ok t q \<and> refs_ok t \<and> distinct (map rv_uuid (t_resource_values t))
     \<and> (\<forall>i. gapless (values_of t i)) \<and> ciphers_ok t \<and> names_ok t"

lemma gapless_numbered: "numbered vs \<Longrightarrow> gapless vs"
  unfolding numbered_def gapless_def
  by (drule arg_cong [of _ _ set]) (auto simp: atLeastLessThanSuc_atLeastAtMost simp del: upt_Suc intro!: exI [of _ "length vs"])

lemma put_inv_db_inv: "db_inv t q \<Longrightarrow> put_inv t q"
  by (simp add: db_inv_def put_inv_def versions_ok_def gapless_numbered)

lemma put_inv_mono: "put_inv t q \<Longrightarrow> q \<le> q' \<Longrightarrow> put_inv t q'"
  unfolding put_inv_def using keys_ok_mono by blast

text \<open>A new version above a gapless history, by one or by less.\<close>

lemma gapless_max:
  assumes "gapless (values_of t i)"
  shows "rv_version ` set (values_of t i) = {1..max_version t i}"
proof -
  from assms obtain n where n: "rv_version ` set (values_of t i) = {1..n}" by (auto simp: gapless_def)
  have "max_version t i = Max (insert 0 (rv_version ` set (values_of t i)))"
    by (simp add: max_version_def values_of_def flip: Max.set_eq_fold)
  also have "\<dots> = n" unfolding n by (rule Max_eqI) auto
  finally show ?thesis using n by simp
qed

lemma gapless_snoc:
  assumes "rv_version ` set vs = {Suc 0..n}" "rv_version v = Suc m" "m \<le> n"
  shows "gapless (vs @ [v])"
  unfolding gapless_def
  by (rule exI [of _ "max n (Suc m)"]) (use assms in \<open>auto simp: max_def\<close>)

abbreviation naming :: "resource \<Rightarrow> uint \<times> uint \<times> string" where
  "naming r \<equiv> (r_id r, r_namespace_id r, r_name r)"

definition put_moves :: "st \<Rightarrow> st \<Rightarrow> bool" where
  "put_moves s s' \<longleftrightarrow> (put_inv (tabs s) (seqs s) \<longrightarrow>
     put_inv (tabs s') (seqs s') \<and> seqs s \<le> seqs s'
   \<and> prefix (t_namespaces (tabs s)) (t_namespaces (tabs s'))
   \<and> prefix (map naming (t_resources (tabs s))) (map naming (t_resources (tabs s')))
   \<and> prefix (t_resource_values (tabs s)) (t_resource_values (tabs s'))
   \<and> prefix (t_encryption_keys (tabs s)) (t_encryption_keys (tabs s'))
   \<and> prefix (t_audit_logs (tabs s)) (t_audit_logs (tabs s')))"

interpretation puts: interference put_moves
proof
  show "put_moves s s" for s by (simp add: put_moves_def)
  show "put_moves s s''" if "put_moves s s'" "put_moves s' s''" for s s' s''
    using that unfolding put_moves_def by (auto intro: prefix_order.trans order.trans)
qed

lemma put_moves_same: "tabs s' = tabs s \<Longrightarrow> seqs s' = seqs s \<Longrightarrow> put_moves s s'"
  by (simp add: put_moves_def)

lemma put_moves_read: "keeps core m \<Longrightarrow> moves put_moves m"
  by (auto simp: moves_def wp_run keeps_core_after intro: put_moves_same)

lemma put_moves_insert:
  assumes "\<And>t q. put_inv t q \<Longrightarrow> ok t \<Longrightarrow> put_inv (ins (Suc (q tn)) t) (q(tn := Suc (q tn)))"
    and "\<And>i t. prefix (t_namespaces t) (t_namespaces (ins i t))
       \<and> prefix (map naming (t_resources t)) (map naming (t_resources (ins i t)))
       \<and> prefix (t_resource_values t) (t_resource_values (ins i t))
       \<and> prefix (t_encryption_keys t) (t_encryption_keys (ins i t))
       \<and> prefix (t_audit_logs t) (t_audit_logs (ins i t))"
  shows "moves put_moves (db_insert E tn ok ins)"
proof -
  have "q \<le> q(tn := Suc (q tn))" for q :: "tname \<Rightarrow> nat" by (simp add: le_fun_def)
  with assms show ?thesis
    by (auto simp: moves_def wp_simps Let_def put_moves_def intro: put_inv_mono)
qed

lemma put_moves_rows:
  "name \<noteq> ''_'' \<Longrightarrow> moves put_moves (CreateNamespace E name)" "moves put_moves (CreateResource E r)"
  "moves put_moves (CreateEncryptionKey E c k)" "moves put_moves (CreateAuditLog E l)"
  unfolding CreateNamespace_def CreateResource_def CreateEncryptionKey_def CreateAuditLog_def
  by (rule put_moves_insert; auto simp: put_inv_def keys_ok_def refs_ok_def ciphers_ok_def names_ok_def values_of_def
      list_ex_key)+

lemma put_moves_retype: "moves put_moves (UpdateResourceType E i ty)"
  by (auto simp: moves_def UpdateResourceType_def wp_simps put_moves_def put_inv_def keys_ok_def refs_ok_def
      ciphers_ok_def names_ok_def values_of_def image_image if_distrib comp_def simp del: if_image_distrib
      cong: if_cong)

lemma put_moves_random:
  "moves put_moves (GenerateDEK E)" "moves put_moves (EncryptValue E v k)" "moves put_moves (EncryptDEK E v k)"
  unfolding GenerateDEK_def EncryptValue_def EncryptDEK_def sealGCM_def
  by (auto simp: moves_def wp_simps intro: put_moves_same split: option.splits)

lemma put_moves_audit: "moves put_moves (WriteAudit E r a b c d)"
  unfolding WriteAudit_def by (intro puts.moves_bind puts.moves_return put_moves_rows)

subsection \<open>A version stored next to others\<close>

lemma max_version_Max: "max_version t i = Max (insert 0 (rv_version ` set (values_of t i)))"
  by (simp add: max_version_def values_of_def flip: Max.set_eq_fold)

lemma max_version_mono:
  assumes "prefix (t_resource_values t) (t_resource_values t')"
  shows "max_version t i \<le> max_version t' i"
proof -
  from assms have "set (t_resource_values t) \<subseteq> set (t_resource_values t')" by (rule set_mono_prefix)
  then show ?thesis unfolding max_version_Max values_of_def by (intro Max_mono) auto
qed

lemma values_of_snoc:
  "values_of (t\<lparr>t_resource_values := t_resource_values t @ [v]\<rparr>) i =
     (if rv_resource_id v = i then values_of t i @ [v] else values_of t i)"
  by (simp add: values_of_def)

lemma put_inv_value:
  assumes "put_inv t q" and "value_ok v t" and "cipher_ok v" and "rv_version v = Suc mx"
    and "mx \<le> max_version t (rv_resource_id v)"
  shows "put_inv (t\<lparr>t_resource_values := t_resource_values t @ [v]\<rparr>) q"
proof -
  let ?t = "t\<lparr>t_resource_values := t_resource_values t @ [v]\<rparr>"
  have gapless: "gapless (values_of t i)" for i using assms(1) by (simp add: put_inv_def)
  from gapless_snoc [OF gapless_max [OF this, unfolded One_nat_def] assms(4,5)]
  have "gapless (values_of ?t i)" for i by (auto simp: values_of_snoc gapless)
  moreover have "rv_uuid v \<notin> rv_uuid ` set (t_resource_values t)"
    using assms(2) by (auto simp: value_ok_def list_all_iff)
  moreover have "rv_resource_id v \<in> r_id ` set (t_resources t)"
    and "set_option (rv_encryption_key_id v) \<subseteq> ek_id ` set (t_encryption_keys t)"
    using assms(2) by (auto simp: value_ok_def list_ex_key split: option.splits)
  ultimately show ?thesis
    using assms(1,3) by (simp add: put_inv_def keys_ok_def refs_ok_def ciphers_ok_def names_ok_def)
qed

definition has_value :: "uint \<Rightarrow> string \<Rightarrow> encryption_algorithm \<Rightarrow> uint option \<Rightarrow> tables \<Rightarrow> bool" where
  "has_value i data alg key t \<longleftrightarrow> (\<exists>v \<in> set (t_resource_values t). rv_resource_id v = i \<and> rv_data v = data
     \<and> rv_encryption_algorithm v = alg \<and> rv_encryption_key_id v = key)"

lemma wp_commit_value:
  assumes "mx \<le> max_version (tabs s) i" "cipher_ok (new_value i data alg key)"
  shows "wp (commit E (insert_value E ((new_value i data alg key)\<lparr>rv_version := mx + 1\<rparr>)))
     (\<lambda>r s'. put_moves s s' \<and> (r = Inr () \<longrightarrow> has_value i data alg key (tabs s'))) s"
proof -
  have "put_inv (tabs s) q \<Longrightarrow> value_ok (version_row E k ((new_value i data alg key)\<lparr>rv_version := Suc mx\<rparr>)) (tabs s) \<Longrightarrow>
      put_inv ((tabs s)\<lparr>t_resource_values := t_resource_values (tabs s) @
        [version_row E k ((new_value i data alg key)\<lparr>rv_version := Suc mx\<rparr>)]\<rparr>) q" for k q
    by (rule put_inv_value) (use assms in \<open>auto simp: version_row_def cipher_ok_def\<close>)
  then show ?thesis
    by (auto simp: wp_commit wp_simps put_moves_def has_value_def version_row_def new_value_def)
qed

lemma has_value_stays: "has_value i d a k t \<Longrightarrow> prefix (t_resource_values t) (t_resource_values t') \<Longrightarrow> has_value i d a k t'"
  unfolding has_value_def by (meson set_mono_prefix subsetD)

text \<open>What holds since a state with integrity, at every later moment.\<close>

lemma put_movesD:
  assumes "put_moves s s'" and "put_inv (tabs s) (seqs s)"
  shows "put_inv (tabs s') (seqs s')"
    and "prefix (t_namespaces (tabs s)) (t_namespaces (tabs s'))"
    and "prefix (map naming (t_resources (tabs s))) (map naming (t_resources (tabs s')))"
    and "prefix (t_resource_values (tabs s)) (t_resource_values (tabs s'))"
    and "prefix (t_encryption_keys (tabs s)) (t_encryption_keys (tabs s'))"
    and "prefix (t_audit_logs (tabs s)) (t_audit_logs (tabs s'))"
  using assms by (simp_all add: put_moves_def)

lemma under_CreateResourceValue:
  assumes s: "put_inv (tabs s) (seqs s)" and "cipher_ok (new_value i data alg key)"
    and Q: "\<And>r t. put_moves s t \<Longrightarrow> (r = Inr () \<longrightarrow> has_value i data alg key (tabs t)) \<Longrightarrow> Q r t"
  shows "under put_moves (CreateResourceValue_steps E (new_value i data alg key)) Q s"
proof -
  have read: "moves put_moves (db_query E q)" for q by (rule put_moves_read [OF keeps_core_db_query])
  have insert: "under put_moves (call (commit E (insert_value E ((new_value i data alg key)\<lparr>rv_version := mx + 1\<rparr>)))) Q t"
    if t: "put_moves s t" and mx: "mx \<le> max_version (tabs t) i" for mx t
  proof (rule puts.under_call)
    fix t' assume t': "put_moves t t'"
    with t have "put_moves s t'" by (rule puts.step_trans)
    note inv = put_movesD [OF this s] put_movesD(4) [OF t' put_movesD(1) [OF t s]]
    have "mx \<le> max_version (tabs t') i" using mx max_version_mono [OF inv(7)] by (rule le_trans)
    from wp_commit_value [OF this assms(2)]
    show "wp (commit E (insert_value E ((new_value i data alg key)\<lparr>rv_version := mx + 1\<rparr>)))
        (\<lambda>x s''. put_moves t' s'' \<and> (\<forall>u. put_moves s'' u \<longrightarrow> Q x u)) t'"
      by (rule wp_mono) (use \<open>put_moves s t'\<close> inv(1) in
        \<open>auto intro!: Q intro: puts.step_trans has_value_stays put_movesD\<close>)
  qed
  have seen: "mx \<le> max_version (tabs t) i"
    if "put_moves s s'" "put_moves (poststate (db_query E (\<lambda>t. Inr (max_version t i))) s') t"
      "outcome (db_query E (\<lambda>t. Inr (max_version t i))) s' = Inr mx" for s' t mx
    using that put_movesD(1) [OF that(1) s] put_movesD(4) [OF that(2)]
    by (auto simp: call_results intro: max_version_mono split: if_splits)
  show ?thesis
    using puts.step_refl [of s] unfolding CreateResourceValue_steps_def new_value_simps
    by - (rule under_intros insert read | assumption | rule seen; assumption
      | rule puts.under_done_from [of s], assumption | rule puts.under_call_from [of s], assumption
      | rule Q, assumption, simp)+
qed

subsection \<open>The steps of a put\<close>

definition ns_known :: "uint \<Rightarrow> string \<Rightarrow> tables \<Rightarrow> bool" where
  "ns_known i ns t \<longleftrightarrow> (\<exists>n \<in> set (t_namespaces t). ns_id n = i \<and> ns_name n = ns)"

definition res_known :: "uint \<Rightarrow> string \<Rightarrow> string \<Rightarrow> tables \<Rightarrow> bool" where
  "res_known i ns name t \<longleftrightarrow> (\<exists>j. (i, j, name) \<in> set (map naming (t_resources t)) \<and> ns_known j ns t)"

lemma ns_known_stays: "ns_known i ns t \<Longrightarrow> prefix (t_namespaces t) (t_namespaces t') \<Longrightarrow> ns_known i ns t'"
  unfolding ns_known_def by (meson set_mono_prefix subsetD)

lemma res_known_stays:
  "res_known i ns name t \<Longrightarrow> prefix (t_namespaces t) (t_namespaces t') \<Longrightarrow>
     prefix (map naming (t_resources t)) (map naming (t_resources t')) \<Longrightarrow> res_known i ns name t'"
  unfolding res_known_def by (meson ns_known_stays set_mono_prefix subsetD)

lemma found_key_stays:
  assumes "first_by ek_id (\<lambda>x. ek_id x = k) (t_encryption_keys t) = Some ek"
    and "prefix (t_encryption_keys t) (t_encryption_keys t')" and "put_inv t' q"
  shows "first_by ek_id (\<lambda>x. ek_id x = k) (t_encryption_keys t') = Some ek"
proof -
  from first_by_Some_in [OF assms(1)] assms(2) have "ek \<in> set (t_encryption_keys t')" "k = ek_id ek"
    by (auto dest: set_mono_prefix)
  moreover have "keyed ek_id (q TEncryptionKeys) (t_encryption_keys t')"
    using assms(3) by (simp add: put_inv_def keys_ok_def)
  ultimately show ?thesis by (rule keyed_first_by [rotated])
qed

lemma recovers_stays:
  assumes "recovers E t data alg key value" and "prefix (t_encryption_keys t) (t_encryption_keys t')"
    and "put_inv t' q"
  shows "recovers E t' data alg key value"
  using assms(1) found_key_stays [OF _ assms(2,3)] unfolding recovers_def by blast

lemma namespace_found:
  assumes "outcome (GetNamespace E ns) s = Inr n"
  shows "ns_known (ns_id n) ns (tabs s)"
proof -
  have "wp (GetNamespace E ns) (\<lambda>r _. r = Inr n \<longrightarrow> ns_known (ns_id n) ns (tabs s)) s"
    by (auto simp: wp_simps ns_known_def dest!: first_by_Some_in split: option.splits)
  with assms show ?thesis by (simp add: wp_run)
qed

lemma namespace_created:
  assumes "outcome (CreateNamespace E ns) s = Inr i"
  shows "ns_known i ns (tabs (poststate (CreateNamespace E ns) s))"
  using assms by (auto simp: CreateNamespace_def call_results ns_known_def Let_def split: if_splits)

lemma res_knownI:
  assumes "x \<in> set (t_resources t)" "in_namespace t ns x"
  shows "res_known (r_id x) ns (r_name x) t"
proof -
  have "naming x \<in> set (map naming (t_resources t))" using assms(1) by simp
  moreover have "ns_known (r_namespace_id x) ns t"
    using assms(2) by (auto simp: in_namespace_def ns_known_def list_ex_iff)
  ultimately show ?thesis unfolding res_known_def by blast
qed

lemma resource_found:
  assumes "outcome (GetResource E ns name) s = Inr r"
  shows "res_known (r_id r) ns name (tabs s)"
proof -
  have "wp (GetResource E ns name) (\<lambda>x _. x = Inr r \<longrightarrow> res_known (r_id r) ns name (tabs s)) s"
    by (auto simp: GetResource_def wp_simps load_ns_def dest!: first_by_Some_in intro: res_knownI
        split: option.splits)
  with assms show ?thesis by (simp add: wp_run)
qed

lemma resource_created:
  assumes "outcome (CreateResource E r) s = Inr i" and "ns_known (r_namespace_id r) ns (tabs s)"
  shows "res_known i ns (r_name r) (tabs (poststate (CreateResource E r) s))"
  using assms by (auto simp: CreateResource_def call_results res_known_def ns_known_def Let_def split: if_splits)

lemma inv_after:
  "moves put_moves m \<Longrightarrow> put_moves s0 s \<Longrightarrow> put_inv (tabs s0) (seqs s0) \<Longrightarrow>
     put_inv (tabs (poststate m s)) (seqs (poststate m s))"
  by (blast intro: put_movesD(1) puts.step_trans moves_poststate)

lemma under_put_namespace:
  assumes s: "put_moves s0 s" "put_inv (tabs s0) (seqs s0)" and "ns \<noteq> ''_''"
    and err: "\<And>t. put_moves s0 t \<Longrightarrow> Q internal_error t"
    and k: "\<And>i t. put_moves s0 t \<Longrightarrow> ns_known i ns (tabs t) \<Longrightarrow> under put_moves (k i) Q t"
  shows "under put_moves (put_namespace_steps E ns k) Q s"
proof -
  have found: "under put_moves (k (ns_id n)) Q t"
    if "put_moves s0 s'" "put_moves (poststate (GetNamespace E ns) s') t" "outcome (GetNamespace E ns) s' = Inr n"
      "put_moves s0 t" for s' t n
    using that put_movesD(1) [OF that(1) s(2)] put_movesD(2) [OF that(2)]
    by (auto intro!: k ns_known_stays [OF namespace_found] simp: keeps_core_after find_keeps_core)
  have created: "under put_moves (k i) Q t"
    if "put_moves s0 s'" "put_moves (poststate (CreateNamespace E ns) s') t" "outcome (CreateNamespace E ns) s' = Inr i"
      "put_moves s0 t" for s' t i
    using that put_movesD(2) [OF that(2) inv_after [OF put_moves_rows(1) [OF assms(3)] that(1) s(2)]]
    by (auto intro!: k ns_known_stays [OF namespace_created])
  show ?thesis
    using s(1) unfolding put_namespace_steps_def attempt_steps_def
    by - (rule under_intros put_moves_rows assms(3) | assumption | rule put_moves_read, intro find_keeps_core
      | rule found; assumption | rule created; assumption
      | rule puts.under_done_from [of s0], assumption | rule puts.under_call_from [of s0], assumption
      | rule err, assumption)+
qed

lemma under_put_resource:
  assumes s: "put_moves s0 s" "put_inv (tabs s0) (seqs s0)" and ns: "ns_known nsId (pb_namespace body) (tabs s)"
    and err: "\<And>t. put_moves s0 t \<Longrightarrow> Q internal_error t"
    and k: "\<And>i t. put_moves s0 t \<Longrightarrow> res_known i (pb_namespace body) (pb_name body) (tabs t) \<Longrightarrow>
              under put_moves (k i) Q t"
  shows "under put_moves (put_resource_steps E body nsId k) Q s"
proof -
  let ?get = "GetResource E (pb_namespace body) (pb_name body)"
  let ?row = "\<lparr>r_id = 0, r_namespace_id = nsId, r_ns = None, r_name = pb_name body, r_type = pb_type body,
       r_created_at = 0, r_created_by = [], r_retired_at = None, r_value = None\<rparr>"
  have get: "moves put_moves ?get" by (rule put_moves_read, intro find_keeps_core)
  have inv: "put_inv (tabs s) (seqs s)" by (rule put_movesD [OF s])
  have known: "res_known (r_id r) (pb_namespace body) (pb_name body) (tabs u)"
    if "put_moves s s'" "put_moves (poststate ?get s') t" "outcome ?get s' = Inr r" "put_moves t u" for s' t u r
    using that resource_found [OF that(3)] put_movesD [OF puts.step_trans [OF that(2,4)] inv_after [OF get that(1) inv]]
    by (auto intro: res_known_stays simp: keeps_core_after find_keeps_core)
  have created: "res_known i (pb_namespace body) (pb_name body) (tabs t)"
    if "put_moves s s'" "put_moves (poststate (CreateResource E ?row) s') t" "outcome (CreateResource E ?row) s' = Inr i"
    for s' t i
    using resource_created [OF that(3), of "pb_namespace body"] ns_known_stays [OF ns put_movesD(2) [OF that(1) inv]]
      put_movesD [OF that(2) inv_after [OF put_moves_rows(2) that(1) inv]]
    by (auto intro: res_known_stays)
  have from_start: "put_moves s t \<Longrightarrow> put_moves s0 t" for t using s(1) by (rule puts.step_trans)
  show ?thesis
    using puts.step_refl [of s] unfolding put_resource_steps_def attempt_steps_def
    by - (rule under_intros put_moves_rows put_moves_retype get | assumption
      | rule k, erule from_start, rule known [OF _ _ _ puts.step_refl]; assumption
      | rule k, erule from_start, rule known; assumption
      | rule k, erule from_start, rule created; assumption
      | rule puts.under_done_from [of s], assumption | rule puts.under_call_from [of s], assumption
      | rule err, erule from_start)+
qed

lemma sealed_opens:
  assumes "outcome (sealGCM E p k) s = Some c" "gcm_correct E" "full_reads E"
  shows "openGCM E c k = Some p"
  using wp_sealGCM [OF assms(2,3), of p k s] assms(1) by (simp add: wp_run)

lemma key_created:
  assumes "outcome (CreateEncryptionKey E c n) s = Inr i" and "put_inv (tabs s) (seqs s)"
  shows "\<exists>ek. first_by ek_id (\<lambda>x. ek_id x = i) (t_encryption_keys (tabs (poststate (CreateEncryptionKey E c n) s))) = Some ek
     \<and> ek_encrypted_dek ek = c"
proof -
  have "keyed ek_id (seqs s TEncryptionKeys) (t_encryption_keys (tabs s))"
    using assms(2) by (simp add: put_inv_def keys_ok_def)
  then have "\<And>x. x \<in> set (t_encryption_keys (tabs s)) \<Longrightarrow> ek_id x \<le> seqs s TEncryptionKeys" by (simp add: keyed_def)
  from find_new_key [OF this, where k = "\<lparr>ek_id = 0, ek_encrypted_dek = c, ek_kek_version = n, ek_created_at = now E\<rparr>"] assms(1)
  show ?thesis by (auto simp: CreateEncryptionKey_def call_results Let_def split: if_splits)
qed

lemma under_put_encrypt:
  assumes s: "put_moves s0 s" "put_inv (tabs s0) (seqs s0)"
    and err: "\<And>t. put_moves s0 t \<Longrightarrow> Q internal_error t"
    and k: "\<And>d a key t. put_moves s0 t \<Longrightarrow> (\<And>i. cipher_ok (new_value i d a key)) \<Longrightarrow>
              (gcm_correct E \<Longrightarrow> full_reads E \<Longrightarrow> recovers E (tabs t) d a key (pb_value body)) \<Longrightarrow>
              under put_moves (k d a key) Q t"
  shows "under put_moves (put_encrypt_steps E body k) Q s"
proof -
  have clear: "under put_moves (k (pb_value body) EncryptionAlgorithmUndefined None) Q s"
    using s(1) by (rule k) (auto simp: cipher_ok_def new_value_def recovers_def)
  have sealed: "under put_moves (k d EncryptionAlgorithmAES256GCM (Some i)) Q t"
    if "GetKEK E = Some kek" and "outcome (GenerateDEK E) s1 = Some dek"
      and "outcome (EncryptValue E (pb_value body) dek) s2 = Some d" and "outcome (EncryptDEK E dek kek) s3 = Some c"
      and "outcome (CreateEncryptionKey E c 1) s4 = Inr i" and "put_moves s0 s4"
      and "put_moves (poststate (CreateEncryptionKey E c 1) s4) t" and "put_moves s0 t"
    for s1 s2 s3 s4 t kek dek d c i
  proof (rule k [OF that(8)])
    show "cipher_ok (new_value j d EncryptionAlgorithmAES256GCM (Some i))" for j
      by (simp add: cipher_ok_def new_value_def)
    assume E: "gcm_correct E" "full_reads E"
    from key_created [OF that(5) put_movesD(1) [OF that(6) s(2)]]
      sealed_opens [OF that(3) [unfolded EncryptValue_def] E] sealed_opens [OF that(4) [unfolded EncryptDEK_def] E] that(1)
    have "recovers E (tabs (poststate (CreateEncryptionKey E c 1) s4)) d EncryptionAlgorithmAES256GCM (Some i) (pb_value body)"
      by (auto simp: recovers_def DecryptDEK_def DecryptValue_def)
    then show "recovers E (tabs t) d EncryptionAlgorithmAES256GCM (Some i) (pb_value body)"
      by (rule recovers_stays) (rule put_movesD [OF that(7) inv_after [OF put_moves_rows(3) that(6) s(2)]]
          put_movesD(1) [OF that(8) s(2)])+
  qed
  show ?thesis
    using s(1) unfolding put_encrypt_steps_def attempt_steps_def attempt_some_steps_def
    by - (rule under_intros put_moves_rows put_moves_random clear | assumption
      | rule puts.under_done_from [of s0], assumption | rule puts.under_call_from [of s0], assumption
      | rule err, assumption | rule sealed; assumption)+
qed

text \<open>A put that was answered 204 has its value stored under the resource it named.\<close>

definition put_stored :: "env \<Rightarrow> resource_put_body \<Rightarrow> tables \<Rightarrow> bool" where
  "put_stored E body t \<longleftrightarrow> (\<exists>i v v'. res_known i (pb_namespace body) (pb_name body) t
     \<and> v \<in> set (values_of t i) \<and> decryptValue E (load_key t v) = Some v' \<and> rv_data v' = pb_value body)"

lemma put_storedI:
  assumes "res_known i (pb_namespace body) (pb_name body) t" and "has_value i d a key t"
    and "recovers E t d a key (pb_value body)"
  shows "put_stored E body t"
proof -
  from assms(2) obtain v where v: "v \<in> set (t_resource_values t)" "rv_resource_id v = i"
    "rv_data v = d" "rv_encryption_algorithm v = a" "rv_encryption_key_id v = key"
    by (auto simp: has_value_def)
  with recovers_decrypts [of E t v "pb_value body"] assms(1,3) show ?thesis
    unfolding put_stored_def by (auto simp: in_values_of)
qed

lemma loaded_key_stays:
  assumes "prefix (t_encryption_keys t) (t_encryption_keys t')" and "put_inv t q" and "put_inv t' q'"
    and "v \<in> set (t_resource_values t)"
  shows "load_key t' v = load_key t v"
proof (cases "rv_encryption_key_id v")
  case (Some k)
  with assms(2,4) have "k \<in> ek_id ` set (t_encryption_keys t)" by (fastforce simp: put_inv_def refs_ok_def)
  then have "first_by ek_id (\<lambda>x. ek_id x = k) (t_encryption_keys t) \<noteq> None" by (auto simp: first_by_None_iff)
  then obtain ek where "first_by ek_id (\<lambda>x. ek_id x = k) (t_encryption_keys t) = Some ek" by blast
  with found_key_stays [OF this assms(1,3)] Some show ?thesis by (simp add: load_key_def)
qed (simp add: load_key_def)

lemma put_stored_stays:
  assumes "put_moves s t" "put_inv (tabs s) (seqs s)" and "put_stored E body (tabs s)"
  shows "put_stored E body (tabs t)"
proof -
  note moved = put_movesD [OF assms(1,2)]
  from assms(3) obtain i v v' where v: "res_known i (pb_namespace body) (pb_name body) (tabs s)"
    "v \<in> set (values_of (tabs s) i)" "decryptValue E (load_key (tabs s) v) = Some v'" "rv_data v' = pb_value body"
    by (auto simp: put_stored_def)
  have keys: "load_key (tabs t) v = load_key (tabs s) v"
    using v(2) by (intro loaded_key_stays [OF moved(5) assms(2) moved(1)]) (simp add: in_values_of)
  from v moved have "res_known i (pb_namespace body) (pb_name body) (tabs t)" "v \<in> set (values_of (tabs t) i)"
    by (auto simp: in_values_of intro: res_known_stays dest: set_mono_prefix)
  with v keys show ?thesis unfolding put_stored_def by metis
qed

lemma under_handleResourcePut:
  assumes s: "put_inv (tabs s) (seqs s)"
  shows "under put_moves (handleResourcePut_steps E r pr) (\<lambda>resp t. put_moves s t \<and>
     (\<forall>body. rs_status resp = 204 \<longrightarrow> decode_body E decode_resource_put_body r = Some body \<longrightarrow>
        gcm_correct E \<longrightarrow> full_reads E \<longrightarrow> put_stored E body (tabs t))) s"
    (is "under _ _ ?Q s")
proof (cases "decode_body E decode_resource_put_body r")
  case None
  then show ?thesis by (auto simp: handleResourcePut_steps_def intro: puts.step_trans)
next
  case (Some body)
  have refused: "put_moves s t \<Longrightarrow> rs_status resp \<noteq> 204 \<Longrightarrow> ?Q resp t" for resp t by simp
  let ?good = "\<lambda>t. gcm_correct E \<longrightarrow> full_reads E \<longrightarrow> put_stored E body (tabs t)"
  have good: "?good u" if "?good t" "put_moves s t" "put_moves t u" for t u
    using that put_movesD(1) [OF that(2) s] by (auto intro: put_stored_stays)
  have audit: "under put_moves (chain (call (WriteAudit E r a b c d)) (\<lambda>_. Done (write_header 204))) ?Q t"
    if "put_moves s t" "?good t" for t a b c d
    using that Some good [OF that(2,1)]
    by - (rule under_intros put_moves_audit puts.under_call_from [of s] puts.under_done_from [of s] | assumption
      | auto intro: puts.step_trans)+
  have create: "under put_moves (attempt_steps (CreateResourceValue_steps E (new_value i d a key)) (\<lambda>_. internal_error)
      (\<lambda>_. chain (call (WriteAudit E r a' b c e)) (\<lambda>_. Done (write_header 204)))) ?Q t"
    if "put_moves s t" "res_known i (pb_namespace body) (pb_name body) (tabs t)" "cipher_ok (new_value i d a key)"
      "gcm_correct E \<Longrightarrow> full_reads E \<Longrightarrow> recovers E (tabs t) d a key (pb_value body)" for i d a key a' b c e t
    unfolding attempt_steps_def
  proof (rule under_intros, rule under_CreateResourceValue [OF put_movesD(1) [OF that(1) s] that(3)])
    fix x u assume u: "put_moves t u" and x: "x = Inr () \<longrightarrow> has_value i d a key (tabs u)"
    have su: "put_moves s u" using that(1) u by (rule puts.step_trans)
    show "under put_moves (case x of Inl e \<Rightarrow> Done internal_error
        | Inr _ \<Rightarrow> chain (call (WriteAudit E r a' b c e)) (\<lambda>_. Done (write_header 204))) ?Q u"
    proof (cases x)
      case (Inl e)
      with su show ?thesis by (auto intro: puts.step_trans)
    next
      case (Inr y)
      note moved = put_movesD [OF u put_movesD(1) [OF that(1) s]]
      have "?good u"
        using x Inr res_known_stays [OF that(2) moved(2,3)] recovers_stays [OF that(4) moved(5) moved(1)]
        by (auto intro: put_storedI)
      with Inr audit [OF su] show ?thesis by simp
    qed
  qed
  have create_from: "under put_moves (attempt_steps (CreateResourceValue_steps E (new_value i d a key)) (\<lambda>_. internal_error)
      (\<lambda>_. chain (call (WriteAudit E r a' b c e)) (\<lambda>_. Done (write_header 204)))) ?Q t"
    if "put_moves s s1" "put_moves s1 t" "res_known i (pb_namespace body) (pb_name body) (tabs s1)"
      "\<And>i. cipher_ok (new_value i d a key)"
      "gcm_correct E \<Longrightarrow> full_reads E \<Longrightarrow> recovers E (tabs t) d a key (pb_value body)"
    for i d a key a' b c e t s1
    using that put_movesD(2,3) [OF that(2) put_movesD(1) [OF that(1) s]]
    by (intro create) (auto intro: puts.step_trans res_known_stays)
  let ?stored_at = "\<lambda>i d a key. attempt_steps (CreateResourceValue_steps E (new_value i d a key)) (\<lambda>_. internal_error)
      (\<lambda>_. chain (call (WriteAudit E r (actorFromRequest r) ActionResourceWrite
             (pb_namespace body @ ''/'' @ pb_name body) AuditStatusOK)) (\<lambda>_. Done (write_header 204)))"
  have encrypt: "under put_moves (put_encrypt_steps E body (?stored_at i)) ?Q t"
    if t: "put_moves s t" "res_known i (pb_namespace body) (pb_name body) (tabs t)" for i t
    by (rule under_put_encrypt [OF puts.step_refl put_movesD(1) [OF t(1) s]])
      (use puts.step_trans [OF t(1)] create_from [OF t(1) _ t(2)] in \<open>simp_all\<close>)
  have "under put_moves (put_namespace_steps E (pb_namespace body) (\<lambda>j. put_resource_steps E body j (\<lambda>i.
      put_encrypt_steps E body (?stored_at i)))) ?Q t"
    if "put_moves s t" "pb_namespace body \<noteq> ''_''" for t
    using that by (intro under_put_namespace [of s] under_put_resource [of s] encrypt s) (simp_all add: refused)
  then have stored: "\<not> pb_namespace body = ''_'' \<Longrightarrow> put_moves s t \<Longrightarrow>
     under put_moves (put_namespace_steps E (pb_namespace body) (\<lambda>j. put_resource_steps E body j (\<lambda>i.
      put_encrypt_steps E body (?stored_at i)))) ?Q t" for t by blast
  define Q where "Q = ?Q"
  have refused: "put_moves s t \<Longrightarrow> rs_status resp \<noteq> 204 \<Longrightarrow> Q resp t" for resp t by (simp add: Q_def)
  note stored = stored [folded Q_def]
  have "under put_moves (handleResourcePut_steps E r pr) Q s"
    unfolding handleResourcePut_steps_def Some option.case attempt_steps_def [of "call (CheckWithAnon E pr v ns n)" for v ns n]
    using puts.step_refl [of s]
    by - (rule under_intros puts.under_done_from [of s] puts.under_call_from [of s] | assumption
      | rule put_moves_read, intro CheckWithAnon_keeps_core | rule stored; assumption | rule refused, assumption, simp)+
  then show ?thesis by (simp add: Q_def)
qed

abbreviation put_steps :: "env \<times> request \<times> principal option \<Rightarrow> (st, response) thread" where
  "put_steps \<equiv> \<lambda>(E, r, pr). handleResourcePut_steps E r pr"

text \<open>C9. Nothing is lost when puts run at the same time: when any number of puts is in
  progress, their calls alternating in any order, then at every moment all values stored
  before are still there in their order, every resource and namespace has kept its name, the
  versions of every resource are 1 to n without a gap, keys are different and references
  valid, and each put that was answered 204 has its own value stored under the resource it
  named, from which the plaintext is recovered.\<close>

theorem concurrent_puts_kept:
  assumes "exec is (map put_steps qs, s) = (ts, s')" and "db_inv (tabs s) (seqs s)"
    and "i < length qs" and "qs ! i = (E, r, pr)"
  shows "prefix (t_resource_values (tabs s)) (t_resource_values (tabs s'))
     \<and> prefix (map naming (t_resources (tabs s))) (map naming (t_resources (tabs s')))
     \<and> prefix (t_namespaces (tabs s)) (t_namespaces (tabs s'))
     \<and> keys_ok (tabs s') (seqs s') \<and> refs_ok (tabs s')
     \<and> (\<exists>n. rv_version ` set (values_of (tabs s') j) = {1..n})
     \<and> (\<forall>resp body. ts ! i = Done resp \<longrightarrow> rs_status resp = 204 \<longrightarrow>
          decode_body E decode_resource_put_body r = Some body \<longrightarrow> gcm_correct E \<longrightarrow> full_reads E \<longrightarrow>
          put_stored E body (tabs s'))"
proof -
  have inv: "put_inv (tabs s) (seqs s)" by (rule put_inv_db_inv [OF assms(2)])
  have "under put_moves (map put_steps qs ! k) (\<lambda>resp t. put_moves s t \<and>
     (\<forall>E r pr body. qs ! k = (E, r, pr) \<longrightarrow> rs_status resp = 204 \<longrightarrow>
        decode_body E decode_resource_put_body r = Some body \<longrightarrow> gcm_correct E \<longrightarrow> full_reads E \<longrightarrow>
        put_stored E body (tabs t))) s" if "k < length (map put_steps qs)" for k
  proof -
    obtain E r pr where q: "qs ! k = (E, r, pr)" by (cases "qs ! k")
    from that have k: "k < length qs" by simp
    show ?thesis unfolding nth_map [OF k] q prod.case
      by (rule under_mono [OF under_handleResourcePut [OF inv]]) auto
  qed
  note sound = puts.pool_sound [OF this assms(1)]
  have "put_inv (tabs s') (seqs s')" by (rule put_movesD(1) [OF sound(1) inv])
  moreover from this have "gapless (values_of (tabs s') j)" by (simp add: put_inv_def)
  ultimately show ?thesis
    using put_movesD [OF sound(1) inv] sound(2) [of i] assms(3,4)
    by (auto simp: put_inv_def gapless_def)
qed

lemma commit_results:
  assumes "no_faults E" and "value_ok (version_row E (Suc (ncalls s)) rv) (tabs s)"
  shows "outcome (commit E (insert_value E rv)) s = Inr ()"
    and "poststate (commit E (insert_value E rv)) s = (tick (tick s))\<lparr>tabs := (tabs s)\<lparr>t_resource_values :=
           t_resource_values (tabs s) @ [version_row E (Suc (ncalls s)) rv]\<rparr>\<rparr>"
proof -
  have "wp (commit E (insert_value E rv)) (\<lambda>r s'. r = Inr () \<and> s' = (tick (tick s))\<lparr>tabs := (tabs s)\<lparr>t_resource_values :=
           t_resource_values (tabs s) @ [version_row E (Suc (ncalls s)) rv]\<rparr>\<rparr>) s"
    using assms by (simp add: wp_commit wp_simps no_faults_def tick_def)
  then show "outcome (commit E (insert_value E rv)) s = Inr ()"
    and "poststate (commit E (insert_value E rv)) s = (tick (tick s))\<lparr>tabs := (tabs s)\<lparr>t_resource_values :=
           t_resource_values (tabs s) @ [version_row E (Suc (ncalls s)) rv]\<rparr>\<rparr>"
    by (simp_all add: wp_run)
qed

text \<open>Versions collide: when two values of one resource are stored at the same time, both
  transactions can read the same greatest version, since READ COMMITTED does not stop them
  and no index on the resource and the version does, and both succeed with the same version
  number.\<close>

theorem concurrent_versions_collide:
  assumes "no_faults E" and "no_faults E'" and "i \<in> r_id ` set (t_resources (tabs s))"
    and "gen_uuid E' = gen_uuid E" and "inj (gen_uuid E)"
    and "\<forall>k > ncalls s. gen_uuid E k \<notin> rv_uuid ` set (t_resource_values (tabs s))"
  shows "\<exists>is s' v w. exec is ([CreateResourceValue_steps E (new_value i d a None),
         CreateResourceValue_steps E' (new_value i d' a' None)], s) = ([Done (Inr ()), Done (Inr ())], s')
     \<and> values_of (tabs s') i = values_of (tabs s) i @ [v, w] \<and> rv_data v = d \<and> rv_data w = d'
     \<and> rv_version v = max_version (tabs s) i + 1 \<and> rv_version w = rv_version v \<and> rv_uuid v \<noteq> rv_uuid w"
proof -
  let ?n = "ncalls s"
  let ?v = "version_row E (?n + 5) ((new_value i d a None)\<lparr>rv_version := Suc (max_version (tabs s) i)\<rparr>)"
  let ?w = "version_row E' (?n + 7) ((new_value i d' a' None)\<lparr>rv_version := Suc (max_version (tabs s) i)\<rparr>)"
  let ?t = "(tabs s)\<lparr>t_resource_values := t_resource_values (tabs s) @ [?v]\<rparr>"
  have res: "list_ex (\<lambda>r. r_id r = i) (t_resources (tabs s))" using assms(3) by (auto simp: list_ex_key)
  have "\<forall>v \<in> set (t_resource_values (tabs s)). rv_uuid v \<noteq> gen_uuid E k" if "?n < k" for k
    using assms(6) that by (metis image_eqI)
  then have "\<forall>v \<in> set (t_resource_values (tabs s)). rv_uuid v \<noteq> gen_uuid E (?n + 5)"
    and "\<forall>v \<in> set (t_resource_values (tabs s)). rv_uuid v \<noteq> gen_uuid E (?n + 7)" by simp_all
  moreover have ne: "gen_uuid E (?n + 5) \<noteq> gen_uuid E (?n + 7)" using assms(5) by (simp add: inj_eq)
  ultimately have ok: "value_ok ?v (tabs s)" "value_ok ?w ?t"
    using res assms(4) by (auto simp: value_ok_def version_row_def list_all_iff)
  let ?s4 = "tick (tick (tick (tick s)))" and ?mx = "Suc (max_version (tabs s) i)"
  let ?s6 = "(tick (tick ?s4))\<lparr>tabs := ?t\<rparr>"
  let ?s8 = "(tick (tick ?s6))\<lparr>tabs := ?t\<lparr>t_resource_values := t_resource_values ?t @ [?w]\<rparr>\<rparr>"
  let ?rv = "(new_value i d a None)\<lparr>rv_version := ?mx\<rparr>" and ?rw = "(new_value i d' a' None)\<lparr>rv_version := ?mx\<rparr>"
  let ?c = "commit E (insert_value E ?rv)" and ?d = "commit E' (insert_value E' ?rw)"
  have v: "version_row E (Suc (ncalls ?s4)) ?rv = ?v"
    and w: "version_row E' (Suc (ncalls ?s6)) ?rw = ?w"
    by (simp_all add: eval_nat_numeral)
  have "exec [0, 1, 0, 1] ([CreateResourceValue_steps E (new_value i d a None),
         CreateResourceValue_steps E' (new_value i d' a' None)], s) =
     ([call ?c, call ?d], ?s4)"
    using assms(1,2) by (simp add: CreateResourceValue_steps_def turn_call call_results no_faults_def)
  moreover have "turn 0 ([call ?c, call ?d], ?s4) = ([Done (Inr ()), call ?d], ?s6)"
    by (subst turn_call_last [OF _ nth_Cons_0])
      (use commit_results [OF assms(1), of ?s4 ?rv, unfolded v] ok(1) in simp_all)
  moreover have "turn 1 ([Done (Inr ()), call ?d], ?s6) = ([Done (Inr ()), Done (Inr ())], ?s8)"
    by (subst turn_call_last [of _ _ ?d])
      (use commit_results [OF assms(2), of ?s6 ?rw, unfolded w] ok(2) in simp_all)
  ultimately have "exec ([0, 1, 0, 1] @ [0, 1]) ([CreateResourceValue_steps E (new_value i d a None),
         CreateResourceValue_steps E' (new_value i d' a' None)], s) = ([Done (Inr ()), Done (Inr ())], ?s8)"
    by (simp only: exec_append exec_simps)
  then show ?thesis
    by (intro exI [of _ "[0, 1, 0, 1] @ [0, 1]"] exI [of _ ?s8] exI [of _ ?v] exI [of _ ?w] conjI)
      (use ne assms(4) in \<open>simp_all add: values_of_def version_row_def new_value_def\<close>)
qed

definition race_env :: "string \<Rightarrow> env" where
  "race_env v = example_env\<lparr>gen_uuid := (\<lambda>k. k + 1000),
     json_Decode := (\<lambda>_. Some (JObj [(''namespace'', JStr ''public''), (''name'', JStr ''x''),
       (''type'', JStr ''cleartext''), (''value'', JStr v)]))\<rparr>"

definition race_puts :: "(env \<times> request \<times> principal option) list" where
  "race_puts = [(race_env ''left'', put_request, None), (race_env ''right'', put_request, None)]"

definition race_after :: "st \<Rightarrow> (st, response) pool" where
  "race_after s = exec (concat (replicate 9 [0, 1])) (map put_steps race_puts, s)"

lemma race_on_stored:
  "map (map_option rs_status) (results (race_after hist_st)) = [Some 204, Some 204]
   \<and> map (\<lambda>v. (rv_data v, rv_version v)) (values_of (tabs (snd (race_after hist_st))) 1)
      = [(''one'', 1), (''two'', 2), (''left'', 3), (''right'', 3)]"
  by code_simp

lemma race_decoded:
  "decode_body (race_env v) decode_resource_put_body put_request =
     Some \<lparr>pb_namespace = ''public'', pb_name = ''x'', pb_type = ResourceTypeCleartext, pb_value = v\<rparr>"
  unfolding decode_body_def race_env_def put_request_def refresh_request_def by code_simp

lemma race_env_gcm: "gcm_correct (race_env v)" "full_reads (race_env v)"
  by (simp_all add: gcm_correct_def full_reads_def race_env_def)

lemma map_eq_two: "map f xs = [a, b] \<longleftrightarrow> (\<exists>x y. xs = [x, y] \<and> f x = a \<and> f y = b)"
  by (auto simp: map_eq_Cons_conv)

lemma result_of_Some [simp]: "result_of t = Some x \<longleftrightarrow> t = Done x"
  by (cases t) auto

theorem concurrent_puts_kept_witness:
  "\<exists>ts s' resp resp'. exec (concat (replicate 9 [0, 1])) (map put_steps race_puts, hist_st) = ([Done resp, Done resp'], s')
     \<and> put_stored (race_env ''left'') \<lparr>pb_namespace = ''public'', pb_name = ''x'', pb_type = ResourceTypeCleartext,
          pb_value = ''left''\<rparr> (tabs s')"
proof -
  obtain ts s' where run: "race_after hist_st = (ts, s')" by (cases "race_after hist_st")
  with race_on_stored obtain resp resp' where ts: "ts = [Done resp, Done resp']" "rs_status resp = 204"
    by (auto simp: results_def map_eq_two)
  with run have "exec (concat (replicate 9 [0, 1])) (map put_steps race_puts, hist_st) = ([Done resp, Done resp'], s')"
    by (simp only: race_after_def)
  with concurrent_puts_kept [OF this hist_db_inv, of 0 "race_env ''left''" put_request None] ts(2)
  show ?thesis by (auto simp: race_puts_def race_decoded race_env_gcm)
qed

theorem concurrent_versions_collide_witness:
  "\<exists>is s' v w. exec is ([CreateResourceValue_steps (race_env ''left'') (new_value 1 ''left'' 0 None),
         CreateResourceValue_steps (race_env ''right'') (new_value 1 ''right'' 0 None)], hist_st)
       = ([Done (Inr ()), Done (Inr ())], s')
     \<and> values_of (tabs s') 1 = [hist_value 1 ''one'', hist_value 2 ''two'', v, w]
     \<and> rv_version v = 3 \<and> rv_version w = 3"
proof -
  have "no_faults (race_env v)" "gen_uuid (race_env v) = (\<lambda>k. k + 1000)" for v
    by (simp_all add: no_faults_def race_env_def)
  moreover have "1 \<in> r_id ` set (t_resources (tabs hist_st))" by (simp add: hist_st_def leak_resource_def)
  moreover have "inj (\<lambda>k :: nat. k + 1000)" by (simp add: inj_def)
  moreover have "\<forall>k > ncalls hist_st. k + 1000 \<notin> rv_uuid ` set (t_resource_values (tabs hist_st))"
    by (simp add: hist_st_def hist_value_def)
  ultimately obtain "is" s' v w where "exec is ([CreateResourceValue_steps (race_env ''left'') (new_value 1 ''left'' 0 None),
         CreateResourceValue_steps (race_env ''right'') (new_value 1 ''right'' 0 None)], hist_st)
       = ([Done (Inr ()), Done (Inr ())], s')"
    and "values_of (tabs s') 1 = values_of (tabs hist_st) 1 @ [v, w]"
    and "rv_version v = max_version (tabs hist_st) 1 + 1" "rv_version w = rv_version v"
    using concurrent_versions_collide [of "race_env ''left''" "race_env ''right''" 1 hist_st "''left''" 0 "''right''" 0]
    by metis
  moreover have "max_version (tabs hist_st) 1 = 2" by code_simp
  ultimately have "values_of (tabs s') 1 = [hist_value 1 ''one'', hist_value 2 ''two'', v, w]"
    and "rv_version v = 3" "rv_version w = 3" by (simp_all add: hist_values)
  then show ?thesis using \<open>exec is _ = _\<close> by blast
qed

definition unwritten_st :: st where
  "unwritten_st = hist_st\<lparr>tabs := (tabs hist_st)\<lparr>t_resources := [], t_resource_values := []\<rparr>\<rparr>"



end
