(* ===== verification/Audit_Props.thy ===== *)
theory Audit_Props
  imports Server_Props
begin

text \<open>
  The audit log is complete: a request that succeeds and changes anything is recorded.

  \<^item> \<open>silent\<close> programs leave the audit log alone;
  \<^item> a handler is \<open>logged\<close> when every answer below 400 comes with exactly one new entry;
    the collection \<open>logged_intros\<close> follows the structure of a handler.
\<close>

named_theorems logged_intros "structural rules for handlers that record what they do"

subsection \<open>Programs that leave the log alone\<close>

abbreviation logs :: "st \<Rightarrow> audit_log list" where
  "logs s \<equiv> t_audit_logs (tabs s)"

abbreviation silent :: "'a prog \<Rightarrow> bool" where
  "silent m \<equiv> keeps (\<lambda>s. t_audit_logs (tabs s)) m"

lemma silent_inserts [keeps_intros]:
  "silent (CreateAnonPermission E ap)" "silent (CreateCapabilityToken E ct)" "silent (CreateEncryptionKey E c k)"
  "silent (CreatePAT E pat)" "silent (CreatePermission E p)" "silent (CreateResource E res)"
  "silent (CreateSession E x)" "silent (CreateUser E u)" "silent (CreateNamespace E ns)" "silent (CreateSA E sa)"
  unfolding CreateAnonPermission_def CreateCapabilityToken_def CreateEncryptionKey_def CreatePAT_def
    CreatePermission_def CreateResource_def CreateSession_def CreateUser_def CreateNamespace_def CreateSA_def
  by (rule keeps_db_insert_part; simp)+

lemma silent_updates [keeps_intros]:
  "silent (DeleteAnonPermission E i)" "silent (DeletePAT E i)" "silent (DeleteSession E i)"
  "silent (DeleteCapabilityToken E i)" "silent (DeleteNamespace E ns)" "silent (RevokePermissionFromUser E i j)"
  "silent (RevokePermissionFromSA E i j)" "silent (UpdateResourceType E i ty)" "silent (InvalidateSession E i)"
  "silent (AddPermissionToUser E i j)" "silent (AddPermissionToSA E i j)" "silent (AddPermissionToCapabilityToken E i j)"
  unfolding DeleteAnonPermission_def DeletePAT_def DeleteSession_def DeleteCapabilityToken_def
    DeleteNamespace_def RevokePermissionFromUser_def RevokePermissionFromSA_def UpdateResourceType_def
    InvalidateSession_def AddPermissionToUser_def AddPermissionToSA_def AddPermissionToCapabilityToken_def
  by (rule keeps_db_exec_part; auto simp: ensure_permission_def split: if_splits)+

lemma silent_transactions [keeps_intros]:
  "silent (DeleteResource E ns name)" "silent (DeleteUser E name)" "silent (CreateResourceValue E rv)"
  unfolding DeleteResource_def DeleteUser_def CreateResourceValue_def
  by (auto simp: keeps_iff_wp wp_transaction wp_simps delete_user_rows_def Let_def split: option.splits)

lemma silent_programs [keeps_intros]:
  "silent (grant_user E i p)" "silent (grant_entry E pr i entry)" "silent (attach_new E i p)"
  "silent (revoke_entry E pr i entry)" "silent (add_anon_entry E entry)" "silent (bootstrap_user E i)"
  "silent (principal_id E pr)" "silent (GetOrCreateSA E ns n)" "silent (check_entry E pr entry)"
  unfolding grant_user_def grant_entry_def attach_new_def revoke_entry_def add_anon_entry_def bootstrap_user_def
    principal_id_def GetOrCreateSA_def RevokeMatchingPermissionsFromUser_def RevokeMatchingPermissionsFromSA_def
    check_entry_def Let_def
  by (intro keeps_intros)+

lemma silent_credentials [keeps_intros]:
  "silent (create_token E ct ps)" "silent (GenerateToken E)" "silent (NewSession E u)" "silent (bcrypt_generate E pass)"
  unfolding create_token_def GenerateToken_def NewSession_def Let_def
  by (intro keeps_intros)+ (simp add: keeps_def bcrypt_generate_def)

lemma silent_sessions [keeps_intros]: "silent (Login E n pw)" "silent (Refresh E tok)" "silent (Logout E tok)"
  unfolding Login_def Refresh_def Logout_def by (intro keeps_intros)+

subsection \<open>Handlers that record what they do\<close>

definition entry_for :: "env \<Rightarrow> string \<Rightarrow> audit_log \<Rightarrow> bool" where
  "entry_for E addr e \<longleftrightarrow> al_status e = AuditStatusOK \<and> al_created_at e = now E \<and> al_remote_addr e = addr"

definition logged :: "env \<Rightarrow> string \<Rightarrow> response prog \<Rightarrow> bool" where
  "logged E addr m \<longleftrightarrow> (\<forall>s. wp m (\<lambda>resp s'. rs_status resp < 400 \<longrightarrow>
     (\<exists>e. logs s' = logs s @ [e] \<and> entry_for E addr e)) s)"

lemma logged_refused [logged_intros]: "400 \<le> rs_status a \<Longrightarrow> logged E addr (answer a)"
  by (simp add: logged_def wp_simps)

lemma logged_written [logged_intros]:
  "no_faults E \<Longrightarrow> rq_remote_addr r = addr \<Longrightarrow>
     logged E addr (WriteAudit E r a b c AuditStatusOK \<bind> (\<lambda>_. answer x))"
  by (auto simp: logged_def wp_simps no_faults_def entry_for_def Let_def)

lemma logged_denied [logged_intros]: "400 \<le> rs_status a \<Longrightarrow> logged E addr (m \<bind> (\<lambda>_. answer a))"
  by (simp add: logged_def wp_simps wp_run [of m])

lemma logged_bind:
  assumes "silent m" "\<And>x s. outcome m s = x \<Longrightarrow> logged E addr (k x)"
  shows "logged E addr (m \<bind> k)"
  unfolding logged_def wp_bind wp_run [of m]
proof
  fix s
  have "wp (k (outcome m s)) (\<lambda>resp s'. rs_status resp < 400 \<longrightarrow>
      (\<exists>e. logs s' = logs (poststate m s) @ [e] \<and> entry_for E addr e)) (poststate m s)"
    using assms(2) by (simp add: logged_def)
  with keeps_after [OF assms(1)] show "wp (k (outcome m s)) (\<lambda>resp s'. rs_status resp < 400 \<longrightarrow>
      (\<exists>e. logs s' = logs s @ [e] \<and> entry_for E addr e)) (poststate m s)" by simp
qed

lemma logged_attempt [logged_intros]:
  assumes "silent m" "\<And>e. 400 \<le> rs_status (h e)" "\<And>x. logged E addr (k x)"
  shows "logged E addr (attempt m h k)"
  unfolding attempt_def using assms
  by (intro logged_bind) (auto split: sum.splits simp: logged_refused)

lemma logged_attempt_some [logged_intros]:
  assumes "silent m" "400 \<le> rs_status a" "\<And>x. logged E addr (k x)"
  shows "logged E addr (attempt_some m a k)"
  unfolding attempt_some_def using assms
  by (intro logged_bind) (auto split: option.splits simp: logged_refused)

lemma logged_if [logged_intros]:
  "(b \<Longrightarrow> logged E addr m) \<Longrightarrow> (\<not> b \<Longrightarrow> logged E addr n) \<Longrightarrow> logged E addr (if b then m else n)"
  by simp

lemma logged_case_option [logged_intros]:
  "(x = None \<Longrightarrow> logged E addr m) \<Longrightarrow> (\<And>y. x = Some y \<Longrightarrow> logged E addr (g y)) \<Longrightarrow>
     logged E addr (case x of None \<Rightarrow> m | Some y \<Rightarrow> g y)"
  by (cases x) auto

lemma logged_case_sum [logged_intros]:
  "(\<And>e. x = Inl e \<Longrightarrow> logged E addr (m e)) \<Longrightarrow> (\<And>y. x = Inr y \<Longrightarrow> logged E addr (g y)) \<Longrightarrow>
     logged E addr (case x of Inl e \<Rightarrow> m e | Inr y \<Rightarrow> g y)"
  by (cases x) auto

lemma logged_case_prod [logged_intros]:
  "(\<And>y z. x = (y, z) \<Longrightarrow> logged E addr (g y z)) \<Longrightarrow> logged E addr (case x of (y, z) \<Rightarrow> g y z)"
  by (cases x) auto

lemma logged_let [logged_intros]: "logged E addr (g v) \<Longrightarrow> logged E addr (let x = v in g x)"
  by simp

subsection \<open>The handlers\<close>

lemma logged_tokens:
  assumes "no_faults E" "rq_remote_addr r = addr"
  shows "logged E addr (api_Login E r)" "logged E addr (api_Refresh E r)" "logged E addr (api_Logout E r)"
    "logged E addr (AnonToken E r)" "logged E addr (IssuePAT E r)" "logged E addr (RevokePAT E r)"
    "logged E addr (RevokeCapabilityToken E r)"
  unfolding api_Login_def api_Refresh_def api_Logout_def AnonToken_def IssuePAT_def RevokePAT_def
    RevokeCapabilityToken_def
  by ((intro logged_intros logged_bind [of "Login E n pw" for n pw] keeps_intros assms; simp)+)

lemma logged_capability:
  assumes "no_faults E" "rq_remote_addr r = addr"
  shows "logged E addr (IssueCapabilityToken E r)"
proof -
  have checks: "logged E addr (attempt (foreach es (check_entry E pr)) (\<lambda>resp. resp) k)"
    if "\<And>x. logged E addr (k x)" for es pr k
    unfolding attempt_def
  proof (intro logged_bind logged_intros keeps_intros)
    show "400 \<le> rs_status resp" if "outcome (foreach es (check_entry E pr)) s = x" "x = Inl resp" for x s resp
      using wp_check_entries_status [of es E pr s] that by (auto simp: wp_run)
  qed (rule that)
  show ?thesis
    unfolding IssueCapabilityToken_def Let_def
    by (intro logged_intros checks keeps_intros assms; simp)
qed

lemma logged_admin:
  assumes "no_faults E" "rq_remote_addr r = addr"
  shows "logged E addr (api_CreateUser E r)" "logged E addr (DeleteUserByName E r)"
    "logged E addr (GrantPermissions E r)" "logged E addr (RevokePermissions E r)"
    "logged E addr (AddAnonPermissions E r)" "logged E addr (api_DeleteAnonPermission E r)"
  unfolding api_CreateUser_def DeleteUserByName_def GrantPermissions_def RevokePermissions_def with_permissions_def
    AddAnonPermissions_def api_DeleteAnonPermission_def Let_def
  by ((intro logged_intros logged_bind [of "requireMetaUser E r v" for v]
         logged_bind [of "if b then State_Monad.return True else requireMetaUser E r v" for b v] keeps_intros assms;
       simp add: pattern_error_response_def)+)

lemma logged_put_steps:
  "(\<And>i. logged E addr (k i)) \<Longrightarrow> logged E addr (put_namespace E ns k)"
  "(\<And>i. logged E addr (k i)) \<Longrightarrow> logged E addr (put_resource E body i k)"
  "(\<And>d a key. logged E addr (k' d a key)) \<Longrightarrow> logged E addr (put_encrypt E body k')"
  unfolding put_namespace_def put_resource_def put_encrypt_def
  by (intro logged_intros logged_bind [of "GetNamespace E ns"] logged_bind [of "GetResource E n x" for n x] keeps_intros; simp)+

lemma logged_resources:
  assumes "no_faults E" "rq_remote_addr r = addr"
  shows "logged E addr (ResourceHandler E r)"
  unfolding ResourceHandler_def handleResourceQuery_def handleResourcePut_def handleResourceDelete_def
    handleGetByUUID_def handleGetResource_def handleListVersions_def select_version_def Let_def
  by (intro logged_intros logged_put_steps keeps_intros assms; simp add: not_found_or_500_def)

subsection \<open>Handlers that only read\<close>

lemma core_query_entry [keeps_intros]: "keeps core (query_entry E e)"
  unfolding query_entry_def ignoring_error_def by (intro keeps_intros)

lemma core_loops [keeps_intros]:
  "keeps core (query_entries E es res)" "keeps core (principal_details E refs res')" "keeps core (collect_meta_loop E pr vs)"
  by (induction es arbitrary: res, auto intro!: keeps_intros)
    (induction refs arbitrary: res', auto intro!: keeps_intros,
     induction vs, auto intro!: keeps_intros)

lemma core_readers:
  "keeps core (AdminUser E r)" "keeps core (GetAnonInfo E r)" "keeps core (api_ListAnonPermissions E r)"
  "keeps core (Principals E r)" "keeps core (GetAuditLog E r)" "keeps core (namespace_list E pr)"
  unfolding AdminUser_def GetAnonInfo_def api_ListAnonPermissions_def Principals_def GetAuditLog_def
    namespace_list_def ignoring_error_def collectMetaVerbs_def Let_def NamespacesForPrincipalWithAnon_def NamespacesForPrincipal_def
  by (intro keeps_intros permissionsForPrincipal_keeps_core)+

lemma logged_namespaces:
  assumes "no_faults E" "rq_remote_addr r = addr"
  shows "logged E addr (namespace_query E r pr)" "logged E addr (namespace_create E r pr)"
    "logged E addr (namespace_delete E r pr)"
  unfolding namespace_query_def namespace_query_body_def namespace_create_def namespace_delete_def with_namespace_def Let_def
    NamespacesForPrincipalWithAnon_def NamespacesForPrincipal_def
  by ((intro logged_intros logged_bind [of "hasMetaNS E p v" for p v] logged_bind [of "GetNamespace E n" for n]
      keeps_intros keeps_core_tabs permissionsForPrincipal_keeps_core assms; simp add: not_found_or_500_def)+)

subsection \<open>The whole server\<close>

text \<open>The middleware enters a service account that it meets for the first time, which is no change that a
  request asked for: the tables outside it tell whether a request changed anything.\<close>

definition recorded :: "env \<Rightarrow> string \<Rightarrow> response prog \<Rightarrow> bool" where
  "recorded E addr m \<longleftrightarrow> (\<forall>s. wp m (\<lambda>resp s'. rs_status resp < 400 \<longrightarrow>
     outside_sas (tabs s') = outside_sas (tabs s) \<or> (\<exists>e. logs s' = logs s @ [e] \<and> entry_for E addr e)) s)"

named_theorems recorded_intros "structural rules for requests that are recorded"

lemma recorded_logged: "logged E addr m \<Longrightarrow> recorded E addr m"
  unfolding recorded_def logged_def by (blast intro: wp_mono)

lemma recorded_reads:
  assumes "keeps core m"
  shows "recorded E addr m"
  using core_eqD(1) [OF keeps_after [OF assms]] by (simp add: recorded_def wp_run)

lemma recorded_refused [recorded_intros]: "recorded E addr (answer a)"
  by (simp add: recorded_def wp_simps)

lemma recorded_if [recorded_intros]:
  "(b \<Longrightarrow> recorded E addr m) \<Longrightarrow> (\<not> b \<Longrightarrow> recorded E addr n) \<Longrightarrow> recorded E addr (if b then m else n)"
  by simp

lemma recorded_case_option [recorded_intros]:
  "(x = None \<Longrightarrow> recorded E addr m) \<Longrightarrow> (\<And>y. x = Some y \<Longrightarrow> recorded E addr (g y)) \<Longrightarrow>
     recorded E addr (case x of None \<Rightarrow> m | Some y \<Rightarrow> g y)"
  by (cases x) auto

lemma recorded_case_prod [recorded_intros]:
  "(\<And>y z. x = (y, z) \<Longrightarrow> recorded E addr (g y z)) \<Longrightarrow> recorded E addr (case x of (y, z) \<Rightarrow> g y z)"
  by (cases x) auto

lemma logs_outside: "outside_sas t' = outside_sas t \<Longrightarrow> t_audit_logs t' = t_audit_logs t"
  unfolding outside_sas_def by (drule arg_cong [where f = t_audit_logs]) simp

lemma recorded_bind [recorded_intros]:
  assumes "keeps (\<lambda>s. outside_sas (tabs s)) m" "\<And>x. recorded E addr (k x)"
  shows "recorded E addr (m \<bind> k)"
  unfolding recorded_def wp_bind wp_run [of m]
proof
  fix s
  have *: "outside_sas (tabs (poststate m s)) = outside_sas (tabs s)" by (rule keeps_after [OF assms(1)])
  have "wp (k (outcome m s)) (\<lambda>resp s'. rs_status resp < 400 \<longrightarrow>
      outside_sas (tabs s') = outside_sas (tabs (poststate m s))
      \<or> (\<exists>e. logs s' = logs (poststate m s) @ [e] \<and> entry_for E addr e)) (poststate m s)"
    using assms(2) by (simp add: recorded_def)
  then show "wp (k (outcome m s)) (\<lambda>resp s'. rs_status resp < 400 \<longrightarrow>
      outside_sas (tabs s') = outside_sas (tabs s)
      \<or> (\<exists>e. logs s' = logs s @ [e] \<and> entry_for E addr e)) (poststate m s)"
    unfolding * logs_outside [OF *] .
qed

lemma recorded_headers [recorded_intros]:
  assumes "recorded E addr m"
  shows "recorded E addr (m \<bind> (\<lambda>resp. answer (resp\<lparr>rs_headers := f resp\<rparr>)))"
  using assms by (simp add: recorded_def wp_simps)

lemma outside_resolveToken [keeps_intros]: "keeps (\<lambda>s. outside_sas (tabs s)) (resolveToken E cx raw)"
  by (simp add: keeps_iff_wp wp_mono [OF wp_resolveToken])

lemma recorded_namespaces:
  assumes "no_faults E" "rq_remote_addr r = addr"
  shows "recorded E addr (NamespaceHandler E r)"
  unfolding NamespaceHandler_def Let_def
  by (intro recorded_if recorded_refused recorded_reads [OF core_readers(6)]
      logged_namespaces [THEN recorded_logged] assms)

lemmas recorded_handlers =
  logged_tokens [THEN recorded_logged] logged_capability [THEN recorded_logged]
  logged_admin [THEN recorded_logged] logged_resources [THEN recorded_logged]
  core_readers [THEN recorded_reads] recorded_namespaces

lemma recorded_inner:
  assumes "no_faults E" "rq_remote_addr r = addr"
  shows "recorded E addr (inner E r)"
proof -
  have "recorded E addr (h (r\<lparr>rq_path_value := v\<rparr>))" if "find_route (inner_routes E) r = Some (bs, h)" for bs h v
    using find_route_in [OF that] assms by (auto simp: inner_routes_def intro!: recorded_handlers)
  then show ?thesis
    unfolding inner_def serve_mux_def by (auto simp: recorded_refused split: option.split)
qed

lemma recorded_auth:
  assumes "no_faults E" "rq_remote_addr r = addr"
  shows "recorded E addr (AuthMiddleware E (inner E) r)"
  unfolding AuthMiddleware_def Let_def
  by (intro recorded_intros recorded_inner keeps_intros; simp add: assms)

lemma core_probes: "keeps core (healthz r)" "keeps core (Ready E r)"
  unfolding healthz_def Ready_def by (intro keeps_intros)+

lemma recorded_server:
  assumes "no_faults E"
  shows "recorded E (rq_remote_addr r) (server E r)"
proof -
  have "recorded E (rq_remote_addr r) (CORSMiddleware (AuthMiddleware E (inner E)) r)"
    unfolding CORSMiddleware_def Let_def
    by (rule recorded_bind [OF keeps_get])
      (intro recorded_if recorded_headers recorded_refused recorded_auth assms refl)
  then show ?thesis
    unfolding server_def by (intro recorded_if recorded_reads [OF core_probes(1)] recorded_reads [OF core_probes(2)])
qed


definition anon_login :: request where
  "anon_login = put_request\<lparr>rq_method := ''POST'', rq_segments := [''auth'', ''anon'']\<rparr>"

lemma anon_login_route:
  "server example_env anon_login = CORSMiddleware (AuthMiddleware example_env (inner example_env)) anon_login"
  "AuthMiddleware example_env nxt anon_login = nxt anon_login"
  "inner example_env anon_login = AnonToken example_env (anon_login\<lparr>rq_path_value := path_value []\<rparr>)"
  by (simp_all add: server_def anon_login_def AuthMiddleware_def public_paths_def inner_def serve_mux_def
      inner_routes_def method_matches_def rq_path_def)

lemma anon_login_example:
  "wp (server example_env anon_login) (\<lambda>resp s. rs_status resp = 200 \<and> t_capability_tokens (tabs s) \<noteq> []) example_st"
  unfolding anon_login_route CORSMiddleware_def AnonToken_def ListAnonPermissions_def
  by (simp add: wp_simps Let_def GenerateToken_def create_token_def wp_transaction attach_new_def
      ins_token.wp_insert ins_permission.wp_insert AddPermissionToCapabilityToken_def token_exists_def
      example_tables_def AllowedOrigins_def anon_login_def)


text \<open>What is refused may still have changed the tables, and then nothing records it: without a key
  encryption key, an encrypted put is answered with 500 after it has created the resource.\<close>

lemma failed_put_unrecorded:
  "case run_state (handleResourcePut (put_env\<lparr>getenv := (\<lambda>_. [])\<rparr>) put_request (Some alice)) example_st of
     (resp, s) \<Rightarrow> rs_status resp = 500
       \<and> length (t_resources (tabs s)) = Suc (length (t_resources (tabs example_st)))
       \<and> t_audit_logs (tabs s) = t_audit_logs (tabs example_st)"
  by code_simp

end
