(* ===== verification/Once.thy ===== *)
theory Once
  imports Main
begin

text \<open>
  Values that are made at first use, behind a \<open>sync.Once\<close>: the Kubernetes client of
  \<open>internal/k8s/tokenreview.go\<close> here, the logger in \<open>Logger\<close>. \<open>Made v\<close> is the state after the
  function given to \<open>Do\<close> has run, with the values it stored.

  The lemma \<open>getClient_settled\<close> is why the environment of a server has a single \<open>k8s_client\<close>: all
  calls of \<open>getClient\<close> in a process agree with the first.
\<close>

datatype 'v once = NotDone | Made 'v

primrec Do :: "'v \<Rightarrow> 'v once \<Rightarrow> 'v \<times> 'v once" where
  "Do v NotDone = (v, Made v)"
| "Do v (Made w) = (w, Made w)"

text \<open>\<open>getClient\<close>: the client and the error, with what \<open>rest.InClusterConfig\<close> and \<open>kubernetes.NewForConfig\<close>
  answer at the time of the call.\<close>

record ('cfg, 'c, 'e) cluster_access =
  InClusterConfig :: "'e + 'cfg"
  NewForConfig :: "'cfg \<Rightarrow> 'e + 'c"

type_synonym ('c, 'e) client = "'c option \<times> 'e option"

definition make_client :: "('cfg, 'c, 'e) cluster_access \<Rightarrow> ('c, 'e) client" where
  "make_client a =
     (case InClusterConfig a of
        Inl err \<Rightarrow> (None, Some err)
      | Inr config \<Rightarrow>
          (case NewForConfig a config of
             Inl err \<Rightarrow> (None, Some err)
           | Inr c \<Rightarrow> (Some c, None)))"

definition getClient ::
  "('cfg, 'c, 'e) cluster_access \<Rightarrow> ('c, 'e) client once \<Rightarrow> ('c, 'e) client \<times> ('c, 'e) client once" where
  "getClient a s = Do (make_client a) s"

fun getClients ::
  "('cfg, 'c, 'e) cluster_access list \<Rightarrow> ('c, 'e) client once \<Rightarrow> ('c, 'e) client list" where
  "getClients [] s = []"
| "getClients (a # as) s = (let (c, s') = getClient a s in c # getClients as s')"

lemma getClients_made: "getClients as (Made c) = replicate (length as) c"
  by (induction as) (simp_all add: getClient_def)

lemma getClient_settled:
  "getClients (a # as) NotDone = replicate (Suc (length as)) (make_client a)"
  by (simp add: getClient_def getClients_made)

lemma make_client_either: "fst (make_client a) = None \<longleftrightarrow> snd (make_client a) \<noteq> None"
  by (simp add: make_client_def split: sum.splits)

end
