(* ===== verification/Logger.thy ===== *)
theory Logger
  imports Prelude Once
begin

text \<open>
  \<open>internal/logger/logger.go\<close>: the core that the server plugs into zap. zap itself, the layout
  of a time, the names of the levels and the path of a caller are parameters. A core writes
  to a file; \<open>os_write k bytes\<close> tells how many bytes of the \<open>k\<close>-th write reach it before it
  fails, \<open>None\<close> when all of them do.

  The lemmas show that the file reads back as the entries written to it as long as no
  message has a line break, and that a message with a line break reads back as two entries.
\<close>

datatype level = InfoLevel | WarnLevel | ErrorLevel

record 'c Entry =
  Time :: int
  Level :: level
  Caller :: 'c
  Message :: string

record 'c zap =
  Format :: "int \<Rightarrow> string"
  CapitalString :: "level \<Rightarrow> string"
  TrimmedPath :: "'c \<Rightarrow> string"
  os_write :: "nat \<Rightarrow> string \<Rightarrow> nat option"

text \<open>The file behind a core: its contents and the number of writes to it.\<close>

record log_file =
  written :: string
  nwrites :: nat

definition core_Enabled :: "level \<Rightarrow> bool" where
  "core_Enabled l = True"

definition core_With :: "log_file \<Rightarrow> 'f list \<Rightarrow> log_file" where
  "core_With c fs = c"

text \<open>Flushing is left to the file: \<open>Flush\<close> is its \<open>Sync\<close>, which may fail.\<close>

definition core_Sync :: "(log_file \<Rightarrow> 'e option) \<Rightarrow> log_file \<Rightarrow> 'e option" where
  "core_Sync Flush c = Flush c"

text \<open>\<open>AddCore\<close> is zap's: it puts the core on the list of those that will write the entry.\<close>

definition core_Check :: "('c Entry \<Rightarrow> log_file \<Rightarrow> 'e \<Rightarrow> 'e) \<Rightarrow> log_file \<Rightarrow> 'c Entry \<Rightarrow> 'e \<Rightarrow> 'e" where
  "core_Check AddCore c e ce = (if core_Enabled (Level e) then AddCore e c ce else ce)"

definition caller_of :: "'c zap \<Rightarrow> 'c Entry \<Rightarrow> string" where
  "caller_of Z e = (let caller = TrimmedPath Z (Caller e) in if caller = [] then ''unknown'' else caller)"

text \<open>The line without its end.\<close>

definition entry_line :: "'c zap \<Rightarrow> 'c Entry \<Rightarrow> string" where
  "entry_line Z e = ''['' @ Format Z (Time e) @ '']['' @ CapitalString Z (Level e) @ '']['' @ caller_of Z e @ ''] '' @ Message e"

definition newline :: char where
  "newline = CHR 0x0A"

text \<open>\<open>True\<close> for a write without an error.\<close>

definition core_Write :: "'c zap \<Rightarrow> 'c Entry \<Rightarrow> (string \<times> string) list \<Rightarrow> (log_file, bool) state" where
  "core_Write Z e fs = State (\<lambda>c.
     let bytes = entry_line Z e @ [newline] in
     case os_write Z (nwrites c) bytes of
       None \<Rightarrow> (True, c\<lparr>written := written c @ bytes, nwrites := Suc (nwrites c)\<rparr>)
     | Some n \<Rightarrow> (False, c\<lparr>written := written c @ take n bytes, nwrites := Suc (nwrites c)\<rparr>))"

subsection \<open>Reading the file back\<close>

fun lines_of :: "string \<Rightarrow> string \<Rightarrow> string list" where
  "lines_of l [] = (if l = [] then [] else [l])"
| "lines_of l (c # cs) = (if c = newline then l # lines_of [] cs else lines_of (l @ [c]) cs)"

fun write_all :: "'c zap \<Rightarrow> 'c Entry list \<Rightarrow> (log_file, bool) state" where
  "write_all Z [] = State_Monad.return True"
| "write_all Z (e # es) = core_Write Z e [] \<bind> (\<lambda>ok. write_all Z es \<bind> (\<lambda>oks. State_Monad.return (ok \<and> oks)))"

lemma lines_of_line: "newline \<notin> set xs \<Longrightarrow> lines_of l (xs @ newline # ys) = (l @ xs) # lines_of [] ys"
  by (induction xs arbitrary: l) auto

definition disk_ok :: "'c zap \<Rightarrow> bool" where
  "disk_ok Z \<longleftrightarrow> (\<forall>k b. os_write Z k b = None)"

lemma wp_write_all:
  assumes "disk_ok Z"
  shows "wp (write_all Z es) (\<lambda>ok c'. ok \<and> written c' = written c @ concat (map (\<lambda>e. entry_line Z e @ [newline]) es)
     \<and> nwrites c' = nwrites c + length es) c"
proof (induction es arbitrary: c)
  case (Cons e es)
  have "os_write Z k b = None" for k b using assms by (simp add: disk_ok_def)
  then show ?case
    by (auto simp: wp_simps core_Write_def Let_def wp_def [of "State _"] intro!: wp_mono [OF Cons.IH])
qed (simp add: wp_simps)

lemma lines_of_concat:
  assumes "list_all (\<lambda>l. newline \<notin> set l) ls"
  shows "lines_of [] (concat (map (\<lambda>l. l @ [newline]) ls)) = ls"
  using assms by (induction ls) (simp_all add: lines_of_line)

text \<open>The log reads back: when no write fails and no line has a break inside, the
  lines of the file are those of the entries, one each and in the order they were written.\<close>

theorem log_reads_back:
  assumes "disk_ok Z" and "list_all (\<lambda>e. newline \<notin> set (entry_line Z e)) es"
  shows "lines_of [] (written (poststate (write_all Z es) \<lparr>written = [], nwrites = 0\<rparr>)) = map (entry_line Z) es"
  using wp_write_all [OF assms(1), of es "\<lparr>written = [], nwrites = 0\<rparr>"] assms(2)
    lines_of_concat [of "map (entry_line Z) es"]
  by (simp add: wp_run list_all_iff comp_def)

definition example_zap :: "unit zap" where
  "example_zap = \<lparr>Format = (\<lambda>_. ''2024-01-01 00:00:00''),
     CapitalString = (\<lambda>l. case l of InfoLevel \<Rightarrow> ''INFO'' | WarnLevel \<Rightarrow> ''WARN'' | ErrorLevel \<Rightarrow> ''ERROR''),
     TrimmedPath = (\<lambda>_. []), os_write = (\<lambda>_ _. None)\<rparr>"

definition warn :: "string \<Rightarrow> unit Entry" where
  "warn m = \<lparr>Time = 0, Level = WarnLevel, Caller = (), Message = m\<rparr>"

theorem log_reads_back_witness:
  "lines_of [] (written (poststate (write_all example_zap [warn ''a'', warn ''b'']) \<lparr>written = [], nwrites = 0\<rparr>)) =
     [''[2024-01-01 00:00:00][WARN][unknown] a'', ''[2024-01-01 00:00:00][WARN][unknown] b'']"
proof -
  have "disk_ok example_zap" by (simp add: disk_ok_def example_zap_def)
  moreover have "list_all (\<lambda>e. newline \<notin> set (entry_line example_zap e)) [warn ''a'', warn ''b'']" by code_simp
  ultimately have "lines_of [] (written (poststate (write_all example_zap [warn ''a'', warn ''b'']) \<lparr>written = [], nwrites = 0\<rparr>))
      = map (entry_line example_zap) [warn ''a'', warn ''b'']" by (rule log_reads_back)
  also have "\<dots> = [''[2024-01-01 00:00:00][WARN][unknown] a'', ''[2024-01-01 00:00:00][WARN][unknown] b'']"
    by code_simp
  finally show ?thesis .
qed

text \<open>A message is written as it is: one with a line break leaves the bytes of two entries.\<close>

lemma message_forges_entry:
  assumes "disk_ok Z" and "Message e = m @ newline # entry_line Z forged"
  shows "written (poststate (core_Write Z e fs) c) = written (poststate (write_all Z [e\<lparr>Message := m\<rparr>, forged]) c)"
proof -
  have "os_write Z k b = None" for k b using assms by (simp add: disk_ok_def)
  then show ?thesis
    using assms(2) by (simp add: poststate_def core_Write_def Let_def entry_line_def caller_of_def State_Monad.bind_def
        State_Monad.return_def)
qed

subsection \<open>The logger of the process\<close>

text \<open>\<open>get\<close> makes the logger at its first call. What a logger does with a message, for a level
  and a number of callers to skip, is \<open>zap_log\<close>, and \<open>New\<close> what \<open>zap.New\<close> makes of the core.\<close>

definition get_logger :: "'l \<Rightarrow> 'l once \<Rightarrow> 'l \<times> 'l once" where
  "get_logger New s = Do New s"

definition log_at ::
  "('l \<Rightarrow> nat \<Rightarrow> level \<Rightarrow> string \<Rightarrow> log_file \<Rightarrow> log_file) \<Rightarrow> 'l \<Rightarrow> level \<Rightarrow> string
     \<Rightarrow> 'l once \<times> log_file \<Rightarrow> 'l once \<times> log_file" where
  "log_at zap_log New l msg = (\<lambda>(s, f). let (instance, s') = get_logger New s in (s', zap_log instance 1 l msg f))"

abbreviation log_Error where "log_Error zap_log New \<equiv> log_at zap_log New ErrorLevel"
abbreviation log_Warn where "log_Warn zap_log New \<equiv> log_at zap_log New WarnLevel"
abbreviation log_Info where "log_Info zap_log New \<equiv> log_at zap_log New InfoLevel"

text \<open>Every message of a process goes through the one logger made first, in the order of the calls.\<close>

lemma one_logger:
  "fold (\<lambda>(n, l, msg). log_at zap_log n l msg) ((n', l', m') # calls) (NotDone, f) =
     (Made n', fold (\<lambda>(_, l, msg). zap_log n' 1 l msg) ((n', l', m') # calls) f)"
proof -
  have "fold (\<lambda>(n, l, msg). log_at zap_log n l msg) cs (Made n', f) =
      (Made n', fold (\<lambda>(_, l, msg). zap_log n' 1 l msg) cs f)" for cs f
    by (induction cs arbitrary: f) (auto simp: log_at_def get_logger_def)
  then show ?thesis by (simp add: log_at_def get_logger_def)
qed

end
