(* ===== verification/Spec2Isabelle.thy ===== *)
theory Spec2Isabelle
  imports Server_Props K8s_Props Operator_Props Concurrent_Puts Audit_Props Logger
begin

text \<open>
  Brinecrypt is a secret store behind an HTTP API, written in Go, with a Kubernetes operator
  beside it. This development models the server (\<open>src/cmd/server\<close>, \<open>src/internal/api\<close>,
  \<open>auth\<close>, \<open>authz\<close>, \<open>crypto\<close>, \<open>k8s\<close>, \<open>orm\<close>, \<open>store\<close>) and the operator
  (\<open>src/cmd/operator\<close>, \<open>src/internal/operator\<close>) as functions of HOL and proves what makes
  them correct. Names of definitions are the names of the Go code; a name that clashes has a
  prefix (\<open>api_Login\<close> is the handler \<open>Login\<close> of \<open>internal/api\<close>, \<open>Login\<close> that of
  \<open>internal/auth\<close>).

  \<^bold>\<open>How the program works.\<close> A request passes the CORS middleware, then the
  authentication middleware, which turns the bearer token (a session, a personal access
  token, a capability token or the JWT of a Kubernetes service account) into a principal, then
  the router, which runs a handler. Handlers decide by permissions, which are pairs of a glob
  pattern over \<open>namespace/name\<close> and a verb, attached to users, service accounts and capability
  tokens, or granted to everybody; they read and write rows of a relational database, encrypt
  values under a fresh data key that is itself encrypted under a configured key, and write an
  audit log. Watchers follow three ConfigMaps of Kubernetes for bootstrap tokens, CORS origins
  and the permissions of service accounts. The operator fetches values from the server with a
  token of a service account and keeps Kubernetes Secrets equal to them.

  \<^bold>\<open>Foundations.\<close>
  \<^item> \<open>Prelude\<close>: Go's types, weakest preconditions for the state monad in which all
    stateful code is written, frame properties, invariants and relations across a program,
    loops with early return, the row with the least key.
  \<^item> \<open>Go_Strings\<close>, \<open>Encoding\<close>, \<open>Glob\<close>, \<open>Json\<close>, \<open>Duration\<close>: what is used of
    Go's \<open>strings\<close>, \<open>strconv\<close>, \<open>utf8\<close>, \<open>hex\<close>, \<open>base64\<close>, \<open>path.Match\<close>, \<open>encoding/json\<close>
    (storing values into structs) and \<open>time.ParseDuration\<close> (with its \<open>uint64\<close> overflow tests
    and \<open>float64\<close> rounding).
  \<^item> \<open>Orm\<close> (\<open>internal/orm\<close>): one record per table, the enumerations and their JSON.
  \<^item> \<open>World\<close>: the state \<open>st\<close> (tables, sequences, call counters, the in-memory lists of
    \<open>internal/k8s\<close>) and the environment \<open>env\<close> (clock, random source, database failures,
    SHA-256, AES-GCM, bcrypt, readers of JSON and times, environment variables, TokenReview).
    Every database call may fail; a transaction that fails restores the tables.

  \<^bold>\<open>Components.\<close>
  \<^item> \<open>Store\<close> (\<open>internal/store\<close>): every query and update as the SQL it stands for.
    \<open>Store_Laws\<close> has the contracts its clients use, as locales for lookups and insertions
    interpreted on every such operation.
  \<^item> \<open>Authz\<close> (\<open>internal/authz\<close>): principals, patterns, checks, namespace listing,
    normalisation. \<open>Authz_Laws\<close> states the policy and that the checks decide it;
    \<open>Authz_Props\<close> has the reach of patterns.
  \<^item> \<open>Crypto\<close> (\<open>internal/crypto\<close>), \<open>K8s\<close> (\<open>internal/k8s\<close>, with the watch loop as a
    state machine over events), \<open>Http\<close> (requests, responses, the request context).
  \<^item> \<open>Auth\<close> (\<open>internal/auth\<close>), with the contract of a token resolver in \<open>Auth_Laws\<close> and
    the life of a session in \<open>Auth_Props\<close>.
  \<^item> \<open>Api_Common\<close>, \<open>Resource_Api\<close>, \<open>Token_Api\<close>, \<open>Admin_Api\<close> (\<open>internal/api\<close>): every
    handler with all its branches. \<open>Server\<close> (\<open>cors.go\<close>, \<open>health.go\<close>, \<open>cmd/server\<close>): the
    middlewares and the routes.
  \<^item> \<open>Operator\<close> (\<open>internal/operator\<close>, \<open>cmd/operator\<close>): \<open>Reconcile\<close> over an arbitrary
    Kubernetes API.
  \<^item> \<open>Once\<close> (\<open>getClient\<close> of \<open>internal/k8s\<close>) and \<open>Logger\<close> (\<open>internal/logger\<close>): the values made at
    first use, and the core that writes log entries as lines.
  \<^item> \<open>Interleaving\<close>: requests that run at the same time, as threads of database calls of which
    one is made at a time, in any order; the rule for what a thread guarantees while others
    move the state by a given relation is the locale \<open>interference\<close>. \<open>Concurrent_Sessions\<close> has
    \<open>Login\<close>, \<open>Refresh\<close> and \<open>Logout\<close> as threads, \<open>Concurrent_Puts\<close> \<open>handleResourcePut\<close>
    with \<open>CreateResourceValue\<close>; run alone, a thread is the sequential operation.

  \<^bold>\<open>What is shown.\<close>
  \<^item> \<open>Resource_Props\<close>, \<open>Token_Props\<close>, \<open>Admin_Props\<close>, \<open>Server_Props\<close>, \<open>K8s_Props\<close>: what
    each endpoint does and for whom, on every branch and whatever fails; that a value that
    was put is read back; that grants and revocations change exactly the rights they name;
    what capability and anonymous tokens can do; what is answered.
  \<^item> \<open>Db_Inv\<close> and \<open>System\<close>: an invariant of the database and that every store operation,
    hence every request and every watcher event, preserves it; \<open>System_Props\<close> draws the
    conclusions for all reachable states (integrity, append-only history).
  \<^item> \<open>Audit_Props\<close>: a request that succeeds and changes anything leaves one entry in the audit
    log. \<open>Concurrent_Sessions\<close> and \<open>Concurrent_Puts\<close>: what holds of interleaved requests (a
    refresh token that was spent stays refused; no value is lost and each put that succeeded
    is stored) and what is only true of requests that do not overlap (a refresh token is spent
    once, versions differ, a resource exists once).
  \<^item> \<open>Operator_Laws\<close>: the contract \<open>kube_api\<close> of the Kubernetes API, the abstract
    specification \<open>reconciled\<close> of a run of the operator and that \<open>Reconcile\<close> refines it.
    \<open>Delivery\<close> extends the contract to an API behind which HTTP requests are answered by
    \<open>server\<close> (\<open>kube_server\<close>, \<open>kube_server_live\<close>) and follows the operator's request through
    the server; \<open>Operator_Props\<close> has the lemmas on one run and on sequences of runs.
    \<open>Cluster\<close> is a cluster that keeps these contracts, with calls that may fail before or
    after their work was done. This theory has the two properties that span both programs.
  \<^item> \<open>Example\<close> and the definitions before each witness are the concrete databases and
    environments on which the hypotheses are shown to hold.

  \<^bold>\<open>Abstractions.\<close> Requests are served one at a time, except in the theories on concurrency. There
  a thread gives way to others between any two database calls and each statement sees what
  was committed before it, as under READ COMMITTED; the calls of the permission check count as
  one, and the insertion of a new value with the commit of its transaction as another, since
  nothing of it is visible before. A request sees one instant of the
  clock; one run of the operator is not interleaved with other writers of the cluster.
  Integers are unbounded except where the code can overflow (durations, the TTL of anonymous
  tokens, versions and limits read from text), where the wrap-around is written out. Rounding
  of timestamps by the database, redirects of the router and the reuse of slice elements by
  the JSON decoder are not modelled. No fuel is needed: all loops of the model are structural or
  have a measure, and the watch loop consumes a list of events.

  \<^bold>\<open>Not modelled.\<close> Opening the database and listening on a socket; altering an existing
  schema (\<open>internal/migrate\<close>; the tables of a new one are \<open>empty_tables\<close>); zap, which calls the core of
  \<open>internal/logger\<close>; which messages the handlers log, since no state of the
  server depends on it; concurrent runs of the handlers other than those above; the generated deep-copy functions,
  the registration of types and the manager set-up of the operator, which only hand
  \<open>Reconcile\<close> to the controller runtime.
\<close>

section \<open>Properties that span the operator and the server\<close>



text \<open>C11. The operator delivers in the end. Suppose the server serves an object with a complete
  specification and a valid refresh interval, and its target secret is missing or opaque and
  not controlled by another owner. If the operator is run again and again, and from some run
  on its calls are answered (whatever failed before, possibly after its work was done), then
  from some run on every run succeeds: it asks to be run again after the refresh interval, at
  least a second later, and leaves the object ready and the value stored at the remote path in
  the target secret under the configured key.\<close>

theorem operator_delivers:
  assumes "kube_server_live K view srv D healthy"
    and "connected C D o' ns n res" and "r_value res = Some x" and "pending D o' ns n res (view w) (srv w)"
    and "spec_complete (bs_Spec o')" and "parseRefreshInterval (RefreshInterval (bs_Spec o')) = Inr d"
    and "\<exists>N. \<forall>i\<ge>N. healthy (run_operator C clock K (object_key o') i w)"
  shows "Second \<le> d \<and> (\<exists>N. \<forall>i\<ge>N.
      outcome (Reconcile (C\<lparr>op_now := clock i\<rparr>) K (object_key o'))
        (run_operator C clock K (object_key o') i w) = Inr \<lparr>RequeueAfter = d\<rparr>
      \<and> delivered o' (rv_data x) (clock i) (view (run_operator C clock K (object_key o') (Suc i) w)))"
proof -
  note live = assms(1)
  have server: "kube_server K view srv D" by (rule kube_server_live.axioms(1) [OF live])
  have "wp (Reconcile (C\<lparr>op_now := clock i\<rparr>) K (object_key o'))
      (\<lambda>r w'. r = Inr \<lparr>RequeueAfter = d\<rparr> \<and> delivered o' (rv_data x) (clock i) (view w'))
      (run_operator C clock K (object_key o') i w)" if "healthy (run_operator C clock K (object_key o') i w)" for i
    using kube_server_live.healthy_run [OF live, of "C\<lparr>op_now := clock i\<rparr>" o' ns n res x] that assms(2,3,5,6)
      kube_server.run_operator_pending [OF server assms(2,4), of clock i] by simp
  then show ?thesis
    using parseRefreshInterval_range [OF assms(6)] assms(7) by (auto simp: wp_run)
qed

theorem operator_delivers_witness:
  "\<exists>i. delivered op_object ''pw'' (2000 * int i)
     (w_cluster (run_operator op_config (\<lambda>i. 2000 * int i) (cluster_kube op_deployment) (''prod'', ''db-secret'')
        (Suc i) op_world))"
proof -
  have "finite {i. dp_fault op_deployment i \<noteq> None}"
    by (rule finite_subset [of _ "{..<2}"]) (auto simp: op_deployment_def split: if_splits)
  from finite_faults_pass [OF this op_pending(2)]
  have "\<exists>N. \<forall>i\<ge>N. sound_from op_deployment
      (run_operator op_config (\<lambda>i. 2000 * int i) (cluster_kube op_deployment) (object_key op_object) i op_world)" .
  moreover have "r_value op_resource = Some op_value" "rv_data op_value = ''pw''" "spec_complete (bs_Spec op_object)"
    "parseRefreshInterval (RefreshInterval (bs_Spec op_object)) = Inr Hour" "object_key op_object = (''prod'', ''db-secret'')"
    by (simp_all add: op_resource_def op_value_def spec_complete_def op_object_def object_key_def
        parseRefreshInterval_def defaultRefreshInterval_def)
  ultimately show ?thesis
    using operator_delivers [OF healthy.kube_server_live_axioms op_connected _ op_pending(1), of op_value Hour "\<lambda>i. 2000 * int i"]
    by auto
qed

end
